(* ===== verification/Prelude.thy ===== *)
theory Prelude
  imports Main "HOL-Library.AList"
begin

text \<open>
  The notions of Go that every component of the provider uses, and the proof support shared by
  the component theories:
  \<^item> strings (byte sequences) with the tests of package \<^verbatim>\<open>strings\<close> the code calls;
  \<^item> maps as association lists, with the difference between a nil map and an empty one;
  \<^item> error values with wrapping (\<^verbatim>\<open>fmt.Errorf\<close> with \<^verbatim>\<open>%w\<close>) and \<^verbatim>\<open>errors.Is\<close>;
  \<^item> effectful functions as state transformers whose outcome is a value, an error or a panic;
    the state survives an error, as the in-place mutations of the code do;
  \<^item> weakest preconditions of runs that return a value;
  \<^item> the interface \<open>frame\<close>: a reflexive and transitive relation between states that
    every primitive step respects is respected by whole functions.
\<close>

named_theorems frame_rules \<open>compositional rules for \<open>keeps\<close>\<close>
named_theorems run_simps \<open>equations that run effectful functions\<close>
named_theorems wp_simps \<open>weakest preconditions of the constructs\<close>
named_theorems ok_simps \<open>inversion of a run that returns a value\<close>

section \<open>Strings\<close>

text \<open>\<^verbatim>\<open>strings.Contains(s, sub)\<close>.\<close>

primrec str_contains :: "string \<Rightarrow> string \<Rightarrow> bool" where
  "str_contains [] sub = (sub = [])"
| "str_contains (c # s) sub = (take (length sub) (c # s) = sub \<or> str_contains s sub)"

text \<open>\<^verbatim>\<open>strings.HasPrefix(s, p)\<close>.\<close>

definition str_has_prefix :: "string \<Rightarrow> string \<Rightarrow> bool" where
  "str_has_prefix s p = (take (length p) s = p)"

text \<open>\<^verbatim>\<open>strings.Join(xs, sep)\<close>.\<close>

fun str_join :: "string list \<Rightarrow> string \<Rightarrow> string" where
  "str_join [] sep = []"
| "str_join [x] sep = x"
| "str_join (x # xs) sep = x @ sep @ str_join xs sep"

text \<open>\<^verbatim>\<open>strings.ToLower\<close> on ASCII letters; every byte outside A-Z is its own lower case.\<close>

definition to_lower_char :: "char \<Rightarrow> char" where
  "to_lower_char c =
     (if 65 \<le> (of_char c :: nat) \<and> (of_char c :: nat) \<le> 90 then char_of ((of_char c :: nat) + 32) else c)"

definition str_to_lower :: "string \<Rightarrow> string" where
  "str_to_lower s = map to_lower_char s"

text \<open>The last \<open>n\<close> bytes of a string, the slice \<^verbatim>\<open>s[len(s)-n:]\<close> for \<open>n \<le> length s\<close>.\<close>

definition str_last :: "nat \<Rightarrow> string \<Rightarrow> string" where
  "str_last n s = drop (length s - n) s"

lemma str_contains_iff: "str_contains s sub \<longleftrightarrow> (\<exists>a b. s = a @ sub @ b)"
proof (induction s)
  case Nil
  then show ?case by auto
next
  case (Cons c s)
  have "take (length sub) (c # s) = sub \<longleftrightarrow> (\<exists>b. c # s = sub @ b)"
    by (metis append_eq_conv_conj append_take_drop_id)
  moreover have "(\<exists>a b. c # s = a @ sub @ b) \<longleftrightarrow> (\<exists>b. c # s = sub @ b) \<or> (\<exists>a b. s = a @ sub @ b)"
    by (metis append_Cons append_Nil list.exhaust list.inject)
  ultimately show ?case using Cons.IH by simp
qed

lemma length_str_last [simp]: "length (str_last n s) = min n (length s)"
  by (simp add: str_last_def)

section \<open>Lists\<close>

lemma in_set_map_filter: "y \<in> set (List.map_filter f xs) \<longleftrightarrow> (\<exists>x \<in> set xs. f x = Some y)"
  by (force simp: map_filter_def)

section \<open>Maps with string keys\<close>

text \<open>
  A Go \<^verbatim>\<open>map[string]string\<close> is \<open>None\<close> when nil and \<open>Some\<close> of an association list otherwise.
  Reading a nil map or a missing key gives the zero value; writing a nil map panics, which the
  code avoids by allocating the map first (\<open>nmap_put\<close>).
\<close>

type_synonym nmap = "(string \<times> string) list option"

definition nmap_get :: "nmap \<Rightarrow> string \<Rightarrow> string" where
  "nmap_get m k = (case m of None \<Rightarrow> [] | Some al \<Rightarrow> (case map_of al k of None \<Rightarrow> [] | Some v \<Rightarrow> v))"

definition nmap_put :: "nmap \<Rightarrow> string \<Rightarrow> string \<Rightarrow> nmap" where
  "nmap_put m k v = Some (AList.update k v (case m of None \<Rightarrow> [] | Some al \<Rightarrow> al))"

definition nmap_delete :: "nmap \<Rightarrow> string \<Rightarrow> nmap" where
  "nmap_delete m k = map_option (AList.delete k) m"

definition nmap_entries :: "nmap \<Rightarrow> (string \<times> string) list" where
  "nmap_entries m = (case m of None \<Rightarrow> [] | Some al \<Rightarrow> al)"

lemma nmap_get_put [simp]: "nmap_get (nmap_put m k v) k' = (if k' = k then v else nmap_get m k')"
  by (auto simp: nmap_get_def nmap_put_def update_conv' split: option.splits)

lemma nmap_get_delete [simp]: "nmap_get (nmap_delete m k) k' = (if k' = k then [] else nmap_get m k')"
  by (cases m) (simp_all add: nmap_get_def nmap_delete_def delete_conv')

lemma nmap_get_None [simp]: "nmap_get None k = []"
  by (simp add: nmap_get_def)

section \<open>Errors\<close>

text \<open>
  The sentinel errors of the repository, an error of the cloud SDK, a fresh error
  (\<^verbatim>\<open>errors.New\<close>) and an error wrapped with a message (\<^verbatim>\<open>fmt.Errorf("...: %w", err)\<close>;
  the prefix includes the separator).
\<close>

datatype gerror =
    ErrNoResourceFound
  | ErrMissingResource
  | ErrNoSubnetFound
  | ErrNoNatFound
  | ErrNoSecurityGroupFound
  | ErrEmptyPool
  | ErrEmptyProviderID
  | ErrInvalidProviderID
  | SdkError string
  | ErrorsNew string
  | Errorf string gerror

fun error_msg :: "gerror \<Rightarrow> string" where
  "error_msg ErrNoResourceFound = ''not found''"
| "error_msg ErrMissingResource = ''missing resource''"
| "error_msg ErrNoSubnetFound = ''subnet not found''"
| "error_msg ErrNoNatFound = ''natService not found''"
| "error_msg ErrNoSecurityGroupFound = ''no security group found''"
| "error_msg ErrEmptyPool = ''no available IP in pool''"
| "error_msg ErrEmptyProviderID = ''providerID is empty''"
| "error_msg ErrInvalidProviderID =
     ''providerID must be of the form <cloudProvider>://<optional>/<segments>/<provider id>''"
| "error_msg (SdkError m) = m"
| "error_msg (ErrorsNew m) = m"
| "error_msg (Errorf pre e) = pre @ error_msg e"

text \<open>\<^verbatim>\<open>errors.Is\<close> walks the chain of wrapped errors.\<close>

fun errors_Is :: "gerror \<Rightarrow> gerror \<Rightarrow> bool" where
  "errors_Is (Errorf pre e) target = (Errorf pre e = target \<or> errors_Is e target)"
| "errors_Is e target = (e = target)"

section \<open>Effectful functions\<close>

datatype 'a outcome = Ok 'a | Err gerror | Panic

type_synonym ('s, 'a) M = "'s \<Rightarrow> 'a outcome \<times> 's"

definition ret :: "'a \<Rightarrow> ('s, 'a) M" where
  "ret x = (\<lambda>s. (Ok x, s))"

definition raise :: "gerror \<Rightarrow> ('s, 'a) M" where
  "raise e = (\<lambda>s. (Err e, s))"

definition panic :: "('s, 'a) M" where
  "panic = (\<lambda>s. (Panic, s))"

definition gets :: "('s \<Rightarrow> 'a) \<Rightarrow> ('s, 'a) M" where
  "gets f = (\<lambda>s. (Ok (f s), s))"

definition modify :: "('s \<Rightarrow> 's) \<Rightarrow> ('s, unit) M" where
  "modify f = (\<lambda>s. (Ok (), f s))"

text \<open>
  \<open>handle m k\<close> is \<^verbatim>\<open>v, err := m(); k\<close>: the continuation sees the error or the value; a panic
  unwinds. \<open>bind m k\<close> is the common case \<^verbatim>\<open>if err != nil { return err }\<close>, and \<open>wrap\<close> adds the
  message of \<^verbatim>\<open>fmt.Errorf\<close> to an error.
\<close>

definition handle :: "('s, 'a) M \<Rightarrow> (gerror + 'a \<Rightarrow> ('s, 'b) M) \<Rightarrow> ('s, 'b) M" where
  "handle m k = (\<lambda>s. case m s of
     (Ok x, t) \<Rightarrow> k (Inr x) t | (Err e, t) \<Rightarrow> k (Inl e) t | (Panic, t) \<Rightarrow> (Panic, t))"

definition bind :: "('s, 'a) M \<Rightarrow> ('a \<Rightarrow> ('s, 'b) M) \<Rightarrow> ('s, 'b) M" where
  "bind m k = handle m (\<lambda>r. case r of Inl e \<Rightarrow> raise e | Inr x \<Rightarrow> k x)"

definition wrap :: "string \<Rightarrow> ('s, 'a) M \<Rightarrow> ('s, 'a) M" where
  "wrap pre m = handle m (\<lambda>r. case r of Inl e \<Rightarrow> raise (Errorf pre e) | Inr x \<Rightarrow> ret x)"

definition andThen :: "('s, 'a) M \<Rightarrow> ('s, 'b) M \<Rightarrow> ('s, 'b) M" where
  "andThen m k = bind m (\<lambda>_. k)"

definition whenM :: "bool \<Rightarrow> ('s, unit) M \<Rightarrow> ('s, unit) M" where
  "whenM c m = (if c then m else ret ())"

text \<open>The result of a function without effects, \<open>Inl\<close> being its error.\<close>

definition lift :: "gerror + 'a \<Rightarrow> ('s, 'a) M" where
  "lift r = (case r of Inl e \<Rightarrow> raise e | Inr x \<Rightarrow> ret x)"

text \<open>A loop over a slice whose body may return an error, without and with an accumulator.\<close>

primrec forM :: "'a list \<Rightarrow> ('a \<Rightarrow> ('s, unit) M) \<Rightarrow> ('s, unit) M" where
  "forM [] f = ret ()"
| "forM (x # xs) f = andThen (f x) (forM xs f)"

primrec foldM :: "'a list \<Rightarrow> 'b \<Rightarrow> ('b \<Rightarrow> 'a \<Rightarrow> ('s, 'b) M) \<Rightarrow> ('s, 'b) M" where
  "foldM [] b f = ret b"
| "foldM (x # xs) b f = bind (f b x) (\<lambda>b'. foldM xs b' f)"

subsection \<open>Running and inverting\<close>

lemma handle_run [run_simps]:
  "handle m k s = (case m s of
     (Ok x, t) \<Rightarrow> k (Inr x) t | (Err e, t) \<Rightarrow> k (Inl e) t | (Panic, t) \<Rightarrow> (Panic, t))"
  by (simp add: handle_def)

lemma bind_run [run_simps]:
  "bind m k s = (case m s of (Ok x, t) \<Rightarrow> k x t | (Err e, t) \<Rightarrow> (Err e, t) | (Panic, t) \<Rightarrow> (Panic, t))"
  by (simp add: bind_def handle_def raise_def split: prod.splits outcome.splits)

lemma wrap_run [run_simps]:
  "wrap pre m s = (case m s of
     (Ok x, t) \<Rightarrow> (Ok x, t) | (Err e, t) \<Rightarrow> (Err (Errorf pre e), t) | (Panic, t) \<Rightarrow> (Panic, t))"
  by (simp add: wrap_def handle_def raise_def ret_def split: prod.splits outcome.splits)

lemma andThen_run [run_simps]:
  "andThen m k s = (case m s of (Ok x, t) \<Rightarrow> k t | (Err e, t) \<Rightarrow> (Err e, t) | (Panic, t) \<Rightarrow> (Panic, t))"
  by (simp add: andThen_def bind_run)

lemma ret_run [run_simps]: "ret x s = (Ok x, s)"
  and raise_run [run_simps]: "raise e s = (Err e, s)"
  and panic_run [run_simps]: "panic s = (Panic, s)"
  and gets_run [run_simps]: "gets f s = (Ok (f s), s)"
  and modify_run [run_simps]: "modify g s = (Ok (), g s)"
  and lift_run [run_simps]: "lift r s = ((case r of Inl e \<Rightarrow> Err e | Inr y \<Rightarrow> Ok y), s)"
  by (simp_all add: lift_def ret_def raise_def panic_def gets_def modify_def split: sum.split)

lemma bind_Ok [ok_simps]: "bind m k s = (Ok y, u) \<longleftrightarrow> (\<exists>x t. m s = (Ok x, t) \<and> k x t = (Ok y, u))"
  by (auto simp: bind_run split: prod.splits outcome.splits)

lemma andThen_Ok [ok_simps]: "andThen m k s = (Ok y, u) \<longleftrightarrow> (\<exists>x t. m s = (Ok x, t) \<and> k t = (Ok y, u))"
  by (simp add: andThen_def bind_Ok)

lemma handle_Ok [ok_simps]:
  "handle m k s = (Ok y, u) \<longleftrightarrow>
     (\<exists>x t. m s = (Ok x, t) \<and> k (Inr x) t = (Ok y, u)) \<or> (\<exists>e t. m s = (Err e, t) \<and> k (Inl e) t = (Ok y, u))"
  by (auto simp: handle_run split: prod.splits outcome.splits)

lemma wrap_Ok [ok_simps]: "wrap pre m s = (Ok y, u) \<longleftrightarrow> m s = (Ok y, u)"
  by (auto simp: wrap_run split: prod.splits outcome.splits)

lemma pure_Ok [ok_simps]:
  "ret x s = (Ok y, u) \<longleftrightarrow> y = x \<and> u = s" "raise e s = (Ok y, u) \<longleftrightarrow> False" "panic s = (Ok y, u) \<longleftrightarrow> False"
  "gets f s = (Ok z, u) \<longleftrightarrow> z = f s \<and> u = s" "modify g s = (Ok (), u) \<longleftrightarrow> u = g s"
  "lift r s = (Ok y, u) \<longleftrightarrow> r = Inr y \<and> u = s"
  by (auto simp: run_simps split: sum.splits)

lemma whenM_Ok [ok_simps]: "whenM c m s = (Ok v, u) \<longleftrightarrow> (if c then m s = (Ok v, u) else u = s)"
  by (simp add: whenM_def run_simps eq_commute)

lemma forM_append: "forM (xs @ ys) f = andThen (forM xs f) (forM ys f)"
  by (induction xs) (auto simp: fun_eq_iff run_simps split: prod.splits outcome.splits)

section \<open>Frames\<close>

text \<open>\<open>keeps R m\<close>: whatever the outcome of \<open>m\<close>, the states before and after are related by \<open>R\<close>.\<close>

definition keeps :: "('s \<Rightarrow> 's \<Rightarrow> bool) \<Rightarrow> ('s, 'a) M \<Rightarrow> bool" where
  "keeps R m \<longleftrightarrow> (\<forall>s. R s (snd (m s)))"

lemma keepsI: "(\<And>s. R s (snd (m s))) \<Longrightarrow> keeps R m"
  by (simp add: keeps_def)

lemma keepsD: "keeps R m \<Longrightarrow> m s = (r, t) \<Longrightarrow> R s t"
  by (metis keeps_def snd_conv)

locale frame =
  fixes R :: "'s \<Rightarrow> 's \<Rightarrow> bool"
  assumes frame_refl: "R s s"
    and frame_trans: "R s t \<Longrightarrow> R t u \<Longrightarrow> R s u"
begin

lemma keeps_pure [frame_rules]:
  "keeps R (ret x)" "keeps R (raise e)" "keeps R panic" "keeps R (gets f)" "keeps R (lift r)"
  by (simp_all add: keeps_def run_simps frame_refl)

lemma keeps_modify: "(\<And>s. R s (g s)) \<Longrightarrow> keeps R (modify g)"
  by (simp add: keeps_def run_simps)

lemma keeps_handle [frame_rules]:
  assumes "keeps R m" and "\<And>r. keeps R (k r)"
  shows "keeps R (handle m k)"
proof (rule keepsI)
  fix s
  obtain o1 t where m: "m s = (o1, t)" by (cases "m s")
  then have st: "R s t" using assms(1) by (rule keepsD [rotated])
  have tu: "\<And>r. R t (snd (k r t))" using assms(2) by (simp add: keeps_def)
  show "R s (snd (handle m k s))"
    by (cases o1) (auto simp: handle_run m st intro: frame_trans [OF st tu])
qed

lemma keeps_bind [frame_rules]:
  assumes "keeps R m" and "\<And>x. keeps R (k x)"
  shows "keeps R (bind m k)"
  unfolding bind_def by (intro keeps_handle assms(1)) (auto intro: assms(2) keeps_pure split: sum.split)

lemma keeps_wrap [frame_rules]: "keeps R m \<Longrightarrow> keeps R (wrap pre m)"
  unfolding wrap_def by (intro keeps_handle) (auto intro: keeps_pure split: sum.split)

lemma keeps_andThen [frame_rules]: "keeps R m \<Longrightarrow> keeps R k \<Longrightarrow> keeps R (andThen m k)"
  unfolding andThen_def by (rule keeps_bind)

lemma keeps_whenM [frame_rules]: "keeps R m \<Longrightarrow> keeps R (whenM c m)"
  by (simp add: whenM_def keeps_pure)

lemma keeps_forM [frame_rules]: "(\<And>x. x \<in> set xs \<Longrightarrow> keeps R (f x)) \<Longrightarrow> keeps R (forM xs f)"
  by (induction xs) (auto intro: keeps_pure keeps_andThen)

lemma keeps_foldM [frame_rules]:
  "(\<And>b x. x \<in> set xs \<Longrightarrow> keeps R (f b x)) \<Longrightarrow> keeps R (foldM xs b f)"
  by (induction xs arbitrary: b) (auto intro: keeps_pure keeps_bind)

end

lemma keeps_if [frame_rules]: "(c \<Longrightarrow> keeps R m) \<Longrightarrow> (\<not> c \<Longrightarrow> keeps R k) \<Longrightarrow> keeps R (if c then m else k)"
  by simp

lemma keeps_case_option [frame_rules]:
  "keeps R m \<Longrightarrow> (\<And>x. keeps R (k x)) \<Longrightarrow> keeps R (case x of None \<Rightarrow> m | Some x \<Rightarrow> k x)"
  by (cases x) simp_all

lemma keeps_case_sum [frame_rules]:
  "(\<And>x. keeps R (m x)) \<Longrightarrow> (\<And>x. keeps R (k x)) \<Longrightarrow> keeps R (case x of Inl x \<Rightarrow> m x | Inr x \<Rightarrow> k x)"
  by (cases x) simp_all

lemma keeps_case_prod [frame_rules]:
  "(\<And>x y. keeps R (m x y)) \<Longrightarrow> keeps R (case p of (x, y) \<Rightarrow> m x y)"
  by (cases p) simp

lemma keeps_case_list [frame_rules]:
  "keeps R m \<Longrightarrow> (\<And>x xs. keeps R (k x xs)) \<Longrightarrow> keeps R (case l of [] \<Rightarrow> m | x # xs \<Rightarrow> k x xs)"
  by (cases l) simp_all

lemma keeps_Let [frame_rules]: "keeps R (f x) \<Longrightarrow> keeps R (let y = x in f y)"
  by simp

section \<open>Weakest preconditions of successful runs\<close>

text \<open>\<open>wp m Q s\<close>: if \<open>m\<close> returns a value from \<open>s\<close>, then \<open>Q\<close> holds of that value and of the state it leaves.\<close>

definition wp :: "('s, 'a) M \<Rightarrow> ('a \<Rightarrow> 's \<Rightarrow> bool) \<Rightarrow> 's \<Rightarrow> bool" where
  "wp m Q s \<longleftrightarrow> (\<forall>x t. m s = (Ok x, t) \<longrightarrow> Q x t)"

lemma wpI: "(\<And>x t. m s = (Ok x, t) \<Longrightarrow> Q x t) \<Longrightarrow> wp m Q s"
  by (simp add: wp_def)

lemma wpD: "wp m Q s \<Longrightarrow> m s = (Ok x, t) \<Longrightarrow> Q x t"
  by (simp add: wp_def)

lemma wp_mono: "wp m Q s \<Longrightarrow> (\<And>x t. Q x t \<Longrightarrow> Q' x t) \<Longrightarrow> wp m Q' s"
  by (simp add: wp_def)

lemma wp_conj: "wp m (\<lambda>x t. Q x t \<and> R x t) s \<longleftrightarrow> wp m Q s \<and> wp m R s"
  by (auto simp: wp_def)

lemma wp_compose [wp_simps]:
  "wp (bind m k) Q s \<longleftrightarrow> wp m (\<lambda>x. wp (k x) Q) s"
  "wp (andThen m k') Q s \<longleftrightarrow> wp m (\<lambda>_. wp k' Q) s"
  "wp (wrap pre m') Q' s \<longleftrightarrow> wp m' Q' s"
  by (auto simp: wp_def ok_simps)

lemma wp_pure [wp_simps]:
  "wp (ret x) Q s \<longleftrightarrow> Q x s" "wp (raise e) Q s \<longleftrightarrow> True" "wp panic Q s \<longleftrightarrow> True"
  "wp (gets f) Q' s \<longleftrightarrow> Q' (f s) s" "wp (modify g) R s \<longleftrightarrow> R () (g s)"
  "wp (lift r) Q s \<longleftrightarrow> (case r of Inl e \<Rightarrow> True | Inr y \<Rightarrow> Q y s)"
  by (auto simp: wp_def run_simps split: sum.split)

lemma wp_whenM [wp_simps]: "wp (whenM c m) Q s \<longleftrightarrow> (if c then wp m Q s else Q () s)"
  by (simp add: whenM_def wp_simps)

lemma wp_if [wp_simps]: "wp (if c then m else k) Q s \<longleftrightarrow> (if c then wp m Q s else wp k Q s)"
  by simp

text \<open>A loop that keeps \<open>I\<close> and establishes a property of each element that the others keep.\<close>

lemma wp_forM:
  assumes "\<And>x D s. x \<in> set xs \<Longrightarrow> I D s \<Longrightarrow> wp (f x) (\<lambda>_. I (insert x D)) s" and "I D s"
  shows "wp (forM xs f) (\<lambda>_. I (D \<union> set xs)) s"
  using assms
proof (induction xs arbitrary: D s)
  case Nil
  then show ?case by (simp add: wp_simps)
next
  case (Cons x xs)
  have "wp (f x) (\<lambda>_. I (insert x D)) s" using Cons.prems by simp
  then show ?case
    using Cons.IH [where D = "insert x D"] Cons.prems(1) by (auto simp: wp_simps elim!: wp_mono)
qed

text \<open>A frame gives a postcondition.\<close>

lemma wp_keeps: "keeps R m \<Longrightarrow> (\<And>x t. R s t \<Longrightarrow> Q x t) \<Longrightarrow> wp m Q s"
  by (metis wpI keepsD)

end
