(* ===== verification/Api_Types.thy ===== *)
theory Api_Types
  imports Prelude
begin

text \<open>
  The API objects of \<^verbatim>\<open>api/v1beta2\<close> (\<^verbatim>\<open>types.go\<close>, \<^verbatim>\<open>osccluster_types.go\<close>,
  \<^verbatim>\<open>oscmachine_types.go\<close>, \<^verbatim>\<open>conditions_consts.go\<close>) as records, one per struct, with their
  methods. A Go string type with named constants stays a string (a value outside the
  constants is possible in the code too). Integers keep no width here, because the API types
  are only compared and copied.
\<close>

section \<open>Roles, features, reconcilers\<close>

type_synonym OscRole = string

abbreviation RoleControlPlane :: OscRole where "RoleControlPlane \<equiv> ''controlplane''"
abbreviation RoleWorker :: OscRole where "RoleWorker \<equiv> ''worker''"
abbreviation RoleLoadBalancer :: OscRole where "RoleLoadBalancer \<equiv> ''loadbalancer''"
abbreviation RoleBastion :: OscRole where "RoleBastion \<equiv> ''bastion''"
abbreviation RoleNat :: OscRole where "RoleNat \<equiv> ''nat''"
abbreviation RoleService :: OscRole where "RoleService \<equiv> ''service''"
abbreviation RoleInternalService :: OscRole where "RoleInternalService \<equiv> ''service.internal''"

type_synonym OscDisable = string

abbreviation DisableInternet :: OscDisable where "DisableInternet \<equiv> ''internet''"
abbreviation DisableLB :: OscDisable where "DisableLB \<equiv> ''loadbalancer''"

type_synonym OscNetAccessPointService = string

type_synonym Reconciler = string

abbreviation ReconcilerBastion :: Reconciler where "ReconcilerBastion \<equiv> ''bastion''"
abbreviation ReconcilerNet :: Reconciler where "ReconcilerNet \<equiv> ''net''"
abbreviation ReconcilerNetPeering :: Reconciler where "ReconcilerNetPeering \<equiv> ''netPeering''"
abbreviation ReconcilerNetPeeringRoutes :: Reconciler where "ReconcilerNetPeeringRoutes \<equiv> ''netPeering/routes''"
abbreviation ReconcilerSubnet :: Reconciler where "ReconcilerSubnet \<equiv> ''subnet''"
abbreviation ReconcilerInternetService :: Reconciler where "ReconcilerInternetService \<equiv> ''internetService''"
abbreviation ReconcilerNetAccessPoint :: Reconciler where "ReconcilerNetAccessPoint \<equiv> ''netAccessPoint''"
abbreviation ReconcilerNatService :: Reconciler where "ReconcilerNatService \<equiv> ''natService''"
abbreviation ReconcilerRouteTable :: Reconciler where "ReconcilerRouteTable \<equiv> ''routeTable''"
abbreviation ReconcilerSecurityGroup :: Reconciler where "ReconcilerSecurityGroup \<equiv> ''securityGroup''"
abbreviation ReconcilerLoadbalancer :: Reconciler where "ReconcilerLoadbalancer \<equiv> ''loadbalancer''"
abbreviation ReconcilerVm :: Reconciler where "ReconcilerVm \<equiv> ''vm''"
abbreviation ReconcilerAll :: Reconciler where "ReconcilerAll \<equiv> ''*''"

type_synonym ReconciliationMode = string

abbreviation ReconciliationModeOnChange :: ReconciliationMode where "ReconciliationModeOnChange \<equiv> ''onChange''"
abbreviation ReconciliationModeAlways :: ReconciliationMode where "ReconciliationModeAlways \<equiv> ''always''"
abbreviation ReconciliationModeRandom :: ReconciliationMode where "ReconciliationModeRandom \<equiv> ''random''"

text \<open>\<^verbatim>\<open>map[Reconciler]int64\<close>, nil or not.\<close>

type_synonym OscReconcilerGeneration = "(Reconciler \<times> int) list option"

type_synonym SubregionMode = string

abbreviation SubregionModeLeastNodes :: SubregionMode where "SubregionModeLeastNodes \<equiv> ''leastNodes''"
abbreviation SubregionModeRandom :: SubregionMode where "SubregionModeRandom \<equiv> ''random''"

type_synonym VolumeType = string
type_synonym VmState = string

section \<open>Cluster specification\<close>

record OscCredentials =
  FromSecret :: string
  FromFile :: string
  Profile :: string

record OscReuse =
  reuse_Net :: bool
  reuse_SecurityGroups :: bool

record OscLoadBalancerListener =
  BackendPort :: int
  BackendProtocol :: string
  LoadBalancerPort :: int
  LoadBalancerProtocol :: string

record OscLoadBalancerHealthCheck =
  CheckInterval :: int
  HealthyThreshold :: int
  hc_Port :: int
  hc_Protocol :: string
  hc_Timeout :: int
  UnhealthyThreshold :: int

record OscLoadBalancer =
  LoadBalancerName :: string
  LoadBalancerType :: string
  lb_SubnetName :: string
  SecurityGroupName :: string
  Listener :: OscLoadBalancerListener
  HealthCheck :: OscLoadBalancerHealthCheck

record OscNet =
  net_Name :: string
  net_IpRange :: string
  net_ResourceId :: string

record OscNetPeering =
  np_Enable :: bool
  ManagementCredentials :: OscCredentials
  ManagementAccountID :: string
  ManagementNetID :: string
  ManagementSubnetID :: string

record OscInternetService =
  is_Name :: string

record OscSubnet =
  sn_Name :: string
  sn_Roles :: "OscRole list"
  IpSubnetRange :: string
  sn_SubregionName :: string
  sn_ResourceId :: string

record OscNatService =
  nat_Name :: string
  nat_SubnetName :: string
  nat_SubregionName :: string

record OscRoute =
  route_Name :: string
  TargetName :: string
  TargetType :: string
  Destination :: string
  route_ResourceId :: string

record OscRouteTable =
  rt_Name :: string
  rt_Subnets :: "string list"
  rt_Role :: OscRole
  rt_SubregionName :: string
  rt_Routes :: "OscRoute list"

record OscSecurityGroupRule =
  rule_Name :: string
  Flow :: string
  rule_IpProtocol :: string
  rule_IpRange :: string
  rule_IpRanges :: "string list"
  rule_FromPortRange :: int
  rule_ToPortRange :: int
  rule_ResourceId :: string

record OscSecurityGroup =
  sg_Name :: string
  Description :: string
  SecurityGroupRules :: "OscSecurityGroupRule list"
  sg_ResourceId :: string
  Tag :: string
  sg_Roles :: "OscRole list"
  Authoritative :: bool

record OscAdditionalSecurityRules =
  ar_Roles :: "OscRole list"
  Rules :: "OscSecurityGroupRule list"

record OscPrivateIpElement =
  pi_Name :: string
  PrivateIp :: string

record OscSecurityGroupElement =
  sge_Name :: string

record OscReconciliationRule =
  AppliesTo :: "Reconciler list"
  Mode :: ReconciliationMode
  ReconciliationChance :: int

record OscRootDisk =
  RootDiskIops :: int
  RootDiskSize :: int
  RootDiskType :: VolumeType

record OscBastion =
  bn_Name :: string
  bn_ImageId :: string
  ImageName :: string
  ImageAccountId :: string
  bn_KeypairName :: string
  bn_VmType :: string
  bn_SubnetName :: string
  bn_RootDisk :: OscRootDisk
  PublicIpId :: string
  bn_PrivateIps :: "OscPrivateIpElement list"
  bn_SecurityGroupNames :: "OscSecurityGroupElement list"
  bn_ResourceId :: string
  bn_Enable :: bool

record OscNetwork =
  UseExisting :: OscReuse
  Disable :: "OscDisable list"
  LoadBalancer :: OscLoadBalancer
  Net :: OscNet
  NetPeering :: OscNetPeering
  NetAccessPoints :: "OscNetAccessPointService list"
  ControlPlaneSubnets :: "string list"
  Subnets :: "OscSubnet list"
  InternetService :: OscInternetService
  NatService :: OscNatService
  NatServices :: "OscNatService list"
  NatPublicIpPool :: string
  RouteTables :: "OscRouteTable list"
  SecurityGroups :: "OscSecurityGroup list"
  AdditionalSecurityRules :: "OscAdditionalSecurityRules list"
  Bastion :: OscBastion
  nw_SubregionName :: string
  Subregions :: "string list"
  AllowFromIPRanges :: "string list"
  AllowToIPRanges :: "string list"
  ReconciliationRules :: "OscReconciliationRule list"

section \<open>Machine specification\<close>

record OscImage =
  img_Name :: string
  AccountId :: string
  OutscaleOpenSource :: bool

record OscVolume =
  vol_Name :: string
  Device :: string
  Iops :: int
  Size :: int
  vol_VolumeType :: VolumeType
  FromSnapshot :: string

record OscKeypair =
  kp_Name :: string
  PublicKey :: string
  kp_ResourceId :: string
  kp_ClusterName :: string
  DeleteKeypair :: bool

record OscFGPU =
  Model :: string

record OscPlacement =
  RepulseServer :: "string option"
  AttractServer :: string
  ServerStrict :: bool
  RepulseCluster :: string
  AttractCluster :: string
  ClusterStrict :: bool

record OscVm =
  vm_Name :: string
  vm_ImageId :: string
  vm_KeypairName :: string
  vm_VmType :: string
  vm_SubnetName :: string
  vm_RootDisk :: OscRootDisk
  vm_PublicIp :: bool
  PublicIpPool :: string
  vm_FGPU :: "OscFGPU option"
  vm_SubregionName :: string
  vm_SubregionMode :: SubregionMode
  SubregionNames :: "string list"
  vm_PrivateIps :: "OscPrivateIpElement list"
  vm_SecurityGroupNames :: "OscSecurityGroupElement list"
  vm_ResourceId :: string
  vm_Role :: OscRole
  vm_Tags :: nmap
  Placement :: OscPlacement

record OscNode =
  Vm :: OscVm
  Image :: OscImage
  Volumes :: "OscVolume list"
  KeyPair :: OscKeypair
  ReconciliationRule :: "OscReconciliationRule option"

section \<open>Objects and their status\<close>

text \<open>
  The fields of \<^verbatim>\<open>metav1.ObjectMeta\<close> the controllers read or write. A set deletion timestamp is
  \<open>Some\<close> of it.
\<close>

record ObjectMeta =
  om_Name :: string
  om_Namespace :: string
  om_UID :: string
  Labels :: nmap
  Generation :: int
  DeletionTimestamp :: "int option"
  Finalizers :: "string list"

text \<open>\<^verbatim>\<open>clusterv1.Condition\<close>, \<^verbatim>\<open>clusterv1.APIEndpoint\<close> and \<^verbatim>\<open>corev1.NodeAddress\<close>.\<close>

record Condition =
  cond_Type :: string
  cond_Status :: bool
  Severity :: string
  Reason :: string
  Message :: string

record APIEndpoint =
  Host :: string
  ep_Port :: int

record NodeAddress =
  addr_Type :: string
  Address :: string

record OscClusterResources =
  rsrc_Net :: nmap
  rsrc_NetPeering :: nmap
  rsrc_Subnet :: nmap
  rsrc_InternetService :: nmap
  rsrc_NetAccessPoint :: nmap
  rsrc_SecurityGroup :: nmap
  rsrc_NatService :: nmap
  rsrc_Bastion :: nmap
  rsrc_PublicIPs :: nmap

record OscClusterSpec =
  Credentials :: OscCredentials
  Network :: OscNetwork
  ControlPlaneEndpoint :: APIEndpoint

text \<open>A failure domain is kept with its \<^verbatim>\<open>ControlPlane\<close> flag.\<close>

record OscClusterStatus =
  cl_Ready :: bool
  cl_Resources :: OscClusterResources
  cl_ReconcilerGeneration :: OscReconcilerGeneration
  FailureDomains :: "(string \<times> bool) list option"
  cl_Conditions :: "Condition list"
  cl_VmState :: "VmState option"

record OscCluster =
  cl_Meta :: ObjectMeta
  cl_Spec :: OscClusterSpec
  cl_Status :: OscClusterStatus

record OscMachineResources =
  mr_Vm :: nmap
  mr_FGPU :: nmap
  mr_Image :: nmap
  mr_Volumes :: nmap
  mr_PublicIPs :: nmap

record OscMachineSpec =
  ProviderID :: "string option"
  Node :: OscNode

record OscMachineStatus =
  ma_Ready :: bool
  Addresses :: "NodeAddress list"
  ma_FailureDomain :: "string option"
  FailureReason :: "string option"
  FailureMessage :: "string option"
  ma_VmState :: "VmState option"
  ma_Resources :: OscMachineResources
  ma_ReconcilerGeneration :: OscReconcilerGeneration
  ma_Conditions :: "Condition list"

record OscMachine =
  ma_Meta :: ObjectMeta
  ma_Spec :: OscMachineSpec
  ma_Status :: OscMachineStatus

end
