(* ===== verification/Api_Methods.thy ===== *)
theory Api_Methods
  imports Api_Types
begin

text \<open>
  The methods of the API types of \<^verbatim>\<open>api/v1beta2/types.go\<close> (roles, address ranges, default
  values), the zero values of the structs the code compares with or builds from, and the
  condition types and reasons of \<^verbatim>\<open>conditions_consts.go\<close>.
\<close>

section \<open>Zero values\<close>

definition zero_OscNet :: OscNet where
  "zero_OscNet = \<lparr>net_Name = [], net_IpRange = [], net_ResourceId = []\<rparr>"

definition zero_OscNatService :: OscNatService where
  "zero_OscNatService = \<lparr>nat_Name = [], nat_SubnetName = [], nat_SubregionName = []\<rparr>"

definition zero_OscRoute :: OscRoute where
  "zero_OscRoute = \<lparr>route_Name = [], TargetName = [], TargetType = [], Destination = [], route_ResourceId = []\<rparr>"

definition zero_OscRootDisk :: OscRootDisk where
  "zero_OscRootDisk = \<lparr>RootDiskIops = 0, RootDiskSize = 0, RootDiskType = []\<rparr>"

definition zero_OscBastion :: OscBastion where
  "zero_OscBastion = \<lparr>bn_Name = [], bn_ImageId = [], ImageName = [], ImageAccountId = [], bn_KeypairName = [],
     bn_VmType = [], bn_SubnetName = [], bn_RootDisk = zero_OscRootDisk, PublicIpId = [], bn_PrivateIps = [],
     bn_SecurityGroupNames = [], bn_ResourceId = [], bn_Enable = False\<rparr>"

definition zero_OscSecurityGroupRule :: OscSecurityGroupRule where
  "zero_OscSecurityGroupRule = \<lparr>rule_Name = [], Flow = [], rule_IpProtocol = [], rule_IpRange = [], rule_IpRanges = [],
     rule_FromPortRange = 0, rule_ToPortRange = 0, rule_ResourceId = []\<rparr>"

definition zero_OscReconciliationRule :: OscReconciliationRule where
  "zero_OscReconciliationRule = \<lparr>AppliesTo = [], Mode = [], ReconciliationChance = 0\<rparr>"

section \<open>Net, roles and rules\<close>

definition OscNet_IsZero :: "OscNet \<Rightarrow> bool" where
  "OscNet_IsZero o' \<longleftrightarrow> net_IpRange o' = [] \<and> net_ResourceId o' = []"

definition DefaultNet :: OscNet where
  "DefaultNet = zero_OscNet\<lparr>net_IpRange := ''10.0.0.0/16''\<rparr>"

definition HasRole :: "OscSecurityGroup \<Rightarrow> OscRole \<Rightarrow> bool" where
  "HasRole sg role =
     (if sg_Roles sg \<noteq> [] then role \<in> set (sg_Roles sg)
      else if str_contains (sg_Name sg) ''kcp'' then role = RoleControlPlane
      else if str_contains (sg_Name sg) ''kw'' then role = RoleWorker
      else if str_contains (sg_Name sg) ''node'' then role = RoleControlPlane \<or> role = RoleWorker
      else False)"

definition GetIpRanges :: "OscSecurityGroupRule \<Rightarrow> string list" where
  "GetIpRanges sgr =
     (if rule_IpRanges sgr \<noteq> [] then rule_IpRanges sgr
      else if rule_IpRange sgr \<noteq> [] then [rule_IpRange sgr]
      else [])"

definition GetFromPortRange :: "OscSecurityGroupRule \<Rightarrow> int" where
  "GetFromPortRange sgr = (if rule_IpProtocol sgr = ''-1'' then -1 else rule_FromPortRange sgr)"

definition GetToPortRange :: "OscSecurityGroupRule \<Rightarrow> int" where
  "GetToPortRange sgr = (if rule_IpProtocol sgr = ''-1'' then -1 else rule_ToPortRange sgr)"

definition GetRole :: "OscVm \<Rightarrow> OscRole" where
  "GetRole vm = (if vm_Role vm \<noteq> [] then vm_Role vm else RoleWorker)"

definition GetSubregions :: "OscVm \<Rightarrow> string list" where
  "GetSubregions vm = (if SubregionNames vm \<noteq> [] then SubregionNames vm else [vm_SubregionName vm])"

section \<open>Default values\<close>

abbreviation DefaultVmType :: string where "DefaultVmType \<equiv> ''tinav7.c4r8p1''"
abbreviation DefaultRootDiskType :: VolumeType where "DefaultRootDiskType \<equiv> ''io1''"
abbreviation DefaultRootDiskSize :: int where "DefaultRootDiskSize \<equiv> 60"
abbreviation DefaultRootDiskIops :: int where "DefaultRootDiskIops \<equiv> 1500"
abbreviation DefaultVmBastionType :: string where "DefaultVmBastionType \<equiv> ''tinav7.c1r1p2''"
abbreviation DefaultRootDiskBastionType :: VolumeType where "DefaultRootDiskBastionType \<equiv> ''gp2''"
abbreviation DefaultRootDiskBastionSize :: int where "DefaultRootDiskBastionSize \<equiv> 15"
abbreviation DefaultLoadBalancerType :: string where "DefaultLoadBalancerType \<equiv> ''internet-facing''"
abbreviation DefaultLoadBalancerProtocol :: string where "DefaultLoadBalancerProtocol \<equiv> ''TCP''"
abbreviation DefaultCheckInterval :: int where "DefaultCheckInterval \<equiv> 10"
abbreviation DefaultHealthyThreshold :: int where "DefaultHealthyThreshold \<equiv> 2"
abbreviation DefaultUnhealthyThreshold :: int where "DefaultUnhealthyThreshold \<equiv> 3"
abbreviation DefaultTimeout :: int where "DefaultTimeout \<equiv> 10"
abbreviation APIPort :: int where "APIPort \<equiv> 6443"

text \<open>\<^verbatim>\<open>if x == "" { x = d }\<close> and \<^verbatim>\<open>if x == 0 { x = d }\<close>.\<close>

definition default_str :: "string \<Rightarrow> string \<Rightarrow> string" where
  "default_str d x = (if x = [] then d else x)"

definition default_int :: "int \<Rightarrow> int \<Rightarrow> int" where
  "default_int d x = (if x = 0 then d else x)"

definition OscVm_SetDefaultValue :: "OscVm \<Rightarrow> OscVm" where
  "OscVm_SetDefaultValue vm =
     (let disk0 = vm_RootDisk vm;
          disk1 = disk0\<lparr>RootDiskType := default_str DefaultRootDiskType (RootDiskType disk0)\<rparr>;
          disk2 = (if RootDiskIops disk1 = 0 \<and> RootDiskType disk1 = ''io1''
                   then disk1\<lparr>RootDiskIops := DefaultRootDiskIops\<rparr> else disk1);
          disk3 = disk2\<lparr>RootDiskSize := default_int DefaultRootDiskSize (RootDiskSize disk2)\<rparr>
      in vm\<lparr>vm_VmType := default_str DefaultVmType (vm_VmType vm), vm_RootDisk := disk3\<rparr>)"

definition OscBastion_SetDefaultValue :: "OscBastion \<Rightarrow> OscBastion" where
  "OscBastion_SetDefaultValue bastion =
     (if bn_Enable bastion
      then bastion\<lparr>bn_VmType := default_str DefaultVmBastionType (bn_VmType bastion),
             bn_RootDisk := (bn_RootDisk bastion)
               \<lparr>RootDiskType := default_str DefaultRootDiskBastionType (RootDiskType (bn_RootDisk bastion)),
                RootDiskSize := default_int DefaultRootDiskBastionSize (RootDiskSize (bn_RootDisk bastion))\<rparr>\<rparr>
      else bastion)"

definition OscLoadBalancer_SetDefaultValue :: "OscLoadBalancer \<Rightarrow> OscLoadBalancer" where
  "OscLoadBalancer_SetDefaultValue lb =
     lb\<lparr>LoadBalancerType := default_str DefaultLoadBalancerType (LoadBalancerType lb),
        Listener := (Listener lb)
          \<lparr>BackendPort := default_int APIPort (BackendPort (Listener lb)),
           BackendProtocol := default_str DefaultLoadBalancerProtocol (BackendProtocol (Listener lb)),
           LoadBalancerPort := default_int APIPort (LoadBalancerPort (Listener lb)),
           LoadBalancerProtocol := default_str DefaultLoadBalancerProtocol (LoadBalancerProtocol (Listener lb))\<rparr>,
        HealthCheck := (HealthCheck lb)
          \<lparr>CheckInterval := default_int DefaultCheckInterval (CheckInterval (HealthCheck lb)),
           HealthyThreshold := default_int DefaultHealthyThreshold (HealthyThreshold (HealthCheck lb)),
           UnhealthyThreshold := default_int DefaultUnhealthyThreshold (UnhealthyThreshold (HealthCheck lb)),
           hc_Timeout := default_int DefaultTimeout (hc_Timeout (HealthCheck lb)),
           hc_Protocol := default_str DefaultLoadBalancerProtocol (hc_Protocol (HealthCheck lb)),
           hc_Port := default_int APIPort (hc_Port (HealthCheck lb))\<rparr>\<rparr>"

section \<open>Conditions and reasons\<close>

abbreviation NetCreatedReason :: string where "NetCreatedReason \<equiv> ''NetCreated''"
abbreviation NetReadyCondition :: string where "NetReadyCondition \<equiv> ''NetReady''"
abbreviation NetReconciliationFailedReason :: string where "NetReconciliationFailedReason \<equiv> ''NetReconciliationFailed''"
abbreviation NetPeeringCreatedReason :: string where "NetPeeringCreatedReason \<equiv> ''NetPeeringCreated''"
abbreviation NetPeeringReadyCondition :: string where "NetPeeringReadyCondition \<equiv> ''NetPeeringReady''"
abbreviation NetPeeringReconciliationFailedReason :: string where "NetPeeringReconciliationFailedReason \<equiv> ''NetPeeringReconciliationFailed''"
abbreviation NetAccessPointCreatedReason :: string where "NetAccessPointCreatedReason \<equiv> ''NetAccessPointCreated''"
abbreviation NetAccessPointsReadyCondition :: string where "NetAccessPointsReadyCondition \<equiv> ''NetAccessPointsReady''"
abbreviation NetAccessPointsReconciliationFailedReason :: string where "NetAccessPointsReconciliationFailedReason \<equiv> ''NetAccessPointsReconciliationFailed''"
abbreviation SubnetCreatedReason :: string where "SubnetCreatedReason \<equiv> ''SubnetCreated''"
abbreviation SubnetsReadyCondition :: string where "SubnetsReadyCondition \<equiv> ''SubnetsReady''"
abbreviation SubnetsReconciliationFailedReason :: string where "SubnetsReconciliationFailedReason \<equiv> ''SubnetsReconciliationFailed''"
abbreviation InternetServicesCreatedReason :: string where "InternetServicesCreatedReason \<equiv> ''InternetServiceCreated''"
abbreviation InternetServicesReadyCondition :: string where "InternetServicesReadyCondition \<equiv> ''InternetServiceReady''"
abbreviation InternetServicesFailedReason :: string where "InternetServicesFailedReason \<equiv> ''InternetServiceFailed''"
abbreviation NatServicesCreatedReason :: string where "NatServicesCreatedReason \<equiv> ''NatServicesCreated''"
abbreviation NatServicesReadyCondition :: string where "NatServicesReadyCondition \<equiv> ''NatServicesReady''"
abbreviation NatServicesReconciliationFailedReason :: string where "NatServicesReconciliationFailedReason \<equiv> ''NatServicesReconciliationFailed''"
abbreviation RouteTableCreatedReason :: string where "RouteTableCreatedReason \<equiv> ''RouteTableCreated''"
abbreviation RouteTablesReadyCondition :: string where "RouteTablesReadyCondition \<equiv> ''RouteTablesReady''"
abbreviation RouteTableReconciliationFailedReason :: string where "RouteTableReconciliationFailedReason \<equiv> ''RouteTableReconciliationFailed''"
abbreviation VmReadyCondition :: string where "VmReadyCondition \<equiv> ''VmReady''"
abbreviation VmNotReadyReason :: string where "VmNotReadyReason \<equiv> ''VmNotReady''"
abbreviation VmCreatedReason :: string where "VmCreatedReason \<equiv> ''VmCreated''"
abbreviation WaitingForClusterInfrastructureReason :: string where "WaitingForClusterInfrastructureReason \<equiv> ''WaitingForClusterInfrastructure''"
abbreviation IPAllocated :: string where "IPAllocated \<equiv> ''IPAllocated''"
abbreviation FGPUAllocatedReason :: string where "FGPUAllocatedReason \<equiv> ''fGPUAllocated''"
abbreviation FGPUAttachedReason :: string where "FGPUAttachedReason \<equiv> ''fGPUAttached''"
abbreviation SecurityGroupCreatedReason :: string where "SecurityGroupCreatedReason \<equiv> ''SecurityGroupCreated''"
abbreviation SecurityGroupReadyCondition :: string where "SecurityGroupReadyCondition \<equiv> ''SecurityGroupsReady''"
abbreviation SecurityGroupReconciliationFailedReason :: string where "SecurityGroupReconciliationFailedReason \<equiv> ''SecurityGroupReconciliationFailed''"
abbreviation LoadBalancerCreatedReason :: string where "LoadBalancerCreatedReason \<equiv> ''LoadBalancerCreated''"
abbreviation LoadBalancerReadyCondition :: string where "LoadBalancerReadyCondition \<equiv> ''LoadBalancerReady''"
abbreviation LoadBalancerFailedReason :: string where "LoadBalancerFailedReason \<equiv> ''LoadBalancerFailed''"

section \<open>Lemmas\<close>

lemma default_str_idem [simp]: "default_str d (default_str d x) = default_str d x"
  by (simp add: default_str_def)

lemma default_int_idem [simp]: "default_int d (default_int d x) = default_int d x"
  by (simp add: default_int_def)

lemma default_nonzero [simp]:
  "default_str d x = [] \<longleftrightarrow> x = [] \<and> d = []" "default_int i n = 0 \<longleftrightarrow> n = 0 \<and> i = 0"
  by (auto simp: default_str_def default_int_def)

lemma OscLoadBalancer_SetDefaultValue_name [simp]:
  "LoadBalancerName (OscLoadBalancer_SetDefaultValue lb) = LoadBalancerName lb"
  "lb_SubnetName (OscLoadBalancer_SetDefaultValue lb) = lb_SubnetName lb"
  "SecurityGroupName (OscLoadBalancer_SetDefaultValue lb) = SecurityGroupName lb"
  by (simp_all add: OscLoadBalancer_SetDefaultValue_def)

lemma OscBastion_SetDefaultValue_names [simp]:
  "bn_Name (OscBastion_SetDefaultValue b) = bn_Name b"
  "bn_ResourceId (OscBastion_SetDefaultValue b) = bn_ResourceId b"
  "bn_Enable (OscBastion_SetDefaultValue b) = bn_Enable b"
  "bn_SecurityGroupNames (OscBastion_SetDefaultValue b) = bn_SecurityGroupNames b"
  by (simp_all add: OscBastion_SetDefaultValue_def)

lemma OscVm_SetDefaultValue_idem:
  "OscVm_SetDefaultValue (OscVm_SetDefaultValue vm) = OscVm_SetDefaultValue vm"
  by (cases vm; cases "vm_RootDisk vm")
    (simp add: OscVm_SetDefaultValue_def Let_def default_str_def default_int_def)

lemma GetSubregions_nonempty: "GetSubregions vm \<noteq> []"
  by (simp add: GetSubregions_def)

lemma GetIpRanges_nonempty: "GetIpRanges r = [] \<longleftrightarrow> rule_IpRanges r = [] \<and> rule_IpRange r = []"
  by (simp add: GetIpRanges_def)

end
