(* ===== verification/Osc_Sdk.thy ===== *)
theory Osc_Sdk
  imports Api_Methods
begin

text \<open>
  The boundary of the program. The Outscale SDK, the cloud behind it, the Kubernetes API and
  the helper packages of Cluster API are not part of the repository, so they are parameters:
  \<^item> the SDK objects are records with the fields the repository reads;
  \<^item> every SDK call is a request value, and a client answers a request by a function of the
    (abstract) cloud state, one function per type of answer;
  \<^item> the helper packages are fields of \<open>Env\<close>.
  \<open>World\<close> is the state the controllers act on. It records every SDK request issued, in order,
  which is what the safety properties speak about: they hold for every client, that is for
  every behaviour of the cloud.
\<close>

section \<open>Objects of the SDK\<close>

record ResourceTag =
  Key :: string
  Value :: string

record osc_Net =
  o_NetId :: string
  o_IpRange :: string

record osc_Subnet =
  o_SubnetId :: string
  o_SubnetIpRange :: string

record osc_InternetService =
  o_InternetServiceId :: string
  o_LinkedNetId :: string

record osc_PublicIpLight =
  o_LightPublicIpId :: string
  o_LightPublicIp :: string

record osc_NatService =
  o_NatServiceId :: string
  o_NatState :: string
  o_NatPublicIps :: "osc_PublicIpLight list"

record osc_LinkRouteTable =
  o_LinkRouteTableId :: string
  o_LinkSubnetId :: string

record osc_Route =
  o_DestinationIpRange :: string
  o_RouteNetPeeringId :: "string option"

record osc_RouteTable =
  o_RouteTableId :: string
  o_LinkRouteTables :: "osc_LinkRouteTable list"
  o_Routes :: "osc_Route list"

record osc_PublicIp =
  o_PublicIpId :: string
  o_PublicIp :: string
  o_LinkPublicIpId :: "string option"
  o_PublicIpTags :: "ResourceTag list"

record osc_NetPeering =
  o_NetPeeringId :: string
  o_NetPeeringState :: string

record osc_NetAccessPoint =
  o_NetAccessPointId :: string

record osc_LoadBalancer =
  o_LoadBalancerName :: string
  o_DnsName :: string
  o_LoadBalancerTags :: "ResourceTag list"
  o_BackendVmIds :: "string list"

record osc_Tag =
  o_TagResourceId :: string

record osc_SecurityGroupRule =
  o_FromPortRange :: int
  o_ToPortRange :: int
  o_IpProtocol :: string
  o_IpRanges :: "string list"
  o_SecurityGroupsMembers :: "string list"

record osc_SecurityGroup =
  o_SecurityGroupId :: string
  o_SecurityGroupName :: string
  o_InboundRules :: "osc_SecurityGroupRule list"
  o_OutboundRules :: "osc_SecurityGroupRule list"

record osc_Vm =
  o_VmId :: string
  o_VmState :: string
  o_VmPublicIp :: "string option"
  o_VmPrivateIp :: string
  o_PrivateDnsName :: "string option"
  o_VmSubregionName :: string
  o_VmTags :: "ResourceTag list"
  o_BlockDeviceMappings :: "(string \<times> string) list"

record osc_FlexibleGpu =
  o_FlexibleGpuId :: string
  o_FlexibleGpuState :: string
  o_FlexibleGpuSubregionName :: string

record osc_Image =
  o_ImageId :: string

section \<open>Requests\<close>

record BsuToCreate =
  bsu_VolumeType :: string
  bsu_VolumeSize :: "int option"
  bsu_Iops :: "int option"
  bsu_SnapshotId :: "string option"

record CreateVmsRequest =
  cvm_ImageId :: string
  cvm_KeypairName :: string
  cvm_VmType :: string
  cvm_SubnetId :: string
  cvm_SecurityGroupIds :: "string list"
  cvm_UserData :: string
  cvm_BlockDeviceMappings :: "(string \<times> BsuToCreate) list"
  cvm_ClientToken :: string
  cvm_BootOnCreation :: "bool option"
  cvm_PrivateIps :: "string list option"

record ListenerForCreation =
  lfc_BackendPort :: int
  lfc_BackendProtocol :: string
  lfc_LoadBalancerPort :: int
  lfc_LoadBalancerProtocol :: string

text \<open>One constructor per SDK call. A filter that is not set is \<open>None\<close>.\<close>

datatype (plugins only: code size) osc_request =
    CreateNetRequest (* IpRange *) string
  | DeleteNetRequest string
  | ReadNetsRequest (* NetIds *) "string list"
  | CreateSubnetRequest (* IpRange, NetId, SubregionName *) string string string
  | DeleteSubnetRequest string
  | ReadSubnetsRequest (* SubnetIds, NetIds, IpRanges *) "string list option" "string list option" "string list option"
  | CreateInternetServiceRequest
  | DeleteInternetServiceRequest string
  | LinkInternetServiceRequest (* InternetServiceId, NetId *) string string
  | UnlinkInternetServiceRequest string string
  | ReadInternetServicesRequest (* InternetServiceIds, LinkNetIds *) "string list option" "string list option"
  | CreateNatServiceRequest (* PublicIpId, ClientToken, SubnetId *) string string string
  | DeleteNatServiceRequest string
  | ReadNatServicesRequest (* NatServiceIds, ClientTokens, NetIds *) "string list option" "string list option" "string list option"
  | CreateRouteTableRequest (* NetId *) string
  | CreateRouteRequest (* DestinationIpRange, RouteTableId, GatewayId, NatServiceId, NetPeeringId *)
      string string "string option" "string option" "string option"
  | DeleteRouteTableRequest string
  | DeleteRouteRequest (* DestinationIpRange, RouteTableId *) string string
  | ReadRouteTablesRequest (* RouteTableIds, RouteGatewayIds, RouteNatServiceIds, NetIds, LinkRouteTableMain *)
      "string list option" "string list option" "string list option" "string list option" "bool option"
  | LinkRouteTableRequest (* RouteTableId, SubnetId *) string string
  | UnlinkRouteTableRequest (* LinkRouteTableId *) string
  | CreatePublicIpRequest
  | DeletePublicIpRequest string
  | ReadPublicIpsRequest (* PublicIpIds, PublicIps, TagKeys, TagValues *)
      "string list option" "string list option" "string list option" "string list option"
  | CreateNetPeeringRequest (* SourceNetId, AccepterNetId, AccepterOwnerId *) string string string
  | AcceptNetPeeringRequest string
  | DeleteNetPeeringRequest string
  | ReadNetPeeringsRequest (* NetPeeringIds, SourceNetNetIds, AccepterNetNetIds, AccepterNetAccountIds *)
      "string list option" "string list option" "string list option" "string list option"
  | CreateNetAccessPointRequest (* NetId, ServiceName, RouteTableIds *) string string "string list"
  | DeleteNetAccessPointRequest string
  | ReadNetAccessPointsRequest (* NetAccessPointIds, NetIds, ServiceNames, States *)
      "string list option" "string list option" "string list option" "string list option"
  | UpdateLoadBalancerRequest (* LoadBalancerName *) string OscLoadBalancerHealthCheck
  | LinkLoadBalancerBackendMachinesRequest (* BackendVmIds, LoadBalancerName *) "string list" string
  | UnlinkLoadBalancerBackendMachinesRequest "string list" string
  | ReadLoadBalancersRequest (* LoadBalancerNames *) "string list"
  | CreateLoadBalancerTagsRequest (* LoadBalancerNames, Tags *) "string list" "ResourceTag list"
  | DeleteLoadBalancerTagsRequest (* LoadBalancerNames, Keys *) "string list" "string list"
  | CreateLoadBalancerRequest (* LoadBalancerName, LoadBalancerType, Listeners, SecurityGroups, Subnets *)
      string string "ListenerForCreation list" "string list" "string list"
  | DeleteLoadBalancerRequest string
  | CreateTagsRequest (* ResourceIds, Tags *) "string list" "ResourceTag list"
  | ReadTagsRequest (* ResourceTypes, Keys, Values *) "string list" "string list" "string list"
  | CreateSecurityGroupRequest (* SecurityGroupName, Description, NetId *) string string string
  | CreateSecurityGroupRuleRequest (* Flow, SecurityGroupId, Rules *) string string "osc_SecurityGroupRule list"
  | DeleteSecurityGroupRuleRequest string string "osc_SecurityGroupRule list"
  | DeleteSecurityGroupRequest string
  | ReadSecurityGroupsRequest (* SecurityGroupIds, SecurityGroupNames, NetIds *)
      "string list option" "string list option" "string list option"
  | ReadSecurityGroupsByRuleRequest (* SecurityGroupId, flow, protocol, from port, to port, members, IpRanges *)
      string string string int int "string list option" "string list option"
  | CreateVms CreateVmsRequest
  | DeleteVmsRequest "string list"
  | ReadVmsRequest (* VmIds, ClientTokens *) "string list option" "string list option"
  | StartVmsRequest "string list"
  | StopVmsRequest "string list"
  | CreateFlexibleGpuRequest (* ModelName, SubregionName, DeleteOnVmDeletion, Generation *) string string bool "string option"
  | ReadFlexibleGpusRequest "string list"
  | LinkFlexibleGpuRequest (* FlexibleGpuId, VmId *) string string
  | ReadImagesRequest (* ImageIds, ImageNames, AccountIds *) "string list option" "string list option" "string list option"

type_synonym ('w, 'a) answer = "osc_request \<Rightarrow> 'w \<Rightarrow> (string + 'a) \<times> 'w"

record 'w Client =
  sdkUnit :: "('w, unit) answer"
  sdkNet :: "('w, osc_Net) answer"
  sdkNets :: "('w, osc_Net list) answer"
  sdkSubnet :: "('w, osc_Subnet) answer"
  sdkSubnets :: "('w, osc_Subnet list) answer"
  sdkInternetService :: "('w, osc_InternetService) answer"
  sdkInternetServices :: "('w, osc_InternetService list) answer"
  sdkNatService :: "('w, osc_NatService) answer"
  sdkNatServices :: "('w, osc_NatService list) answer"
  sdkRouteTable :: "('w, osc_RouteTable) answer"
  sdkRouteTables :: "('w, osc_RouteTable list) answer"
  sdkLinkRouteTableId :: "('w, string) answer"
  sdkPublicIp :: "('w, osc_PublicIp) answer"
  sdkPublicIps :: "('w, osc_PublicIp list) answer"
  sdkNetPeering :: "('w, osc_NetPeering) answer"
  sdkNetPeerings :: "('w, osc_NetPeering list) answer"
  sdkNetAccessPoint :: "('w, osc_NetAccessPoint) answer"
  sdkNetAccessPoints :: "('w, osc_NetAccessPoint list) answer"
  sdkLoadBalancer :: "('w, osc_LoadBalancer) answer"
  sdkLoadBalancers :: "('w, osc_LoadBalancer list) answer"
  sdkTags :: "('w, osc_Tag list) answer"
  sdkSecurityGroup :: "('w, osc_SecurityGroup) answer"
  sdkSecurityGroups :: "('w, osc_SecurityGroup list) answer"
  sdkVms :: "('w, osc_Vm list) answer"
  sdkFlexibleGpu :: "('w, osc_FlexibleGpu) answer"
  sdkFlexibleGpus :: "('w, osc_FlexibleGpu list) answer"
  sdkImages :: "('w, osc_Image list) answer"

text \<open>\<^verbatim>\<open>tenant.Tenant\<close>: an account, seen through its region and its client.\<close>

record 'w Tenant =
  tn_Region :: string
  tn_Client :: "'w Client"

section \<open>The state of a controller\<close>

text \<open>The fields of \<^verbatim>\<open>clusterv1.Cluster\<close> that are read.\<close>

record CapiCluster =
  c_Name :: string
  c_Namespace :: string
  c_UID :: string
  c_InfrastructureRefName :: "string option"
  c_InfrastructureReady :: bool

text \<open>The fields of \<^verbatim>\<open>clusterv1.Machine\<close> that are read.\<close>

record CapiMachine =
  m_Name :: string
  m_Namespace :: string
  m_UID :: string
  m_Labels :: nmap
  m_ClusterName :: string
  m_InfraKind :: string
  m_InfraGroupKind :: string
  m_InfraName :: string
  m_FailureDomain :: "string option"
  m_DataSecretName :: "string option"

record 'w ClusterScope =
  csCluster :: CapiCluster
  csOscCluster :: OscCluster
  csTenant :: "'w Tenant"

text \<open>
  \<open>dice\<close> and \<open>drawn\<close> give the random numbers: the \<open>n\<close>-th draw below a bound is the \<open>n\<close>-th die
  modulo the bound. Both range over all functions in every property, so any sequence is covered.
  \<open>patched\<close> lists the versions of the object written back to the Kubernetes API.
\<close>

record 'w World =
  cloud :: 'w
  calls :: "osc_request list"
  events :: "(string \<times> string) list"
  dice :: "nat \<Rightarrow> nat"
  drawn :: nat
  patched :: "OscCluster list"
  scope :: "'w ClusterScope"

type_synonym ('w, 'z, 'a) Op = "(('w, 'z) World_scheme, 'a) M"

definition sdk :: "('w Client \<Rightarrow> ('w, 'a) answer) \<Rightarrow> 'w Tenant \<Rightarrow> osc_request \<Rightarrow> ('w, 'z, 'a) Op" where
  "sdk f t req = (\<lambda>s. case f (tn_Client t) req (cloud s) of
     (r, w) \<Rightarrow> ((case r of Inl e \<Rightarrow> Err (SdkError e) | Inr x \<Rightarrow> Ok x),
                s\<lparr>cloud := w, calls := calls s @ [req]\<rparr>))"

text \<open>\<^verbatim>\<open>rand.IntN(n)\<close> for a positive \<open>n\<close>.\<close>

definition rand_IntN :: "nat \<Rightarrow> ('w, 'z, nat) Op" where
  "rand_IntN n = (\<lambda>s. (Ok (dice s (drawn s) mod n), s\<lparr>drawn := Suc (drawn s)\<rparr>))"

text \<open>\<^verbatim>\<open>Recorder.Event\<close> with a normal event.\<close>

definition record_event :: "string \<Rightarrow> string \<Rightarrow> ('w, 'z, unit) Op" where
  "record_event reason msg = modify (\<lambda>s. s\<lparr>events := events s @ [(reason, msg)]\<rparr>)"

text \<open>\<^verbatim>\<open>%v\<close> of a slice of strings.\<close>

definition fmt_slice :: "string list \<Rightarrow> string" where
  "fmt_slice xs = ''['' @ str_join xs '' '' @ '']''"

section \<open>Third-party helpers\<close>

text \<open>
  \<^item> \<^verbatim>\<open>goutils/k8s/tags\<close>: \<open>tagsHas\<close>, \<open>tagsGetName\<close>, \<open>tagsClusterIDKey\<close> and its tag names;
  \<^item> \<^verbatim>\<open>goutils/sdk/ptr\<close>: \<open>ptrFrom\<close>;
  \<^item> \<^verbatim>\<open>cluster-api/util\<close>, its package \<^verbatim>\<open>conditions\<close> and \<^verbatim>\<open>controllerutil\<close>: conditions, finalizers and whether
    a machine is a control plane one;
  \<^item> the instance metadata the process read at start, the tenants, and the Kubernetes client's
    answers to the list of machines.
\<close>

record 'w Env =
  tagsHas :: "ResourceTag list \<Rightarrow> string \<Rightarrow> bool"
  tagsGetName :: "ResourceTag list \<Rightarrow> string"
  tagsClusterIDKey :: "string \<Rightarrow> string"
  tagsPublicIPPool :: string
  tagsVmNodeName :: string
  tagsResourceLifecycleOwned :: string
  ptrFrom :: "string option \<Rightarrow> string"
  MarkTrue :: "Condition list \<Rightarrow> string \<Rightarrow> Condition list"
  MarkFalse :: "Condition list \<Rightarrow> string \<Rightarrow> string \<Rightarrow> string \<Rightarrow> string \<Rightarrow> Condition list"
  AddFinalizer :: "string list \<Rightarrow> string \<Rightarrow> string list"
  RemoveFinalizer :: "string list \<Rightarrow> string \<Rightarrow> string list"
  md_AccountID :: string
  md_NetID :: string
  tenantFromFile :: "string \<Rightarrow> string \<Rightarrow> gerror + 'w Tenant"
  tenantFromProfile :: "string \<Rightarrow> string \<Rightarrow> string \<Rightarrow> gerror + 'w Tenant"
  tenantDefault :: "gerror + 'w Tenant"
  IsControlPlaneMachine :: "CapiMachine \<Rightarrow> bool"
  listMachines :: "string \<Rightarrow> gerror + CapiMachine list"
  listOscMachines :: "string \<Rightarrow> gerror + OscMachine list"
  k8sSecret :: "string \<Rightarrow> string \<Rightarrow> gerror + (string \<times> string) list"

section \<open>Frames of the state\<close>

text \<open>\<open>issues P s t\<close>: between \<open>s\<close> and \<open>t\<close>, only requests satisfying \<open>P\<close> were issued.\<close>

definition issues :: "(osc_request \<Rightarrow> bool) \<Rightarrow> ('w, 'z) World_scheme \<Rightarrow> ('w, 'z) World_scheme \<Rightarrow> bool" where
  "issues P s t \<longleftrightarrow> (\<exists>cs. calls t = calls s @ cs \<and> list_all P cs)"

lemma issues_append: "calls t = calls s @ cs \<Longrightarrow> list_all P cs \<Longrightarrow> issues P s t"
  by (auto simp: issues_def)

interpretation iss: frame "issues P" for P
proof
  fix s :: "('a, 'b) World_scheme"
  show "issues P s s" by (rule issues_append [of _ _ "[]"]) simp_all
next
  fix s t u :: "('a, 'b) World_scheme"
  assume "issues P s t" and "issues P t u"
  then obtain cs ds where "calls t = calls s @ cs" "calls u = calls t @ ds" "list_all P cs" "list_all P ds"
    by (auto simp: issues_def)
  then show "issues P s u" by (intro issues_append [of _ _ "cs @ ds"]) simp_all
qed

lemma sdk_run [run_simps]:
  "sdk f t req s = (case f (tn_Client t) req (cloud s) of
     (r, w) \<Rightarrow> ((case r of Inl e \<Rightarrow> Err (SdkError e) | Inr x \<Rightarrow> Ok x),
                s\<lparr>cloud := w, calls := calls s @ [req]\<rparr>))"
  by (simp add: sdk_def)

lemma sdk_Ok [ok_simps]:
  "sdk f t req s = (Ok y, u) \<longleftrightarrow>
     (\<exists>w. f (tn_Client t) req (cloud s) = (Inr y, w) \<and> u = s\<lparr>cloud := w, calls := calls s @ [req]\<rparr>)"
  by (auto simp: sdk_run split: prod.splits sum.splits)

lemma issues_sdk [frame_rules]: "P req \<Longrightarrow> keeps (issues P) (sdk f t req)"
  by (auto simp: keeps_def sdk_run intro!: issues_append [of _ _ "[req]"] split: prod.splits)

lemma issues_rand [frame_rules]: "keeps (issues P) (rand_IntN n)"
  by (auto simp: keeps_def rand_IntN_def intro!: issues_append [of _ _ "[]"])

lemma issues_modify: "(\<And>s. calls (g s) = calls s) \<Longrightarrow> keeps (issues P) (modify g)"
  by (rule iss.keeps_modify) (auto intro: issues_append [of _ _ "[]"])

lemma issues_event [frame_rules]: "keeps (issues P) (record_event reason msg)"
  unfolding record_event_def by (rule issues_modify) simp

lemma issues_mono: "issues P s t \<Longrightarrow> (\<And>c. P c \<Longrightarrow> Q c) \<Longrightarrow> issues Q s t"
  by (auto simp: issues_def elim!: list.pred_mono_strong)

lemma keeps_issues_mono: "keeps (issues P) m \<Longrightarrow> (\<And>c. P c \<Longrightarrow> Q c) \<Longrightarrow> keeps (issues Q) m"
  by (auto simp: keeps_def intro: issues_mono)

end
