(* ===== verification/Ip_Net.thy ===== *)
theory Ip_Net
  imports Prelude "HOL-Library.Word"
begin

text \<open>
  What the provider uses of Go's packages \<^verbatim>\<open>net\<close> and \<^verbatim>\<open>net/netip\<close>: parsing an address and a
  CIDR block, and printing a block. Addresses and masks are byte slices as in Go, so that
  the increments of \<open>GetSubnets\<close> wrap around as the code's \<^verbatim>\<open>byte\<close> does. An IPv4 block has a
  4-byte address and mask, an IPv6 block 16-byte ones.
\<close>

unbundle bit_operations_syntax

type_synonym byte = "8 word"

record IPNet =
  IP :: "byte list"
  Mask :: "byte list"

section \<open>Numbers in decimal and hexadecimal\<close>

definition digit_char :: "nat \<Rightarrow> char" where
  "digit_char d = char_of (if d < 10 then 48 + d else 87 + d)"

definition is_digit :: "char \<Rightarrow> bool" where
  "is_digit c \<longleftrightarrow> 48 \<le> (of_char c :: nat) \<and> (of_char c :: nat) \<le> 57"

definition digit_val :: "char \<Rightarrow> nat" where
  "digit_val c = of_char c - 48"

definition hex_val :: "char \<Rightarrow> nat option" where
  "hex_val c = (let n = (of_char c :: nat) in
     if 48 \<le> n \<and> n \<le> 57 then Some (n - 48)
     else if 97 \<le> n \<and> n \<le> 102 then Some (n - 87)
     else if 65 \<le> n \<and> n \<le> 70 then Some (n - 55)
     else None)"

fun nat_str_base :: "nat \<Rightarrow> nat \<Rightarrow> string" where
  "nat_str_base b n =
     (if b < 2 \<or> n < b then [digit_char n] else nat_str_base b (n div b) @ [digit_char (n mod b)])"

declare nat_str_base.simps [simp del]

definition nat_str :: "nat \<Rightarrow> string" where
  "nat_str n = nat_str_base 10 n"

definition hex_str :: "nat \<Rightarrow> string" where
  "hex_str n = nat_str_base 16 n"

fun decimal_val :: "nat \<Rightarrow> string \<Rightarrow> nat" where
  "decimal_val acc [] = acc"
| "decimal_val acc (c # s) = decimal_val (10 * acc + digit_val c) s"

text \<open>Splitting at every occurrence of a separator.\<close>

fun split_on :: "char \<Rightarrow> string \<Rightarrow> string list" where
  "split_on sep [] = [[]]"
| "split_on sep (c # s) =
     (if c = sep then [] # split_on sep s
      else (case split_on sep s of [] \<Rightarrow> [[c]] | w # ws \<Rightarrow> (c # w) # ws))"

section \<open>Addresses\<close>

text \<open>
  \<^verbatim>\<open>netip.parseIPv4Fields\<close>: four decimal fields separated by dots, each with at least one digit,
  without a leading zero and at most 255.
\<close>

definition parse_octet :: "string \<Rightarrow> byte option" where
  "parse_octet f =
     (if f = [] \<or> \<not> list_all is_digit f \<or> (length f > 1 \<and> hd f = CHR ''0'') \<or> decimal_val 0 f > 255
      then None else Some (of_nat (decimal_val 0 f)))"

fun all_some :: "'a option list \<Rightarrow> 'a list option" where
  "all_some [] = Some []"
| "all_some (None # xs) = None"
| "all_some (Some x # xs) = map_option (Cons x) (all_some xs)"

definition parseIPv4Fields :: "string \<Rightarrow> byte list option" where
  "parseIPv4Fields s =
     (let fs = split_on CHR ''.'' s
      in if length fs \<noteq> 4 then None else all_some (map parse_octet fs))"

text \<open>One group of hexadecimal digits: its value, its number of digits and the rest.\<close>

fun hex_group :: "nat \<Rightarrow> nat \<Rightarrow> string \<Rightarrow> nat \<times> nat \<times> string" where
  "hex_group acc off [] = (acc, off, [])"
| "hex_group acc off (c # s) =
     (case hex_val c of None \<Rightarrow> (acc, off, c # s) | Some d \<Rightarrow> hex_group (16 * acc + d) (Suc off) s)"

text \<open>
  The loop of \<^verbatim>\<open>netip.parseIPv6\<close>, after a leading \<^verbatim>\<open>::\<close>. The first argument counts the 16-bit
  groups that still fit (the loop condition \<^verbatim>\<open>i < 16\<close>), \<open>ip\<close> holds the bytes read so far and
  \<open>ell\<close> the position of \<^verbatim>\<open>::\<close>. The result is the bytes, the position and the unread rest.
\<close>

fun parse6_loop :: "nat \<Rightarrow> string \<Rightarrow> byte list \<Rightarrow> nat option \<Rightarrow> (byte list \<times> nat option \<times> string) option" where
  "parse6_loop 0 s ip ell = Some (ip, ell, s)"
| "parse6_loop (Suc n) s ip ell =
     (let (acc, off, rest) = hex_group 0 0 s in
      if off = 0 \<or> off > 4 then None
      else if rest \<noteq> [] \<and> hd rest = CHR ''.'' then
        (if ell = None \<and> length ip \<noteq> 12 then None
         else if length ip + 4 > 16 then None
         else map_option (\<lambda>f. (ip @ f, ell, [])) (parseIPv4Fields s))
      else
        (let ip = ip @ [of_nat (acc div 256), of_nat (acc mod 256)] in
         case rest of
           [] \<Rightarrow> Some (ip, ell, [])
         | c # s1 \<Rightarrow>
             if c \<noteq> CHR '':'' \<or> s1 = [] then None
             else if hd s1 = CHR '':'' then
               (if ell \<noteq> None then None
                else if tl s1 = [] then Some (ip, Some (length ip), [])
                else parse6_loop n (tl s1) ip (Some (length ip)))
             else parse6_loop n s1 ip ell))"

definition expand6 :: "byte list \<Rightarrow> nat option \<Rightarrow> string \<Rightarrow> byte list option" where
  "expand6 ip ell rest =
     (if rest \<noteq> [] then None
      else if length ip < 16 then
        (case ell of None \<Rightarrow> None
         | Some e \<Rightarrow> Some (take e ip @ replicate (16 - length ip) 0 @ drop e ip))
      else if ell \<noteq> None then None else Some ip)"

text \<open>\<^verbatim>\<open>parseIPv6\<close> on a text without a zone (\<^verbatim>\<open>%zone\<close>), which every caller here refuses.\<close>

definition parseIPv6 :: "string \<Rightarrow> byte list option" where
  "parseIPv6 s =
     (if take 2 s = ''::'' then
        (if drop 2 s = [] then Some (replicate 16 0)
         else (case parse6_loop 8 (drop 2 s) [] (Some 0) of
                 None \<Rightarrow> None | Some (ip, ell, rest) \<Rightarrow> expand6 ip ell rest))
      else (case parse6_loop 8 s [] None of
              None \<Rightarrow> None | Some (ip, ell, rest) \<Rightarrow> expand6 ip ell rest))"

text \<open>
  \<^verbatim>\<open>netip.ParseAddr\<close> restricted to addresses without a zone: the first dot, colon or percent
  sign decides.
\<close>

definition ParseAddr :: "string \<Rightarrow> byte list option" where
  "ParseAddr s =
     (if CHR ''%'' \<in> set s then None
      else case dropWhile (\<lambda>c. c \<noteq> CHR ''.'' \<and> c \<noteq> CHR '':'') s of
        [] \<Rightarrow> None
      | c # _ \<Rightarrow> if c = CHR ''.'' then parseIPv4Fields s else parseIPv6 s)"

section \<open>Blocks\<close>

text \<open>\<^verbatim>\<open>net.CIDRMask(n, 8 * len)\<close>.\<close>

definition mask_byte :: "nat \<Rightarrow> byte" where
  "mask_byte n = (if n \<ge> 8 then 255 else push_bit (8 - n) (mask n))"

primrec CIDRMask :: "nat \<Rightarrow> nat \<Rightarrow> byte list" where
  "CIDRMask n 0 = []"
| "CIDRMask n (Suc len) = mask_byte n # CIDRMask (n - 8) len"

text \<open>
  \<^verbatim>\<open>net.dtoi\<close> on a whole string: at least one digit, digits only, and a value below
  \<^verbatim>\<open>0xFFFFFF\<close>.
\<close>

definition dtoi :: "string \<Rightarrow> nat option" where
  "dtoi s = (if s = [] \<or> \<not> list_all is_digit s \<or> decimal_val 0 s \<ge> 16777215 then None
             else Some (decimal_val 0 s))"

text \<open>\<^verbatim>\<open>net.ParseCIDR\<close>: only the block is used, so only the block is returned.\<close>

definition ParseCIDR :: "string \<Rightarrow> IPNet option" where
  "ParseCIDR s =
     (case dropWhile (\<lambda>c. c \<noteq> CHR ''/'') s of
        [] \<Rightarrow> None
      | _ # bits \<Rightarrow>
          (case ParseAddr (takeWhile (\<lambda>c. c \<noteq> CHR ''/'') s) of
             None \<Rightarrow> None
           | Some ip \<Rightarrow>
               (case dtoi bits of
                  None \<Rightarrow> None
                | Some n \<Rightarrow>
                    if n > 8 * length ip then None
                    else let m = CIDRMask n (length ip)
                         in Some \<lparr>IP = map2 (AND) ip m, Mask = m\<rparr>)))"

subsection \<open>Printing\<close>

definition v4InV6Prefix :: "byte list" where
  "v4InV6Prefix = replicate 10 0 @ [255, 255]"

text \<open>\<^verbatim>\<open>IP.To4\<close>.\<close>

definition To4 :: "byte list \<Rightarrow> byte list option" where
  "To4 ip = (if length ip = 4 then Some ip
             else if length ip = 16 \<and> take 12 ip = v4InV6Prefix then Some (drop 12 ip) else None)"

definition ipv4_str :: "byte list \<Rightarrow> string" where
  "ipv4_str ip = str_join (map (\<lambda>b. nat_str (unat b)) ip) ''.''"

fun groups6 :: "byte list \<Rightarrow> nat list" where
  "groups6 (a # b # xs) = (256 * unat a + unat b) # groups6 xs"
| "groups6 _ = []"

definition zero_run :: "nat list \<Rightarrow> nat \<Rightarrow> nat" where
  "zero_run gs i = length (takeWhile (\<lambda>g. g = 0) (drop i gs))"

text \<open>The first longest run of at least two zero groups, as its start and its end.\<close>

definition best_run :: "nat list \<Rightarrow> (nat \<times> nat) option" where
  "best_run gs = foldl (\<lambda>best i. let l = zero_run gs i in
     if l \<ge> 2 \<and> (case best of None \<Rightarrow> True | Some (a, b) \<Rightarrow> l > b - a) then Some (i, i + l) else best)
     None [0..<8]"

definition ipv6_str :: "byte list \<Rightarrow> string" where
  "ipv6_str ip = (let gs = groups6 ip in
     case best_run gs of
       None \<Rightarrow> str_join (map hex_str gs) '':''
     | Some (a, b) \<Rightarrow> str_join (map hex_str (take a gs)) '':'' @ ''::'' @ str_join (map hex_str (drop b gs)) '':'')"

definition ip_str :: "byte list \<Rightarrow> string" where
  "ip_str ip = (case To4 ip of Some p4 \<Rightarrow> ipv4_str p4 | None \<Rightarrow> ipv6_str ip)"

text \<open>\<^verbatim>\<open>net.simpleMaskLength\<close>: the number of leading ones, or none when a one follows a zero.\<close>

fun leading_ones :: "bool list \<Rightarrow> nat option" where
  "leading_ones [] = Some 0"
| "leading_ones (True # bs) = map_option Suc (leading_ones bs)"
| "leading_ones (False # bs) = (if list_all Not bs then Some 0 else None)"

definition byte_bits :: "byte \<Rightarrow> bool list" where
  "byte_bits b = map (\<lambda>i. bit b (7 - i)) [0..<8]"

definition simpleMaskLength :: "byte list \<Rightarrow> nat option" where
  "simpleMaskLength m = leading_ones (concat (map byte_bits m))"

definition byte_hex :: "byte \<Rightarrow> string" where
  "byte_hex b = [digit_char (unat b div 16), digit_char (unat b mod 16)]"

text \<open>\<^verbatim>\<open>IPNet.String\<close>.\<close>

definition IPNet_String :: "IPNet \<Rightarrow> string" where
  "IPNet_String n =
     (let ip = (case To4 (IP n) of Some p4 \<Rightarrow> p4 | None \<Rightarrow> IP n);
          m = (if length ip = 4 \<and> length (Mask n) = 16 then drop 12 (Mask n) else Mask n)
      in if length ip \<noteq> length m \<or> (length ip \<noteq> 4 \<and> length ip \<noteq> 16) then ''<nil>''
         else ip_str ip @ ''/'' @
           (case simpleMaskLength m of Some l \<Rightarrow> nat_str l | None \<Rightarrow> concat (map byte_hex m)))"

section \<open>Printing and parsing\<close>

lemma digit_char_val: "d < 10 \<Longrightarrow> is_digit (digit_char d) \<and> digit_val (digit_char d) = d"
  by (simp add: is_digit_def digit_val_def digit_char_def of_char_of take_bit_eq_mod)

lemma decimal_val_snoc: "decimal_val acc (xs @ [c]) = 10 * decimal_val acc xs + digit_val c"
  by (induction xs arbitrary: acc) auto

lemma nat_str_step: "nat_str n = (if n < 10 then [digit_char n] else nat_str (n div 10) @ [digit_char (n mod 10)])"
  unfolding nat_str_def by (subst nat_str_base.simps) simp

lemma decimal_val_nat_str: "decimal_val 0 (nat_str n) = n"
proof (induction n rule: less_induct)
  case (less n)
  then show ?case by (subst nat_str_step) (auto simp: decimal_val_snoc digit_char_val)
qed

lemma nat_str_digits: "list_all is_digit (nat_str n)"
proof (induction n rule: less_induct)
  case (less n)
  then show ?case by (subst nat_str_step) (auto simp: digit_char_val)
qed

lemma nat_str_nonempty [simp]: "nat_str n \<noteq> []"
  by (subst nat_str_step) simp

lemma nat_str_head: "0 < n \<Longrightarrow> hd (nat_str n) \<noteq> CHR ''0''"
proof (induction n rule: less_induct)
  case (less n)
  have "digit_char n \<noteq> CHR ''0''" if "n < 10"
    using less.prems digit_char_val [OF that] by (auto simp: digit_val_def)
  then show ?case using less by (subst nat_str_step) (auto simp: hd_append)
qed

lemma parse_octet_nat_str: "n < 256 \<Longrightarrow> parse_octet (nat_str n) = Some (of_nat n)"
  using nat_str_head [of n] nat_str_digits [of n]
  by (cases "n = 0") (auto simp: parse_octet_def decimal_val_nat_str nat_str_step [of 0] digit_char_val)

lemma digits_exclude:
  assumes "list_all is_digit s" and "\<not> is_digit c" shows "c \<notin> set s"
  using assms by (auto simp: list_all_iff)

lemma not_digits: "\<not> is_digit CHR ''.''" "\<not> is_digit CHR ''/''" "\<not> is_digit CHR '':''" "\<not> is_digit CHR ''%''"
  by (simp_all add: is_digit_def)

lemmas nat_str_chars = digits_exclude [OF nat_str_digits not_digits(1)] digits_exclude [OF nat_str_digits not_digits(2)]
  digits_exclude [OF nat_str_digits not_digits(3)] digits_exclude [OF nat_str_digits not_digits(4)]

lemma split_on_prefix: "c \<notin> set w \<Longrightarrow> split_on c (w @ c # s) = w # split_on c s"
  by (induction w) auto

lemma split_on_none: "c \<notin> set w \<Longrightarrow> split_on c w = [w]"
  by (induction w) auto

lemma ipv4_str_chars: "CHR ''/'' \<notin> set (ipv4_str [a, b, c, d])" "CHR ''%'' \<notin> set (ipv4_str [a, b, c, d])"
    "CHR '':'' \<notin> set (ipv4_str [a, b, c, d])"
  by (simp_all add: ipv4_str_def nat_str_chars)

lemma parseIPv4_print: "parseIPv4Fields (ipv4_str [a, b, c, d]) = Some [a, b, c, d]"
proof -
  have "unat x < 256" for x :: byte using unsigned_less [of x] by simp
  then show ?thesis
    by (simp add: parseIPv4Fields_def ipv4_str_def split_on_prefix split_on_none nat_str_chars parse_octet_nat_str)
qed

lemma dropWhile_ipv4: "\<exists>rest. dropWhile (\<lambda>x. x \<noteq> CHR ''.'' \<and> x \<noteq> CHR '':'') (ipv4_str [a, b, c, d]) = CHR ''.'' # rest"
proof -
  have "\<forall>x \<in> set (nat_str (unat a)). x \<noteq> CHR ''.'' \<and> x \<noteq> CHR '':''" by (metis nat_str_chars(1,3))
  then show ?thesis by (simp add: ipv4_str_def dropWhile_append)
qed

text \<open>A printed IPv4 address parses back.\<close>

lemma ParseAddr_print:
  assumes "length ip = 4" shows "ParseAddr (ipv4_str ip) = Some ip"
proof -
  from assms obtain a b c d where ip: "ip = [a, b, c, d]"
    by (auto simp: numeral_eq_Suc length_Suc_conv)
  obtain rest where "dropWhile (\<lambda>x. x \<noteq> CHR ''.'' \<and> x \<noteq> CHR '':'') (ipv4_str ip) = CHR ''.'' # rest"
    using dropWhile_ipv4 ip by blast
  then show ?thesis using ipv4_str_chars(2) parseIPv4_print ip by (simp add: ParseAddr_def)
qed

lemma takeWhile_block:
  assumes "length ip = 4" shows "takeWhile (\<lambda>c. c \<noteq> CHR ''/'') (ipv4_str ip @ ''/'' @ s) = ipv4_str ip"
    and "dropWhile (\<lambda>c. c \<noteq> CHR ''/'') (ipv4_str ip @ ''/'' @ s) = CHR ''/'' # s"
proof -
  have "\<forall>c \<in> set (ipv4_str ip). c \<noteq> CHR ''/''"
    using assms ipv4_str_chars(1) by (auto simp: numeral_eq_Suc length_Suc_conv)
  then show "takeWhile (\<lambda>c. c \<noteq> CHR ''/'') (ipv4_str ip @ ''/'' @ s) = ipv4_str ip"
    and "dropWhile (\<lambda>c. c \<noteq> CHR ''/'') (ipv4_str ip @ ''/'' @ s) = CHR ''/'' # s"
    by (simp_all add: takeWhile_append dropWhile_append)
qed

text \<open>The text of a block determines its address.\<close>

lemma IPNet_String_v4:
  assumes "length (IP n) = 4" and "length (Mask n) = 4"
  shows "\<exists>s. IPNet_String n = ipv4_str (IP n) @ ''/'' @ s"
  using assms by (simp add: IPNet_String_def To4_def ip_str_def Let_def)

lemma IPNet_String_inj:
  assumes "IPNet_String m = IPNet_String n"
    and "length (IP m) = 4" "length (Mask m) = 4" "length (IP n) = 4" "length (Mask n) = 4"
  shows "IP m = IP n"
  using assms IPNet_String_v4 takeWhile_block(1) ParseAddr_print by (metis option.inject)

text \<open>A /24 block parses back.\<close>

lemma ParseCIDR_print24:
  "ParseCIDR (IPNet_String \<lparr>IP = [a, b, c, 0], Mask = [255, 255, 255, 0]\<rparr>) = Some \<lparr>IP = [a, b, c, 0], Mask = [255, 255, 255, 0]\<rparr>"
proof -
  have ff: "(255 :: byte) = - 1" by simp
  have andff: "x AND 255 = x" for x :: byte by (simp add: ff)
  have bits: "simpleMaskLength [255, 255, 255, 0] = Some 24"
    by (simp add: simpleMaskLength_def byte_bits_def upt_rec ff)
  have s24: "nat_str 24 = ''24''" by code_simp
  have d24: "dtoi ''24'' = Some 24" by (simp add: dtoi_def is_digit_def digit_val_def)
  have m24: "CIDRMask 24 4 = [255, 255, 255, 0]" by (simp add: numeral_eq_Suc mask_byte_def)
  have str: "IPNet_String \<lparr>IP = [a, b, c, 0], Mask = [255, 255, 255, 0]\<rparr> = ipv4_str [a, b, c, 0] @ ''/'' @ ''24''"
    by (simp add: IPNet_String_def To4_def ip_str_def bits s24)
  have "ParseAddr (ipv4_str [a, b, c, 0]) = Some [a, b, c, 0]" by (rule ParseAddr_print) simp
  then show ?thesis
    using takeWhile_block [of "[a, b, c, 0]" "''24''"]
    by (simp add: ParseCIDR_def str d24 m24 Let_def andff mask_byte_def)
qed

end
