(* ===== verification/Cluster_Scope.thy ===== *)
theory Cluster_Scope
  imports Osc_Sdk Ip_Net
begin

text \<open>
  \<^verbatim>\<open>cloud/scope/cluster.go\<close>: the view the controllers have of an \<^verbatim>\<open>OscCluster\<close>. The methods
  that only read are functions of the scope (\<open>cs_\<close> and the name of the method); the ones that
  write the object or draw a random number are operations on the world. The generated subnets,
  NAT services, route tables and security groups are what the reconcilers build when the
  specification leaves them out.
\<close>

section \<open>Identity\<close>

abbreviation clusterUIDLabel :: string where "clusterUIDLabel \<equiv> ''outscale.com/clusterUID''"

definition cs_GetName :: "'w ClusterScope \<Rightarrow> string" where
  "cs_GetName cs = c_Name (csCluster cs)"

definition cs_GetNamespace :: "'w ClusterScope \<Rightarrow> string" where
  "cs_GetNamespace cs = c_Namespace (csCluster cs)"

definition cs_GetUID :: "'w ClusterScope \<Rightarrow> string" where
  "cs_GetUID cs =
     (case map_of (nmap_entries (Labels (cl_Meta (csOscCluster cs)))) clusterUIDLabel of
        Some explicitUID \<Rightarrow> explicitUID
      | None \<Rightarrow> c_UID (csCluster cs))"

text \<open>Updating the \<^verbatim>\<open>OscCluster\<close> a scope points to.\<close>

definition upd_OscCluster :: "(OscCluster \<Rightarrow> OscCluster) \<Rightarrow> ('w, 'z) World_scheme \<Rightarrow> ('w, 'z) World_scheme" where
  "upd_OscCluster f s = s\<lparr>scope := (scope s)\<lparr>csOscCluster := f (csOscCluster (scope s))\<rparr>\<rparr>"

definition upd_Status :: "(OscClusterStatus \<Rightarrow> OscClusterStatus) \<Rightarrow> ('w, 'z) World_scheme \<Rightarrow> ('w, 'z) World_scheme" where
  "upd_Status f = upd_OscCluster (\<lambda>c. c\<lparr>cl_Status := f (cl_Status c)\<rparr>)"

text \<open>Writing a key of a nil map panics.\<close>

definition cs_EnsureExplicitUID :: "('w, 'z, unit) Op" where
  "cs_EnsureExplicitUID = (\<lambda>s.
     (let cs = scope s; labels = Labels (cl_Meta (csOscCluster cs))
      in if map_of (nmap_entries labels) clusterUIDLabel \<noteq> None then (Ok (), s)
         else if labels = None then (Panic, s)
         else (Ok (), upd_OscCluster (\<lambda>c. c\<lparr>cl_Meta := (cl_Meta c)
                 \<lparr>Labels := nmap_put labels clusterUIDLabel (c_UID (csCluster cs))\<rparr>\<rparr>) s)))"

definition cs_GetRegion :: "'w ClusterScope \<Rightarrow> string" where
  "cs_GetRegion cs = tn_Region (csTenant cs)"

definition cs_GetNetwork :: "'w ClusterScope \<Rightarrow> OscNetwork" where
  "cs_GetNetwork cs = Network (cl_Spec (csOscCluster cs))"

abbreviation cs_ObjName :: "'w ClusterScope \<Rightarrow> string" where
  "cs_ObjName cs \<equiv> om_Name (cl_Meta (csOscCluster cs))"

section \<open>Net, subregions and subnets\<close>

definition cs_GetNet :: "'w ClusterScope \<Rightarrow> OscNet" where
  "cs_GetNet cs = (if OscNet_IsZero (Net (cs_GetNetwork cs)) then DefaultNet else Net (cs_GetNetwork cs))"

definition cs_GetNetName :: "'w ClusterScope \<Rightarrow> string" where
  "cs_GetNetName cs =
     (if net_Name (Net (cs_GetNetwork cs)) \<noteq> [] then net_Name (Net (cs_GetNetwork cs))
      else ''Net for '' @ cs_ObjName cs)"

definition cs_GetDefaultSubregion :: "'w ClusterScope \<Rightarrow> string" where
  "cs_GetDefaultSubregion cs =
     (case Subregions (cs_GetNetwork cs) of sr # _ \<Rightarrow> sr | [] \<Rightarrow> nw_SubregionName (cs_GetNetwork cs))"

definition cs_GetSubregions :: "'w ClusterScope \<Rightarrow> string list" where
  "cs_GetSubregions cs =
     (if Subregions (cs_GetNetwork cs) \<noteq> [] then Subregions (cs_GetNetwork cs)
      else [nw_SubregionName (cs_GetNetwork cs)])"

text \<open>The roles of the three subnets of a subregion, in the order they are generated.\<close>

definition subnetRoles :: "OscRole list list" where
  "subnetRoles = [[RoleLoadBalancer, RoleBastion, RoleNat], [RoleWorker], [RoleControlPlane]]"

text \<open>
  The body of the generating loop: \<^verbatim>\<open>net.IP[2]++\<close> (a byte, which wraps), then a subnet with the
  text of the block. The block is threaded through the loop, as the code mutates it.
\<close>

definition incr2 :: "IPNet \<Rightarrow> IPNet" where
  "incr2 n = n\<lparr>IP := (IP n)[2 := IP n ! 2 + 1]\<rparr>"

fun gen_subnets :: "(string \<times> OscRole list) list \<Rightarrow> IPNet \<Rightarrow> OscSubnet list" where
  "gen_subnets [] n = []"
| "gen_subnets ((fd, roles) # rest) n =
     (let n' = incr2 n
      in \<lparr>sn_Name = [], sn_Roles = roles, IpSubnetRange = IPNet_String n',
          sn_SubregionName = fd, sn_ResourceId = []\<rparr> # gen_subnets rest n')"

definition cs_GetSubnets :: "'w ClusterScope \<Rightarrow> OscSubnet list" where
  "cs_GetSubnets cs =
     (if Subnets (cs_GetNetwork cs) \<noteq> [] then Subnets (cs_GetNetwork cs)
      else case ParseCIDR (net_IpRange (cs_GetNet cs)) of
        None \<Rightarrow> []
      | Some net \<Rightarrow>
          (let fds = cs_GetSubregions cs;
               net' = (incr2 net)\<lparr>Mask := (Mask net)[1 := 255, 2 := 255]\<rparr>
           in gen_subnets (List.product fds subnetRoles) net'))"

definition cs_SubnetHasRole :: "'w ClusterScope \<Rightarrow> OscSubnet \<Rightarrow> OscRole \<Rightarrow> bool" where
  "cs_SubnetHasRole cs spec role =
     (let nw = cs_GetNetwork cs in
      if sn_Roles spec \<noteq> [] then role \<in> set (sn_Roles spec)
      else if sn_Name spec \<in> set (ControlPlaneSubnets nw) \<or> str_contains (sn_Name spec) ''kcp''
      then role = RoleControlPlane
      else if lb_SubnetName (LoadBalancer nw) \<noteq> [] \<and> sn_Name spec = lb_SubnetName (LoadBalancer nw)
      then role = RoleLoadBalancer \<or> role = RoleBastion \<or> role = RoleNat
      else role = RoleWorker)"

definition cs_SubnetIsPublic :: "'w ClusterScope \<Rightarrow> OscSubnet \<Rightarrow> bool" where
  "cs_SubnetIsPublic cs spec \<longleftrightarrow>
     cs_SubnetHasRole cs spec RoleBastion \<or> cs_SubnetHasRole cs spec RoleLoadBalancer \<or>
     cs_SubnetHasRole cs spec RoleNat"

definition cs_GetSubnetSubregion :: "'w ClusterScope \<Rightarrow> OscSubnet \<Rightarrow> string" where
  "cs_GetSubnetSubregion cs spec =
     (if sn_SubregionName spec \<noteq> [] then sn_SubregionName spec else cs_GetDefaultSubregion cs)"

fun find_subnet :: "'w ClusterScope \<Rightarrow> string \<Rightarrow> OscRole \<Rightarrow> string \<Rightarrow> OscSubnet list \<Rightarrow> gerror + OscSubnet" where
  "find_subnet cs name role subregion [] = Inl ErrNoSubnetFound"
| "find_subnet cs name role subregion (spec # specs) =
     (if name \<noteq> [] \<and> sn_Name spec = name then Inr spec
      else if \<not> cs_SubnetHasRole cs spec role then find_subnet cs name role subregion specs
      else if cs_GetSubnetSubregion cs spec = subregion then Inr spec
      else find_subnet cs name role subregion specs)"

definition cs_GetSubnet :: "'w ClusterScope \<Rightarrow> string \<Rightarrow> OscRole \<Rightarrow> string \<Rightarrow> gerror + OscSubnet" where
  "cs_GetSubnet cs name role subregion =
     find_subnet cs name role (if subregion = [] then cs_GetDefaultSubregion cs else subregion) (cs_GetSubnets cs)"

definition cs_GetSubnetName :: "'w ClusterScope \<Rightarrow> OscSubnet \<Rightarrow> string" where
  "cs_GetSubnetName cs spec =
     (let fd = cs_GetSubnetSubregion cs spec in
      if sn_Name spec \<noteq> [] then sn_Name spec
      else if cs_SubnetIsPublic cs spec then ''Public subnet for '' @ cs_ObjName cs @ ''/'' @ fd
      else if cs_SubnetHasRole cs spec RoleControlPlane then ''Controlplane subnet for '' @ cs_ObjName cs @ ''/'' @ fd
      else if cs_SubnetHasRole cs spec RoleWorker then ''Worker subnet for '' @ cs_ObjName cs @ ''/'' @ fd
      else ''Subnet for '' @ cs_ObjName cs @ ''/'' @ fd)"

definition cs_IsInternetDisabled :: "'w ClusterScope \<Rightarrow> bool" where
  "cs_IsInternetDisabled cs \<longleftrightarrow> DisableInternet \<in> set (Disable (cs_GetNetwork cs))"

definition cs_IsLBDisabled :: "'w ClusterScope \<Rightarrow> bool" where
  "cs_IsLBDisabled cs \<longleftrightarrow> DisableLB \<in> set (Disable (cs_GetNetwork cs))"

definition cs_GetInternetServiceName :: "'w ClusterScope \<Rightarrow> string" where
  "cs_GetInternetServiceName cs =
     (if is_Name (InternetService (cs_GetNetwork cs)) \<noteq> [] then is_Name (InternetService (cs_GetNetwork cs))
      else ''Internet Service for '' @ cs_ObjName cs)"

section \<open>NAT services and route tables\<close>

definition cs_GetNatServices :: "'w ClusterScope \<Rightarrow> OscNatService list" where
  "cs_GetNatServices cs =
     (let nw = cs_GetNetwork cs in
      if cs_IsInternetDisabled cs then []
      else if reuse_Net (UseExisting nw) then []
      else if NatServices nw \<noteq> [] then NatServices nw
      else if NatService nw \<noteq> zero_OscNatService then [NatService nw]
      else map (\<lambda>subnet. zero_OscNatService
                  \<lparr>nat_SubregionName := cs_GetSubnetSubregion cs subnet, nat_SubnetName := sn_Name subnet\<rparr>)
             (filter (\<lambda>subnet. cs_SubnetHasRole cs subnet RoleNat) (cs_GetSubnets cs)))"

fun find_nat :: "'w ClusterScope \<Rightarrow> string \<Rightarrow> OscNatService list \<Rightarrow> gerror + OscNatService" where
  "find_nat cs subregion [] = Inl ErrNoNatFound"
| "find_nat cs subregion (spec # specs) =
     (let spec' = (if nat_SubregionName spec = [] then spec\<lparr>nat_SubregionName := cs_GetDefaultSubregion cs\<rparr> else spec)
      in if nat_SubregionName spec' = subregion \<or> subregion = [] then Inr spec' else find_nat cs subregion specs)"

definition cs_GetNatService :: "'w ClusterScope \<Rightarrow> string \<Rightarrow> string \<Rightarrow> gerror + OscNatService" where
  "cs_GetNatService cs name subregion =
     (let nats = cs_GetNatServices cs in
      if name \<noteq> [] then
        (case filter (\<lambda>spec. nat_Name spec = name) nats of spec # _ \<Rightarrow> Inr spec | [] \<Rightarrow> Inl ErrNoNatFound)
      else if length nats = 1 then Inr (hd nats)
      else find_nat cs subregion nats)"

definition cs_GetNatServiceName :: "'w ClusterScope \<Rightarrow> OscNatService \<Rightarrow> string" where
  "cs_GetNatServiceName cs ns =
     (if nat_Name ns \<noteq> [] then nat_Name ns
      else ''Nat service for '' @ cs_ObjName cs @
        (if nat_SubregionName ns \<noteq> [] then ''/'' @ nat_SubregionName ns else []))"

definition cs_GetNatServiceClientToken :: "'w ClusterScope \<Rightarrow> OscNatService \<Rightarrow> string" where
  "cs_GetNatServiceClientToken cs ns =
     (if nat_Name ns \<noteq> [] then
        (let ct = nat_Name ns @ ''-'' @ cs_GetUID cs in if length ct > 64 then str_last 64 ct else ct)
      else nat_SubregionName ns @ ''-'' @ cs_GetUID cs)"

definition cs_GetRouteTables :: "'w ClusterScope \<Rightarrow> OscRouteTable list" where
  "cs_GetRouteTables cs =
     (if RouteTables (cs_GetNetwork cs) \<noteq> [] then RouteTables (cs_GetNetwork cs)
      else map (\<lambda>subnet.
        \<lparr>rt_Name = cs_GetSubnetName cs subnet,
         rt_Subnets = (if sn_Name subnet \<noteq> [] then [sn_Name subnet] else []),
         rt_Role = (case sn_Roles subnet of role # _ \<Rightarrow> role | [] \<Rightarrow> []),
         rt_SubregionName = cs_GetSubnetSubregion cs subnet,
         rt_Routes =
           (if cs_IsInternetDisabled cs then []
            else if cs_SubnetIsPublic cs subnet
            then [zero_OscRoute\<lparr>Destination := ''0.0.0.0/0'', TargetType := ''gateway''\<rparr>]
            else [zero_OscRoute\<lparr>Destination := ''0.0.0.0/0'', TargetType := ''nat''\<rparr>])\<rparr>)
        (cs_GetSubnets cs))"

section \<open>Security groups\<close>

definition cs_HasIPRestriction :: "'w ClusterScope \<Rightarrow> bool" where
  "cs_HasIPRestriction cs \<longleftrightarrow> AllowFromIPRanges (cs_GetNetwork cs) \<noteq> []"

definition getAdditionalRules :: "'w ClusterScope \<Rightarrow> OscRole list \<Rightarrow> OscSecurityGroupRule list" where
  "getAdditionalRules cs roles =
     (case filter (\<lambda>ar. roles = ar_Roles ar) (AdditionalSecurityRules (cs_GetNetwork cs)) of
        ar # _ \<Rightarrow> Rules ar | [] \<Rightarrow> [])"

text \<open>The composite literals of the code: a rule with a list of ranges, and one with a single range.\<close>

definition rulesRanges :: "string \<Rightarrow> string \<Rightarrow> int \<Rightarrow> int \<Rightarrow> string list \<Rightarrow> OscSecurityGroupRule" where
  "rulesRanges flow proto from to ranges = zero_OscSecurityGroupRule
     \<lparr>Flow := flow, rule_IpProtocol := proto, rule_FromPortRange := from, rule_ToPortRange := to, rule_IpRanges := ranges\<rparr>"

definition rulesRange :: "string \<Rightarrow> string \<Rightarrow> int \<Rightarrow> int \<Rightarrow> string \<Rightarrow> OscSecurityGroupRule" where
  "rulesRange flow proto from to rng = zero_OscSecurityGroupRule
     \<lparr>Flow := flow, rule_IpProtocol := proto, rule_FromPortRange := from, rule_ToPortRange := to, rule_IpRange := rng\<rparr>"

text \<open>
  The code clones the list and its rules before appending, so the specification is not
  written; a function of the specification says the same. The outbound loop runs after the
  inbound one.
\<close>

definition getManualSecurityGroups :: "'w ClusterScope \<Rightarrow> OscSecurityGroup list" where
  "getManualSecurityGroups cs =
     (let nw = cs_GetNetwork cs; allowedIn = AllowFromIPRanges nw; allowedOut = AllowToIPRanges nw in
      if allowedIn = [] \<and> allowedOut = [] then SecurityGroups nw
      else map (\<lambda>sg. sg\<lparr>SecurityGroupRules := SecurityGroupRules sg
             @ (if allowedIn \<noteq> [] \<and> RoleLoadBalancer \<in> set (sg_Roles sg)
                then [rulesRanges ''Inbound'' ''tcp'' 6443 6443 allowedIn] else [])
             @ (if allowedIn \<noteq> [] \<and> RoleBastion \<in> set (sg_Roles sg)
                then [rulesRanges ''Inbound'' ''tcp'' 22 22 allowedIn] else [])
             @ (if allowedOut \<noteq> [] \<and>
                   (RoleWorker \<in> set (sg_Roles sg) \<and> RoleControlPlane \<in> set (sg_Roles sg) \<or> RoleBastion \<in> set (sg_Roles sg))
                then [rulesRanges ''Outbound'' ''-1'' (-1) (-1) allowedOut] else [])\<rparr>)
           (SecurityGroups nw))"

text \<open>The three lists of ranges collected over the subnets: all nodes, control plane, bastion.\<close>

fun subnetRanges :: "'w ClusterScope \<Rightarrow> OscSubnet list \<Rightarrow> string list \<times> string list \<times> string list
    \<Rightarrow> string list \<times> string list \<times> string list" where
  "subnetRanges cs [] acc = acc"
| "subnetRanges cs (sn # sns) (allSN, allSNCP, allSNBastion) =
     (let allSNBastion = (if cs_SubnetHasRole cs sn RoleBastion then allSNBastion @ [IpSubnetRange sn] else allSNBastion) in
      if cs_SubnetIsPublic cs sn then subnetRanges cs sns (allSN, allSNCP, allSNBastion)
      else
        (let allSNCP = (if cs_SubnetHasRole cs sn RoleControlPlane then allSNCP @ [IpSubnetRange sn] else allSNCP)
         in subnetRanges cs sns (allSN @ [IpSubnetRange sn], allSNCP, allSNBastion)))"

definition getAutomaticSecurityGroups :: "'w ClusterScope \<Rightarrow> OscSecurityGroup list" where
  "getAutomaticSecurityGroups cs =
     (let nw = cs_GetNetwork cs; name = cs_GetName cs; netRange = net_IpRange (cs_GetNet cs);
          (allSN, allSNCP, allSNBastion) = subnetRanges cs (cs_GetSubnets cs) ([], [], []);
          allowedIn = (if AllowFromIPRanges nw = [] then [''0.0.0.0/0''] else AllowFromIPRanges nw);
          lb = \<lparr>sg_Name = name @ ''-lb'', Description = ''LB securityGroup for '' @ name,
                SecurityGroupRules =
                  [rulesRanges ''Inbound'' ''tcp'' 6443 6443 allowedIn,
                   rulesRanges ''Outbound'' ''tcp'' 6443 6443 allSNCP] @ getAdditionalRules cs [RoleLoadBalancer],
                sg_ResourceId = [], Tag = [], sg_Roles = [RoleLoadBalancer], Authoritative = True\<rparr>;
          worker = \<lparr>sg_Name = name @ ''-worker'', Description = ''Worker securityGroup for '' @ name,
                SecurityGroupRules =
                  [rulesRanges ''Inbound'' ''tcp'' 443 443 allSNCP,
                   rulesRanges ''Inbound'' ''tcp'' 1024 65535 allSNCP,
                   rulesRanges ''Inbound'' ''tcp'' 10250 10250 allSN] @ getAdditionalRules cs [RoleWorker],
                sg_ResourceId = [], Tag = [], sg_Roles = [RoleWorker], Authoritative = True\<rparr>;
          controlplane = \<lparr>sg_Name = name @ ''-controlplane'', Description = ''Controlplane securityGroup for '' @ name,
                SecurityGroupRules =
                  [rulesRange ''Inbound'' ''tcp'' 6443 6443 netRange,
                   rulesRanges ''Inbound'' ''tcp'' 2378 2380 allSNCP,
                   rulesRanges ''Inbound'' ''tcp'' 10250 10252 allSNCP] @ getAdditionalRules cs [RoleControlPlane],
                sg_ResourceId = [], Tag = [], sg_Roles = [RoleControlPlane], Authoritative = True\<rparr>;
          allowedOut = (case AllowToIPRanges nw of
                          [] \<Rightarrow> [''0.0.0.0/0''] | r # rs \<Rightarrow> if r = [] then [] else r # rs);
          outbound = (if allowedOut \<noteq> [] then [rulesRanges ''Outbound'' ''-1'' (-1) (-1) allowedOut] else []);
          node = \<lparr>sg_Name = name @ ''-node'', Description = ''Node securityGroup for '' @ name,
                SecurityGroupRules =
                  [rulesRange ''Inbound'' ''tcp'' 179 179 netRange,
                   rulesRange ''Inbound'' ''udp'' 4789 4789 netRange,
                   rulesRange ''Inbound'' ''udp'' 5473 5473 netRange,
                   rulesRange ''Inbound'' ''udp'' 8285 8285 netRange,
                   rulesRange ''Inbound'' ''udp'' 51820 51821 netRange,
                   rulesRange ''Inbound'' ''4'' (-1) (-1) netRange,
                   rulesRange ''Inbound'' ''icmp'' 8 8 netRange,
                   rulesRange ''Inbound'' ''tcp'' 4240 4240 netRange,
                   rulesRange ''Inbound'' ''tcp'' 4244 4244 netRange,
                   rulesRange ''Inbound'' ''udp'' 8472 8472 netRange,
                   rulesRange ''Inbound'' ''udp'' 51871 51871 netRange,
                   rulesRange ''Inbound'' ''tcp'' 30000 32767 netRange,
                   rulesRange ''Outbound'' ''-1'' (-1) (-1) netRange]
                  @ outbound @ getAdditionalRules cs [RoleControlPlane, RoleWorker],
                sg_ResourceId = [], Tag = ''OscK8sMainSG'', sg_Roles = [RoleControlPlane, RoleWorker],
                Authoritative = True\<rparr>
      in if \<not> bn_Enable (Bastion nw) then [lb, worker, controlplane, node]
         else
           (let node = node\<lparr>SecurityGroupRules := SecurityGroupRules node
                  @ [rulesRanges ''Inbound'' ''tcp'' 22 22 allSNBastion]\<rparr>;
                bastion = \<lparr>sg_Name = name @ ''-bastion'', Description = ''Bastion securityGroup for '' @ name,
                  SecurityGroupRules =
                    [rulesRanges ''Inbound'' ''tcp'' 22 22 allowedIn,
                     rulesRange ''Outbound'' ''tcp'' 22 22 netRange]
                    @ outbound @ getAdditionalRules cs [RoleBastion],
                  sg_ResourceId = [], Tag = [], sg_Roles = [RoleBastion], Authoritative = True\<rparr>
            in [lb, worker, controlplane, node, bastion]))"

definition cs_GetSecurityGroups :: "'w ClusterScope \<Rightarrow> OscSecurityGroup list" where
  "cs_GetSecurityGroups cs =
     (if SecurityGroups (cs_GetNetwork cs) \<noteq> [] then getManualSecurityGroups cs else getAutomaticSecurityGroups cs)"

fun getSecurityGroupsForNames :: "'w ClusterScope \<Rightarrow> OscSecurityGroupElement list \<Rightarrow> gerror + OscSecurityGroup list" where
  "getSecurityGroupsForNames cs [] = Inr []"
| "getSecurityGroupsForNames cs (name # names) =
     (case filter (\<lambda>spec. sg_Name spec = sge_Name name) (cs_GetSecurityGroups cs) of
        [] \<Rightarrow> Inl ErrNoSecurityGroupFound
      | spec # _ \<Rightarrow> (case getSecurityGroupsForNames cs names of Inl e \<Rightarrow> Inl e | Inr sgs \<Rightarrow> Inr (spec # sgs)))"

definition cs_GetSecurityGroupsFor :: "'w ClusterScope \<Rightarrow> OscSecurityGroupElement list \<Rightarrow> OscRole
    \<Rightarrow> gerror + OscSecurityGroup list" where
  "cs_GetSecurityGroupsFor cs names role =
     (if names \<noteq> [] then getSecurityGroupsForNames cs names
      else Inr (filter (\<lambda>spec. HasRole spec role) (cs_GetSecurityGroups cs)))"

definition cs_GetSecurityGroupName :: "'w ClusterScope \<Rightarrow> OscSecurityGroup \<Rightarrow> string" where
  "cs_GetSecurityGroupName cs sg =
     (if sg_Name sg \<noteq> [] then sg_Name sg @ ''-'' @ cs_GetUID cs
      else cs_GetName cs @ ''-'' @ concat (map (\<lambda>role. role @ ''-'') (sg_Roles sg)) @ cs_GetUID cs)"

section \<open>Status, load balancer, bastion\<close>

text \<open>A failure domain is its \<^verbatim>\<open>ControlPlane\<close> flag, the only field the controllers set.\<close>

definition cs_SetFailureDomain :: "string \<Rightarrow> bool \<Rightarrow> ('w, 'z, unit) Op" where
  "cs_SetFailureDomain fd spec = modify (upd_Status (\<lambda>st. st
     \<lparr>FailureDomains := Some (AList.update fd spec (case FailureDomains st of None \<Rightarrow> [] | Some m \<Rightarrow> m))\<rparr>))"

definition cs_GetLoadBalancer :: "'w ClusterScope \<Rightarrow> OscLoadBalancer" where
  "cs_GetLoadBalancer cs =
     (let lb = LoadBalancer (cs_GetNetwork cs);
          lb = (if LoadBalancerName lb = [] then lb\<lparr>LoadBalancerName := cs_GetName cs @ ''-k8s''\<rparr> else lb)
      in OscLoadBalancer_SetDefaultValue lb)"

definition cs_GetIpSubnetRange :: "'w ClusterScope \<Rightarrow> string \<Rightarrow> string" where
  "cs_GetIpSubnetRange cs name =
     (case filter (\<lambda>subnet. sn_Name subnet = name) (Subnets (cs_GetNetwork cs)) of
        subnet # _ \<Rightarrow> IpSubnetRange subnet | [] \<Rightarrow> [])"

definition cs_GetSecurityGroupRule :: "'w ClusterScope \<Rightarrow> string \<Rightarrow> OscSecurityGroupRule list" where
  "cs_GetSecurityGroupRule cs name =
     (case filter (\<lambda>sg. sg_Name sg = name) (SecurityGroups (cs_GetNetwork cs)) of
        sg # _ \<Rightarrow> SecurityGroupRules sg | [] \<Rightarrow> [])"

definition cs_SetControlPlaneEndpoint :: "APIEndpoint \<Rightarrow> ('w, 'z, unit) Op" where
  "cs_SetControlPlaneEndpoint ep = modify (upd_OscCluster (\<lambda>c. c\<lparr>cl_Spec := (cl_Spec c)\<lparr>ControlPlaneEndpoint := ep\<rparr>\<rparr>))"

definition cs_GetControlPlaneEndpoint :: "'w ClusterScope \<Rightarrow> APIEndpoint" where
  "cs_GetControlPlaneEndpoint cs = ControlPlaneEndpoint (cl_Spec (csOscCluster cs))"

definition cs_GetControlPlaneEndpointHost :: "'w ClusterScope \<Rightarrow> string" where
  "cs_GetControlPlaneEndpointHost cs = Host (ControlPlaneEndpoint (cl_Spec (csOscCluster cs)))"

definition cs_GetControlPlaneEndpointPort :: "'w ClusterScope \<Rightarrow> int" where
  "cs_GetControlPlaneEndpointPort cs = ep_Port (ControlPlaneEndpoint (cl_Spec (csOscCluster cs)))"

definition cs_GetReady :: "'w ClusterScope \<Rightarrow> bool" where
  "cs_GetReady cs = cl_Ready (cl_Status (csOscCluster cs))"

definition cs_SetNotReady :: "('w, 'z, unit) Op" where
  "cs_SetNotReady = modify (upd_Status (\<lambda>st. st\<lparr>cl_Ready := False\<rparr>))"

definition cs_SetReady :: "('w, 'z, unit) Op" where
  "cs_SetReady = modify (upd_Status (\<lambda>st. st\<lparr>cl_Ready := True\<rparr>))"

definition cs_GetBastion :: "'w ClusterScope \<Rightarrow> OscBastion" where
  "cs_GetBastion cs =
     (if \<not> bn_Enable (Bastion (cs_GetNetwork cs)) then zero_OscBastion
      else OscBastion_SetDefaultValue (Bastion (cs_GetNetwork cs)))"

definition cs_GetBastionName :: "'w ClusterScope \<Rightarrow> string" where
  "cs_GetBastionName cs =
     (if bn_Name (Bastion (cs_GetNetwork cs)) \<noteq> [] then bn_Name (Bastion (cs_GetNetwork cs))
      else ''Bastion for '' @ cs_GetName cs)"

definition cs_GetBastionClientToken :: "'w ClusterScope \<Rightarrow> string" where
  "cs_GetBastionClientToken cs =
     (let name = bn_Name (Bastion (cs_GetNetwork cs)) in
      if name \<noteq> [] then
        (let ct = name @ ''-'' @ cs_GetUID cs in if length ct > 64 then str_last 64 ct else ct)
      else ''bastion-'' @ cs_GetUID cs)"

definition cs_GetBastionPrivateIps :: "'w ClusterScope \<Rightarrow> OscPrivateIpElement list" where
  "cs_GetBastionPrivateIps cs = bn_PrivateIps (cs_GetBastion cs)"

definition cs_GetBastionSecurityGroups :: "'w ClusterScope \<Rightarrow> OscSecurityGroupElement list" where
  "cs_GetBastionSecurityGroups cs = bn_SecurityGroupNames (cs_GetBastion cs)"

definition cs_SetVmState :: "VmState \<Rightarrow> ('w, 'z, unit) Op" where
  "cs_SetVmState v = modify (upd_Status (\<lambda>st. st\<lparr>cl_VmState := Some v\<rparr>))"

definition cs_GetVmState :: "'w ClusterScope \<Rightarrow> VmState option" where
  "cs_GetVmState cs = cl_VmState (cl_Status (csOscCluster cs))"

definition cs_GetResources :: "'w ClusterScope \<Rightarrow> OscClusterResources" where
  "cs_GetResources cs = cl_Resources (cl_Status (csOscCluster cs))"

text \<open>Writing through the pointer \<^verbatim>\<open>GetResources\<close> returns.\<close>

definition upd_Resources :: "(OscClusterResources \<Rightarrow> OscClusterResources) \<Rightarrow> ('w, 'z) World_scheme \<Rightarrow> ('w, 'z) World_scheme" where
  "upd_Resources f = upd_Status (\<lambda>st. st\<lparr>cl_Resources := f (cl_Resources st)\<rparr>)"

section \<open>Reconciliation rules and generations\<close>

definition getreconciliationRule :: "'w ClusterScope \<Rightarrow> Reconciler \<Rightarrow> OscReconciliationRule" where
  "getreconciliationRule cs reconciler =
     (case filter (\<lambda>r. ReconcilerAll \<in> set (AppliesTo r) \<or> reconciler \<in> set (AppliesTo r))
             (ReconciliationRules (cs_GetNetwork cs)) of
        r # _ \<Rightarrow> r
      | [] \<Rightarrow>
          if reconciler = ReconcilerSecurityGroup
          then zero_OscReconciliationRule\<lparr>Mode := ReconciliationModeRandom, ReconciliationChance := 10\<rparr>
          else zero_OscReconciliationRule\<lparr>Mode := ReconciliationModeOnChange\<rparr>)"

text \<open>The recorded generation of a reconciler: 0 when the map has no entry.\<close>

definition recorded_generation :: "(Reconciler \<times> int) list \<Rightarrow> Reconciler \<Rightarrow> int" where
  "recorded_generation m reconciler = (case map_of m reconciler of None \<Rightarrow> 0 | Some g \<Rightarrow> g)"

definition cs_Rand :: "('w, 'z, int) Op" where
  "cs_Rand = bind (rand_IntN 100) (\<lambda>n. ret (int n))"

definition cs_NeedReconciliation :: "Reconciler \<Rightarrow> ('w, 'z, bool) Op" where
  "cs_NeedReconciliation reconciler =
     bind (gets scope) (\<lambda>cs.
       case cl_ReconcilerGeneration (cl_Status (csOscCluster cs)) of
         None \<Rightarrow> ret True
       | Some m \<Rightarrow>
           if recorded_generation m reconciler < Generation (cl_Meta (csOscCluster cs)) then ret True
           else
             (let r = getreconciliationRule cs reconciler in
              if Mode r = ReconciliationModeAlways then ret True
              else if Mode r = ReconciliationModeRandom
              then bind cs_Rand (\<lambda>n. ret (n < ReconciliationChance r))
              else ret False))"

definition cs_SetReconciliationGeneration :: "Reconciler \<Rightarrow> ('w, 'z, unit) Op" where
  "cs_SetReconciliationGeneration reconciler = modify (upd_OscCluster (\<lambda>c. c\<lparr>cl_Status := (cl_Status c)
     \<lparr>cl_ReconcilerGeneration := Some (AList.update reconciler (Generation (cl_Meta c))
        (case cl_ReconcilerGeneration (cl_Status c) of None \<Rightarrow> [] | Some m \<Rightarrow> m))\<rparr>\<rparr>))"

section \<open>Machines of the cluster\<close>

text \<open>
  The machines of the namespace whose infrastructure is an \<^verbatim>\<open>OscMachine\<close> of this cluster, paired
  with it by name. The code fills a map in list order, so the last machine of a name wins.
\<close>

definition oscMachineGroupKind :: string where
  "oscMachineGroupKind = ''OscMachine.infrastructure.cluster.x-k8s.io''"

definition cs_ListMachines :: "'w Env \<Rightarrow> 'w ClusterScope \<Rightarrow> gerror + (CapiMachine \<times> OscMachine) list" where
  "cs_ListMachines E cs =
     (case listMachines E (cs_GetNamespace cs) of
        Inl e \<Rightarrow> Inl e
      | Inr ms \<Rightarrow>
          (let byName = map_of (rev (map (\<lambda>m. (m_InfraName m, m))
                 (filter (\<lambda>m. m_ClusterName m = c_Name (csCluster cs) \<and> m_InfraGroupKind m = oscMachineGroupKind) ms)))
           in case listOscMachines E (cs_GetNamespace cs) of
                Inl e \<Rightarrow> Inl e
              | Inr oscms \<Rightarrow> Inr (List.map_filter
                  (\<lambda>oscm. map_option (\<lambda>m. (m, oscm)) (byName (om_Name (ma_Meta oscm)))) oscms)))"

text \<open>A pair is a machine of this cluster with its \<^verbatim>\<open>OscMachine\<close>, and no \<^verbatim>\<open>OscMachine\<close> with a machine is missed.\<close>

lemma ListMachines_complete:
  assumes "listMachines E (cs_GetNamespace cs) = Inr ms" and "listOscMachines E (cs_GetNamespace cs) = Inr oscms"
    and "m \<in> set ms" "m_ClusterName m = c_Name (csCluster cs)" "m_InfraGroupKind m = oscMachineGroupKind"
    and "oscm \<in> set oscms" "om_Name (ma_Meta oscm) = m_InfraName m"
  shows "\<exists>ps. cs_ListMachines E cs = Inr ps \<and> oscm \<in> snd ` set ps"
proof -
  define own where "own = map (\<lambda>m. (m_InfraName m, m))
      (filter (\<lambda>m. m_ClusterName m = c_Name (csCluster cs) \<and> m_InfraGroupKind m = oscMachineGroupKind) ms)"
  have "m_InfraName m \<in> fst ` set (rev own)" using assms(3,4,5) by (force simp: own_def)
  then obtain m' where "map_of (rev own) (om_Name (ma_Meta oscm)) = Some m'"
    unfolding assms(7) by (metis map_of_eq_None_iff not_Some_eq)
  then show ?thesis
    using assms(1,2,6) by (force simp: cs_ListMachines_def own_def Let_def in_set_map_filter image_iff)
qed

lemma ListMachines_sound:
  assumes "cs_ListMachines E cs = Inr ps" and "(m, oscm) \<in> set ps"
  shows "\<exists>ms oscms. listMachines E (cs_GetNamespace cs) = Inr ms \<and> listOscMachines E (cs_GetNamespace cs) = Inr oscms \<and>
    m \<in> set ms \<and> oscm \<in> set oscms \<and> m_ClusterName m = c_Name (csCluster cs) \<and>
    m_InfraGroupKind m = oscMachineGroupKind \<and> m_InfraName m = om_Name (ma_Meta oscm)"
  using assms by (auto simp: cs_ListMachines_def Let_def in_set_map_filter split: sum.splits dest!: map_of_SomeD)

end
