(* ===== verification/Net_Services.thy ===== *)
theory Net_Services
  imports Cluster_Scope
begin

text \<open>
  \<^verbatim>\<open>cloud/services/tag\<close>, \<^verbatim>\<open>cloud/services/net\<close> and \<^verbatim>\<open>cloud/utils\<close>: the thin layer between the
  controllers and the SDK. Each function names the tenant whose client it uses and issues its
  requests in order; a creation is followed by the request that tags the new resource. A
  pointer result is an option, \<open>None\<close> when nothing was found.
\<close>

section \<open>Utilities\<close>

definition first_of :: "'a list \<Rightarrow> 'a option" where
  "first_of xs = (case xs of [] \<Rightarrow> None | x # _ \<Rightarrow> Some x)"

text \<open>\<^verbatim>\<open>utils.Map\<close> keeps the items the function accepts.\<close>

primrec utils_Map :: "'e list \<Rightarrow> ('e \<Rightarrow> 'f option) \<Rightarrow> 'f list" where
  "utils_Map [] fn = []"
| "utils_Map (x # xs) fn = (case fn x of None \<Rightarrow> utils_Map xs fn | Some y \<Rightarrow> y # utils_Map xs fn)"

text \<open>\<^verbatim>\<open>strings.TrimPrefix\<close>.\<close>

definition str_trim_prefix :: "string \<Rightarrow> string \<Rightarrow> string" where
  "str_trim_prefix s p = (if str_has_prefix s p then drop (length p) s else s)"

abbreviation newline :: string where "newline \<equiv> [CHR 0x0A]"

text \<open>The entries are written in the iteration order of the map.\<close>

definition ConvertsTagsToUserDataOutscaleSection :: "nmap \<Rightarrow> string" where
  "ConvertsTagsToUserDataOutscaleSection tags =
     (if nmap_entries tags = [] then []
      else ''-----BEGIN OUTSCALE SECTION-----'' @ newline
         @ ''filter_private_section=true'' @ newline
         @ concat (map (\<lambda>(key, value). ''tags.'' @ str_trim_prefix key ''tags.'' @ ''='' @ value @ newline) (nmap_entries tags))
         @ ''-----END OUTSCALE SECTION-----'' @ newline)"

abbreviation tag :: "string \<Rightarrow> string \<Rightarrow> ResourceTag" where
  "tag k v \<equiv> \<lparr>Key = k, Value = v\<rparr>"

definition RoleTags :: "OscRole list \<Rightarrow> ResourceTag list" where
  "RoleTags roles = concat (map (\<lambda>role.
     tag (''OscK8sRole/'' @ role) [] #
       (if role = RoleService then [tag ''kubernetes.io/role/elb'' []]
        else if role = RoleInternalService then [tag ''kubernetes.io/role/internal-elb'' []] else [])) roles)"

text \<open>\<^verbatim>\<open>%q\<close> of a string of printable characters.\<close>

definition str_quote :: "string \<Rightarrow> string" where
  "str_quote s = [CHR 0x22] @ concat (map (\<lambda>c. if c = CHR 0x22 \<or> c = CHR 0x5C then [CHR 0x5C, c] else [c]) s) @ [CHR 0x22]"

section \<open>Tags\<close>

abbreviation NetResourceType :: string where "NetResourceType \<equiv> ''vpc''"
abbreviation NetPeeringResourceType :: string where "NetPeeringResourceType \<equiv> ''vpc-peering-connection''"
abbreviation SubnetResourceType :: string where "SubnetResourceType \<equiv> ''subnet''"
abbreviation InternetServiceResourceType :: string where "InternetServiceResourceType \<equiv> ''internet-service''"
abbreviation NetAccessPointResourceType :: string where "NetAccessPointResourceType \<equiv> ''internet-service''"
abbreviation NatResourceType :: string where "NatResourceType \<equiv> ''natgateway''"
abbreviation VmResourceType :: string where "VmResourceType \<equiv> ''instance''"
abbreviation RouteTableResourceType :: string where "RouteTableResourceType \<equiv> ''route-table''"
abbreviation SecurityGroupResourceType :: string where "SecurityGroupResourceType \<equiv> ''security-group''"
abbreviation PublicIPResourceType :: string where "PublicIPResourceType \<equiv> ''public-ip''"
abbreviation FlexibleGPUResourceType :: string where "FlexibleGPUResourceType \<equiv> ''flexible-gpu''"
abbreviation NameKey :: string where "NameKey \<equiv> ''Name''"
abbreviation ClusterKeyPrefix :: string where "ClusterKeyPrefix \<equiv> ''OscK8sClusterID/''"
abbreviation OwnedValue :: string where "OwnedValue \<equiv> ''owned''"

definition svc_AddTag :: "'w Tenant \<Rightarrow> string list \<Rightarrow> ResourceTag list \<Rightarrow> ('w, 'z, unit) Op" where
  "svc_AddTag t ids tags = sdk sdkUnit t (CreateTagsRequest ids tags)"

definition svc_ReadTag :: "'w Tenant \<Rightarrow> string \<Rightarrow> string \<Rightarrow> string \<Rightarrow> ('w, 'z, osc_Tag option) Op" where
  "svc_ReadTag t rsrcType key val =
     bind (sdk sdkTags t (ReadTagsRequest [rsrcType] [key] [val])) (\<lambda>tags. ret (first_of tags))"

definition svc_ReadOwnedByTag :: "'w Tenant \<Rightarrow> string \<Rightarrow> string \<Rightarrow> ('w, 'z, osc_Tag option) Op" where
  "svc_ReadOwnedByTag t rsrcType cluster = svc_ReadTag t rsrcType (ClusterKeyPrefix @ cluster) OwnedValue"

definition ValidateTagNameValue :: "string \<Rightarrow> gerror + string" where
  "ValidateTagNameValue v =
     (if length v \<le> 255 \<and> list_all (\<lambda>c. let n = (of_char c :: nat) in
           48 \<le> n \<and> n \<le> 57 \<or> 65 \<le> n \<and> n \<le> 90 \<or> 97 \<le> n \<and> n \<le> 122 \<or> n = 45) v
      then Inr v else Inl (ErrorsNew ''Invalid Tag Name''))"

text \<open>The tags every created resource gets: its name, and the cluster that owns it.\<close>

definition clusterTag :: "string \<Rightarrow> ResourceTag" where
  "clusterTag clusterID = tag (''OscK8sClusterID/'' @ clusterID) ''owned''"

section \<open>Nets\<close>

definition svc_CreateNet :: "'w Tenant \<Rightarrow> OscNet \<Rightarrow> string \<Rightarrow> string \<Rightarrow> ('w, 'z, osc_Net) Op" where
  "svc_CreateNet t spec clusterID netName =
     bind (sdk sdkNet t (CreateNetRequest (net_IpRange spec))) (\<lambda>net.
     andThen (svc_AddTag t [o_NetId net] [tag ''Name'' netName, clusterTag clusterID]) (ret net))"

definition svc_DeleteNet :: "'w Tenant \<Rightarrow> string \<Rightarrow> ('w, 'z, unit) Op" where
  "svc_DeleteNet t netId = sdk sdkUnit t (DeleteNetRequest netId)"

definition svc_GetNet :: "'w Tenant \<Rightarrow> string \<Rightarrow> ('w, 'z, osc_Net option) Op" where
  "svc_GetNet t netId = bind (sdk sdkNets t (ReadNetsRequest [netId])) (\<lambda>nets. ret (first_of nets))"

section \<open>Subnets\<close>

definition svc_CreateSubnet :: "'w Tenant \<Rightarrow> OscSubnet \<Rightarrow> string \<Rightarrow> string \<Rightarrow> string \<Rightarrow> ('w, 'z, osc_Subnet) Op" where
  "svc_CreateSubnet t spec netId clusterID subnetName =
     bind (sdk sdkSubnet t (CreateSubnetRequest (IpSubnetRange spec) netId (sn_SubregionName spec))) (\<lambda>subnet.
     andThen (svc_AddTag t [o_SubnetId subnet]
       (RoleTags (sn_Roles spec) @ [tag ''Name'' subnetName, clusterTag clusterID])) (ret subnet))"

definition svc_DeleteSubnet :: "'w Tenant \<Rightarrow> string \<Rightarrow> ('w, 'z, unit) Op" where
  "svc_DeleteSubnet t subnetId = sdk sdkUnit t (DeleteSubnetRequest subnetId)"

definition svc_GetSubnet :: "'w Tenant \<Rightarrow> string \<Rightarrow> ('w, 'z, osc_Subnet option) Op" where
  "svc_GetSubnet t subnetId =
     bind (sdk sdkSubnets t (ReadSubnetsRequest (Some [subnetId]) None None)) (\<lambda>sns. ret (first_of sns))"

definition svc_GetSubnetFromNet :: "'w Tenant \<Rightarrow> string \<Rightarrow> string \<Rightarrow> ('w, 'z, osc_Subnet option) Op" where
  "svc_GetSubnetFromNet t netId ipRange =
     bind (sdk sdkSubnets t (ReadSubnetsRequest None (Some [netId]) (Some [ipRange]))) (\<lambda>sns. ret (first_of sns))"

section \<open>Internet services\<close>

definition svc_CreateInternetService :: "'w Tenant \<Rightarrow> string \<Rightarrow> string \<Rightarrow> ('w, 'z, osc_InternetService) Op" where
  "svc_CreateInternetService t internetServiceName clusterID =
     bind (sdk sdkInternetService t CreateInternetServiceRequest) (\<lambda>isv.
     andThen (svc_AddTag t [o_InternetServiceId isv] [tag ''Name'' internetServiceName, clusterTag clusterID]) (ret isv))"

definition svc_DeleteInternetService :: "'w Tenant \<Rightarrow> string \<Rightarrow> ('w, 'z, unit) Op" where
  "svc_DeleteInternetService t isvId = sdk sdkUnit t (DeleteInternetServiceRequest isvId)"

definition svc_LinkInternetService :: "'w Tenant \<Rightarrow> string \<Rightarrow> string \<Rightarrow> ('w, 'z, unit) Op" where
  "svc_LinkInternetService t isvId netId = sdk sdkUnit t (LinkInternetServiceRequest isvId netId)"

definition svc_UnlinkInternetService :: "'w Tenant \<Rightarrow> string \<Rightarrow> string \<Rightarrow> ('w, 'z, unit) Op" where
  "svc_UnlinkInternetService t isvId netId = sdk sdkUnit t (UnlinkInternetServiceRequest isvId netId)"

definition svc_GetInternetService :: "'w Tenant \<Rightarrow> string \<Rightarrow> ('w, 'z, osc_InternetService option) Op" where
  "svc_GetInternetService t isvId =
     bind (sdk sdkInternetServices t (ReadInternetServicesRequest (Some [isvId]) None)) (\<lambda>xs. ret (first_of xs))"

definition svc_GetInternetServiceForNet :: "'w Tenant \<Rightarrow> string \<Rightarrow> ('w, 'z, osc_InternetService option) Op" where
  "svc_GetInternetServiceForNet t netId =
     bind (sdk sdkInternetServices t (ReadInternetServicesRequest None (Some [netId]))) (\<lambda>xs. ret (first_of xs))"

section \<open>NAT services\<close>

definition svc_CreateNatService :: "'w Tenant \<Rightarrow> string \<Rightarrow> string \<Rightarrow> string \<Rightarrow> string \<Rightarrow> string \<Rightarrow> ('w, 'z, osc_NatService) Op" where
  "svc_CreateNatService t publicIpId subnetId clientToken natServiceName clusterID =
     bind (sdk sdkNatService t (CreateNatServiceRequest publicIpId clientToken subnetId)) (\<lambda>ns.
     andThen (svc_AddTag t [o_NatServiceId ns] [tag ''Name'' natServiceName, clusterTag clusterID]) (ret ns))"

definition svc_DeleteNatService :: "'w Tenant \<Rightarrow> string \<Rightarrow> ('w, 'z, unit) Op" where
  "svc_DeleteNatService t natServiceId = sdk sdkUnit t (DeleteNatServiceRequest natServiceId)"

definition svc_GetNatService :: "'w Tenant \<Rightarrow> string \<Rightarrow> ('w, 'z, osc_NatService option) Op" where
  "svc_GetNatService t natServiceId =
     bind (sdk sdkNatServices t (ReadNatServicesRequest (Some [natServiceId]) None None)) (\<lambda>xs. ret (first_of xs))"

definition svc_GetNatServiceFromClientToken :: "'w Tenant \<Rightarrow> string \<Rightarrow> ('w, 'z, osc_NatService option) Op" where
  "svc_GetNatServiceFromClientToken t clientToken =
     bind (sdk sdkNatServices t (ReadNatServicesRequest None (Some [clientToken]) None)) (\<lambda>xs. ret (first_of xs))"

definition svc_ListNatServices :: "'w Tenant \<Rightarrow> string \<Rightarrow> ('w, 'z, osc_NatService list) Op" where
  "svc_ListNatServices t netId = sdk sdkNatServices t (ReadNatServicesRequest None None (Some [netId]))"

section \<open>Net access points\<close>

definition netAccessPointServiceName :: "string \<Rightarrow> string \<Rightarrow> string" where
  "netAccessPointServiceName region service = ''com.outscale.'' @ region @ ''.'' @ service"

definition svc_CreateNetAccessPoint :: "'w Tenant \<Rightarrow> string \<Rightarrow> string \<Rightarrow> string \<Rightarrow> string list \<Rightarrow> string
    \<Rightarrow> ('w, 'z, osc_NetAccessPoint) Op" where
  "svc_CreateNetAccessPoint t netId region service rtblIds clusterID =
     bind (sdk sdkNetAccessPoint t
       (CreateNetAccessPointRequest netId (netAccessPointServiceName region service) rtblIds)) (\<lambda>nap.
     andThen (svc_AddTag t [o_NetAccessPointId nap] [clusterTag clusterID]) (ret nap))"

definition svc_DeleteNetAccessPoint :: "'w Tenant \<Rightarrow> string \<Rightarrow> ('w, 'z, unit) Op" where
  "svc_DeleteNetAccessPoint t napId = sdk sdkUnit t (DeleteNetAccessPointRequest napId)"

definition svc_ListNetAccessPoints :: "'w Tenant \<Rightarrow> string \<Rightarrow> ('w, 'z, osc_NetAccessPoint list) Op" where
  "svc_ListNetAccessPoints t netId =
     sdk sdkNetAccessPoints t (ReadNetAccessPointsRequest None (Some [netId]) None (Some [''pending'', ''available'']))"

definition svc_GetNetAccessPoint :: "'w Tenant \<Rightarrow> string \<Rightarrow> ('w, 'z, osc_NetAccessPoint option) Op" where
  "svc_GetNetAccessPoint t napId =
     bind (sdk sdkNetAccessPoints t (ReadNetAccessPointsRequest (Some [napId]) None None None)) (\<lambda>xs. ret (first_of xs))"

definition svc_GetNetAccessPointFor :: "'w Tenant \<Rightarrow> string \<Rightarrow> string \<Rightarrow> string \<Rightarrow> ('w, 'z, osc_NetAccessPoint option) Op" where
  "svc_GetNetAccessPointFor t netId region service =
     bind (sdk sdkNetAccessPoints t (ReadNetAccessPointsRequest None (Some [netId])
       (Some [netAccessPointServiceName region service]) None)) (\<lambda>xs. ret (first_of xs))"

section \<open>Net peerings\<close>

definition svc_CreateNetPeering :: "'w Tenant \<Rightarrow> string \<Rightarrow> string \<Rightarrow> string \<Rightarrow> string \<Rightarrow> ('w, 'z, osc_NetPeering) Op" where
  "svc_CreateNetPeering t netID mgmtNetID mgmtAccountID clusterID =
     bind (sdk sdkNetPeering t (CreateNetPeeringRequest netID mgmtNetID mgmtAccountID)) (\<lambda>np.
     andThen (svc_AddTag t [o_NetPeeringId np] [clusterTag clusterID]) (ret np))"

definition svc_AcceptNetPeering :: "'w Tenant \<Rightarrow> string \<Rightarrow> ('w, 'z, unit) Op" where
  "svc_AcceptNetPeering t netPeeringID = sdk sdkUnit t (AcceptNetPeeringRequest netPeeringID)"

definition svc_DeleteNetPeering :: "'w Tenant \<Rightarrow> string \<Rightarrow> ('w, 'z, unit) Op" where
  "svc_DeleteNetPeering t netPeeringID = sdk sdkUnit t (DeleteNetPeeringRequest netPeeringID)"

definition svc_GetNetPeering :: "'w Tenant \<Rightarrow> string \<Rightarrow> ('w, 'z, osc_NetPeering option) Op" where
  "svc_GetNetPeering t netPeeringID =
     bind (sdk sdkNetPeerings t (ReadNetPeeringsRequest (Some [netPeeringID]) None None None)) (\<lambda>xs. ret (first_of xs))"

definition svc_GetNetPeeringFromNet :: "'w Tenant \<Rightarrow> string \<Rightarrow> string \<Rightarrow> string \<Rightarrow> ('w, 'z, osc_NetPeering option) Op" where
  "svc_GetNetPeeringFromNet t netID mgmtNetID mgmtAccountID =
     bind (sdk sdkNetPeerings t (ReadNetPeeringsRequest None (Some [netID]) (Some [mgmtNetID]) (Some [mgmtAccountID])))
       (\<lambda>xs. ret (first_of xs))"

definition svc_ListNetPeerings :: "'w Tenant \<Rightarrow> string \<Rightarrow> ('w, 'z, osc_NetPeering list) Op" where
  "svc_ListNetPeerings t netId =
     bind (sdk sdkNetPeerings t (ReadNetPeeringsRequest None (Some [netId]) None None)) (\<lambda>xs.
     bind (sdk sdkNetPeerings t (ReadNetPeeringsRequest None None (Some [netId]) None)) (\<lambda>ys.
     ret (xs @ ys)))"

section \<open>Public IPs\<close>

abbreviation PublicIPPoolTag :: string where "PublicIPPoolTag \<equiv> ''OscK8sIPPool''"
abbreviation NoDeleteTag :: string where "NoDeleteTag \<equiv> ''OscK8sNoDelete''"

definition svc_CreatePublicIp :: "'w Tenant \<Rightarrow> string \<Rightarrow> string \<Rightarrow> ('w, 'z, osc_PublicIp) Op" where
  "svc_CreatePublicIp t publicIpName clusterID =
     bind (sdk sdkPublicIp t CreatePublicIpRequest) (\<lambda>ip.
     andThen (svc_AddTag t [o_PublicIpId ip] [tag ''Name'' publicIpName, clusterTag clusterID]) (ret ip))"

definition svc_DeletePublicIp :: "'w Tenant \<Rightarrow> string \<Rightarrow> ('w, 'z, unit) Op" where
  "svc_DeletePublicIp t publicIpId = sdk sdkUnit t (DeletePublicIpRequest publicIpId)"

definition svc_GetPublicIp :: "'w Tenant \<Rightarrow> string \<Rightarrow> ('w, 'z, osc_PublicIp option) Op" where
  "svc_GetPublicIp t publicIpId =
     bind (sdk sdkPublicIps t (ReadPublicIpsRequest (Some [publicIpId]) None None None)) (\<lambda>xs. ret (first_of xs))"

definition svc_GetPublicIpByIp :: "'w Tenant \<Rightarrow> string \<Rightarrow> ('w, 'z, osc_PublicIp option) Op" where
  "svc_GetPublicIpByIp t publicIp =
     bind (sdk sdkPublicIps t (ReadPublicIpsRequest None (Some [publicIp]) None None)) (\<lambda>xs. ret (first_of xs))"

definition svc_ListPublicIpsFromPool :: "'w Tenant \<Rightarrow> string \<Rightarrow> ('w, 'z, osc_PublicIp list) Op" where
  "svc_ListPublicIpsFromPool t pool =
     sdk sdkPublicIps t (ReadPublicIpsRequest None None (Some [PublicIPPoolTag]) (Some [pool]))"

definition svc_ValidatePublicIpIds :: "'w Tenant \<Rightarrow> string list \<Rightarrow> ('w, 'z, string list) Op" where
  "svc_ValidatePublicIpIds t publicIpIds =
     bind (sdk sdkPublicIps t (ReadPublicIpsRequest (Some publicIpIds) None None None)) (\<lambda>ips. ret (map o_PublicIpId ips))"

definition CanDelete :: "'w Env \<Rightarrow> osc_PublicIp \<Rightarrow> bool" where
  "CanDelete E ip \<longleftrightarrow> \<not> tagsHas E (o_PublicIpTags ip) (tagsPublicIPPool E) \<and> \<not> tagsHas E (o_PublicIpTags ip) NoDeleteTag"

section \<open>Route tables\<close>

definition svc_CreateRouteTable :: "'w Env \<Rightarrow> 'w Tenant \<Rightarrow> string \<Rightarrow> string \<Rightarrow> string \<Rightarrow> ('w, 'z, osc_RouteTable) Op" where
  "svc_CreateRouteTable E t netId clusterID routeTableName =
     bind (sdk sdkRouteTable t (CreateRouteTableRequest netId)) (\<lambda>rt.
     andThen (svc_AddTag t [o_RouteTableId rt]
       [tag ''Name'' routeTableName, tag (tagsClusterIDKey E clusterID) ''owned'']) (ret rt))"

definition svc_CreateRoute :: "'w Tenant \<Rightarrow> string \<Rightarrow> string \<Rightarrow> string \<Rightarrow> string \<Rightarrow> ('w, 'z, osc_RouteTable) Op" where
  "svc_CreateRoute t destinationIpRange routeTableId resourceId resourceType =
     (if resourceType = ''gateway''
      then sdk sdkRouteTable t (CreateRouteRequest destinationIpRange routeTableId (Some resourceId) None None)
      else if resourceType = ''nat''
      then sdk sdkRouteTable t (CreateRouteRequest destinationIpRange routeTableId None (Some resourceId) None)
      else if resourceType = ''netPeering''
      then sdk sdkRouteTable t (CreateRouteRequest destinationIpRange routeTableId None None (Some resourceId))
      else raise (ErrorsNew (''invalid type '' @ str_quote resourceType)))"

definition svc_DeleteRouteTable :: "'w Tenant \<Rightarrow> string \<Rightarrow> ('w, 'z, unit) Op" where
  "svc_DeleteRouteTable t routeTableId = sdk sdkUnit t (DeleteRouteTableRequest routeTableId)"

definition svc_DeleteRoute :: "'w Tenant \<Rightarrow> string \<Rightarrow> string \<Rightarrow> ('w, 'z, unit) Op" where
  "svc_DeleteRoute t destinationIpRange routeTableId = sdk sdkUnit t (DeleteRouteRequest destinationIpRange routeTableId)"

definition svc_GetRouteTable :: "'w Tenant \<Rightarrow> string \<Rightarrow> ('w, 'z, osc_RouteTable option) Op" where
  "svc_GetRouteTable t routeTableId =
     bind (sdk sdkRouteTables t (ReadRouteTablesRequest (Some [routeTableId]) None None None None)) (\<lambda>xs. ret (first_of xs))"

definition svc_GetRouteTableFromRoute :: "'w Tenant \<Rightarrow> string \<Rightarrow> string \<Rightarrow> string \<Rightarrow> ('w, 'z, osc_RouteTable option) Op" where
  "svc_GetRouteTableFromRoute t routeTableId resourceId resourceType =
     (if resourceType = ''gateway''
      then bind (sdk sdkRouteTables t (ReadRouteTablesRequest (Some [routeTableId]) (Some [resourceId]) None None None))
             (\<lambda>xs. ret (first_of xs))
      else if resourceType = ''nat''
      then bind (sdk sdkRouteTables t (ReadRouteTablesRequest (Some [routeTableId]) None (Some [resourceId]) None None))
             (\<lambda>xs. ret (first_of xs))
      else raise (ErrorsNew ''invalid Type''))"

definition svc_LinkRouteTable :: "'w Tenant \<Rightarrow> string \<Rightarrow> string \<Rightarrow> ('w, 'z, string) Op" where
  "svc_LinkRouteTable t routeTableId subnetId = sdk sdkLinkRouteTableId t (LinkRouteTableRequest routeTableId subnetId)"

definition svc_UnlinkRouteTable :: "'w Tenant \<Rightarrow> string \<Rightarrow> ('w, 'z, unit) Op" where
  "svc_UnlinkRouteTable t linkRouteTableId = sdk sdkUnit t (UnlinkRouteTableRequest linkRouteTableId)"

definition svc_GetRouteTablesFromNet :: "'w Tenant \<Rightarrow> string \<Rightarrow> ('w, 'z, osc_RouteTable list) Op" where
  "svc_GetRouteTablesFromNet t netId =
     sdk sdkRouteTables t (ReadRouteTablesRequest None None None (Some [netId]) (Some False))"

section \<open>Load balancers\<close>

definition svc_ConfigureHealthCheck :: "'w Tenant \<Rightarrow> OscLoadBalancer \<Rightarrow> ('w, 'z, osc_LoadBalancer) Op" where
  "svc_ConfigureHealthCheck t spec =
     sdk sdkLoadBalancer t (UpdateLoadBalancerRequest (LoadBalancerName spec) (HealthCheck spec))"

definition svc_LinkLoadBalancerBackendMachines :: "'w Tenant \<Rightarrow> string list \<Rightarrow> string \<Rightarrow> ('w, 'z, unit) Op" where
  "svc_LinkLoadBalancerBackendMachines t vmIds lbName = sdk sdkUnit t (LinkLoadBalancerBackendMachinesRequest vmIds lbName)"

definition svc_UnlinkLoadBalancerBackendMachines :: "'w Tenant \<Rightarrow> string list \<Rightarrow> string \<Rightarrow> ('w, 'z, unit) Op" where
  "svc_UnlinkLoadBalancerBackendMachines t vmIds lbName = sdk sdkUnit t (UnlinkLoadBalancerBackendMachinesRequest vmIds lbName)"

definition svc_GetLoadBalancer :: "'w Tenant \<Rightarrow> string \<Rightarrow> ('w, 'z, osc_LoadBalancer option) Op" where
  "svc_GetLoadBalancer t lbName =
     bind (sdk sdkLoadBalancers t (ReadLoadBalancersRequest [lbName])) (\<lambda>xs. ret (first_of xs))"

definition svc_CreateLoadBalancerTag :: "'w Tenant \<Rightarrow> OscLoadBalancer \<Rightarrow> ResourceTag \<Rightarrow> ('w, 'z, unit) Op" where
  "svc_CreateLoadBalancerTag t spec lbTag =
     sdk sdkUnit t (CreateLoadBalancerTagsRequest [LoadBalancerName spec] [lbTag])"

definition svc_CreateLoadBalancer :: "'w Tenant \<Rightarrow> OscLoadBalancer \<Rightarrow> string \<Rightarrow> string \<Rightarrow> ('w, 'z, osc_LoadBalancer) Op" where
  "svc_CreateLoadBalancer t spec subnetId securityGroupId =
     sdk sdkLoadBalancer t (CreateLoadBalancerRequest (LoadBalancerName spec) (LoadBalancerType spec)
       [\<lparr>lfc_BackendPort = BackendPort (Listener spec), lfc_BackendProtocol = BackendProtocol (Listener spec),
         lfc_LoadBalancerPort = LoadBalancerPort (Listener spec), lfc_LoadBalancerProtocol = LoadBalancerProtocol (Listener spec)\<rparr>]
       [securityGroupId] [subnetId])"

definition svc_DeleteLoadBalancer :: "'w Tenant \<Rightarrow> OscLoadBalancer \<Rightarrow> ('w, 'z, unit) Op" where
  "svc_DeleteLoadBalancer t spec = sdk sdkUnit t (DeleteLoadBalancerRequest (LoadBalancerName spec))"

text \<open>The tag to delete is given by its key.\<close>

definition svc_DeleteLoadBalancerTag :: "'w Tenant \<Rightarrow> OscLoadBalancer \<Rightarrow> string \<Rightarrow> ('w, 'z, unit) Op" where
  "svc_DeleteLoadBalancerTag t spec lbTagKey =
     sdk sdkUnit t (DeleteLoadBalancerTagsRequest [LoadBalancerName spec] [lbTagKey])"

end
