(* ===== verification/Ip_Allocator.thy ===== *)
theory Ip_Allocator
  imports Net_Services
begin

text \<open>
  \<^verbatim>\<open>controllers/publicip.go\<close>: public IPs are created or taken from a pool, remembered under a key,
  and given back. The allocator reaches the status of a cluster or of a machine through a
  getter and a setter, the two closures of the code, which are fields of the record here too.
  The interface \<open>ip_store\<close> states what the allocator relies on.
\<close>

record ('w, 'z) IPAllocator =
  getPublicIP :: "('w, 'z) World_scheme \<Rightarrow> string \<Rightarrow> string option"
  setPublicIP :: "string \<Rightarrow> string \<Rightarrow> ('w, 'z) World_scheme \<Rightarrow> ('w, 'z) World_scheme"

text \<open>The tenant of the cluster, \<^verbatim>\<open>clusterScope.Tenant\<close>.\<close>

abbreviation tenantOf :: "('w, 'z) World_scheme \<Rightarrow> 'w Tenant" where
  "tenantOf s \<equiv> csTenant (scope s)"

definition allocate :: "string \<Rightarrow> ('w, 'z, osc_PublicIp) Op" where
  "allocate name = bind (gets scope) (\<lambda>cs. svc_CreatePublicIp (csTenant cs) name (cs_GetUID cs))"

text \<open>The scan of the pool starts at a random offset and wraps around.\<close>

definition allocateFromPool :: "string \<Rightarrow> ('w, 'z, osc_PublicIp) Op" where
  "allocateFromPool pool =
     bind (gets tenantOf) (\<lambda>t.
     bind (wrap ''from pool: '' (svc_ListPublicIpsFromPool t pool)) (\<lambda>pips.
     if pips = [] then raise ErrEmptyPool
     else bind (rand_IntN (length pips)) (\<lambda>off.
       case first_of (filter (\<lambda>pip. o_LinkPublicIpId pip = None)
              (map (\<lambda>i. pips ! ((off + i) mod length pips)) [0..<length pips])) of
         Some pip \<Rightarrow> ret pip
       | None \<Rightarrow> raise ErrEmptyPool)))"

definition allocateNewIP :: "('w, 'z) IPAllocator \<Rightarrow> string \<Rightarrow> string \<Rightarrow> string \<Rightarrow> ('w, 'z, string \<times> string) Op" where
  "allocateNewIP a key name pool =
     bind (wrap ''allocate ip: '' (if pool \<noteq> [] then allocateFromPool pool else allocate name)) (\<lambda>pip.
     andThen (modify (setPublicIP a key (o_PublicIpId pip))) (ret (o_PublicIpId pip, o_PublicIp pip)))"

definition AllocateIP :: "('w, 'z) IPAllocator \<Rightarrow> string \<Rightarrow> string \<Rightarrow> string \<Rightarrow> ('w, 'z, string \<times> string) Op" where
  "AllocateIP a key name pool =
     bind (gets (\<lambda>s. getPublicIP a s key)) (\<lambda>tracked.
     case tracked of
       Some ipid \<Rightarrow>
         bind (gets tenantOf) (\<lambda>t.
         bind (wrap ''allocate ip: '' (svc_GetPublicIp t ipid)) (\<lambda>pip.
         case pip of
           None \<Rightarrow> allocateNewIP a key name pool
         | Some pip \<Rightarrow> if o_LinkPublicIpId pip \<noteq> None then allocateNewIP a key name pool
                       else ret (ipid, o_PublicIp pip)))
     | None \<Rightarrow> allocateNewIP a key name pool)"

definition RetrackIP :: "('w, 'z) IPAllocator \<Rightarrow> string \<Rightarrow> string \<Rightarrow> ('w, 'z, unit) Op" where
  "RetrackIP a key publicIp =
     (if publicIp = [] then ret ()
      else bind (gets (\<lambda>s. getPublicIP a s key)) (\<lambda>tracked.
        if tracked \<noteq> None \<and> tracked \<noteq> Some [] then ret ()
        else bind (gets tenantOf) (\<lambda>t.
          bind (wrap ''retrack ip: '' (svc_GetPublicIpByIp t publicIp)) (\<lambda>ip.
          case ip of None \<Rightarrow> ret () | Some ip \<Rightarrow> modify (setPublicIP a key (o_PublicIpId ip))))))"

definition DeallocateIP :: "'w Env \<Rightarrow> ('w, 'z) IPAllocator \<Rightarrow> string \<Rightarrow> ('w, 'z, unit) Op" where
  "DeallocateIP E a key =
     bind (gets (\<lambda>s. getPublicIP a s key)) (\<lambda>tracked.
     case tracked of
       None \<Rightarrow> ret ()
     | Some ipid \<Rightarrow>
         bind (gets tenantOf) (\<lambda>t.
         bind (wrap ''deallocate ip: '' (svc_GetPublicIp t ipid)) (\<lambda>pip.
         case pip of
           None \<Rightarrow> ret ()
         | Some pip \<Rightarrow>
             if o_LinkPublicIpId pip \<noteq> None then raise (ErrorsNew ''decallocate ip: IP is still linked'')
             else if \<not> CanDelete E pip then ret ()
             else wrap ''decallocate ip: '' (svc_DeletePublicIp t ipid))))"

section \<open>The store of public IPs\<close>

text \<open>
  What the allocator relies on: the setter is seen by the getter, the getter never answers the
  empty id, and neither requests nor draws change what is stored.
\<close>

locale ip_store =
  fixes a :: "('w, 'z) IPAllocator"
  assumes get_set: "rid \<noteq> [] \<Longrightarrow>
      getPublicIP a (setPublicIP a key rid s) key' = (if key' = key then Some rid else getPublicIP a s key')"
    and get_nonempty: "getPublicIP a s key \<noteq> Some []"
    and get_sdk: "getPublicIP a (s\<lparr>cloud := w, calls := c\<rparr>) = getPublicIP a s"
    and get_drawn: "getPublicIP a (s\<lparr>drawn := n\<rparr>) = getPublicIP a s"
    and set_calls: "calls (setPublicIP a key rid s) = calls s"
begin

lemma allocate_tracks:
  assumes "AllocateIP a key name pool s = (Ok (rid, ip), t)" and "rid \<noteq> []"
  shows "getPublicIP a t key = Some rid"
proof -
  have new: "getPublicIP a t key = Some rid"
    if "allocateNewIP a key name pool u = (Ok (rid, ip), t)" for u
    using that assms(2) by (auto simp: allocateNewIP_def ok_simps get_set)
  show ?thesis using assms(1) new
    by (auto simp: AllocateIP_def svc_GetPublicIp_def ok_simps get_sdk split: option.splits if_splits)
qed

text \<open>Giving back an IP reads it first, and deletes it only if it is unlinked and may be deleted.\<close>

lemma deallocate_safe:
  assumes "DeallocateIP E a key s = (r, t)"
  shows "calls t = calls s \<and> getPublicIP a s key = None \<or>
    (\<exists>rid. getPublicIP a s key = Some rid \<and>
      (calls t = calls s @ [ReadPublicIpsRequest (Some [rid]) None None None] \<or>
       calls t = calls s @ [ReadPublicIpsRequest (Some [rid]) None None None, DeletePublicIpRequest rid] \<and>
       (\<exists>pip ips w. sdkPublicIps (tn_Client (csTenant (scope s))) (ReadPublicIpsRequest (Some [rid]) None None None) (cloud s)
          = (Inr (pip # ips), w) \<and> o_LinkPublicIpId pip = None \<and> CanDelete E pip)))"
  using assms
  by (auto simp: DeallocateIP_def svc_GetPublicIp_def svc_DeletePublicIp_def run_simps first_of_def
      split: option.splits prod.splits sum.splits list.splits if_splits outcome.splits)

end

lemma scan_set:
  assumes "n = length xs" and "0 < n"
  shows "set (map (\<lambda>i. xs ! ((off + i) mod n)) [0..<n]) = set xs"
proof -
  have "rotate off xs = map (\<lambda>i. xs ! ((off + i) mod n)) [0..<n]"
    using assms by (intro nth_equalityI) (simp_all add: nth_rotate)
  then show ?thesis by (metis set_rotate)
qed

lemma first_of_filter:
  "first_of (filter P xs) = None \<longleftrightarrow> (\<forall>x \<in> set xs. \<not> P x)"
  "first_of (filter P xs) = Some x \<Longrightarrow> x \<in> set xs \<and> P x"
  by (auto simp: first_of_def filter_empty_conv split: list.splits dest: filter_eq_ConsD)

lemma pool_scan:
  assumes "sdkPublicIps (tn_Client (csTenant (scope s)))
      (ReadPublicIpsRequest None None (Some [PublicIPPoolTag]) (Some [pool])) (cloud s) = (Inr pips, w)"
  shows "case fst (allocateFromPool pool s) of
      Ok pip \<Rightarrow> pip \<in> set pips \<and> o_LinkPublicIpId pip = None
    | Err e \<Rightarrow> e = ErrEmptyPool \<and> (\<forall>pip \<in> set pips. o_LinkPublicIpId pip \<noteq> None)
    | Panic \<Rightarrow> False"
proof (cases "pips = []")
  case True
  then show ?thesis using assms by (simp add: allocateFromPool_def svc_ListPublicIpsFromPool_def run_simps)
next
  case False
  define off where "off = dice s (drawn s) mod length pips"
  define scan where "scan = map (\<lambda>i. pips ! ((off + i) mod length pips)) [0..<length pips]"
  have set_scan: "set scan = set pips" unfolding scan_def using False by (intro scan_set) auto
  have run: "fst (allocateFromPool pool s) =
      (case first_of (filter (\<lambda>p. o_LinkPublicIpId p = None) scan) of Some pip \<Rightarrow> Ok pip | None \<Rightarrow> Err ErrEmptyPool)"
    using assms False unfolding scan_def off_def
    by (simp add: allocateFromPool_def svc_ListPublicIpsFromPool_def run_simps rand_IntN_def split: option.split)
  show ?thesis
  proof (cases "first_of (filter (\<lambda>p. o_LinkPublicIpId p = None) scan)")
    case None
    then have "\<forall>pip \<in> set pips. o_LinkPublicIpId pip \<noteq> None"
      using set_scan by (simp only: first_of_filter(1))
    then show ?thesis by (simp only: run None option.case outcome.case simp_thms)
  next
    case (Some pip)
    from first_of_filter(2) [OF this] set_scan show ?thesis by (simp only: run Some option.case outcome.case simp_thms)
  qed
qed


end
