(* ===== verification/Compute_Services.thy ===== *)
theory Compute_Services
  imports Net_Services
begin

text \<open>
  \<^verbatim>\<open>cloud/services/compute\<close>: images, security groups and VMs, with the base64 encoding of the
  user data.
\<close>

section \<open>Base64\<close>

text \<open>\<^verbatim>\<open>base64.StdEncoding\<close>: three bytes give four characters, padded with an equals sign.\<close>

definition b64_char :: "nat \<Rightarrow> char" where
  "b64_char n = (if n < 26 then char_of (65 + n) else if n < 52 then char_of (71 + n)
     else if n < 62 then char_of (n - 4) else if n = 62 then CHR ''+'' else CHR ''/'')"

fun b64_EncodeToString :: "string \<Rightarrow> string" where
  "b64_EncodeToString [] = []"
| "b64_EncodeToString [a] =
     (let n = (of_char a :: nat) * 16 in [b64_char (n div 64), b64_char (n mod 64), CHR ''='', CHR ''=''])"
| "b64_EncodeToString [a, b] =
     (let n = ((of_char a :: nat) * 256 + of_char b) * 4
      in [b64_char (n div 4096), b64_char (n div 64 mod 64), b64_char (n mod 64), CHR ''=''])"
| "b64_EncodeToString (a # b # c # s) =
     (let n = ((of_char a :: nat) * 256 + of_char b) * 256 + of_char c
      in [b64_char (n div 262144), b64_char (n div 4096 mod 64), b64_char (n div 64 mod 64), b64_char (n mod 64)]
         @ b64_EncodeToString s)"

section \<open>Images\<close>

definition svc_GetImage :: "'w Tenant \<Rightarrow> string \<Rightarrow> ('w, 'z, osc_Image option) Op" where
  "svc_GetImage t imageId =
     bind (sdk sdkImages t (ReadImagesRequest (Some [imageId]) None None)) (\<lambda>xs. ret (first_of xs))"

definition svc_GetImageByName :: "'w Tenant \<Rightarrow> string \<Rightarrow> string \<Rightarrow> ('w, 'z, osc_Image option) Op" where
  "svc_GetImageByName t name accountId =
     bind (sdk sdkImages t (ReadImagesRequest None (Some [name]) (if accountId \<noteq> [] then Some [accountId] else None)))
       (\<lambda>xs. ret (first_of xs))"

section \<open>Security groups\<close>

definition svc_CreateSecurityGroup :: "'w Tenant \<Rightarrow> string \<Rightarrow> string \<Rightarrow> string \<Rightarrow> string \<Rightarrow> string \<Rightarrow> OscRole list
    \<Rightarrow> ('w, 'z, osc_SecurityGroup) Op" where
  "svc_CreateSecurityGroup t netId clusterID sgName sgDescription sgTag roles =
     bind (sdk sdkSecurityGroup t (CreateSecurityGroupRequest sgName sgDescription netId)) (\<lambda>sg.
     andThen (svc_AddTag t [o_SecurityGroupId sg] (RoleTags roles @ [clusterTag clusterID]))
     (andThen (whenM (sgTag = ''OscK8sMainSG'')
        (svc_AddTag t [o_SecurityGroupId sg] [tag (''OscK8sMainSG/'' @ clusterID) ''True'']))
     (ret sg)))"

text \<open>The rule of a request: towards a security group when only a member is given.\<close>

definition sdk_rule :: "string \<Rightarrow> string \<Rightarrow> string \<Rightarrow> int \<Rightarrow> int \<Rightarrow> osc_SecurityGroupRule" where
  "sdk_rule ipProtocol ipRange memberId fromPort toPort =
     \<lparr>o_FromPortRange = fromPort, o_ToPortRange = toPort, o_IpProtocol = ipProtocol,
      o_IpRanges = (if memberId \<noteq> [] \<and> ipRange = [] then [] else [ipRange]),
      o_SecurityGroupsMembers = (if memberId \<noteq> [] \<and> ipRange = [] then [memberId] else [])\<rparr>"

definition svc_CreateSecurityGroupRule :: "'w Tenant \<Rightarrow> string \<Rightarrow> string \<Rightarrow> string \<Rightarrow> string \<Rightarrow> string \<Rightarrow> int \<Rightarrow> int
    \<Rightarrow> ('w, 'z, osc_SecurityGroup) Op" where
  "svc_CreateSecurityGroupRule t sgId flow ipProtocol ipRange memberId fromPort toPort =
     (if memberId \<noteq> [] \<and> ipRange \<noteq> [] then raise (ErrorsNew ''ipRange and securityGroupMemberId are incompatible'')
      else sdk sdkSecurityGroup t
        (CreateSecurityGroupRuleRequest flow sgId [sdk_rule ipProtocol ipRange memberId fromPort toPort]))"

definition svc_DeleteSecurityGroupRule :: "'w Tenant \<Rightarrow> string \<Rightarrow> string \<Rightarrow> string \<Rightarrow> string \<Rightarrow> string \<Rightarrow> int \<Rightarrow> int
    \<Rightarrow> ('w, 'z, unit) Op" where
  "svc_DeleteSecurityGroupRule t sgId flow ipProtocol ipRange memberId fromPort toPort =
     sdk sdkUnit t (DeleteSecurityGroupRuleRequest flow sgId [sdk_rule ipProtocol ipRange memberId fromPort toPort])"

definition svc_DeleteSecurityGroup :: "'w Tenant \<Rightarrow> string \<Rightarrow> ('w, 'z, unit) Op" where
  "svc_DeleteSecurityGroup t sgId = sdk sdkUnit t (DeleteSecurityGroupRequest sgId)"

definition svc_GetSecurityGroup :: "'w Tenant \<Rightarrow> string \<Rightarrow> ('w, 'z, osc_SecurityGroup option) Op" where
  "svc_GetSecurityGroup t sgId =
     bind (sdk sdkSecurityGroups t (ReadSecurityGroupsRequest (Some [sgId]) None None)) (\<lambda>xs. ret (first_of xs))"

definition svc_GetSecurityGroupFromName :: "'w Tenant \<Rightarrow> string \<Rightarrow> ('w, 'z, osc_SecurityGroup option) Op" where
  "svc_GetSecurityGroupFromName t name =
     bind (sdk sdkSecurityGroups t (ReadSecurityGroupsRequest None (Some [name]) None)) (\<lambda>xs. ret (first_of xs))"

definition svc_SecurityGroupHasRule :: "'w Tenant \<Rightarrow> string \<Rightarrow> string \<Rightarrow> string \<Rightarrow> string \<Rightarrow> string \<Rightarrow> int \<Rightarrow> int
    \<Rightarrow> ('w, 'z, bool) Op" where
  "svc_SecurityGroupHasRule t sgId flow ipProtocols ipRanges memberId fromPorts toPorts =
     (let fromPorts = (if ipProtocols = ''-1'' then -1 else fromPorts);
          toPorts = (if ipProtocols = ''-1'' then -1 else toPorts)
      in if flow \<noteq> ''Inbound'' \<and> flow \<noteq> ''Outbound'' then raise (ErrorsNew ''invalid Flow'')
         else if memberId \<noteq> [] \<and> ipRanges \<noteq> []
         then raise (ErrorsNew ''ipRange and securityGroupMemberId are incompatible'')
         else bind (sdk sdkSecurityGroups t (ReadSecurityGroupsByRuleRequest sgId flow ipProtocols fromPorts toPorts
                (if memberId \<noteq> [] then Some [memberId] else None)
                (if memberId = [] \<and> ipRanges \<noteq> [] then Some [ipRanges] else None)))
              (\<lambda>sgs. ret (sgs \<noteq> [])))"

definition svc_GetSecurityGroupsFromNet :: "'w Tenant \<Rightarrow> string \<Rightarrow> ('w, 'z, osc_SecurityGroup list) Op" where
  "svc_GetSecurityGroupsFromNet t netId =
     sdk sdkSecurityGroups t (ReadSecurityGroupsRequest None None (Some [netId]))"

section \<open>VMs\<close>

abbreviation AutoAttachExternalIPTag :: string where "AutoAttachExternalIPTag \<equiv> ''osc.fcu.eip.auto-attach''"

text \<open>The root disk, with IOPS for the provisioned type only.\<close>

definition rootDiskMapping :: "OscRootDisk \<Rightarrow> string \<times> BsuToCreate" where
  "rootDiskMapping d = (''/dev/sda1'',
     \<lparr>bsu_VolumeType = RootDiskType d, bsu_VolumeSize = Some (RootDiskSize d),
      bsu_Iops = (if RootDiskType d = ''io1'' then Some (RootDiskIops d) else None), bsu_SnapshotId = None\<rparr>)"

text \<open>
  Reading the first VM of an empty answer panics, before the emptiness test that the code makes
  after tagging.
\<close>

definition svc_CreateVmBastion :: "'w Tenant \<Rightarrow> OscBastion \<Rightarrow> string \<Rightarrow> string list \<Rightarrow> string list \<Rightarrow> string \<Rightarrow> string
    \<Rightarrow> string \<Rightarrow> nmap \<Rightarrow> ('w, 'z, osc_Vm option) Op" where
  "svc_CreateVmBastion t spec subnetId securityGroupIds privateIps vmName vmClientToken imageId tags =
     bind (sdk sdkVms t (CreateVms
       \<lparr>cvm_ImageId = imageId, cvm_KeypairName = bn_KeypairName spec, cvm_VmType = bn_VmType spec,
        cvm_SubnetId = subnetId, cvm_SecurityGroupIds = securityGroupIds,
        cvm_UserData = b64_EncodeToString (ConvertsTagsToUserDataOutscaleSection tags),
        cvm_BlockDeviceMappings = [rootDiskMapping (bn_RootDisk spec)],
        cvm_ClientToken = vmClientToken, cvm_BootOnCreation = None,
        cvm_PrivateIps = (if privateIps \<noteq> [] then Some privateIps else None)\<rparr>)) (\<lambda>vms.
     case vms of
       [] \<Rightarrow> panic
     | vm # _ \<Rightarrow> andThen (svc_AddTag t [o_VmId vm] [tag ''Name'' vmName]) (ret (Some vm)))"

definition svc_DeleteVm :: "'w Tenant \<Rightarrow> string \<Rightarrow> ('w, 'z, unit) Op" where
  "svc_DeleteVm t vmId = sdk sdkUnit t (DeleteVmsRequest [vmId])"

definition svc_GetVm :: "'w Tenant \<Rightarrow> string \<Rightarrow> ('w, 'z, osc_Vm option) Op" where
  "svc_GetVm t vmId = bind (sdk sdkVms t (ReadVmsRequest (Some [vmId]) None)) (\<lambda>xs. ret (first_of xs))"

definition svc_GetVmFromClientToken :: "'w Tenant \<Rightarrow> string \<Rightarrow> ('w, 'z, osc_Vm option) Op" where
  "svc_GetVmFromClientToken t clientToken =
     bind (sdk sdkVms t (ReadVmsRequest None (Some [clientToken]))) (\<lambda>xs. ret (first_of xs))"

definition svc_StartVm :: "'w Tenant \<Rightarrow> string \<Rightarrow> ('w, 'z, unit) Op" where
  "svc_StartVm t vmId = sdk sdkUnit t (StartVmsRequest [vmId])"

definition svc_StopVm :: "'w Tenant \<Rightarrow> string \<Rightarrow> ('w, 'z, unit) Op" where
  "svc_StopVm t vmId = sdk sdkUnit t (StopVmsRequest [vmId])"

definition HasCCMTags :: "'w Env \<Rightarrow> osc_Vm \<Rightarrow> bool" where
  "HasCCMTags E vm = tagsHas E (o_VmTags vm) (tagsVmNodeName E)"

definition svc_AddCCMTags :: "'w Env \<Rightarrow> 'w Tenant \<Rightarrow> string \<Rightarrow> string \<Rightarrow> string \<Rightarrow> ('w, 'z, unit) Op" where
  "svc_AddCCMTags E t clusterName hostname vmId =
     svc_AddTag t [vmId] [tag (tagsVmNodeName E) hostname,
       tag (tagsClusterIDKey E clusterName) (tagsResourceLifecycleOwned E)]"

end
