(* ===== verification/Cluster_Tracker.thy ===== *)
theory Cluster_Tracker
  imports Ip_Allocator Compute_Services
begin

text \<open>
  \<^verbatim>\<open>controllers/osccluster_resources.go\<close> and \<^verbatim>\<open>resource_helpers.go\<close>: the tracker finds the cloud
  resources of a cluster. An id given in the specification wins, then the one recorded in the
  status, then a search in the cloud, whose result is recorded. A lookup that finds nothing
  fails with a wrapped \<open>ErrNoResourceFound\<close>; a recorded resource that has gone fails with
  \<open>ErrMissingResource\<close>.
\<close>

section \<open>Helpers\<close>

abbreviation defaultResource :: string where "defaultResource \<equiv> ''default''"
abbreviation bastionIPResourceKey :: string where "bastionIPResourceKey \<equiv> ''bastion''"

definition getResource :: "string \<Rightarrow> nmap \<Rightarrow> string" where
  "getResource name m = nmap_get m name"

definition IsNotFound :: "gerror \<Rightarrow> bool" where
  "IsNotFound err \<longleftrightarrow> errors_Is err ErrNoResourceFound \<or> errors_Is err ErrMissingResource"

text \<open>\<^verbatim>\<open>case x == nil: return nil, fmt.Errorf("...: %w", ErrMissingResource)\<close>.\<close>

definition orMissing :: "string \<Rightarrow> 'a option \<Rightarrow> ('s, 'a) M" where
  "orMissing pre x = (case x of None \<Rightarrow> raise (Errorf pre ErrMissingResource) | Some y \<Rightarrow> ret y)"

text \<open>The id of a found tag; the empty string when there is none.\<close>

definition tag_id :: "osc_Tag option \<Rightarrow> string" where
  "tag_id tg = (case tg of None \<Rightarrow> [] | Some tg \<Rightarrow> o_TagResourceId tg)"

section \<open>Net\<close>

definition put_Net :: "string \<Rightarrow> OscClusterResources \<Rightarrow> OscClusterResources" where
  "put_Net rid r = r\<lparr>rsrc_Net := nmap_put (rsrc_Net r) defaultResource rid\<rparr>"

definition setNetId :: "string \<Rightarrow> ('w, 'z, unit) Op" where
  "setNetId rid = modify (upd_Resources (put_Net rid))"

definition getNetId :: "('w, 'z, string) Op" where
  "getNetId =
     bind (gets scope) (\<lambda>cs.
     if net_ResourceId (cs_GetNet cs) \<noteq> [] then ret (net_ResourceId (cs_GetNet cs))
     else if getResource defaultResource (rsrc_Net (cs_GetResources cs)) \<noteq> []
     then ret (getResource defaultResource (rsrc_Net (cs_GetResources cs)))
     else bind (wrap ''get net: '' (svc_ReadOwnedByTag (csTenant cs) NetResourceType (cs_GetUID cs))) (\<lambda>tg.
       if tag_id tg \<noteq> [] then andThen (setNetId (tag_id tg)) (ret (tag_id tg))
       else if net_Name (cs_GetNet cs) \<noteq> []
       then bind (wrap ''get net: '' (svc_ReadTag (csTenant cs) NetResourceType NameKey
                    (net_Name (cs_GetNet cs) @ ''-'' @ cs_GetUID cs))) (\<lambda>tg.
         if tag_id tg \<noteq> [] then andThen (setNetId (tag_id tg)) (ret (tag_id tg))
         else raise (Errorf ''get net: '' ErrNoResourceFound))
       else raise (Errorf ''get net: '' ErrNoResourceFound)))"

definition getNet :: "('w, 'z, osc_Net) Op" where
  "getNet =
     bind getNetId (\<lambda>rid.
     bind (gets tenantOf) (\<lambda>t.
     bind (svc_GetNet t rid) (orMissing (''get net '' @ rid @ '': ''))))"

section \<open>Net peering\<close>

definition put_NetPeering :: "string \<Rightarrow> OscClusterResources \<Rightarrow> OscClusterResources" where
  "put_NetPeering rid r = r\<lparr>rsrc_NetPeering := nmap_put (rsrc_NetPeering r) defaultResource rid\<rparr>"

definition setNetPeeringId :: "string \<Rightarrow> ('w, 'z, unit) Op" where
  "setNetPeeringId rid = modify (upd_Resources (put_NetPeering rid))"

definition getNetPeeringId :: "('w, 'z, string) Op" where
  "getNetPeeringId =
     bind (gets scope) (\<lambda>cs.
     if getResource defaultResource (rsrc_NetPeering (cs_GetResources cs)) \<noteq> []
     then ret (getResource defaultResource (rsrc_NetPeering (cs_GetResources cs)))
     else bind (wrap ''get net peering: '' (svc_ReadOwnedByTag (csTenant cs) NetPeeringResourceType (cs_GetUID cs))) (\<lambda>tg.
       if tag_id tg \<noteq> [] then andThen (setNetPeeringId (tag_id tg)) (ret (tag_id tg))
       else raise (Errorf ''get net peering: '' ErrNoResourceFound)))"

definition getNetPeering :: "('w, 'z, osc_NetPeering) Op" where
  "getNetPeering =
     bind getNetPeeringId (\<lambda>rid.
     bind (gets tenantOf) (\<lambda>t.
     bind (svc_GetNetPeering t rid) (orMissing (''get net peering '' @ rid @ '': ''))))"

section \<open>Internet service\<close>

definition put_InternetService :: "string \<Rightarrow> OscClusterResources \<Rightarrow> OscClusterResources" where
  "put_InternetService rid r = r\<lparr>rsrc_InternetService := nmap_put (rsrc_InternetService r) defaultResource rid\<rparr>"

definition setInternetServiceId :: "string \<Rightarrow> ('w, 'z, unit) Op" where
  "setInternetServiceId rid = modify (upd_Resources (put_InternetService rid))"

definition getInternetServiceOrId :: "('w, 'z, osc_InternetService option \<times> string) Op" where
  "getInternetServiceOrId =
     bind (gets scope) (\<lambda>cs.
     if getResource defaultResource (rsrc_InternetService (cs_GetResources cs)) \<noteq> []
     then ret (None, getResource defaultResource (rsrc_InternetService (cs_GetResources cs)))
     else bind (wrap ''get net for internet service: '' getNetId) (\<lambda>netId.
       bind (wrap ''get internet service for net: '' (svc_GetInternetServiceForNet (csTenant cs) netId)) (\<lambda>is.
       case is of
         None \<Rightarrow> raise (Errorf ''get internet service: '' ErrNoResourceFound)
       | Some isv \<Rightarrow> andThen (setInternetServiceId (o_InternetServiceId isv)) (ret (Some isv, o_InternetServiceId isv)))))"

definition getInternetService :: "('w, 'z, osc_InternetService) Op" where
  "getInternetService =
     bind getInternetServiceOrId (\<lambda>(is, rid).
     case is of
       Some isv \<Rightarrow> ret isv
     | None \<Rightarrow>
         bind (gets tenantOf) (\<lambda>t.
         bind (svc_GetInternetService t rid) (orMissing (''get internet service '' @ rid @ '': ''))))"

definition getInternetServiceId :: "('w, 'z, string) Op" where
  "getInternetServiceId = bind getInternetServiceOrId (\<lambda>(_, rid). ret rid)"

section \<open>Net access points\<close>

definition put_NetAccessPoint :: "string \<Rightarrow> string \<Rightarrow> OscClusterResources \<Rightarrow> OscClusterResources" where
  "put_NetAccessPoint service rid r = r\<lparr>rsrc_NetAccessPoint := nmap_put (rsrc_NetAccessPoint r) service rid\<rparr>"

definition setNetAccessPointId :: "OscNetAccessPointService \<Rightarrow> string \<Rightarrow> ('w, 'z, unit) Op" where
  "setNetAccessPointId service rid = modify (upd_Resources (put_NetAccessPoint service rid))"

definition getNetAccessPointOrId :: "OscNetAccessPointService \<Rightarrow> ('w, 'z, osc_NetAccessPoint option \<times> string) Op" where
  "getNetAccessPointOrId service =
     bind (gets scope) (\<lambda>cs.
     if getResource service (rsrc_NetAccessPoint (cs_GetResources cs)) \<noteq> []
     then ret (None, getResource service (rsrc_NetAccessPoint (cs_GetResources cs)))
     else bind (wrap ''get net for net access point: '' getNetId) (\<lambda>netId.
       bind (wrap ''get net access point for net: ''
              (svc_GetNetAccessPointFor (csTenant cs) netId (tn_Region (csTenant cs)) service)) (\<lambda>nap.
       case nap of
         None \<Rightarrow> raise (Errorf ''get net access point: '' ErrNoResourceFound)
       | Some nap \<Rightarrow> andThen (setNetAccessPointId service (o_NetAccessPointId nap)) (ret (Some nap, o_NetAccessPointId nap)))))"

definition getNetAccessPoint :: "OscNetAccessPointService \<Rightarrow> ('w, 'z, osc_NetAccessPoint) Op" where
  "getNetAccessPoint service =
     bind (getNetAccessPointOrId service) (\<lambda>(nap, rid).
     case nap of
       Some nap \<Rightarrow> ret nap
     | None \<Rightarrow>
         bind (gets tenantOf) (\<lambda>t.
         bind (svc_GetNetAccessPoint t rid) (orMissing (''get net access point '' @ rid @ '': ''))))"

section \<open>Subnets\<close>

definition put_Subnet :: "OscSubnet \<Rightarrow> string \<Rightarrow> OscClusterResources \<Rightarrow> OscClusterResources" where
  "put_Subnet subnet rid r = r\<lparr>rsrc_Subnet := nmap_put (rsrc_Subnet r) (IpSubnetRange subnet) rid\<rparr>"

definition setSubnetId :: "OscSubnet \<Rightarrow> string \<Rightarrow> ('w, 'z, unit) Op" where
  "setSubnetId subnet rid = modify (upd_Resources (put_Subnet subnet rid))"

definition getSubnetOrId :: "OscSubnet \<Rightarrow> ('w, 'z, osc_Subnet option \<times> string) Op" where
  "getSubnetOrId subnet =
     (if sn_ResourceId subnet \<noteq> [] then ret (None, sn_ResourceId subnet)
      else bind (gets scope) (\<lambda>cs.
        if getResource (IpSubnetRange subnet) (rsrc_Subnet (cs_GetResources cs)) \<noteq> []
        then ret (None, getResource (IpSubnetRange subnet) (rsrc_Subnet (cs_GetResources cs)))
        else bind (wrap ''get net for subnet: '' getNetId) (\<lambda>netId.
          bind (wrap ''get subnet from net: '' (svc_GetSubnetFromNet (csTenant cs) netId (IpSubnetRange subnet))) (\<lambda>sn.
          case sn of
            None \<Rightarrow> raise (Errorf ''get subnet: '' ErrNoResourceFound)
          | Some sn \<Rightarrow> andThen (setSubnetId subnet (o_SubnetId sn)) (ret (Some sn, o_SubnetId sn))))))"

definition getSubnet :: "OscSubnet \<Rightarrow> ('w, 'z, osc_Subnet) Op" where
  "getSubnet subnet =
     bind (getSubnetOrId subnet) (\<lambda>(sn, rid).
     case sn of
       Some sn \<Rightarrow> ret sn
     | None \<Rightarrow>
         bind (gets tenantOf) (\<lambda>t.
         bind (svc_GetSubnet t rid) (orMissing (''get subnet '' @ rid @ '': ''))))"

definition getSubnetId :: "OscSubnet \<Rightarrow> ('w, 'z, string) Op" where
  "getSubnetId subnet = bind (getSubnetOrId subnet) (\<lambda>(_, rid). ret rid)"

section \<open>Public IPs\<close>

definition getPublicIps :: "'w ClusterScope \<Rightarrow> nmap" where
  "getPublicIps cs = rsrc_PublicIPs (cs_GetResources cs)"

definition put_PublicIP :: "string \<Rightarrow> string \<Rightarrow> OscClusterResources \<Rightarrow> OscClusterResources" where
  "put_PublicIP key rid r = r\<lparr>rsrc_PublicIPs := nmap_put (rsrc_PublicIPs r) key rid\<rparr>"

text \<open>The allocator of a cluster, with its two closures over the status.\<close>

definition cl_getPublicIP :: "('w, 'z) World_scheme \<Rightarrow> string \<Rightarrow> string option" where
  "cl_getPublicIP s key =
     (let ip = nmap_get (rsrc_PublicIPs (cs_GetResources (scope s))) key in if ip \<noteq> [] then Some ip else None)"

definition cl_setPublicIP :: "string \<Rightarrow> string \<Rightarrow> ('w, 'z) World_scheme \<Rightarrow> ('w, 'z) World_scheme" where
  "cl_setPublicIP key rid = upd_Resources (put_PublicIP key rid)"

definition cl_IPAllocator :: "('w, 'z) IPAllocator" where
  "cl_IPAllocator = \<lparr>getPublicIP = cl_getPublicIP, setPublicIP = cl_setPublicIP\<rparr>"

definition trackIP :: "string \<Rightarrow> string \<Rightarrow> ('w, 'z, unit) Op" where
  "trackIP key rid = modify (upd_Resources (put_PublicIP key rid))"

definition untrackIP :: "string \<Rightarrow> ('w, 'z, unit) Op" where
  "untrackIP name = modify (upd_Resources (\<lambda>r. r\<lparr>rsrc_PublicIPs := nmap_delete (rsrc_PublicIPs r) name\<rparr>))"

section \<open>NAT services\<close>

definition put_NatService :: "string \<Rightarrow> string \<Rightarrow> OscClusterResources \<Rightarrow> OscClusterResources" where
  "put_NatService token rid r = r\<lparr>rsrc_NatService := nmap_put (rsrc_NatService r) token rid\<rparr>"

definition setNatServiceId :: "OscNatService \<Rightarrow> string \<Rightarrow> ('w, 'z, unit) Op" where
  "setNatServiceId ns rid =
     bind (gets scope) (\<lambda>cs. modify (upd_Resources (put_NatService (cs_GetNatServiceClientToken cs ns) rid)))"

definition getNatServiceOrId :: "OscNatService \<Rightarrow> ('w, 'z, osc_NatService option \<times> string) Op" where
  "getNatServiceOrId ns =
     bind (gets scope) (\<lambda>cs.
     let clientToken = cs_GetNatServiceClientToken cs ns in
     if getResource clientToken (rsrc_NatService (cs_GetResources cs)) \<noteq> []
     then ret (None, getResource clientToken (rsrc_NatService (cs_GetResources cs)))
     else bind (wrap ''get nat service from client token: ''
                  (svc_GetNatServiceFromClientToken (csTenant cs) clientToken)) (\<lambda>r.
       case r of
         Some osc \<Rightarrow> andThen (setNatServiceId ns (o_NatServiceId osc)) (ret (Some osc, o_NatServiceId osc))
       | None \<Rightarrow>
           if nat_Name ns \<noteq> []
           then bind (wrap ''get nat service from tag: '' (svc_ReadTag (csTenant cs) NatResourceType NameKey
                        (nat_Name ns @ ''-'' @ cs_GetUID cs))) (\<lambda>tg.
             case tg of
               Some tg \<Rightarrow> andThen (setNatServiceId ns (o_TagResourceId tg)) (ret (None, o_TagResourceId tg))
             | None \<Rightarrow> raise (Errorf ''get nat service: '' ErrNoResourceFound))
           else raise (Errorf ''get nat service: '' ErrNoResourceFound)))"

text \<open>\<^verbatim>\<open>if len(ns.PublicIps) > 0 { t.trackIP(...) }\<close>.\<close>

definition trackNatIP :: "OscNatService \<Rightarrow> osc_NatService \<Rightarrow> ('w, 'z, unit) Op" where
  "trackNatIP ns osc =
     (case o_NatPublicIps osc of
        [] \<Rightarrow> ret ()
      | ip # _ \<Rightarrow> bind (gets scope) (\<lambda>cs. trackIP (cs_GetNatServiceClientToken cs ns) (o_LightPublicIpId ip)))"

definition getNatService :: "OscNatService \<Rightarrow> ('w, 'z, osc_NatService) Op" where
  "getNatService ns =
     bind (getNatServiceOrId ns) (\<lambda>(r, rid).
     case r of
       Some osc \<Rightarrow> andThen (trackNatIP ns osc) (ret osc)
     | None \<Rightarrow>
         bind (gets tenantOf) (\<lambda>t.
         bind (svc_GetNatService t rid) (\<lambda>r.
         bind (orMissing (''get nat service '' @ rid @ '': '') r) (\<lambda>osc.
         andThen (trackNatIP ns osc) (ret osc)))))"

definition getNatServiceId :: "OscNatService \<Rightarrow> ('w, 'z, string) Op" where
  "getNatServiceId ns =
     bind (getNatServiceOrId ns) (\<lambda>(r, rid). case r of Some osc \<Rightarrow> ret (o_NatServiceId osc) | None \<Rightarrow> ret rid)"

section \<open>Bastion\<close>

definition put_Bastion :: "string \<Rightarrow> OscClusterResources \<Rightarrow> OscClusterResources" where
  "put_Bastion rid r = r\<lparr>rsrc_Bastion := nmap_put (rsrc_Bastion r) defaultResource rid\<rparr>"

definition setBastionId :: "string \<Rightarrow> ('w, 'z, unit) Op" where
  "setBastionId rid = modify (upd_Resources (put_Bastion rid))"

definition getBastionOrId :: "('w, 'z, osc_Vm option \<times> string) Op" where
  "getBastionOrId =
     bind (gets scope) (\<lambda>cs.
     if bn_ResourceId (cs_GetBastion cs) \<noteq> [] then ret (None, bn_ResourceId (cs_GetBastion cs))
     else if getResource defaultResource (rsrc_Bastion (cs_GetResources cs)) \<noteq> []
     then ret (None, getResource defaultResource (rsrc_Bastion (cs_GetResources cs)))
     else bind (wrap ''get bastion from client token: ''
                  (svc_GetVmFromClientToken (csTenant cs) (cs_GetBastionClientToken cs))) (\<lambda>r.
       case r of
         Some vm \<Rightarrow> andThen (setBastionId (o_VmId vm)) (ret (Some vm, o_VmId vm))
       | None \<Rightarrow>
           if bn_Name (cs_GetBastion cs) \<noteq> []
           then bind (wrap ''get bastion: '' (svc_ReadTag (csTenant cs) VmResourceType NameKey
                        (cs_GetBastionName cs @ ''-'' @ cs_GetUID cs))) (\<lambda>tg.
             if tag_id tg \<noteq> [] then andThen (setBastionId (tag_id tg)) (ret (None, tag_id tg))
             else raise (Errorf ''get bastion: '' ErrNoResourceFound))
           else raise (Errorf ''get bastion: '' ErrNoResourceFound)))"

definition retrackBastionIP :: "osc_Vm \<Rightarrow> ('w, 'z, unit) Op" where
  "retrackBastionIP vm =
     (case o_VmPublicIp vm of None \<Rightarrow> ret () | Some ip \<Rightarrow> RetrackIP cl_IPAllocator bastionIPResourceKey ip)"

definition getBastion :: "('w, 'z, osc_Vm) Op" where
  "getBastion =
     bind getBastionOrId (\<lambda>(r, rid).
     case r of
       Some vm \<Rightarrow> andThen (retrackBastionIP vm) (ret vm)
     | None \<Rightarrow>
         bind (gets tenantOf) (\<lambda>t.
         bind (svc_GetVm t rid) (\<lambda>r.
         bind (orMissing (''get bastion '' @ rid @ '': '') r) (\<lambda>vm.
         andThen (retrackBastionIP vm) (ret vm)))))"

section \<open>Security groups\<close>

definition put_SecurityGroup :: "string \<Rightarrow> string \<Rightarrow> OscClusterResources \<Rightarrow> OscClusterResources" where
  "put_SecurityGroup name rid r = r\<lparr>rsrc_SecurityGroup := nmap_put (rsrc_SecurityGroup r) name rid\<rparr>"

definition setSecurityGroupId :: "OscSecurityGroup \<Rightarrow> string \<Rightarrow> ('w, 'z, unit) Op" where
  "setSecurityGroupId sg rid =
     bind (gets scope) (\<lambda>cs. modify (upd_Resources (put_SecurityGroup (cs_GetSecurityGroupName cs sg) rid)))"

definition getSecurityGroupOrId :: "OscSecurityGroup \<Rightarrow> ('w, 'z, osc_SecurityGroup option \<times> string) Op" where
  "getSecurityGroupOrId sg =
     (if sg_ResourceId sg \<noteq> [] then ret (None, sg_ResourceId sg)
      else bind (gets scope) (\<lambda>cs.
        let name = cs_GetSecurityGroupName cs sg in
        if getResource name (rsrc_SecurityGroup (cs_GetResources cs)) \<noteq> []
        then ret (None, getResource name (rsrc_SecurityGroup (cs_GetResources cs)))
        else bind (wrap ''get securityGroup from securityGroupName: '' (svc_GetSecurityGroupFromName (csTenant cs) name)) (\<lambda>r.
          case r of
            None \<Rightarrow> raise (Errorf ''get securityGroup: '' ErrNoResourceFound)
          | Some osc \<Rightarrow> andThen (setSecurityGroupId sg (o_SecurityGroupId osc)) (ret (Some osc, o_SecurityGroupId osc)))))"

definition getSecurityGroup :: "OscSecurityGroup \<Rightarrow> ('w, 'z, osc_SecurityGroup) Op" where
  "getSecurityGroup sg =
     bind (getSecurityGroupOrId sg) (\<lambda>(r, rid).
     case r of
       Some osc \<Rightarrow> ret osc
     | None \<Rightarrow>
         bind (gets tenantOf) (\<lambda>t.
         bind (svc_GetSecurityGroup t rid) (orMissing (''get securityGroup '' @ rid @ '': ''))))"

definition getSecurityGroupId :: "OscSecurityGroup \<Rightarrow> ('w, 'z, string) Op" where
  "getSecurityGroupId sg =
     bind (getSecurityGroupOrId sg) (\<lambda>(r, rid). case r of Some osc \<Rightarrow> ret (o_SecurityGroupId osc) | None \<Rightarrow> ret rid)"

section \<open>Lookups are stable\<close>

lemma upd_Resources_views [simp]:
  "cs_GetResources (scope (upd_Resources h s)) = h (cs_GetResources (scope s))"
  "cs_GetNetwork (scope (upd_Resources h s)) = cs_GetNetwork (scope s)"
  "cs_GetUID (scope (upd_Resources h s)) = cs_GetUID (scope s)"
  "cs_GetName (scope (upd_Resources h s)) = cs_GetName (scope s)"
  "csTenant (scope (upd_Resources h s)) = csTenant (scope s)"
  "calls (upd_Resources h s) = calls s"
  "cloud (upd_Resources h s) = cloud s"
  by (simp_all add: upd_Resources_def upd_Status_def upd_OscCluster_def cs_GetResources_def cs_GetNetwork_def
      cs_GetUID_def cs_GetName_def split: option.split)

lemma upd_Resources_names [simp]:
  "cs_GetNet (scope (upd_Resources h s)) = cs_GetNet (scope s)"
  "cs_GetNatServiceClientToken (scope (upd_Resources h s)) ns = cs_GetNatServiceClientToken (scope s) ns"
  "cs_GetSecurityGroupName (scope (upd_Resources h s)) sg = cs_GetSecurityGroupName (scope s) sg"
  "cs_GetBastion (scope (upd_Resources h s)) = cs_GetBastion (scope s)"
  by (simp_all add: cs_GetNet_def cs_GetNatServiceClientToken_def cs_GetSecurityGroupName_def cs_GetBastion_def)

text \<open>
  The interface of a lookup: \<open>tracked\<close> is the id the specification or the status gives. It
  answers a lookup without any request, and every successful lookup leaves it set.
\<close>

locale tracker =
  fixes get :: "('w, 'z, string) Op" and tracked :: "('w, 'z) World_scheme \<Rightarrow> string"
  assumes get_tracked: "tracked s \<noteq> [] \<Longrightarrow> get s = (Ok (tracked s), s)"
    and get_records: "get s = (Ok rid, t) \<Longrightarrow> tracked t = rid"
begin

lemma lookup_stable: "get s = (Ok rid, t) \<Longrightarrow> rid \<noteq> [] \<Longrightarrow> get t = (Ok rid, t)"
  using get_records get_tracked by metis

end

text \<open>A lookup that has answered a non-empty id answers it again, without a request and without a change.\<close>

definition stable :: "('w, 'z, string) Op \<Rightarrow> bool" where
  "stable get \<longleftrightarrow> (\<forall>s rid t. get s = (Ok rid, t) \<and> rid \<noteq> [] \<longrightarrow> get t = (Ok rid, t))"

definition tracked_Net :: "('w, 'z) World_scheme \<Rightarrow> string" where
  "tracked_Net s = (if net_ResourceId (cs_GetNet (scope s)) \<noteq> [] then net_ResourceId (cs_GetNet (scope s))
     else getResource defaultResource (rsrc_Net (cs_GetResources (scope s))))"

definition tracked_NetPeering :: "('w, 'z) World_scheme \<Rightarrow> string" where
  "tracked_NetPeering s = getResource defaultResource (rsrc_NetPeering (cs_GetResources (scope s)))"

definition tracked_InternetService :: "('w, 'z) World_scheme \<Rightarrow> string" where
  "tracked_InternetService s = getResource defaultResource (rsrc_InternetService (cs_GetResources (scope s)))"

definition tracked_Subnet :: "OscSubnet \<Rightarrow> ('w, 'z) World_scheme \<Rightarrow> string" where
  "tracked_Subnet sn s = (if sn_ResourceId sn \<noteq> [] then sn_ResourceId sn
     else getResource (IpSubnetRange sn) (rsrc_Subnet (cs_GetResources (scope s))))"

definition tracked_NatService :: "OscNatService \<Rightarrow> ('w, 'z) World_scheme \<Rightarrow> string" where
  "tracked_NatService ns s =
     getResource (cs_GetNatServiceClientToken (scope s) ns) (rsrc_NatService (cs_GetResources (scope s)))"

definition tracked_SecurityGroup :: "OscSecurityGroup \<Rightarrow> ('w, 'z) World_scheme \<Rightarrow> string" where
  "tracked_SecurityGroup sg s = (if sg_ResourceId sg \<noteq> [] then sg_ResourceId sg
     else getResource (cs_GetSecurityGroupName (scope s) sg) (rsrc_SecurityGroup (cs_GetResources (scope s))))"

lemmas put_defs = put_Net_def put_NetPeering_def put_InternetService_def put_NetAccessPoint_def put_Subnet_def
  put_PublicIP_def put_NatService_def put_Bastion_def put_SecurityGroup_def getResource_def

interpretation net_t: tracker getNetId tracked_Net
proof
  fix s t :: "('a, 'b) World_scheme" and rid
  show "tracked_Net s \<noteq> [] \<Longrightarrow> getNetId s = (Ok (tracked_Net s), s)"
    by (auto simp: getNetId_def tracked_Net_def run_simps)
  show "getNetId s = (Ok rid, t) \<Longrightarrow> tracked_Net t = rid"
    unfolding getNetId_def setNetId_def svc_ReadOwnedByTag_def svc_ReadTag_def
    by (auto simp: ok_simps put_defs tracked_Net_def split: if_splits)
qed

interpretation peering_t: tracker getNetPeeringId tracked_NetPeering
proof
  fix s t :: "('a, 'b) World_scheme" and rid
  show "tracked_NetPeering s \<noteq> [] \<Longrightarrow> getNetPeeringId s = (Ok (tracked_NetPeering s), s)"
    by (simp add: getNetPeeringId_def tracked_NetPeering_def run_simps)
  show "getNetPeeringId s = (Ok rid, t) \<Longrightarrow> tracked_NetPeering t = rid"
    unfolding getNetPeeringId_def setNetPeeringId_def svc_ReadOwnedByTag_def svc_ReadTag_def
    by (auto simp: ok_simps put_defs tracked_NetPeering_def split: if_splits)
qed

interpretation is_t: tracker getInternetServiceId tracked_InternetService
proof
  fix s t :: "('a, 'b) World_scheme" and rid
  show "tracked_InternetService s \<noteq> [] \<Longrightarrow> getInternetServiceId s = (Ok (tracked_InternetService s), s)"
    by (simp add: getInternetServiceId_def getInternetServiceOrId_def tracked_InternetService_def run_simps)
  show "getInternetServiceId s = (Ok rid, t) \<Longrightarrow> tracked_InternetService t = rid"
    unfolding getInternetServiceId_def getInternetServiceOrId_def setInternetServiceId_def
    by (auto simp: ok_simps put_defs tracked_InternetService_def split: if_splits option.splits)
qed

interpretation subnet_t: tracker "getSubnetId sn" "tracked_Subnet sn" for sn
proof
  fix s t :: "('a, 'b) World_scheme" and rid
  show "tracked_Subnet sn s \<noteq> [] \<Longrightarrow> getSubnetId sn s = (Ok (tracked_Subnet sn s), s)"
    by (simp add: getSubnetId_def getSubnetOrId_def tracked_Subnet_def run_simps split: if_splits)
  show "getSubnetId sn s = (Ok rid, t) \<Longrightarrow> tracked_Subnet sn t = rid"
    unfolding getSubnetId_def getSubnetOrId_def setSubnetId_def
    by (auto simp: ok_simps put_defs tracked_Subnet_def split: if_splits option.splits)
qed

interpretation nat_t: tracker "getNatServiceId ns" "tracked_NatService ns" for ns
proof
  fix s t :: "('a, 'b) World_scheme" and rid
  show "tracked_NatService ns s \<noteq> [] \<Longrightarrow> getNatServiceId ns s = (Ok (tracked_NatService ns s), s)"
    by (simp add: getNatServiceId_def getNatServiceOrId_def tracked_NatService_def run_simps Let_def)
  show "getNatServiceId ns s = (Ok rid, t) \<Longrightarrow> tracked_NatService ns t = rid"
    unfolding getNatServiceId_def getNatServiceOrId_def setNatServiceId_def svc_GetNatServiceFromClientToken_def svc_ReadTag_def
    by (auto simp: ok_simps put_defs tracked_NatService_def Let_def split: if_splits option.splits)
qed

interpretation sg_t: tracker "getSecurityGroupId sg" "tracked_SecurityGroup sg" for sg
proof
  fix s t :: "('a, 'b) World_scheme" and rid
  show "tracked_SecurityGroup sg s \<noteq> [] \<Longrightarrow> getSecurityGroupId sg s = (Ok (tracked_SecurityGroup sg s), s)"
    by (simp add: getSecurityGroupId_def getSecurityGroupOrId_def tracked_SecurityGroup_def run_simps Let_def split: if_splits)
  show "getSecurityGroupId sg s = (Ok rid, t) \<Longrightarrow> tracked_SecurityGroup sg t = rid"
    unfolding getSecurityGroupId_def getSecurityGroupOrId_def setSecurityGroupId_def svc_GetSecurityGroupFromName_def
    by (auto simp: ok_simps put_defs tracked_SecurityGroup_def Let_def split: if_splits option.splits)
qed

text \<open>The allocator of the cluster, on the map \<^verbatim>\<open>PublicIPs\<close> of its status.\<close>

interpretation cl_ips: ip_store cl_IPAllocator
  by unfold_locales (auto simp: cl_IPAllocator_def cl_getPublicIP_def cl_setPublicIP_def put_PublicIP_def Let_def)

end
