(* ===== verification/Cluster_Network.thy ===== *)
theory Cluster_Network
  imports Cluster_Tracker
begin

text \<open>
  The reconcilers of the network of a cluster: \<^verbatim>\<open>controllers/osccluster_net.go\<close>,
  \<^verbatim>\<open>osccluster_subnet.go\<close>, \<^verbatim>\<open>osccluster_internetservice.go\<close>, \<^verbatim>\<open>osccluster_natservice.go\<close>,
  \<^verbatim>\<open>osccluster_publicip.go\<close> and \<^verbatim>\<open>osccluster_routetable.go\<close>. Each reconciler first asks whether
  it has to run, finds the resources that exist, creates the missing ones, and records the
  generation it has reconciled. All of them return an empty result, so only their error counts.
\<close>

section \<open>Shared shapes\<close>

text \<open>\<^verbatim>\<open>if !clusterScope.NeedReconciliation(r) { return }\<close>.\<close>

definition ifNeeded :: "Reconciler \<Rightarrow> ('w, 'z, unit) Op \<Rightarrow> ('w, 'z, unit) Op" where
  "ifNeeded reconciler m = bind (cs_NeedReconciliation reconciler) (\<lambda>need. if need then m else ret ())"

abbreviation useExistingNet :: "'w ClusterScope \<Rightarrow> bool" where
  "useExistingNet cs \<equiv> reuse_Net (UseExisting (cs_GetNetwork cs))"

text \<open>
  The switch every reconciler makes on the result of the tracker: a resource that is not found
  when it may be missing gives \<open>None\<close>, another error is wrapped, a found one is \<open>Some\<close>.
\<close>

definition findExisting :: "string \<Rightarrow> bool \<Rightarrow> ('w, 'z, 'a) Op \<Rightarrow> ('w, 'z, 'a option) Op" where
  "findExisting pre mayMiss m =
     handle m (\<lambda>r. case r of
       Inl e \<Rightarrow> if IsNotFound e \<and> mayMiss then ret None else raise (if pre = [] then e else Errorf pre e)
     | Inr x \<Rightarrow> ret (Some x))"

section \<open>Net\<close>

definition reconcileNet :: "('w, 'z, unit) Op" where
  "reconcileNet = ifNeeded ReconcilerNet (
     bind (gets scope) (\<lambda>cs.
     bind (findExisting ''find existing: '' (\<not> useExistingNet cs) getNet) (\<lambda>net.
     case net of
       Some net \<Rightarrow> cs_SetReconciliationGeneration ReconcilerNet
     | None \<Rightarrow>
         bind (wrap ''cannot create net: ''
                 (svc_CreateNet (csTenant cs) (cs_GetNet cs) (cs_GetUID cs) (cs_GetNetName cs))) (\<lambda>net.
         andThen (setNetId (o_NetId net))
         (andThen (cs_SetReconciliationGeneration ReconcilerNet)
         (record_event NetCreatedReason ''Net created''))))))"

definition reconcileDeleteNet :: "('w, 'z, unit) Op" where
  "reconcileDeleteNet =
     bind (gets scope) (\<lambda>cs.
     if useExistingNet cs then ret ()
     else bind (findExisting ''find existing: '' True getNet) (\<lambda>net.
       case net of
         None \<Rightarrow> ret ()
       | Some net \<Rightarrow> wrap ''cannot delete net: '' (svc_DeleteNet (csTenant cs) (o_NetId net))))"

section \<open>Subnets\<close>

text \<open>The body of the loop over the subnets of the specification.\<close>

definition reconcileSubnet :: "string \<Rightarrow> OscSubnet \<Rightarrow> ('w, 'z, unit) Op" where
  "reconcileSubnet netId subnetSpec =
     bind (gets scope) (\<lambda>cs.
     bind (findExisting ''get existing: '' (\<not> useExistingNet cs) (getSubnet subnetSpec)) (\<lambda>subnet.
     case subnet of
       Some subnet \<Rightarrow> ret ()
     | None \<Rightarrow>
         (let subnetSpec = subnetSpec\<lparr>sn_SubregionName := cs_GetSubnetSubregion cs subnetSpec\<rparr> in
          bind (wrap ''cannot create subnet: '' (svc_CreateSubnet (csTenant cs) subnetSpec netId (cs_GetUID cs)
                 (cs_GetSubnetName cs subnetSpec))) (\<lambda>subnet.
          andThen (setSubnetId subnetSpec (o_SubnetId subnet))
          (record_event SubnetCreatedReason
             (''Subnet created '' @ fmt_slice (sn_Roles subnetSpec) @ '' '' @ sn_SubregionName subnetSpec))))))"

definition reconcileSubnets :: "('w, 'z, unit) Op" where
  "reconcileSubnets = ifNeeded ReconcilerSubnet (
     bind getNetId (\<lambda>netId.
     bind (gets scope) (\<lambda>cs.
     andThen (forM (cs_GetSubnets cs) (reconcileSubnet netId))
     (andThen (forM (cs_GetSubnets cs) (\<lambda>subnetSpec.
        whenM (cs_SubnetHasRole cs subnetSpec RoleControlPlane)
          (cs_SetFailureDomain (cs_GetSubnetSubregion cs subnetSpec) True)))
     (cs_SetReconciliationGeneration ReconcilerSubnet)))))"

definition reconcileDeleteSubnets :: "('w, 'z, unit) Op" where
  "reconcileDeleteSubnets =
     bind (gets scope) (\<lambda>cs.
     if useExistingNet cs then ret ()
     else forM (cs_GetSubnets cs) (\<lambda>subnetSpec.
       bind (findExisting ''find existing: '' True (getSubnet subnetSpec)) (\<lambda>subnet.
       case subnet of
         None \<Rightarrow> ret ()
       | Some subnet \<Rightarrow> wrap ''cannot delete subnet: '' (svc_DeleteSubnet (csTenant cs) (o_SubnetId subnet)))))"

section \<open>Internet service\<close>

definition reconcileInternetService :: "('w, 'z, unit) Op" where
  "reconcileInternetService = ifNeeded ReconcilerInternetService (
     bind (gets scope) (\<lambda>cs.
     if useExistingNet cs then ret ()
     else bind (findExisting ''get existing: '' True getInternetService) (\<lambda>found.
       if (case found of Some isv \<Rightarrow> o_LinkedNetId isv \<noteq> [] | None \<Rightarrow> False)
       then cs_SetReconciliationGeneration ReconcilerInternetService
       else bind getNetId (\<lambda>netId.
         bind (case found of
                 Some isv \<Rightarrow> ret isv
               | None \<Rightarrow>
                   bind (wrap ''cannot create internetService: ''
                     (svc_CreateInternetService (csTenant cs) (cs_GetInternetServiceName cs) (cs_GetUID cs))) (\<lambda>isv.
                   andThen (record_event InternetServicesCreatedReason ''Internet service created'') (ret isv))) (\<lambda>isv.
         andThen (wrap ''cannot link internetService: '' (svc_LinkInternetService (csTenant cs) (o_InternetServiceId isv) netId))
         (andThen (setInternetServiceId (o_InternetServiceId isv))
         (cs_SetReconciliationGeneration ReconcilerInternetService)))))))"

definition reconcileDeleteInternetService :: "('w, 'z, unit) Op" where
  "reconcileDeleteInternetService =
     bind (gets scope) (\<lambda>cs.
     if useExistingNet cs then ret ()
     else bind (findExisting ''get existing: '' True getInternetService) (\<lambda>found.
       case found of
         None \<Rightarrow> ret ()
       | Some isv \<Rightarrow>
           andThen (whenM (o_LinkedNetId isv \<noteq> []) (wrap ''cannot unlink internetService: ''
             (svc_UnlinkInternetService (csTenant cs) (o_InternetServiceId isv) (o_LinkedNetId isv))))
           (wrap ''cannot delete internetService: '' (svc_DeleteInternetService (csTenant cs) (o_InternetServiceId isv)))))"

section \<open>NAT services\<close>

definition reconcileOneNat :: "OscNatService \<Rightarrow> ('w, 'z, unit) Op" where
  "reconcileOneNat natServiceSpec =
     bind (gets scope) (\<lambda>cs.
     bind (findExisting ''find existing: '' True (getNatService natServiceSpec)) (\<lambda>found.
     case found of
       Some ns \<Rightarrow> ret ()
     | None \<Rightarrow>
         bind (wrap ''allocate IP: '' (AllocateIP cl_IPAllocator (cs_GetNatServiceClientToken cs natServiceSpec)
                 (cs_GetNatServiceName cs natServiceSpec) (NatPublicIpPool (cs_GetNetwork cs)))) (\<lambda>(publicIpId, _).
         bind (wrap ''find subnet: '' (lift (cs_GetSubnet cs (nat_SubnetName natServiceSpec) RoleNat
                 (nat_SubregionName natServiceSpec)))) (\<lambda>subnetSpec.
         bind (wrap ''get subnet: '' (getSubnetId subnetSpec)) (\<lambda>subnetId.
         bind (wrap ''cannot create natService: '' (svc_CreateNatService (csTenant cs) publicIpId subnetId
                 (cs_GetNatServiceClientToken cs natServiceSpec) (cs_GetNatServiceName cs natServiceSpec) (cs_GetUID cs))) (\<lambda>ns.
         andThen (setNatServiceId natServiceSpec (o_NatServiceId ns))
         (record_event NatServicesCreatedReason (''NAT created '' @ nat_SubregionName natServiceSpec))))))))"

definition reconcileNatService :: "('w, 'z, unit) Op" where
  "reconcileNatService = ifNeeded ReconcilerNatService (
     bind (gets scope) (\<lambda>cs.
     if useExistingNet cs then ret ()
     else if cs_IsInternetDisabled cs then ret ()
     else andThen (forM (cs_GetNatServices cs) reconcileOneNat)
       (cs_SetReconciliationGeneration ReconcilerNatService)))"

definition listNATPublicIPs :: "bool \<Rightarrow> ('w, 'z, string list) Op" where
  "listNATPublicIPs cidr =
     bind (wrap ''cannot find net: '' getNetId) (\<lambda>netId.
     bind (gets tenantOf) (\<lambda>t.
     bind (wrap ''list natServices: '' (svc_ListNatServices t netId)) (\<lambda>nats.
     ret (concat (map (\<lambda>ns. map (\<lambda>ip. o_LightPublicIp ip @ (if cidr then ''/32'' else [])) (o_NatPublicIps ns)) nats)))))"

definition reconcileDeleteNatService :: "('w, 'z, unit) Op" where
  "reconcileDeleteNatService =
     bind (gets scope) (\<lambda>cs.
     if useExistingNet cs then ret ()
     else bind (findExisting ''find existing: '' True getNetId) (\<lambda>found.
       case found of
         None \<Rightarrow> ret ()
       | Some netId \<Rightarrow>
           bind (wrap ''list natServices: '' (svc_ListNatServices (csTenant cs) netId)) (\<lambda>nats.
           forM nats (\<lambda>ns. whenM (o_NatState ns \<noteq> ''deleted'')
             (wrap ''cannot delete natService: '' (svc_DeleteNatService (csTenant cs) (o_NatServiceId ns)))))))"

text \<open>
  The entries of the map are visited in its iteration order; an entry is removed after its IP
  has been given back.
\<close>

definition reconcileDeletePublicIp :: "'w Env \<Rightarrow> ('w, 'z, unit) Op" where
  "reconcileDeletePublicIp E =
     bind (gets scope) (\<lambda>cs.
     forM (nmap_entries (getPublicIps cs)) (\<lambda>(k, ipid).
       andThen (wrap (''cannot delete publicIp '' @ ipid @ '': '') (DeallocateIP E cl_IPAllocator k)) (untrackIP k)))"

section \<open>Route tables\<close>

definition reconcileRoute :: "OscRouteTable \<Rightarrow> OscRoute \<Rightarrow> osc_RouteTable \<Rightarrow> ('w, 'z, unit) Op" where
  "reconcileRoute routeTableSpec routeSpec routeTable =
     (let createRoute = (\<lambda>t resourceId. andThen (wrap ''cannot create route: ''
            (svc_CreateRoute t (Destination routeSpec) (o_RouteTableId routeTable) resourceId (TargetType routeSpec))) (ret ()))
      in if Destination routeSpec \<in> set (map o_DestinationIpRange (o_Routes routeTable)) then ret ()
         else bind (gets scope) (\<lambda>cs.
           if TargetType routeSpec = ''gateway''
           then bind (wrap ''find internetService for route: '' getInternetServiceId) (createRoute (csTenant cs))
           else if TargetType routeSpec = ''nat''
           then bind (wrap ''find natService for route: ''
                       (lift (cs_GetNatService cs (TargetName routeSpec) (rt_SubregionName routeTableSpec)))) (\<lambda>natSpec.
             bind (wrap ''find natService for route: '' (getNatServiceId natSpec)) (createRoute (csTenant cs)))
           else ret ()))"

text \<open>The last link of a subnet wins, as the code fills a map in order.\<close>

definition rtblForSubnet :: "osc_RouteTable list \<Rightarrow> string \<Rightarrow> osc_RouteTable option" where
  "rtblForSubnet rtbls = map_of (rev (concat (map (\<lambda>rtbl. map (\<lambda>link. (o_LinkSubnetId link, rtbl)) (o_LinkRouteTables rtbl)) rtbls)))"

text \<open>One subnet of a route table; the accumulator is the route table chosen so far.\<close>

definition reconcileRouteTableSubnet :: "'w Env \<Rightarrow> string \<Rightarrow> osc_RouteTable list \<Rightarrow> OscRole list \<Rightarrow> OscRouteTable
    \<Rightarrow> osc_RouteTable option \<Rightarrow> string \<Rightarrow> ('w, 'z, osc_RouteTable option) Op" where
  "reconcileRouteTableSubnet E netId rtbls roles routeTableSpec rtbl name =
     bind (gets scope) (\<lambda>cs.
     bind (wrap (''cannot find subnet with name '' @ str_quote name @ '' role '' @ str_quote (rt_Role routeTableSpec) @ '': '')
             (lift (cs_GetSubnet cs name (rt_Role routeTableSpec) (rt_SubregionName routeTableSpec)))) (\<lambda>subnetSpec.
     if roles \<noteq> [] \<and> \<not> cs_SubnetHasRole cs subnetSpec (hd roles) then ret rtbl
     else bind (wrap ''cannot get subnet: '' (getSubnetId subnetSpec)) (\<lambda>subnetId.
       let link = (\<lambda>rt. andThen (wrap ''cannot link routetable to subnet: ''
                    (svc_LinkRouteTable (csTenant cs) (o_RouteTableId rt) subnetId)) (ret (Some rt)))
       in case (rtbl, rtblForSubnet rtbls subnetId) of
            (None, Some rt) \<Rightarrow> ret (Some rt)
          | (None, None) \<Rightarrow>
              bind (wrap ''cannot create routetable: ''
                      (svc_CreateRouteTable E (csTenant cs) netId (cs_GetUID cs) (rt_Name routeTableSpec))) (\<lambda>rt.
              andThen (record_event RouteTableCreatedReason
                (''Route table created '' @ fmt_slice (sn_Roles subnetSpec) @ '' '' @ sn_SubregionName subnetSpec)) (link rt))
          | (Some rt, None) \<Rightarrow> link rt
          | (Some rt, Some _) \<Rightarrow> ret (Some rt))))"

definition reconcileOneRouteTable :: "'w Env \<Rightarrow> string \<Rightarrow> osc_RouteTable list \<Rightarrow> OscRole list \<Rightarrow> OscRouteTable
    \<Rightarrow> ('w, 'z, unit) Op" where
  "reconcileOneRouteTable E netId rtbls roles routeTableSpec =
     (let names = (if rt_Subnets routeTableSpec = [] then [[]] else rt_Subnets routeTableSpec) in
      bind (foldM names None (reconcileRouteTableSubnet E netId rtbls roles routeTableSpec)) (\<lambda>rtbl.
      case rtbl of
        None \<Rightarrow> ret ()
      | Some rt \<Rightarrow> forM (rt_Routes routeTableSpec) (\<lambda>routeSpec. reconcileRoute routeTableSpec routeSpec rt)))"

definition reconcileRouteTable :: "'w Env \<Rightarrow> OscRole list \<Rightarrow> ('w, 'z, unit) Op" where
  "reconcileRouteTable E roles = ifNeeded ReconcilerRouteTable (
     bind (gets scope) (\<lambda>cs.
     if useExistingNet cs then ret ()
     else bind getNetId (\<lambda>netId.
       bind (svc_GetRouteTablesFromNet (csTenant cs) netId) (\<lambda>rtbls.
       andThen (forM (cs_GetRouteTables cs) (reconcileOneRouteTable E netId rtbls roles))
       (whenM (roles = []) (cs_SetReconciliationGeneration ReconcilerRouteTable))))))"

definition reconcileDeleteRouteTable :: "('w, 'z, unit) Op" where
  "reconcileDeleteRouteTable =
     bind (gets scope) (\<lambda>cs.
     if useExistingNet cs then ret ()
     else bind (findExisting [] True getNetId) (\<lambda>found.
       case found of
         None \<Rightarrow> ret ()
       | Some netId \<Rightarrow>
           bind (svc_GetRouteTablesFromNet (csTenant cs) netId) (\<lambda>rtbls.
           forM rtbls (\<lambda>rtbl.
             andThen (forM (o_LinkRouteTables rtbl) (\<lambda>link.
               wrap ''cannot unlink routeTable: '' (svc_UnlinkRouteTable (csTenant cs) (o_LinkRouteTableId link))))
             (wrap ''cannot delete routeTable: '' (svc_DeleteRouteTable (csTenant cs) (o_RouteTableId rtbl)))))))"

end
