(* ===== verification/Cluster_Security.thy ===== *)
theory Cluster_Security
  imports Cluster_Network
begin

text \<open>
  \<^verbatim>\<open>controllers/osccluster_securitygroup.go\<close>, \<^verbatim>\<open>osccluster_loadbalancer.go\<close> and
  \<^verbatim>\<open>osccluster_bastion.go\<close>: security groups with their rules, the load balancer of the API server
  and the bastion.
\<close>

section \<open>Security group rules\<close>

text \<open>The ranges a security group already has for the flow, protocol and ports of a rule.\<close>

definition rulesOfFlow :: "string \<Rightarrow> osc_SecurityGroup \<Rightarrow> osc_SecurityGroupRule list" where
  "rulesOfFlow flow sg =
     (if str_to_lower flow = ''inbound'' then o_InboundRules sg
      else if str_to_lower flow = ''outbound'' then o_OutboundRules sg else [])"

definition existingRanges :: "OscSecurityGroupRule \<Rightarrow> osc_SecurityGroup \<Rightarrow> string list" where
  "existingRanges spec sg = concat (map o_IpRanges (filter (\<lambda>rule.
     o_FromPortRange rule = rule_FromPortRange spec \<and> o_ToPortRange rule = rule_ToPortRange spec \<and>
     o_IpProtocol rule = rule_IpProtocol spec) (rulesOfFlow (Flow spec) sg)))"

definition reconcileSecurityGroupAddRules :: "OscSecurityGroupRule list \<Rightarrow> osc_SecurityGroup \<Rightarrow> ('w, 'z, unit) Op" where
  "reconcileSecurityGroupAddRules specs sg =
     bind (gets tenantOf) (\<lambda>t.
     forM specs (\<lambda>spec.
       forM (GetIpRanges spec) (\<lambda>ipRange.
         if ipRange \<in> set (existingRanges spec sg) then ret ()
         else andThen (wrap ''cannot create securityGroupRule: ''
           (svc_CreateSecurityGroupRule t (o_SecurityGroupId sg) (Flow spec) (rule_IpProtocol spec) ipRange []
              (rule_FromPortRange spec) (rule_ToPortRange spec))) (ret ()))))"

text \<open>The ranges the specification allows for a rule of a flow.\<close>

definition okRanges :: "string \<Rightarrow> OscSecurityGroupRule list \<Rightarrow> osc_SecurityGroupRule \<Rightarrow> string list" where
  "okRanges flow specs rule = concat (map GetIpRanges (filter (\<lambda>spec.
     flow = Flow spec \<and> o_FromPortRange rule = rule_FromPortRange spec \<and>
     o_ToPortRange rule = rule_ToPortRange spec \<and> o_IpProtocol rule = rule_IpProtocol spec) specs))"

definition checkRules :: "'w Tenant \<Rightarrow> OscSecurityGroupRule list \<Rightarrow> osc_SecurityGroup \<Rightarrow> string
    \<Rightarrow> osc_SecurityGroupRule list \<Rightarrow> ('w, 'z, unit) Op" where
  "checkRules t specs sg flow rules =
     forM rules (\<lambda>rule.
       if o_SecurityGroupsMembers rule \<noteq> [] then ret ()
       else forM (o_IpRanges rule) (\<lambda>ipRange.
         if ipRange \<in> set (okRanges flow specs rule) then ret ()
         else wrap ''cannot create securityGroupRule: ''
           (svc_DeleteSecurityGroupRule t (o_SecurityGroupId sg) flow (o_IpProtocol rule) ipRange []
              (o_FromPortRange rule) (o_ToPortRange rule))))"

definition reconcileSecurityGroupDeleteRules :: "OscSecurityGroupRule list \<Rightarrow> osc_SecurityGroup \<Rightarrow> ('w, 'z, unit) Op" where
  "reconcileSecurityGroupDeleteRules specs sg =
     bind (gets tenantOf) (\<lambda>t.
     andThen (checkRules t specs sg ''Inbound'' (o_InboundRules sg))
     (checkRules t specs sg ''Outbound'' (o_OutboundRules sg)))"

section \<open>Security groups\<close>

definition natIPsRule :: "string list \<Rightarrow> OscSecurityGroupRule" where
  "natIPsRule ips = rulesRanges ''Inbound'' ''tcp'' APIPort APIPort ips"

definition reconcileOneSecurityGroup :: "string \<Rightarrow> OscSecurityGroup \<Rightarrow> ('w, 'z, unit) Op" where
  "reconcileOneSecurityGroup netId spec =
     bind (gets scope) (\<lambda>cs.
     bind (findExisting ''get existing: '' True (getSecurityGroup spec)) (\<lambda>found.
     bind (case found of
             Some sg \<Rightarrow> ret sg
           | None \<Rightarrow>
               bind (wrap ''cannot create securityGroup: '' (svc_CreateSecurityGroup (csTenant cs) netId (cs_GetUID cs)
                       (cs_GetSecurityGroupName cs spec) (Description spec) (Tag spec) (sg_Roles spec))) (\<lambda>sg.
               andThen (setSecurityGroupId spec (o_SecurityGroupId sg))
               (andThen (record_event SecurityGroupCreatedReason (''Security group created '' @ fmt_slice (sg_Roles spec)))
               (ret sg)))) (\<lambda>sg.
     bind (if HasRole spec RoleLoadBalancer \<and> cs_HasIPRestriction cs
           then bind (wrap ''cannot list NAT public IPs: '' (listNATPublicIPs True)) (\<lambda>ips.
             ret (SecurityGroupRules spec @ [natIPsRule ips]))
           else ret (SecurityGroupRules spec)) (\<lambda>rulesSpec.
     wrap ''check rules: '' (
       andThen (reconcileSecurityGroupAddRules rulesSpec sg)
       (whenM (Authoritative spec) (reconcileSecurityGroupDeleteRules rulesSpec sg)))))))"

definition reconcileSecurityGroup :: "('w, 'z, unit) Op" where
  "reconcileSecurityGroup = ifNeeded ReconcilerSecurityGroup (
     bind (gets scope) (\<lambda>cs.
     if reuse_SecurityGroups (UseExisting (cs_GetNetwork cs)) then ret ()
     else bind getNetId (\<lambda>netId.
       andThen (forM (cs_GetSecurityGroups cs) (reconcileOneSecurityGroup netId))
       (cs_SetReconciliationGeneration ReconcilerSecurityGroup))))"

text \<open>The rules towards other security groups, deleted first so that no group is referenced any more.\<close>

definition deleteMemberRules :: "'w Tenant \<Rightarrow> osc_SecurityGroup \<Rightarrow> string \<Rightarrow> osc_SecurityGroupRule list \<Rightarrow> ('w, 'z, unit) Op" where
  "deleteMemberRules t sg flow rules =
     forM rules (\<lambda>rule. forM (o_SecurityGroupsMembers rule) (\<lambda>member.
       wrap ''cannot delete rule: '' (svc_DeleteSecurityGroupRule t (o_SecurityGroupId sg) flow (o_IpProtocol rule) [] member
         (o_FromPortRange rule) (o_ToPortRange rule))))"

text \<open>The last loop goes on after an error and returns the last one.\<close>

definition deleteSecurityGroups :: "'w Tenant \<Rightarrow> osc_SecurityGroup list \<Rightarrow> ('w, 'z, gerror option) Op" where
  "deleteSecurityGroups t sgs =
     foldM sgs None (\<lambda>sgerr sg.
       if o_SecurityGroupName sg = ''default'' then ret sgerr
       else handle (svc_DeleteSecurityGroup t (o_SecurityGroupId sg)) (\<lambda>r. case r of
         Inl e \<Rightarrow> ret (Some (Errorf (''cannot delete '' @ o_SecurityGroupId sg @ '': '') e))
       | Inr _ \<Rightarrow> ret sgerr))"

definition reconcileDeleteSecurityGroup :: "('w, 'z, unit) Op" where
  "reconcileDeleteSecurityGroup =
     bind (gets scope) (\<lambda>cs.
     if reuse_SecurityGroups (UseExisting (cs_GetNetwork cs)) then ret ()
     else bind (findExisting ''get net: '' True getNetId) (\<lambda>found.
       case found of
         None \<Rightarrow> ret ()
       | Some netId \<Rightarrow>
           bind (wrap ''list securityGroups: '' (svc_GetSecurityGroupsFromNet (csTenant cs) netId)) (\<lambda>sgs.
           andThen (forM sgs (\<lambda>sg. whenM (o_SecurityGroupName sg \<noteq> ''default'') (
             andThen (deleteMemberRules (csTenant cs) sg ''Inbound'' (o_InboundRules sg))
             (deleteMemberRules (csTenant cs) sg ''Outbound'' (o_OutboundRules sg)))))
           (bind (deleteSecurityGroups (csTenant cs) sgs) (\<lambda>sgerr.
            case sgerr of None \<Rightarrow> ret () | Some e \<Rightarrow> raise e)))))"

section \<open>Load balancer\<close>

definition getLoadBalancerNameTag :: "'w Env \<Rightarrow> osc_LoadBalancer \<Rightarrow> string" where
  "getLoadBalancerNameTag E lb = tagsGetName E (o_LoadBalancerTags lb)"

definition lbNameTag :: "'w ClusterScope \<Rightarrow> string" where
  "lbNameTag cs = LoadBalancerName (cs_GetLoadBalancer cs) @ ''-'' @ cs_GetUID cs"

definition createLoadBalancer :: "'w ClusterScope \<Rightarrow> ('w, 'z, osc_LoadBalancer) Op" where
  "createLoadBalancer cs =
     (let spec = cs_GetLoadBalancer cs in
      bind (wrap ''find subnet: '' (lift (cs_GetSubnet cs (lb_SubnetName spec) RoleLoadBalancer []))) (\<lambda>subnetSpec.
      bind (wrap ''get subnet: '' (getSubnetId subnetSpec)) (\<lambda>subnetId.
      bind (wrap ''find securityGroup: '' (lift (if SecurityGroupName spec \<noteq> []
              then cs_GetSecurityGroupsFor cs [\<lparr>sge_Name = SecurityGroupName spec\<rparr>] RoleLoadBalancer
              else cs_GetSecurityGroupsFor cs [] RoleLoadBalancer))) (\<lambda>sgSpecs.
      case sgSpecs of
        [] \<Rightarrow> raise (ErrorsNew ''no security group found'')
      | sgSpec # _ \<Rightarrow>
          bind (wrap ''cannot get security group: '' (getSecurityGroupId sgSpec)) (\<lambda>securityGroupId.
          bind (wrap ''cannot create loadBalancer: '' (svc_CreateLoadBalancer (csTenant cs) spec subnetId securityGroupId)) (\<lambda>lb.
          andThen (record_event LoadBalancerCreatedReason ''Loadbalancer created'')
          (andThen (wrap ''cannot configure healthcheck: '' (svc_ConfigureHealthCheck (csTenant cs) spec))
          (ret lb))))))))"

definition reconcileLoadBalancer :: "'w Env \<Rightarrow> ('w, 'z, unit) Op" where
  "reconcileLoadBalancer E = ifNeeded ReconcilerLoadbalancer (
     bind (gets scope) (\<lambda>cs.
     let spec = cs_GetLoadBalancer cs; lbName = LoadBalancerName spec; nameTag = lbNameTag cs in
     bind (wrap ''cannot get loadbalancer: '' (svc_GetLoadBalancer (csTenant cs) lbName)) (\<lambda>found.
     bind (case found of
             None \<Rightarrow> createLoadBalancer cs
           | Some lb \<Rightarrow>
               (let tagName = getLoadBalancerNameTag E lb in
                if tagName = [] \<and> o_LoadBalancerName lb = lbName
                then raise (ErrorsNew (''a LoadBalancer with name '' @ lbName @ '' already exists''))
                else if tagName \<noteq> [] \<and> tagName \<noteq> nameTag
                then raise (ErrorsNew (''a LoadBalancer '' @ lbName @ '' already exists for another cluster''))
                else ret lb)) (\<lambda>lb.
     andThen (whenM (o_LoadBalancerTags lb = [])
        (wrap ''cannot tag loadBalancer: '' (svc_CreateLoadBalancerTag (csTenant cs) spec (tag NameKey nameTag))))
     (andThen (cs_SetControlPlaneEndpoint \<lparr>Host = o_DnsName lb, ep_Port = LoadBalancerPort (Listener spec)\<rparr>)
     (cs_SetReconciliationGeneration ReconcilerLoadbalancer))))))"

definition reconcileDeleteLoadBalancer :: "'w Env \<Rightarrow> ('w, 'z, unit) Op" where
  "reconcileDeleteLoadBalancer E =
     bind (gets scope) (\<lambda>cs.
     let spec = cs_GetLoadBalancer cs in
     bind (svc_GetLoadBalancer (csTenant cs) (LoadBalancerName spec)) (\<lambda>found.
     case found of
       None \<Rightarrow> ret ()
     | Some lb \<Rightarrow>
         if lbNameTag cs \<noteq> getLoadBalancerNameTag E lb then ret ()
         else wrap ''cannot delete loadBalancer: '' (svc_DeleteLoadBalancer (csTenant cs) spec)))"

section \<open>Bastion\<close>

definition bastionImage :: "'w Tenant \<Rightarrow> OscBastion \<Rightarrow> ('w, 'z, string) Op" where
  "bastionImage t spec =
     (if bn_ImageId spec = [] \<and> ImageName spec \<noteq> []
      then bind (wrap (''cannot find image '' @ ImageName spec @ '': '') (svc_GetImageByName t (ImageName spec) (ImageAccountId spec))) (\<lambda>found.
        case found of
          None \<Rightarrow> raise (ErrorsNew (''cannot find image '' @ ImageName spec))
        | Some img \<Rightarrow> ret (o_ImageId img))
      else ret (bn_ImageId spec))"

text \<open>
  A VM is created in state pending and the reconciler asks for another run by an error. The
  result of \<^verbatim>\<open>CreateVmBastion\<close> is dereferenced without a test.
\<close>

definition createBastion :: "'w ClusterScope \<Rightarrow> ('w, 'z, unit) Op" where
  "createBastion cs =
     (let spec = cs_GetBastion cs in
      bind (wrap ''get subnet: '' (lift (cs_GetSubnet cs (bn_SubnetName spec) RoleBastion []))) (\<lambda>subnetSpec.
      bind (wrap ''load subnet: '' (getSubnetId subnetSpec)) (\<lambda>subnetId.
      bind (wrap ''allocate IP: '' (AllocateIP cl_IPAllocator bastionIPResourceKey (cs_GetBastionName cs) [])) (\<lambda>(_, publicIp).
      bind (wrap ''cannot find securityGroup: '' (lift (cs_GetSecurityGroupsFor cs (bn_SecurityGroupNames spec) RoleBastion))) (\<lambda>sgSpecs.
      if sgSpecs = [] then raise (ErrorsNew ''no securityGroup found'')
      else bind (foldM sgSpecs [] (\<lambda>ids sgSpec. bind (getSecurityGroupId sgSpec) (\<lambda>sgId. ret (ids @ [sgId])))) (\<lambda>securityGroupIds.
        bind (bastionImage (csTenant cs) spec) (\<lambda>imageId.
        bind (wrap ''cannot create bastion: '' (svc_CreateVmBastion (csTenant cs) spec subnetId securityGroupIds
                (map PrivateIp (cs_GetBastionPrivateIps cs)) (cs_GetBastionName cs) (cs_GetBastionClientToken cs) imageId
                (Some [(AutoAttachExternalIPTag, publicIp)]))) (\<lambda>created.
        case created of
          None \<Rightarrow> panic
        | Some vm \<Rightarrow>
            andThen (setBastionId (o_VmId vm))
            (andThen (cs_SetVmState ''pending'')
            (andThen (record_event VmCreatedReason ''Bastion created'')
            (raise (ErrorsNew ''VM is not running yet''))))))))))))"

definition reconcileBastion :: "('w, 'z, unit) Op" where
  "reconcileBastion = ifNeeded ReconcilerBastion (
     bind (gets scope) (\<lambda>cs.
     if useExistingNet cs then ret ()
     else bind (findExisting ''get existing: '' True getBastion) (\<lambda>found.
       case found of
         Some vm \<Rightarrow>
           andThen (cs_SetVmState (o_VmState vm))
           (if o_VmState vm \<noteq> ''running'' then raise (ErrorsNew ''bastion is not yet running'')
            else cs_SetReconciliationGeneration ReconcilerBastion)
       | None \<Rightarrow> createBastion cs)))"

definition reconcileDeleteBastion :: "('w, 'z, unit) Op" where
  "reconcileDeleteBastion =
     bind (gets scope) (\<lambda>cs.
     if useExistingNet cs then ret ()
     else bind (findExisting ''get existing: '' True getBastion) (\<lambda>found.
       case found of
         None \<Rightarrow> ret ()
       | Some vm \<Rightarrow>
           if o_VmState vm = ''terminated'' then ret ()
           else wrap ''cannot delete bastion: '' (svc_DeleteVm (csTenant cs) (o_VmId vm))))"

end
