(* ===== verification/Cluster_Peering.thy ===== *)
theory Cluster_Peering
  imports Cluster_Network
begin

text \<open>
  \<^verbatim>\<open>controllers/tenant.go\<close>, \<^verbatim>\<open>osccluster_netaccesspoint.go\<close>, \<^verbatim>\<open>osccluster_netpeering.go\<close> and
  \<^verbatim>\<open>osccluster_netpeering_routes.go\<close>: the tenants of a cluster and of its management cluster, the
  net access points, and the peering between their nets with its routes on both sides.
\<close>

section \<open>Tenants\<close>

text \<open>A missing key of the secret reads as the empty string.\<close>

definition getTenantFromSecret :: "'w Env \<Rightarrow> string \<Rightarrow> string \<Rightarrow> gerror + 'w Tenant" where
  "getTenantFromSecret E name ns =
     (case k8sSecret E name ns of
        Inl e \<Rightarrow> Inl (Errorf ''tenant from secret: '' e)
      | Inr d \<Rightarrow> tenantFromProfile E (nmap_get (Some d) ''access_key'') (nmap_get (Some d) ''secret_key'')
                   (nmap_get (Some d) ''region''))"

definition tenantFor :: "'w Env \<Rightarrow> OscCredentials \<Rightarrow> string \<Rightarrow> gerror + 'w Tenant" where
  "tenantFor E creds ns =
     (if FromFile creds \<noteq> [] then tenantFromFile E (FromFile creds) (Profile creds)
      else if FromSecret creds \<noteq> [] then getTenantFromSecret E (FromSecret creds) ns
      else tenantDefault E)"

definition getTenant :: "'w Env \<Rightarrow> OscCluster \<Rightarrow> gerror + 'w Tenant" where
  "getTenant E c = tenantFor E (Credentials (cl_Spec c)) (om_Namespace (cl_Meta c))"

definition getMgmtTenant :: "'w Env \<Rightarrow> OscCluster \<Rightarrow> gerror + 'w Tenant" where
  "getMgmtTenant E c =
     tenantFor E (ManagementCredentials (NetPeering (Network (cl_Spec c)))) (om_Namespace (cl_Meta c))"

section \<open>Net access points\<close>

definition rtblIdForSubnet :: "osc_RouteTable list \<Rightarrow> string \<Rightarrow> string" where
  "rtblIdForSubnet rtbls subnetId =
     (case rtblForSubnet rtbls subnetId of None \<Rightarrow> [] | Some rtbl \<Rightarrow> o_RouteTableId rtbl)"

definition reconcileOneNetAccessPoint :: "string \<Rightarrow> string list \<Rightarrow> OscNetAccessPointService \<Rightarrow> ('w, 'z, unit) Op" where
  "reconcileOneNetAccessPoint netId rtblIds service =
     bind (gets scope) (\<lambda>cs.
     bind (findExisting ''get existing: '' True (getNetAccessPoint service)) (\<lambda>found.
     case found of
       Some nap \<Rightarrow> ret ()
     | None \<Rightarrow>
         bind (wrap ''cannot create netAccessPoint: ''
                 (svc_CreateNetAccessPoint (csTenant cs) netId (tn_Region (csTenant cs)) service rtblIds (cs_GetUID cs))) (\<lambda>nap.
         andThen (record_event NetAccessPointCreatedReason (''Net Access Point created '' @ service))
         (setNetAccessPointId service (o_NetAccessPointId nap)))))"

definition reconcileNetAccessPoints :: "('w, 'z, unit) Op" where
  "reconcileNetAccessPoints = ifNeeded ReconcilerNetAccessPoint (
     bind (gets scope) (\<lambda>cs.
     if useExistingNet cs then ret ()
     else bind getNetId (\<lambda>netId.
       bind (svc_GetRouteTablesFromNet (csTenant cs) netId) (\<lambda>rtbls.
       bind (foldM (cs_GetSubnets cs) [] (\<lambda>rtblIds subnetSpec.
               if \<not> cs_SubnetHasRole cs subnetSpec RoleWorker \<and> \<not> cs_SubnetHasRole cs subnetSpec RoleControlPlane
               then ret rtblIds
               else bind (wrap ''cannot get subnet: '' (getSubnetId subnetSpec)) (\<lambda>subnetId.
                 ret (rtblIds @ [rtblIdForSubnet rtbls subnetId])))) (\<lambda>rtblIds.
       andThen (forM (NetAccessPoints (cs_GetNetwork cs)) (reconcileOneNetAccessPoint netId rtblIds))
       (cs_SetReconciliationGeneration ReconcilerNetAccessPoint))))))"

definition reconcileDeleteNetAccessPoints :: "('w, 'z, unit) Op" where
  "reconcileDeleteNetAccessPoints =
     bind (gets scope) (\<lambda>cs.
     if useExistingNet cs then ret ()
     else bind (findExisting [] True getNetId) (\<lambda>found.
       case found of
         None \<Rightarrow> ret ()
       | Some netId \<Rightarrow>
           bind (wrap ''list net access points: '' (svc_ListNetAccessPoints (csTenant cs) netId)) (\<lambda>naps.
           forM naps (\<lambda>nap. wrap ''delete netAccessPoint: '' (svc_DeleteNetAccessPoint (csTenant cs) (o_NetAccessPointId nap))))))"

section \<open>Net peering\<close>

definition getMgmtAccountID :: "'w Env \<Rightarrow> 'w ClusterScope \<Rightarrow> string" where
  "getMgmtAccountID E cs =
     (let np = NetPeering (cs_GetNetwork cs)
      in if ManagementAccountID np \<noteq> [] then ManagementAccountID np else md_AccountID E)"

definition getMgmtNetID :: "'w Env \<Rightarrow> 'w ClusterScope \<Rightarrow> string" where
  "getMgmtNetID E cs =
     (let np = NetPeering (cs_GetNetwork cs)
      in if ManagementNetID np \<noteq> [] then ManagementNetID np else md_NetID E)"

abbreviation NetPeeringPending :: string where "NetPeeringPending \<equiv> ''pending-acceptance''"
abbreviation NetPeeringActive :: string where "NetPeeringActive \<equiv> ''active''"

definition acceptNetPeering :: "'w Env \<Rightarrow> osc_NetPeering \<Rightarrow> ('w, 'z, unit) Op" where
  "acceptNetPeering E np =
     bind (gets scope) (\<lambda>cs.
     bind (wrap ''cannot get mgmt credentials: '' (lift (getMgmtTenant E (csOscCluster cs)))) (\<lambda>mgmt.
     andThen (wrap ''cannot accept netPeering: '' (svc_AcceptNetPeering mgmt (o_NetPeeringId np)))
     (record_event NetPeeringCreatedReason ''NetPeering accepted'')))"

definition reconcileNetPeering :: "'w Env \<Rightarrow> ('w, 'z, unit) Op" where
  "reconcileNetPeering E =
     bind (gets scope) (\<lambda>cs.
     if useExistingNet cs then ret ()
     else ifNeeded ReconcilerNetPeering (
       bind (findExisting ''get existing: '' True getNetPeering) (\<lambda>found.
       if (case found of Some np \<Rightarrow> o_NetPeeringState np = NetPeeringActive | None \<Rightarrow> False) then ret ()
       else bind getNetId (\<lambda>netId.
         bind (case found of
                 Some np \<Rightarrow> if o_NetPeeringState np = NetPeeringPending then ret (Some np) else ret None
               | None \<Rightarrow> ret None) (\<lambda>pending.
         bind (case pending of
                 Some np \<Rightarrow> ret np
               | None \<Rightarrow>
                   bind (wrap ''cannot create netPeering: '' (svc_CreateNetPeering (csTenant cs) netId
                           (getMgmtNetID E cs) (getMgmtAccountID E cs) (cs_GetUID cs))) (\<lambda>np.
                   andThen (setNetPeeringId (o_NetPeeringId np))
                   (andThen (record_event NetPeeringCreatedReason ''NetPeering created'') (ret np)))) (\<lambda>np.
         andThen (whenM (o_NetPeeringState np = NetPeeringPending) (acceptNetPeering E np))
         (cs_SetReconciliationGeneration ReconcilerNetPeering)))))))"

definition reconcileDeleteNetPeering :: "('w, 'z, unit) Op" where
  "reconcileDeleteNetPeering =
     bind (gets scope) (\<lambda>cs.
     if useExistingNet cs then ret ()
     else bind (findExisting ''find net: '' True getNetId) (\<lambda>found.
       case found of
         None \<Rightarrow> ret ()
       | Some netId \<Rightarrow>
           bind (wrap ''list netPeerings: '' (svc_ListNetPeerings (csTenant cs) netId)) (\<lambda>nps.
           forM nps (\<lambda>np. whenM (o_NetPeeringState np = NetPeeringPending \<or> o_NetPeeringState np = NetPeeringActive)
             (wrap ''cannot delete netPeering: '' (svc_DeleteNetPeering (csTenant cs) (o_NetPeeringId np)))))))"

section \<open>Routes of the peering\<close>

text \<open>The net and the subnet read here are dereferenced without a test: not found is a panic.\<close>

definition getManagementRouteTablesAndIPRange :: "'w Env \<Rightarrow> 'w Tenant \<Rightarrow> ('w, 'z, osc_RouteTable list \<times> string) Op" where
  "getManagementRouteTablesAndIPRange E mgmt =
     bind (gets scope) (\<lambda>cs.
     bind (wrap ''find mgmt route tables: '' (svc_GetRouteTablesFromNet mgmt (getMgmtNetID E cs))) (\<lambda>rtbls.
     let subnetId = ManagementSubnetID (NetPeering (cs_GetNetwork cs)) in
     if subnetId = [] then
       bind (wrap ''get mgmt net: '' (svc_GetNet mgmt (getMgmtNetID E cs))) (\<lambda>n.
       case n of None \<Rightarrow> panic | Some n \<Rightarrow> ret (rtbls, o_IpRange n))
     else
       bind (wrap ''get mgmt subnet: '' (svc_GetSubnet mgmt subnetId)) (\<lambda>sn.
       case filter (\<lambda>rtbl. subnetId \<in> set (map o_LinkSubnetId (o_LinkRouteTables rtbl))) rtbls of
         [] \<Rightarrow> raise (ErrorsNew ''no routing table are linked to managementSubnetId'')
       | rtbl # _ \<Rightarrow> (case sn of None \<Rightarrow> panic | Some sn \<Rightarrow> ret ([rtbl], o_SubnetIpRange sn)))))"

definition hasRouteTo :: "'w Env \<Rightarrow> string \<Rightarrow> osc_RouteTable \<Rightarrow> bool" where
  "hasRouteTo E npId rtbl \<longleftrightarrow> (\<exists>r \<in> set (o_Routes rtbl). ptrFrom E (o_RouteNetPeeringId r) = npId)"

text \<open>Adding the route of a side to each of its route tables that has none.\<close>

definition addPeeringRoutes :: "'w Env \<Rightarrow> 'w Tenant \<Rightarrow> string \<Rightarrow> string \<Rightarrow> string \<Rightarrow> string \<Rightarrow> osc_RouteTable list \<Rightarrow> ('w, 'z, unit) Op" where
  "addPeeringRoutes E t npId ipRange pre msg rtbls =
     forM rtbls (\<lambda>rtbl.
       if hasRouteTo E npId rtbl then ret ()
       else andThen (wrap pre (svc_CreateRoute t ipRange (o_RouteTableId rtbl) npId ''netPeering''))
         (record_event NetPeeringCreatedReason msg))"

definition reconcileNetPeeringRoutes :: "'w Env \<Rightarrow> ('w, 'z, unit) Op" where
  "reconcileNetPeeringRoutes E =
     bind (gets scope) (\<lambda>cs.
     if useExistingNet cs then ret ()
     else ifNeeded ReconcilerNetPeeringRoutes (
       bind (wrap ''get netpeering: '' getNetPeering) (\<lambda>np.
       bind (wrap ''get net: '' getNetId) (\<lambda>netId.
       bind (wrap ''get mgmt credentials: '' (lift (getMgmtTenant E (csOscCluster cs)))) (\<lambda>mgmt.
       bind (wrap ''list mgmt route tables: '' (getManagementRouteTablesAndIPRange E mgmt)) (\<lambda>(mgmtRtbls, mgmtIPRange).
       andThen (addPeeringRoutes E mgmt (o_NetPeeringId np) (net_IpRange (cs_GetNet cs))
         ''create mgmt route: '' ''NetPeering management route created'' mgmtRtbls)
       (bind (wrap ''list workload route tables: '' (svc_GetRouteTablesFromNet (csTenant cs) netId)) (\<lambda>rtbls.
       andThen (addPeeringRoutes E (csTenant cs) (o_NetPeeringId np) mgmtIPRange
         ''create workload route: '' ''NetPeering workload route created'' rtbls)
       (cs_SetReconciliationGeneration ReconcilerNetPeeringRoutes)))))))))"

text \<open>Removing the routes of a side that go through the peering.\<close>

definition deletePeeringRoutes :: "'w Env \<Rightarrow> 'w Tenant \<Rightarrow> string \<Rightarrow> string \<Rightarrow> osc_RouteTable list \<Rightarrow> ('w, 'z, unit) Op" where
  "deletePeeringRoutes E t npId pre rtbls =
     forM rtbls (\<lambda>rtbl. forM (o_Routes rtbl) (\<lambda>r.
       whenM (ptrFrom E (o_RouteNetPeeringId r) = npId)
         (wrap pre (svc_DeleteRoute t (o_DestinationIpRange r) (o_RouteTableId rtbl)))))"

definition reconcileDeleteNetPeeringRoutes :: "'w Env \<Rightarrow> ('w, 'z, unit) Op" where
  "reconcileDeleteNetPeeringRoutes E =
     bind (gets scope) (\<lambda>cs.
     if useExistingNet cs then ret ()
     else bind (findExisting [] True getNetId) (\<lambda>foundNet.
       case foundNet of
         None \<Rightarrow> ret ()
       | Some netId \<Rightarrow>
           bind (findExisting [] True getNetPeering) (\<lambda>found.
           case found of
             None \<Rightarrow> ret ()
           | Some np \<Rightarrow>
               bind (wrap ''get mgmt credentials: '' (lift (getMgmtTenant E (csOscCluster cs)))) (\<lambda>mgmt.
               bind (wrap ''list mgmt route tables: '' (getManagementRouteTablesAndIPRange E mgmt)) (\<lambda>(mgmtRtbls, _).
               andThen (deletePeeringRoutes E mgmt (o_NetPeeringId np) ''delete mgmt route: '' mgmtRtbls)
               (bind (wrap ''list workload route tables: '' (svc_GetRouteTablesFromNet (csTenant cs) netId)) (\<lambda>rtbls.
               deletePeeringRoutes E (csTenant cs) (o_NetPeeringId np) ''delete workload route: '' rtbls)))))))"

end
