(* ===== verification/Cluster_Controller.thy ===== *)
theory Cluster_Controller
  imports Cluster_Security Cluster_Peering
begin

text \<open>
  \<^verbatim>\<open>controllers/osccluster_controller.go\<close>: the order in which the reconcilers of a cluster run, the
  conditions they set, the deletion of a cluster with its finalizer, and the entry point called
  by the controller runtime. A result is the delay after which the object is queued again, in
  seconds, 0 for none.
\<close>

section \<open>Conditions and finalizer\<close>

abbreviation OscClusterFinalizer :: string where
  "OscClusterFinalizer \<equiv> ''oscclusters.infrastructure.cluster.x-k8s.io''"

abbreviation ConditionSeverityWarning :: string where "ConditionSeverityWarning \<equiv> ''Warning''"

definition markTrue :: "'w Env \<Rightarrow> string \<Rightarrow> ('w, 'z, unit) Op" where
  "markTrue E cond = modify (upd_Status (\<lambda>st. st\<lparr>cl_Conditions := MarkTrue E (cl_Conditions st) cond\<rparr>))"

definition markFalse :: "'w Env \<Rightarrow> string \<Rightarrow> string \<Rightarrow> gerror \<Rightarrow> ('w, 'z, unit) Op" where
  "markFalse E cond reason e = modify (upd_Status (\<lambda>st. st\<lparr>cl_Conditions :=
     MarkFalse E (cl_Conditions st) cond reason ConditionSeverityWarning (error_msg e)\<rparr>))"

text \<open>
  One block of \<^verbatim>\<open>reconcile\<close>: run a reconciler; on an error, mark its condition false and return the
  wrapped error.
\<close>

definition step :: "'w Env \<Rightarrow> string \<Rightarrow> string \<Rightarrow> string \<Rightarrow> ('w, 'z, unit) Op \<Rightarrow> ('w, 'z, unit) Op" where
  "step E cond reason pre m =
     handle m (\<lambda>r. case r of
       Inl e \<Rightarrow> andThen (markFalse E cond reason e) (raise (Errorf pre e))
     | Inr _ \<Rightarrow> ret ())"

text \<open>The usual block also marks the condition true.\<close>

definition stepT :: "'w Env \<Rightarrow> string \<Rightarrow> string \<Rightarrow> string \<Rightarrow> ('w, 'z, unit) Op \<Rightarrow> ('w, 'z, unit) Op" where
  "stepT E cond reason pre m = andThen (step E cond reason pre m) (markTrue E cond)"

definition addFinalizer :: "'w Env \<Rightarrow> ('w, 'z, unit) Op" where
  "addFinalizer E = modify (upd_OscCluster (\<lambda>c. c\<lparr>cl_Meta := (cl_Meta c)
     \<lparr>Finalizers := AddFinalizer E (Finalizers (cl_Meta c)) OscClusterFinalizer\<rparr>\<rparr>))"

definition removeFinalizer :: "'w Env \<Rightarrow> ('w, 'z, unit) Op" where
  "removeFinalizer E = modify (upd_OscCluster (\<lambda>c. c\<lparr>cl_Meta := (cl_Meta c)
     \<lparr>Finalizers := RemoveFinalizer E (Finalizers (cl_Meta c)) OscClusterFinalizer\<rparr>\<rparr>))"

section \<open>Reconciling\<close>

text \<open>The internet part: the public route tables come before the NAT services, which need them.\<close>

definition reconcileInternet :: "'w Env \<Rightarrow> ('w, 'z, unit) Op" where
  "reconcileInternet E =
     andThen (stepT E InternetServicesReadyCondition InternetServicesFailedReason ''reconcile internetService: ''
       reconcileInternetService)
     (andThen (step E RouteTablesReadyCondition RouteTableReconciliationFailedReason ''reconcile public routeTables: ''
       (reconcileRouteTable E [RoleNat]))
     (stepT E NatServicesReadyCondition NatServicesReconciliationFailedReason ''reconcile natServices: ''
       reconcileNatService))"

definition reconcilePeering :: "'w Env \<Rightarrow> ('w, 'z, unit) Op" where
  "reconcilePeering E =
     andThen (step E NetPeeringReadyCondition NetPeeringReconciliationFailedReason ''reconcile netPeering: ''
       (reconcileNetPeering E))
     (stepT E NetPeeringReadyCondition NetPeeringReconciliationFailedReason ''reconcile netPeering: ''
       (reconcileNetPeeringRoutes E))"

text \<open>\<^verbatim>\<open>if c(clusterScope) { ... }\<close>, the condition being read when the block is reached.\<close>

definition whenScope :: "('w ClusterScope \<Rightarrow> bool) \<Rightarrow> ('w, 'z, unit) Op \<Rightarrow> ('w, 'z, unit) Op" where
  "whenScope c m = bind (gets scope) (\<lambda>cs. whenM (c cs) m)"

definition reconcile :: "'w Env \<Rightarrow> ('w, 'z, nat) Op" where
  "reconcile E =
     andThen (addFinalizer E)
     (andThen cs_EnsureExplicitUID
     (andThen (stepT E NetReadyCondition NetReconciliationFailedReason ''reconcile net: '' reconcileNet)
     (andThen (stepT E SubnetsReadyCondition SubnetsReconciliationFailedReason ''reconcile subnets: '' reconcileSubnets)
     (andThen (whenScope (\<lambda>cs. \<not> cs_IsInternetDisabled cs) (reconcileInternet E))
     (andThen (stepT E RouteTablesReadyCondition RouteTableReconciliationFailedReason ''reconcile routeTables: ''
        (reconcileRouteTable E []))
     (andThen (whenScope (\<lambda>cs. np_Enable (NetPeering (cs_GetNetwork cs))) (reconcilePeering E))
     (andThen (whenScope (\<lambda>cs. NetAccessPoints (cs_GetNetwork cs) \<noteq> [])
        (stepT E NetAccessPointsReadyCondition NetAccessPointsReconciliationFailedReason ''reconcile netAccessPoints: ''
           reconcileNetAccessPoints))
     (andThen (stepT E SecurityGroupReadyCondition SecurityGroupReconciliationFailedReason ''reconcile securityGroups: ''
        reconcileSecurityGroup)
     (andThen (whenScope (\<lambda>cs. \<not> cs_IsLBDisabled cs)
        (stepT E LoadBalancerReadyCondition LoadBalancerFailedReason ''reconcile loadBalancer: '' (reconcileLoadBalancer E)))
     (andThen (whenScope (\<lambda>cs. bn_Enable (Bastion (cs_GetNetwork cs)))
        (stepT E VmReadyCondition VmNotReadyReason ''reconcile bastion: '' reconcileBastion))
     (andThen cs_SetReady (ret 0))))))))))))"

section \<open>Deleting\<close>

definition deleteInternet :: "'w Env \<Rightarrow> ('w, 'z, unit) Op" where
  "deleteInternet E =
     andThen (wrap ''reconcile delete natServices: '' reconcileDeleteNatService)
     (wrap ''reconcile delete publicIPs: '' (reconcileDeletePublicIp E))"

definition deletePeering :: "'w Env \<Rightarrow> ('w, 'z, unit) Op" where
  "deletePeering E =
     andThen (wrap ''reconcile delete netPeering routes: '' (reconcileDeleteNetPeeringRoutes E))
     (wrap ''reconcile delete netPeering: '' reconcileDeleteNetPeering)"

text \<open>The deletion steps, from the resources inside the net to the net itself.\<close>

definition deleteResources :: "'w Env \<Rightarrow> ('w, 'z, unit) Op" where
  "deleteResources E =
     andThen (whenScope (\<lambda>cs. bn_Enable (Bastion (cs_GetNetwork cs)))
        (wrap ''reconcile delete bastion: '' reconcileDeleteBastion))
     (andThen (whenScope (\<lambda>cs. \<not> cs_IsLBDisabled cs)
        (wrap ''reconcile delete loadBalancer: '' (reconcileDeleteLoadBalancer E)))
     (andThen (whenScope (\<lambda>cs. \<not> cs_IsInternetDisabled cs) (deleteInternet E))
     (andThen (wrap ''reconcile delete netAccessPoints: '' reconcileDeleteNetAccessPoints)
     (andThen (whenScope (\<lambda>cs. np_Enable (NetPeering (cs_GetNetwork cs))) (deletePeering E))
     (andThen (wrap ''reconcile delete routeTables: '' reconcileDeleteRouteTable)
     (andThen (wrap ''reconcile delete securityGroups: '' reconcileDeleteSecurityGroup)
     (andThen (whenScope (\<lambda>cs. \<not> cs_IsInternetDisabled cs)
        (wrap ''reconcile delete internetServices: '' reconcileDeleteInternetService))
     (andThen (wrap ''reconcile delete subnets: '' reconcileDeleteSubnets)
     (wrap ''reconcile delete net: '' reconcileDeleteNet)))))))))"

definition reconcileDelete :: "'w Env \<Rightarrow> ('w, 'z, nat) Op" where
  "reconcileDelete E =
     bind (gets scope) (\<lambda>cs.
     bind (wrap ''failed to list machines: '' (lift (cs_ListMachines E cs))) (\<lambda>machines.
     if machines \<noteq> [] then ret 60
     else andThen (deleteResources E) (andThen (removeFinalizer E) (ret 0))))"

section \<open>Entry point\<close>

text \<open>
  What the entry point uses of the Kubernetes API: reading the object and its owner, the test
  for a missing object, the pause annotation, the creation of the patch helper and the patch
  itself, which may fail.
\<close>

record Kube =
  k_GetOscCluster :: "string \<Rightarrow> gerror + OscCluster"
  k_IsNotFound :: "gerror \<Rightarrow> bool"
  k_GetOwnerCluster :: "ObjectMeta \<Rightarrow> gerror + CapiCluster option"
  k_IsPaused :: "CapiCluster \<Rightarrow> OscCluster \<Rightarrow> bool"
  k_NewHelper :: "OscCluster \<Rightarrow> gerror option"
  k_Patch :: "OscCluster \<Rightarrow> gerror option"

text \<open>
  \<^verbatim>\<open>NewClusterScope\<close>: the nil tests cannot fail here, the caller has both objects; the world gets
  the scope of the run.
\<close>

definition NewClusterScope :: "Kube \<Rightarrow> CapiCluster \<Rightarrow> OscCluster \<Rightarrow> 'w Tenant \<Rightarrow> ('w, 'z, unit) Op" where
  "NewClusterScope K cluster oscCluster t =
     (case k_NewHelper K oscCluster of
        Some e \<Rightarrow> raise (Errorf ''failed to init patch helper: '' e)
      | None \<Rightarrow> modify (\<lambda>s. s\<lparr>scope := \<lparr>csCluster = cluster, csOscCluster = oscCluster, csTenant = t\<rparr>\<rparr>))"

definition cs_Close :: "Kube \<Rightarrow> ('w, 'z, unit) Op" where
  "cs_Close K = bind (gets scope) (\<lambda>cs.
     case k_Patch K (csOscCluster cs) of
       Some e \<Rightarrow> raise e
     | None \<Rightarrow> modify (\<lambda>s. s\<lparr>patched := patched s @ [csOscCluster cs]\<rparr>))"

text \<open>
  The deferred function closes the scope whatever the outcome, a panic included; its error
  replaces a missing one only.
\<close>

definition deferClose :: "Kube \<Rightarrow> ('w, 'z, 'a) Op \<Rightarrow> ('w, 'z, 'a) Op" where
  "deferClose K m = (\<lambda>s. case m s of (r, t) \<Rightarrow>
     (case cs_Close K t of
        (Err e, u) \<Rightarrow> ((case r of Ok _ \<Rightarrow> Err e | _ \<Rightarrow> r), u)
      | (_, u) \<Rightarrow> (r, u)))"

definition Reconcile :: "Kube \<Rightarrow> 'w Env \<Rightarrow> string \<Rightarrow> ('w, 'z, nat) Op" where
  "Reconcile K E req =
     (case k_GetOscCluster K req of
        Inl e \<Rightarrow> if k_IsNotFound K e then ret 0 else raise e
      | Inr oscCluster \<Rightarrow>
          (case k_GetOwnerCluster K (cl_Meta oscCluster) of
             Inl e \<Rightarrow> if k_IsNotFound K e then ret 0 else raise e
           | Inr None \<Rightarrow> ret 0
           | Inr (Some cluster) \<Rightarrow>
               if k_IsPaused K cluster oscCluster then ret 0
               else bind (wrap ''unable to fetch tenant: '' (lift (getTenant E oscCluster))) (\<lambda>t.
                 andThen (wrap ''failed to create scope: '' (NewClusterScope K cluster oscCluster t))
                 (deferClose K (if DeletionTimestamp (cl_Meta oscCluster) \<noteq> None
                    then reconcileDelete E else reconcile E)))))"

end
