(* ===== verification/Effects.thy ===== *)
theory Effects
  imports Cluster_Controller
begin

text \<open>
  What the components may do to the cloud. Every SDK request has an effect (reading, tagging,
  creating, changing or deleting a kind of resource), and the frame \<open>acts C K\<close> says that a run keeps the
  network specification and, when that specification satisfies \<open>C\<close>, issues only requests whose
  effect is in \<open>K\<close>. The lemmas give each operation its set of effects, for every client.
\<close>

section \<open>Effects of requests\<close>

datatype resource = RNet | RSubnet | RInternetService | RNat | RRouteTable | RRoute | RPublicIp | RPeering
  | RNap | RLoadBalancer | RSecurityGroup | RRule | RVm | RGpu

datatype effect = ERead | ETag | ECreate resource | EChange resource | EDelete resource

primrec effect_of :: "osc_request \<Rightarrow> effect" where
  "effect_of (CreateNetRequest a) = ECreate RNet"
| "effect_of (DeleteNetRequest a) = EDelete RNet"
| "effect_of (ReadNetsRequest a) = ERead"
| "effect_of (CreateSubnetRequest a b c) = ECreate RSubnet"
| "effect_of (DeleteSubnetRequest a) = EDelete RSubnet"
| "effect_of (ReadSubnetsRequest a b c) = ERead"
| "effect_of CreateInternetServiceRequest = ECreate RInternetService"
| "effect_of (DeleteInternetServiceRequest a) = EDelete RInternetService"
| "effect_of (LinkInternetServiceRequest a b) = EChange RInternetService"
| "effect_of (UnlinkInternetServiceRequest a b) = EDelete RInternetService"
| "effect_of (ReadInternetServicesRequest a b) = ERead"
| "effect_of (CreateNatServiceRequest a b c) = ECreate RNat"
| "effect_of (DeleteNatServiceRequest a) = EDelete RNat"
| "effect_of (ReadNatServicesRequest a b c) = ERead"
| "effect_of (CreateRouteTableRequest a) = ECreate RRouteTable"
| "effect_of (CreateRouteRequest a b c d e) = ECreate RRoute"
| "effect_of (DeleteRouteTableRequest a) = EDelete RRouteTable"
| "effect_of (DeleteRouteRequest a b) = EDelete RRoute"
| "effect_of (ReadRouteTablesRequest a b c d e) = ERead"
| "effect_of (LinkRouteTableRequest a b) = EChange RRouteTable"
| "effect_of (UnlinkRouteTableRequest a) = EDelete RRouteTable"
| "effect_of CreatePublicIpRequest = ECreate RPublicIp"
| "effect_of (DeletePublicIpRequest a) = EDelete RPublicIp"
| "effect_of (ReadPublicIpsRequest a b c d) = ERead"
| "effect_of (CreateNetPeeringRequest a b c) = ECreate RPeering"
| "effect_of (AcceptNetPeeringRequest a) = EChange RPeering"
| "effect_of (DeleteNetPeeringRequest a) = EDelete RPeering"
| "effect_of (ReadNetPeeringsRequest a b c d) = ERead"
| "effect_of (CreateNetAccessPointRequest a b c) = ECreate RNap"
| "effect_of (DeleteNetAccessPointRequest a) = EDelete RNap"
| "effect_of (ReadNetAccessPointsRequest a b c d) = ERead"
| "effect_of (UpdateLoadBalancerRequest a b) = EChange RLoadBalancer"
| "effect_of (LinkLoadBalancerBackendMachinesRequest a b) = EChange RLoadBalancer"
| "effect_of (UnlinkLoadBalancerBackendMachinesRequest a b) = EChange RLoadBalancer"
| "effect_of (ReadLoadBalancersRequest a) = ERead"
| "effect_of (CreateLoadBalancerTagsRequest a b) = ETag"
| "effect_of (DeleteLoadBalancerTagsRequest a b) = ETag"
| "effect_of (CreateLoadBalancerRequest a b c d e) = ECreate RLoadBalancer"
| "effect_of (DeleteLoadBalancerRequest a) = EDelete RLoadBalancer"
| "effect_of (CreateTagsRequest a b) = ETag"
| "effect_of (ReadTagsRequest a b c) = ERead"
| "effect_of (CreateSecurityGroupRequest a b c) = ECreate RSecurityGroup"
| "effect_of (CreateSecurityGroupRuleRequest a b c) = ECreate RRule"
| "effect_of (DeleteSecurityGroupRuleRequest a b c) = EDelete RRule"
| "effect_of (DeleteSecurityGroupRequest a) = EDelete RSecurityGroup"
| "effect_of (ReadSecurityGroupsRequest a b c) = ERead"
| "effect_of (ReadSecurityGroupsByRuleRequest a b c d e f g) = ERead"
| "effect_of (CreateVms a) = ECreate RVm"
| "effect_of (DeleteVmsRequest a) = EDelete RVm"
| "effect_of (ReadVmsRequest a b) = ERead"
| "effect_of (StartVmsRequest a) = EChange RVm"
| "effect_of (StopVmsRequest a) = EChange RVm"
| "effect_of (CreateFlexibleGpuRequest a b c d) = ECreate RGpu"
| "effect_of (ReadFlexibleGpusRequest a) = ERead"
| "effect_of (LinkFlexibleGpuRequest a b) = EChange RGpu"
| "effect_of (ReadImagesRequest a b c) = ERead"

definition acts :: "(OscNetwork \<Rightarrow> bool) \<Rightarrow> effect set \<Rightarrow> ('w, 'z) World_scheme \<Rightarrow> ('w, 'z) World_scheme \<Rightarrow> bool" where
  "acts C K s t \<longleftrightarrow>
     cs_GetNetwork (scope t) = cs_GetNetwork (scope s) \<and>
     (C (cs_GetNetwork (scope s)) \<longrightarrow> issues (\<lambda>c. effect_of c \<in> K) s t)"

abbreviation always :: "OscNetwork \<Rightarrow> bool" where "always \<equiv> (\<lambda>_. True)"

interpretation act: frame "acts C K" for C K
  by unfold_locales (auto simp: acts_def intro: iss.frame_refl iss.frame_trans)

named_theorems acts_rules \<open>the effects of each operation\<close>

lemma acts_sdk [acts_rules]: "effect_of req \<in> K \<Longrightarrow> keeps (acts C K) (sdk f t req)"
  using issues_sdk [of "\<lambda>c. effect_of c \<in> K" req f t]
  by (auto simp: keeps_def acts_def sdk_run split: prod.splits)

lemma acts_rand [acts_rules]: "keeps (acts C K) (rand_IntN n)"
  using issues_rand [of "\<lambda>c. effect_of c \<in> K" n] by (auto simp: keeps_def acts_def rand_IntN_def)

lemma acts_modify:
  "(\<And>s. calls (g s) = calls s \<and> cs_GetNetwork (scope (g s)) = cs_GetNetwork (scope s)) \<Longrightarrow> keeps (acts C K) (modify g)"
  by (auto simp: keeps_def acts_def run_simps intro: issues_append [of _ _ "[]"])

lemma upd_Status_views [simp]:
  "calls (upd_Status g s) = calls s" "cs_GetNetwork (scope (upd_Status g s)) = cs_GetNetwork (scope s)"
  by (simp_all add: upd_OscCluster_def upd_Status_def cs_GetNetwork_def)

lemma acts_upd [acts_rules]:
  "keeps (acts C K) (modify (upd_Status g))" "keeps (acts C K) (modify (upd_Resources h))"
  "keeps (acts C K) (modify (cl_setPublicIP k v))"
  by (rule acts_modify; simp add: cl_setPublicIP_def)+

lemma acts_cs_ops [acts_rules]:
  "keeps (acts C K) (record_event r m)"
  "keeps (acts C K) (cs_SetReconciliationGeneration rc)"
  "keeps (acts C K) (cs_SetControlPlaneEndpoint ep)"
  "keeps (acts C K) (cs_SetFailureDomain fd b)"
  "keeps (acts C K) cs_SetReady" "keeps (acts C K) (cs_SetVmState v)"
  unfolding record_event_def cs_SetReconciliationGeneration_def cs_SetControlPlaneEndpoint_def
    cs_SetFailureDomain_def cs_SetReady_def cs_SetVmState_def
  by (rule acts_modify; simp add: upd_OscCluster_def upd_Status_def cs_GetNetwork_def)+

lemma acts_mono:
  assumes "keeps (acts C K) m" and "\<And>n. C' n \<Longrightarrow> C n" and "K \<subseteq> K'"
  shows "keeps (acts C' K') m"
  using assms unfolding keeps_def acts_def by (meson issues_mono subsetD)

lemma acts_vacuous: "keeps (acts C K) m \<Longrightarrow> (\<And>n. \<not> C' n) \<Longrightarrow> keeps (acts C' K') m"
  by (auto simp: keeps_def acts_def)

text \<open>A branch on the specification read from the scope may use it in the guard.\<close>

lemma acts_scope:
  assumes "\<And>cs. keeps (acts (\<lambda>n. C n \<and> n = cs_GetNetwork cs) K) (k cs)"
  shows "keeps (acts C K) (bind (gets scope) k)"
proof (rule keepsI)
  fix s
  have "acts (\<lambda>n. C n \<and> n = cs_GetNetwork (scope s)) K s (snd (k (scope s) s))"
    using assms [of "scope s"] by (simp add: keeps_def)
  then show "acts C K s (snd (bind (gets scope) k s))"
    by (simp add: acts_def run_simps)
qed

lemma acts_NeedReconciliation [acts_rules]: "keeps (acts C K) (cs_NeedReconciliation r)"
  unfolding cs_NeedReconciliation_def cs_Rand_def by (intro frame_rules acts_rules)

lemma acts_ifNeeded [acts_rules]: "keeps (acts C K) m \<Longrightarrow> keeps (acts C K) (ifNeeded r m)"
  unfolding ifNeeded_def by (intro frame_rules acts_rules)

lemma acts_findExisting [acts_rules]: "keeps (acts C K) m \<Longrightarrow> keeps (acts C K) (findExisting pre b m)"
  unfolding findExisting_def by (intro frame_rules acts_rules)

lemma acts_orMissing [acts_rules]: "keeps (acts C K) (orMissing pre x)"
  unfolding orMissing_def by (intro frame_rules acts_rules)


section \<open>Effects of the operations\<close>

lemmas net_service_defs =
  svc_AddTag_def svc_ReadTag_def svc_ReadOwnedByTag_def svc_CreateNet_def svc_DeleteNet_def svc_GetNet_def
  svc_CreateSubnet_def svc_DeleteSubnet_def svc_GetSubnet_def svc_GetSubnetFromNet_def
  svc_CreateInternetService_def svc_DeleteInternetService_def svc_LinkInternetService_def
  svc_UnlinkInternetService_def svc_GetInternetService_def svc_GetInternetServiceForNet_def
  svc_CreateNatService_def svc_DeleteNatService_def svc_GetNatService_def
  svc_GetNatServiceFromClientToken_def svc_ListNatServices_def svc_CreateNetAccessPoint_def
  svc_DeleteNetAccessPoint_def svc_ListNetAccessPoints_def svc_GetNetAccessPoint_def
  svc_GetNetAccessPointFor_def svc_CreateNetPeering_def svc_AcceptNetPeering_def svc_DeleteNetPeering_def
  svc_GetNetPeering_def svc_GetNetPeeringFromNet_def svc_ListNetPeerings_def svc_CreatePublicIp_def
  svc_DeletePublicIp_def svc_GetPublicIp_def svc_GetPublicIpByIp_def svc_ListPublicIpsFromPool_def
  svc_ValidatePublicIpIds_def svc_CreateRouteTable_def svc_CreateRoute_def svc_DeleteRouteTable_def
  svc_DeleteRoute_def svc_GetRouteTable_def svc_GetRouteTableFromRoute_def svc_LinkRouteTable_def
  svc_UnlinkRouteTable_def svc_GetRouteTablesFromNet_def svc_ConfigureHealthCheck_def
  svc_LinkLoadBalancerBackendMachines_def svc_UnlinkLoadBalancerBackendMachines_def svc_GetLoadBalancer_def
  svc_CreateLoadBalancerTag_def svc_CreateLoadBalancer_def svc_DeleteLoadBalancer_def
  svc_DeleteLoadBalancerTag_def

lemmas compute_service_defs =
  svc_GetImage_def svc_GetImageByName_def svc_CreateSecurityGroup_def svc_CreateSecurityGroupRule_def
  svc_DeleteSecurityGroupRule_def svc_DeleteSecurityGroup_def svc_GetSecurityGroup_def
  svc_GetSecurityGroupFromName_def svc_SecurityGroupHasRule_def svc_GetSecurityGroupsFromNet_def
  svc_CreateVmBastion_def svc_DeleteVm_def svc_GetVm_def svc_GetVmFromClientToken_def svc_StartVm_def
  svc_StopVm_def svc_AddCCMTags_def

lemma acts_allocator [acts_rules]:
  "ERead \<in> K \<Longrightarrow> keeps (acts C K) (RetrackIP cl_IPAllocator key ip)"
  "{ERead, EDelete RPublicIp} \<subseteq> K \<Longrightarrow> keeps (acts C K) (DeallocateIP E cl_IPAllocator key)"
  "{ERead, ETag, ECreate RPublicIp} \<subseteq> K \<Longrightarrow> keeps (acts C K) (AllocateIP cl_IPAllocator key name pool)"
  unfolding RetrackIP_def DeallocateIP_def AllocateIP_def allocateNewIP_def allocate_def allocateFromPool_def
    cl_IPAllocator_def IPAllocator.simps net_service_defs
  by (intro frame_rules acts_rules; simp)+

lemma acts_lookups [acts_rules]:
  assumes "ERead \<in> K"
  shows "keeps (acts C K) getNetId" "keeps (acts C K) getNetPeeringId"
    "keeps (acts C K) (getNatServiceOrId ns)" "keeps (acts C K) getBastionOrId" "keeps (acts C K) (getSecurityGroupOrId sg)"
  unfolding getNetId_def getNetPeeringId_def getNatServiceOrId_def getBastionOrId_def getSecurityGroupOrId_def
    setNetId_def setNetPeeringId_def setNatServiceId_def setBastionId_def setSecurityGroupId_def
    net_service_defs compute_service_defs
  by (intro frame_rules acts_rules; simp add: assms)+

lemma acts_lookups_in_net [acts_rules]:
  assumes "ERead \<in> K"
  shows "keeps (acts C K) getInternetServiceOrId" "keeps (acts C K) (getNetAccessPointOrId service)"
    "keeps (acts C K) (getSubnetOrId sn)"
  unfolding getInternetServiceOrId_def getNetAccessPointOrId_def getSubnetOrId_def
    setInternetServiceId_def setNetAccessPointId_def setSubnetId_def net_service_defs
  by (intro frame_rules acts_rules; simp add: assms)+

lemma acts_getters [acts_rules]:
  assumes "ERead \<in> K"
  shows "keeps (acts C K) getNet" "keeps (acts C K) getNetPeering" "keeps (acts C K) getInternetService"
    "keeps (acts C K) (getNetAccessPoint service)" "keeps (acts C K) (getSubnet sn)" "keeps (acts C K) (getNatService ns)"
    "keeps (acts C K) getBastion" "keeps (acts C K) (getSecurityGroup sg)"
  unfolding getNet_def getNetPeering_def getInternetService_def getNetAccessPoint_def getSubnet_def getNatService_def
    getBastion_def getSecurityGroup_def trackNatIP_def trackIP_def retrackBastionIP_def
    net_service_defs compute_service_defs
  by (intro frame_rules acts_rules; simp add: assms)+

lemma acts_ids [acts_rules]:
  assumes "ERead \<in> K"
  shows "keeps (acts C K) getInternetServiceId" "keeps (acts C K) (getSubnetId sn)" "keeps (acts C K) (getNatServiceId ns)"
    "keeps (acts C K) (getSecurityGroupId sg)" "keeps (acts C K) (listNATPublicIPs b)"
  unfolding getInternetServiceId_def getSubnetId_def getNatServiceId_def getSecurityGroupId_def listNATPublicIPs_def
    net_service_defs
  by (intro frame_rules acts_rules; simp add: assms)+

lemma acts_setters [acts_rules]:
  "keeps (acts C K) (setNetId i)" "keeps (acts C K) (setNetPeeringId i)" "keeps (acts C K) (setInternetServiceId i)"
  "keeps (acts C K) (setNetAccessPointId service i)" "keeps (acts C K) (setSubnetId sn i)"
  "keeps (acts C K) (setNatServiceId ns i)" "keeps (acts C K) (setBastionId i)" "keeps (acts C K) (setSecurityGroupId sg i)"
  "keeps (acts C K) (untrackIP k)"
  unfolding setNetId_def setNetPeeringId_def setInternetServiceId_def setNetAccessPointId_def setSubnetId_def
    setNatServiceId_def setBastionId_def setSecurityGroupId_def untrackIP_def
  by (intro frame_rules acts_rules; simp)+

section \<open>Effects of the reconcilers\<close>

lemma acts_create_network [acts_rules]:
  "{ERead, ETag, ECreate RNet} \<subseteq> K \<Longrightarrow> keeps (acts C K) reconcileNet"
  "{ERead, ETag, ECreate RSubnet} \<subseteq> K \<Longrightarrow> keeps (acts C K) reconcileSubnets"
  "{ERead, ETag, ECreate RInternetService, EChange RInternetService} \<subseteq> K \<Longrightarrow> keeps (acts C K) reconcileInternetService"
  "{ERead, ETag, ECreate RNat, ECreate RPublicIp} \<subseteq> K \<Longrightarrow> keeps (acts C K) reconcileNatService"
  unfolding reconcileNet_def reconcileSubnets_def reconcileSubnet_def reconcileInternetService_def
    reconcileNatService_def reconcileOneNat_def net_service_defs
  by (intro frame_rules acts_rules; simp)+

lemma acts_route [acts_rules]:
  "{ERead, ECreate RRoute} \<subseteq> K \<Longrightarrow> keeps (acts C K) (reconcileRoute rt rs osc)"
  unfolding reconcileRoute_def net_service_defs by (intro frame_rules acts_rules; simp)

lemma acts_route_tables [acts_rules]:
  "{ERead, ETag, ECreate RRouteTable, EChange RRouteTable, ECreate RRoute} \<subseteq> K \<Longrightarrow>
     keeps (acts C K) (reconcileRouteTable E roles)"
  unfolding reconcileRouteTable_def reconcileOneRouteTable_def reconcileRouteTableSubnet_def net_service_defs
  by (intro frame_rules acts_rules; simp)

lemma acts_delete_network [acts_rules]:
  "{ERead, EDelete RNet} \<subseteq> K \<Longrightarrow> keeps (acts C K) reconcileDeleteNet"
  "{ERead, EDelete RSubnet} \<subseteq> K \<Longrightarrow> keeps (acts C K) reconcileDeleteSubnets"
  "{ERead, EDelete RInternetService} \<subseteq> K \<Longrightarrow> keeps (acts C K) reconcileDeleteInternetService"
  "{ERead, EDelete RNat} \<subseteq> K \<Longrightarrow> keeps (acts C K) reconcileDeleteNatService"
  "{ERead, EDelete RPublicIp} \<subseteq> K \<Longrightarrow> keeps (acts C K) (reconcileDeletePublicIp E)"
  "{ERead, EDelete RRouteTable} \<subseteq> K \<Longrightarrow> keeps (acts C K) reconcileDeleteRouteTable"
  unfolding reconcileDeleteNet_def reconcileDeleteSubnets_def reconcileDeleteInternetService_def
    reconcileDeleteNatService_def reconcileDeletePublicIp_def reconcileDeleteRouteTable_def net_service_defs
  by (intro frame_rules acts_rules; simp)+

lemma acts_rules_of_groups [acts_rules]:
  "ECreate RRule \<in> K \<Longrightarrow> keeps (acts C K) (reconcileSecurityGroupAddRules specs sg)"
  "EDelete RRule \<in> K \<Longrightarrow> keeps (acts C K) (reconcileSecurityGroupDeleteRules specs sg)"
  unfolding reconcileSecurityGroupAddRules_def reconcileSecurityGroupDeleteRules_def checkRules_def compute_service_defs
  by (intro frame_rules acts_rules; simp)+

lemma acts_security [acts_rules]:
  "{ERead, ETag, ECreate RSecurityGroup, ECreate RRule, EDelete RRule} \<subseteq> K \<Longrightarrow> keeps (acts C K) reconcileSecurityGroup"
  "{ERead, EDelete RRule, EDelete RSecurityGroup} \<subseteq> K \<Longrightarrow> keeps (acts C K) reconcileDeleteSecurityGroup"
  "{ERead, ETag, ECreate RLoadBalancer, EChange RLoadBalancer} \<subseteq> K \<Longrightarrow> keeps (acts C K) (reconcileLoadBalancer E)"
  "{ERead, EDelete RLoadBalancer} \<subseteq> K \<Longrightarrow> keeps (acts C K) (reconcileDeleteLoadBalancer E)"
  "{ERead, ETag, ECreate RVm, ECreate RPublicIp} \<subseteq> K \<Longrightarrow> keeps (acts C K) reconcileBastion"
  "{ERead, EDelete RVm} \<subseteq> K \<Longrightarrow> keeps (acts C K) reconcileDeleteBastion"
  unfolding reconcileSecurityGroup_def reconcileOneSecurityGroup_def reconcileDeleteSecurityGroup_def deleteMemberRules_def
    deleteSecurityGroups_def reconcileLoadBalancer_def createLoadBalancer_def reconcileDeleteLoadBalancer_def
    reconcileBastion_def createBastion_def bastionImage_def reconcileDeleteBastion_def net_service_defs compute_service_defs
  by (intro frame_rules acts_rules; simp)+

lemma acts_mgmt_tables [acts_rules]:
  "ERead \<in> K \<Longrightarrow> keeps (acts C K) (getManagementRouteTablesAndIPRange E mgmt)"
  unfolding getManagementRouteTablesAndIPRange_def net_service_defs by (intro frame_rules acts_rules; simp)

lemma acts_peering [acts_rules]:
  "{ERead, ETag, ECreate RNap} \<subseteq> K \<Longrightarrow> keeps (acts C K) reconcileNetAccessPoints"
  "{ERead, EDelete RNap} \<subseteq> K \<Longrightarrow> keeps (acts C K) reconcileDeleteNetAccessPoints"
  "{ERead, ETag, ECreate RPeering, EChange RPeering} \<subseteq> K \<Longrightarrow> keeps (acts C K) (reconcileNetPeering E)"
  "{ERead, EDelete RPeering} \<subseteq> K \<Longrightarrow> keeps (acts C K) reconcileDeleteNetPeering"
  "{ERead, ECreate RRoute} \<subseteq> K \<Longrightarrow> keeps (acts C K) (reconcileNetPeeringRoutes E)"
  "{ERead, EDelete RRoute} \<subseteq> K \<Longrightarrow> keeps (acts C K) (reconcileDeleteNetPeeringRoutes E)"
  unfolding reconcileNetAccessPoints_def reconcileOneNetAccessPoint_def reconcileDeleteNetAccessPoints_def
    reconcileNetPeering_def acceptNetPeering_def reconcileDeleteNetPeering_def reconcileNetPeeringRoutes_def
    addPeeringRoutes_def reconcileDeleteNetPeeringRoutes_def deletePeeringRoutes_def net_service_defs
  by (intro frame_rules acts_rules; simp)+

section \<open>A reused net\<close>

abbreviation reusesNet :: "OscNetwork \<Rightarrow> bool" where
  "reusesNet n \<equiv> reuse_Net (UseExisting n)"

text \<open>A reconciler that stops when the net is reused issues nothing then.\<close>

lemma acts_stops_on:
  assumes "\<And>cs. keeps (acts always UNIV) (k cs)" and "\<And>n. C n \<Longrightarrow> D n"
  shows "keeps (acts C K) (bind (gets scope) (\<lambda>cs. if D (cs_GetNetwork cs) then ret () else k cs))"
  by (rule acts_scope, rule keeps_if, rule act.keeps_pure, rule acts_vacuous [OF assms(1)]) (use assms(2) in auto)

lemma acts_stops:
  assumes "\<And>cs. keeps (acts always UNIV) (k cs)"
  shows "keeps (acts reusesNet K) (bind (gets scope) (\<lambda>cs. if useExistingNet cs then ret () else k cs))"
  using assms by (rule acts_stops_on [of k])

text \<open>When a resource may not be missing, the branch that creates it is not reached.\<close>

lemma findExisting_False_Ok: "findExisting pre False m s = (Ok r, t) \<Longrightarrow> \<exists>x. r = Some x"
  by (auto simp: findExisting_def run_simps split: prod.splits outcome.splits)

lemma acts_must_exist:
  assumes "keeps (acts C K) m" and "\<And>x. keeps (acts C K) (k (Some x))"
  shows "keeps (acts C K) (bind (findExisting pre False m) k)"
proof (rule keepsI)
  fix s
  obtain r t where m: "findExisting pre False m s = (r, t)" by (cases "findExisting pre False m s")
  have st: "acts C K s t" using m by (rule keepsD [OF acts_findExisting [OF assms(1)]])
  have tu: "acts C K t (snd (k (Some x) t))" for x using assms(2) by (simp add: keeps_def)
  show "acts C K s (snd (bind (findExisting pre False m) k s))"
    using st tu m by (cases r) (auto simp: bind_run dest!: findExisting_False_Ok intro: act.frame_trans)
qed

lemma reused_branch:
  assumes "\<And>cs. keeps (acts always UNIV) (k cs)" and "\<And>cs. useExistingNet cs \<Longrightarrow> keeps (acts reusesNet K) (k cs)"
  shows "keeps (acts reusesNet K) (bind (gets scope) k)"
proof (rule acts_scope)
  fix cs
  show "keeps (acts (\<lambda>n. reusesNet n \<and> n = cs_GetNetwork cs) K) (k cs)"
  proof (cases "useExistingNet cs")
    case True
    then show ?thesis by (rule acts_mono [OF assms(2)]) auto
  next
    case False
    then show ?thesis by (intro acts_vacuous [OF assms(1)]) auto
  qed
qed

lemma reused_quiet:
  shows "keeps (acts reusesNet K) reconcileInternetService"
    and "keeps (acts reusesNet K) reconcileNatService"
    and "keeps (acts reusesNet K) (reconcileRouteTable E roles)"
    and "keeps (acts reusesNet K) reconcileNetAccessPoints"
    and "keeps (acts reusesNet K) reconcileBastion"
  unfolding reconcileInternetService_def reconcileNatService_def reconcileOneNat_def reconcileRouteTable_def
    reconcileOneRouteTable_def reconcileRouteTableSubnet_def reconcileNetAccessPoints_def reconcileOneNetAccessPoint_def
    reconcileBastion_def createBastion_def bastionImage_def net_service_defs compute_service_defs
  by (rule acts_ifNeeded, rule acts_stops; intro frame_rules acts_rules; simp)+

lemma reused_quiet_peering:
  shows "keeps (acts reusesNet K) (reconcileNetPeering E)"
    and "keeps (acts reusesNet K) (reconcileNetPeeringRoutes E)"
    and "keeps (acts reusesNet K) reconcileDeleteNetPeering"
    and "keeps (acts reusesNet K) (reconcileDeleteNetPeeringRoutes E)"
    and "keeps (acts reusesNet K) reconcileDeleteNetAccessPoints"
  unfolding reconcileNetPeering_def acceptNetPeering_def reconcileDeleteNetPeering_def reconcileNetPeeringRoutes_def
    addPeeringRoutes_def reconcileDeleteNetPeeringRoutes_def deletePeeringRoutes_def reconcileDeleteNetAccessPoints_def
    net_service_defs
  by (rule acts_stops; intro frame_rules acts_rules; simp)+

lemma reused_quiet_delete:
  shows "keeps (acts reusesNet K) reconcileDeleteNet"
    and "keeps (acts reusesNet K) reconcileDeleteSubnets"
    and "keeps (acts reusesNet K) reconcileDeleteInternetService"
    and "keeps (acts reusesNet K) reconcileDeleteNatService"
    and "keeps (acts reusesNet K) reconcileDeleteRouteTable"
    and "keeps (acts reusesNet K) reconcileDeleteBastion"
  unfolding reconcileDeleteNet_def reconcileDeleteSubnets_def reconcileDeleteInternetService_def
    reconcileDeleteNatService_def reconcileDeleteRouteTable_def reconcileDeleteBastion_def net_service_defs compute_service_defs
  by (rule acts_stops; intro frame_rules acts_rules; simp)+

lemma reused_read_only:
  assumes "ERead \<in> K"
  shows "keeps (acts reusesNet K) reconcileNet" and "keeps (acts reusesNet K) (reconcileSubnet netId sn)"
  unfolding reconcileNet_def reconcileSubnet_def net_service_defs
  by ((rule acts_ifNeeded)?, rule reused_branch, (intro frame_rules acts_rules; simp), simp,
      rule acts_must_exist, simp add: acts_rules assms, simp add: frame_rules acts_rules)+

lemma reused_subnets:
  assumes "ERead \<in> K" shows "keeps (acts reusesNet K) reconcileSubnets"
  unfolding reconcileSubnets_def using assms reused_read_only(2)
  by (intro frame_rules acts_rules) auto

section \<open>The controller\<close>

lemma acts_meta_ops [acts_rules]:
  "keeps (acts C K) (addFinalizer E)" "keeps (acts C K) (removeFinalizer E)"
  "keeps (acts C K) (markTrue E cond)" "keeps (acts C K) (markFalse E cond reason e)"
  unfolding addFinalizer_def removeFinalizer_def markTrue_def markFalse_def
  by (rule acts_modify; simp add: upd_OscCluster_def upd_Status_def cs_GetNetwork_def)+

lemma acts_EnsureExplicitUID [acts_rules]: "keeps (acts C K) cs_EnsureExplicitUID"
  by (auto simp: keeps_def acts_def cs_EnsureExplicitUID_def Let_def upd_OscCluster_def cs_GetNetwork_def
      intro!: issues_append [of _ _ "[]"])

lemma acts_steps [acts_rules]:
  assumes "keeps (acts C K) m"
  shows "keeps (acts C K) (step E cond reason pre m)" "keeps (acts C K) (stepT E cond reason pre m)"
    "keeps (acts C K) (whenScope c m)"
  unfolding step_def stepT_def whenScope_def by (intro frame_rules acts_rules assms)+

abbreviation "networkCreations \<equiv> {ECreate RNet, ECreate RSubnet, ECreate RInternetService, EChange RInternetService,
  ECreate RNat, ECreate RPublicIp, ECreate RRouteTable, EChange RRouteTable, ECreate RRoute, ECreate RPeering,
  EChange RPeering, ECreate RNap, ECreate RVm}"

abbreviation "groupCreations \<equiv> {ECreate RSecurityGroup, ECreate RRule, EDelete RRule, ECreate RLoadBalancer, EChange RLoadBalancer}"

lemma acts_reconcile:
  "keeps (acts always ({ERead, ETag} \<union> networkCreations \<union> groupCreations)) (reconcile E)"
  unfolding reconcile_def reconcileInternet_def reconcilePeering_def
  by (intro frame_rules acts_rules; simp)

lemma acts_reconcile_reused:
  "keeps (acts reusesNet ({ERead, ETag} \<union> groupCreations)) (reconcile E)"
  unfolding reconcile_def reconcileInternet_def reconcilePeering_def
  by (intro frame_rules acts_rules(1-3) acts_meta_ops acts_EnsureExplicitUID acts_steps acts_cs_ops
      reused_quiet reused_quiet_peering reused_read_only reused_subnets acts_security; simp)

text \<open>A deletion step whose security groups are reused too issues nothing for them.\<close>

abbreviation reusesAll :: "OscNetwork \<Rightarrow> bool" where
  "reusesAll n \<equiv> reuse_Net (UseExisting n) \<and> reuse_SecurityGroups (UseExisting n)"

lemma reused_groups_quiet: "keeps (acts reusesAll K) reconcileDeleteSecurityGroup"
  unfolding reconcileDeleteSecurityGroup_def deleteMemberRules_def deleteSecurityGroups_def compute_service_defs
  by (rule acts_stops_on [where D = "\<lambda>n. reuse_SecurityGroups (UseExisting n)"]; (intro frame_rules acts_rules)?; simp)

lemma reused_deletions:
  shows "keeps (acts reusesAll K) reconcileDeleteNet" and "keeps (acts reusesAll K) reconcileDeleteSubnets"
    and "keeps (acts reusesAll K) reconcileDeleteInternetService" and "keeps (acts reusesAll K) reconcileDeleteNatService"
    and "keeps (acts reusesAll K) reconcileDeleteRouteTable" and "keeps (acts reusesAll K) reconcileDeleteBastion"
    and "keeps (acts reusesAll K) reconcileDeleteNetPeering" and "keeps (acts reusesAll K) (reconcileDeleteNetPeeringRoutes E)"
    and "keeps (acts reusesAll K) reconcileDeleteNetAccessPoints"
  by (rule acts_mono [where C = reusesNet and K = K]; simp add: reused_quiet_delete reused_quiet_peering)+

lemma acts_reconcileDelete:
  "keeps (acts always ({ERead} \<union> range EDelete)) (reconcileDelete E)"
  unfolding reconcileDelete_def deleteResources_def deleteInternet_def deletePeering_def
  by (intro frame_rules acts_rules; simp)

lemma acts_reconcileDelete_reused:
  "keeps (acts reusesAll {ERead, EDelete RLoadBalancer, EDelete RPublicIp}) (reconcileDelete E)"
  unfolding reconcileDelete_def deleteResources_def deleteInternet_def deletePeering_def
  by (intro frame_rules acts_meta_ops acts_steps acts_security(4) acts_delete_network(5)
      reused_groups_quiet reused_deletions; simp)

section \<open>Order of the deletions\<close>

text \<open>The rank of a kind of resource in a deletion: a resource goes before what it depends on.\<close>

primrec rank :: "resource \<Rightarrow> nat" where
  "rank RVm = 0" | "rank RLoadBalancer = 1" | "rank RNat = 2" | "rank RPublicIp = 3" | "rank RNap = 4"
| "rank RRoute = 5" | "rank RPeering = 6" | "rank RRouteTable = 7" | "rank RRule = 8" | "rank RSecurityGroup = 8"
| "rank RInternetService = 9" | "rank RSubnet = 10" | "rank RNet = 11" | "rank RGpu = 12"

definition deletion_ranks :: "osc_request list \<Rightarrow> nat list" where
  "deletion_ranks cs = List.map_filter (\<lambda>c. case effect_of c of EDelete r \<Rightarrow> Some (rank r) | _ \<Rightarrow> None) cs"

definition deletes_between :: "nat \<Rightarrow> nat \<Rightarrow> ('w, 'z) World_scheme \<Rightarrow> ('w, 'z) World_scheme \<Rightarrow> bool" where
  "deletes_between lo hi s t \<longleftrightarrow> (\<exists>cs. calls t = calls s @ cs \<and> sorted (deletion_ranks cs) \<and>
     (\<forall>p \<in> set (deletion_ranks cs). lo \<le> p \<and> p \<le> hi))"

lemma deletion_ranks_append [simp]: "deletion_ranks (xs @ ys) = deletion_ranks xs @ deletion_ranks ys"
  by (simp add: deletion_ranks_def map_filter_def)

lemma sorted_constant: "(\<And>x. x \<in> set xs \<Longrightarrow> x = p) \<Longrightarrow> sorted xs"
  by (induction xs) auto

lemma deletes_one_rank:
  assumes "keeps (acts always ({ERead} \<union> {EDelete r | r. rank r = p})) m"
  shows "keeps (deletes_between p p) m"
proof (rule keepsI)
  fix s
  obtain cs where cs: "calls (snd (m s)) = calls s @ cs" "list_all (\<lambda>c. effect_of c \<in> {ERead} \<union> {EDelete r | r. rank r = p}) cs"
    using assms by (auto simp: keeps_def acts_def issues_def)
  then have "\<forall>x \<in> set (deletion_ranks cs). x = p"
    by (fastforce simp: deletion_ranks_def map_filter_def list_all_iff)
  then show "deletes_between p p s (snd (m s))"
    using cs(1) by (auto simp: deletes_between_def intro!: exI [of _ cs] sorted_constant)
qed

lemma deletes_then:
  assumes "keeps (deletes_between a b) m" and "keeps (deletes_between c d) k" and "a \<le> c" "b \<le> c" "b \<le> d"
  shows "keeps (deletes_between a d) (andThen m k)"
proof (rule keepsI)
  fix s
  obtain r t where m: "m s = (r, t)" by (cases "m s")
  obtain cs where cs: "calls t = calls s @ cs" "sorted (deletion_ranks cs)" "\<forall>p \<in> set (deletion_ranks cs). a \<le> p \<and> p \<le> b"
    using assms(1) m by (auto simp: keeps_def deletes_between_def dest!: spec [of _ s])
  obtain ds where ds: "calls (snd (k t)) = calls t @ ds" "sorted (deletion_ranks ds)" "\<forall>p \<in> set (deletion_ranks ds). c \<le> p \<and> p \<le> d"
    using assms(2) by (auto simp: keeps_def deletes_between_def)
  show "deletes_between a d s (snd (andThen m k s))"
  proof (cases "\<exists>x. r = Ok x")
    case True
    have "sorted (deletion_ranks (cs @ ds))" and "\<forall>p \<in> set (deletion_ranks (cs @ ds)). a \<le> p \<and> p \<le> d"
      using cs(2,3) ds(2,3) assms(3-5) by (fastforce simp: sorted_append)+
    then show ?thesis using True m cs(1) ds(1)
      unfolding deletes_between_def by (intro exI [of _ "cs @ ds"]) (auto simp: andThen_run)
  next
    case False
    then show ?thesis using m cs assms(3-5)
      unfolding deletes_between_def by (intro exI [of _ cs]) (cases r; fastforce simp: andThen_run)
  qed
qed

lemma deletes_wrap: "keeps (deletes_between a b) m \<Longrightarrow> keeps (deletes_between a b) (wrap pre m)"
  by (auto simp: keeps_def wrap_run split: prod.splits outcome.splits) (metis snd_conv)+

lemma deletes_none: "keeps (deletes_between a b) (ret x)"
  by (auto simp: keeps_def run_simps deletes_between_def deletion_ranks_def map_filter_def)

lemma deletes_whenScope:
  "keeps (deletes_between a b) m \<Longrightarrow> keeps (deletes_between a b) (whenScope c m)"
  using deletes_none [of a b "()"] by (auto simp: keeps_def whenScope_def whenM_def run_simps)

lemma deletion_steps:
  "keeps (deletes_between 0 0) reconcileDeleteBastion"
  "keeps (deletes_between 1 1) (reconcileDeleteLoadBalancer E)"
  "keeps (deletes_between 2 2) reconcileDeleteNatService"
  "keeps (deletes_between 3 3) (reconcileDeletePublicIp E)"
  "keeps (deletes_between 4 4) reconcileDeleteNetAccessPoints"
  "keeps (deletes_between 5 5) (reconcileDeleteNetPeeringRoutes E)"
  "keeps (deletes_between 6 6) reconcileDeleteNetPeering"
  "keeps (deletes_between 7 7) reconcileDeleteRouteTable"
  "keeps (deletes_between 8 8) reconcileDeleteSecurityGroup"
  "keeps (deletes_between 9 9) reconcileDeleteInternetService"
  "keeps (deletes_between 10 10) reconcileDeleteSubnets"
  "keeps (deletes_between 11 11) reconcileDeleteNet"
  by (rule deletes_one_rank, rule acts_rules, simp)+

lemma deleteResources_order: "keeps (deletes_between 0 11) (deleteResources E)"
  unfolding deleteResources_def deleteInternet_def deletePeering_def
  by (rule deletes_then [of 0 0 _ 1 11] deletes_then [of 1 1 _ 2 11] deletes_then [of 2 3 _ 4 11]
        deletes_then [of 4 4 _ 5 11] deletes_then [of 5 6 _ 7 11] deletes_then [of 7 7 _ 8 11]
        deletes_then [of 8 8 _ 9 11] deletes_then [of 9 9 _ 10 11] deletes_then [of 10 10 _ 11 11]
        deletes_then [of 2 2 _ 3 3] deletes_then [of 5 5 _ 6 6]
        deletes_whenScope deletes_wrap deletion_steps | simp)+

end
