(* ===== verification/Observers.thy ===== *)
theory Observers
  imports Effects
begin

text \<open>
  What the operations leave alone. The interface \<open>observer\<close> is a function of the state that no
  primitive step changes: a request, a random draw, an event, a recorded id, a recorded
  generation, the endpoint, a failure domain, the VM state. Inside it, every lookup and every
  reconciler is shown to keep the observation. It is interpreted for the specification (with
  the metadata, the cluster and the tenant) and for the readiness flag.
\<close>

definition preserves :: "(('w, 'z) World_scheme \<Rightarrow> 'b) \<Rightarrow> ('w, 'z) World_scheme \<Rightarrow> ('w, 'z) World_scheme \<Rightarrow> bool" where
  "preserves f s t \<longleftrightarrow> f t = f s"

interpretation pres: frame "preserves f" for f
  by unfold_locales (auto simp: preserves_def)

named_theorems obs_rules \<open>operations that keep an observation\<close>

locale observer =
  fixes f :: "('w, 'z) World_scheme \<Rightarrow> 'b"
  assumes obs_sdk: "f (s\<lparr>cloud := w, calls := c\<rparr>) = f s"
    and obs_drawn: "f (s\<lparr>drawn := n\<rparr>) = f s"
    and obs_events: "f (s\<lparr>events := es\<rparr>) = f s"
    and obs_resources: "f (upd_Resources h s) = f s"
    and obs_generation: "f (snd (cs_SetReconciliationGeneration r s)) = f s"
    and obs_endpoint: "f (snd (cs_SetControlPlaneEndpoint ep s)) = f s"
    and obs_domain: "f (snd (cs_SetFailureDomain fd b s)) = f s"
    and obs_vmstate: "f (snd (cs_SetVmState v s)) = f s"
begin

lemma obs_primitives [obs_rules]:
  "keeps (preserves f) (sdk q t req)" "keeps (preserves f) (rand_IntN m)" "keeps (preserves f) (record_event reason msg)"
  "keeps (preserves f) (modify (upd_Resources h))" "keeps (preserves f) (modify (cl_setPublicIP key v'))"
  "keeps (preserves f) (cs_SetReconciliationGeneration r)" "keeps (preserves f) (cs_SetControlPlaneEndpoint ep)"
  "keeps (preserves f) (cs_SetFailureDomain fd b)" "keeps (preserves f) (cs_SetVmState v)"
  by (auto simp: keeps_def preserves_def sdk_run rand_IntN_def record_event_def run_simps cl_setPublicIP_def
      obs_sdk obs_drawn obs_events obs_resources obs_generation obs_endpoint obs_domain obs_vmstate split: prod.splits)

lemma obs_shapes [obs_rules]:
  "keeps (preserves f) (cs_NeedReconciliation r)"
  "keeps (preserves f) m \<Longrightarrow> keeps (preserves f) (ifNeeded r m)"
  "keeps (preserves f) m' \<Longrightarrow> keeps (preserves f) (findExisting pre c m')"
  "keeps (preserves f) (orMissing pre x)"
  unfolding ifNeeded_def findExisting_def orMissing_def cs_NeedReconciliation_def cs_Rand_def
  by (intro frame_rules obs_rules | assumption)+

lemma obs_allocator [obs_rules]:
  "keeps (preserves f) (RetrackIP cl_IPAllocator key ip)"
  "keeps (preserves f) (DeallocateIP E cl_IPAllocator key)"
  "keeps (preserves f) (AllocateIP cl_IPAllocator key name pool)"
  unfolding RetrackIP_def DeallocateIP_def AllocateIP_def allocateNewIP_def allocate_def allocateFromPool_def
    cl_IPAllocator_def IPAllocator.simps net_service_defs
  by (intro frame_rules obs_rules)+

lemma obs_setters [obs_rules]:
  "keeps (preserves f) (setNetId i)" "keeps (preserves f) (setNetPeeringId i)" "keeps (preserves f) (setInternetServiceId i)"
  "keeps (preserves f) (setNetAccessPointId service i)" "keeps (preserves f) (setSubnetId sn i)"
  "keeps (preserves f) (setNatServiceId ns i)" "keeps (preserves f) (setBastionId i)"
  "keeps (preserves f) (setSecurityGroupId sg i)" "keeps (preserves f) (trackIP k i)" "keeps (preserves f) (untrackIP k)"
  unfolding setNetId_def setNetPeeringId_def setInternetServiceId_def setNetAccessPointId_def setSubnetId_def
    setNatServiceId_def setBastionId_def setSecurityGroupId_def trackIP_def untrackIP_def
  by (intro frame_rules obs_rules)+

lemma obs_lookups [obs_rules]:
  "keeps (preserves f) getNetId" "keeps (preserves f) getNetPeeringId"
  "keeps (preserves f) (getNatServiceOrId ns)" "keeps (preserves f) getBastionOrId" "keeps (preserves f) (getSecurityGroupOrId sg)"
  unfolding getNetId_def getNetPeeringId_def getNatServiceOrId_def getBastionOrId_def getSecurityGroupOrId_def
    net_service_defs compute_service_defs
  by (intro frame_rules obs_rules)+

lemma obs_lookups_in_net [obs_rules]:
  "keeps (preserves f) getInternetServiceOrId" "keeps (preserves f) (getNetAccessPointOrId service)"
  "keeps (preserves f) (getSubnetOrId sn)"
  unfolding getInternetServiceOrId_def getNetAccessPointOrId_def getSubnetOrId_def net_service_defs
  by (intro frame_rules obs_rules)+

lemma obs_getters [obs_rules]:
  "keeps (preserves f) getNet" "keeps (preserves f) getNetPeering" "keeps (preserves f) getInternetService"
  "keeps (preserves f) (getNetAccessPoint service)" "keeps (preserves f) (getSubnet sn)" "keeps (preserves f) (getNatService ns)"
  "keeps (preserves f) getBastion" "keeps (preserves f) (getSecurityGroup sg)"
  "keeps (preserves f) getInternetServiceId" "keeps (preserves f) (getSubnetId sn)" "keeps (preserves f) (getNatServiceId ns)"
  "keeps (preserves f) (getSecurityGroupId sg)" "keeps (preserves f) (listNATPublicIPs b)"
  unfolding getNet_def getNetPeering_def getInternetService_def getNetAccessPoint_def getSubnet_def getNatService_def
    getBastion_def getSecurityGroup_def trackNatIP_def retrackBastionIP_def getInternetServiceId_def getSubnetId_def
    getNatServiceId_def getSecurityGroupId_def listNATPublicIPs_def net_service_defs compute_service_defs
  by (intro frame_rules obs_rules)+

lemma obs_network [obs_rules]:
  "keeps (preserves f) reconcileNet" "keeps (preserves f) reconcileSubnets" "keeps (preserves f) reconcileInternetService"
  "keeps (preserves f) reconcileNatService" "keeps (preserves f) (reconcileRouteTable E roles)"
  "keeps (preserves f) reconcileDeleteNet" "keeps (preserves f) reconcileDeleteSubnets"
  "keeps (preserves f) reconcileDeleteInternetService" "keeps (preserves f) reconcileDeleteNatService"
  "keeps (preserves f) (reconcileDeletePublicIp E)" "keeps (preserves f) reconcileDeleteRouteTable"
  unfolding reconcileNet_def reconcileSubnets_def reconcileSubnet_def reconcileInternetService_def
    reconcileNatService_def reconcileOneNat_def reconcileRouteTable_def reconcileOneRouteTable_def
    reconcileRouteTableSubnet_def reconcileRoute_def reconcileDeleteNet_def reconcileDeleteSubnets_def
    reconcileDeleteInternetService_def reconcileDeleteNatService_def reconcileDeletePublicIp_def
    reconcileDeleteRouteTable_def net_service_defs
  by (intro frame_rules obs_rules)+

lemma obs_security [obs_rules]:
  "keeps (preserves f) reconcileSecurityGroup" "keeps (preserves f) reconcileDeleteSecurityGroup"
  "keeps (preserves f) (reconcileLoadBalancer E)" "keeps (preserves f) (reconcileDeleteLoadBalancer E)"
  "keeps (preserves f) reconcileBastion" "keeps (preserves f) reconcileDeleteBastion"
  unfolding reconcileSecurityGroup_def reconcileOneSecurityGroup_def reconcileSecurityGroupAddRules_def
    reconcileSecurityGroupDeleteRules_def checkRules_def reconcileDeleteSecurityGroup_def deleteMemberRules_def
    deleteSecurityGroups_def reconcileLoadBalancer_def createLoadBalancer_def reconcileDeleteLoadBalancer_def
    reconcileBastion_def createBastion_def bastionImage_def reconcileDeleteBastion_def net_service_defs compute_service_defs
  by (intro frame_rules obs_rules)+

lemma obs_peering [obs_rules]:
  "keeps (preserves f) reconcileNetAccessPoints" "keeps (preserves f) reconcileDeleteNetAccessPoints"
  "keeps (preserves f) (reconcileNetPeering E)" "keeps (preserves f) reconcileDeleteNetPeering"
  "keeps (preserves f) (reconcileNetPeeringRoutes E)" "keeps (preserves f) (reconcileDeleteNetPeeringRoutes E)"
  unfolding reconcileNetAccessPoints_def reconcileOneNetAccessPoint_def reconcileDeleteNetAccessPoints_def
    reconcileNetPeering_def acceptNetPeering_def reconcileDeleteNetPeering_def reconcileNetPeeringRoutes_def
    getManagementRouteTablesAndIPRange_def addPeeringRoutes_def reconcileDeleteNetPeeringRoutes_def
    deletePeeringRoutes_def net_service_defs
  by (intro frame_rules obs_rules)+

lemma obs_deleteResources [obs_rules]: "keeps (preserves f) (deleteResources E)"
  unfolding deleteResources_def deleteInternet_def deletePeering_def whenScope_def
  by (intro frame_rules obs_rules)

end

section \<open>What is observed\<close>

text \<open>The cluster, the tenant, the metadata, the credentials and the network specification.\<close>

definition spec_view :: "('w, 'z) World_scheme \<Rightarrow> CapiCluster \<times> 'w Tenant \<times> ObjectMeta \<times> OscCredentials \<times> OscNetwork" where
  "spec_view s = (csCluster (scope s), csTenant (scope s), cl_Meta (csOscCluster (scope s)),
     Credentials (cl_Spec (csOscCluster (scope s))), cs_GetNetwork (scope s))"

definition ready :: "('w, 'z) World_scheme \<Rightarrow> bool" where
  "ready s = cl_Ready (cl_Status (csOscCluster (scope s)))"

lemmas scope_setters = cs_SetReconciliationGeneration_def cs_SetControlPlaneEndpoint_def cs_SetFailureDomain_def
  cs_SetVmState_def upd_Resources_def upd_Status_def upd_OscCluster_def

interpretation spec_obs: observer spec_view
  by unfold_locales (simp_all add: spec_view_def cs_GetNetwork_def scope_setters run_simps)

interpretation rdy: observer ready
  by unfold_locales (simp_all add: ready_def scope_setters run_simps)

end
