(* ===== verification/Tracking.thy ===== *)
theory Tracking
  imports Observers
begin

text \<open>
  What a successful reconciliation leaves tracked: after the reconcilers of the net and of the
  subnets have run and succeeded, the net and every subnet of the specification or of the
  generated layout have a recorded id, so that the later reconcilers find them without asking
  the cloud. Of the cloud it is only assumed that the ids it gives are not empty.
\<close>

section \<open>Rules of the shared shapes\<close>

lemma wp_sdk [wp_simps]:
  "wp (sdk f t req) Q s \<longleftrightarrow> (\<forall>x w. f (tn_Client t) req (cloud s) = (Inr x, w) \<longrightarrow> Q x (s\<lparr>cloud := w, calls := calls s @ [req]\<rparr>))"
  by (auto simp: wp_def ok_simps)

lemma wp_event [wp_simps]: "wp (record_event reason msg) Q s \<longleftrightarrow> Q () (s\<lparr>events := events s @ [(reason, msg)]\<rparr>)"
  by (simp add: record_event_def wp_simps)

lemma wp_orMissing [wp_simps]: "wp (orMissing pre x) Q s \<longleftrightarrow> (case x of None \<Rightarrow> True | Some y \<Rightarrow> Q y s)"
  by (simp add: orMissing_def wp_simps split: option.split)

lemma wp_ifNeeded:
  assumes "\<And>u. scope u = scope s \<Longrightarrow> wp m Q u" and "fst (cs_NeedReconciliation r s) = Ok True"
  shows "wp (ifNeeded r m) Q s"
proof -
  obtain u where u: "cs_NeedReconciliation r s = (Ok True, u)" using assms(2) by (metis prod.collapse)
  then have "scope u = scope s"
    by (auto simp: cs_NeedReconciliation_def cs_Rand_def rand_IntN_def Let_def run_simps split: option.splits if_splits)
  then show ?thesis using assms(1) u by (auto simp: ifNeeded_def wp_def ok_simps)
qed

lemma wp_findExisting [wp_simps]:
  "wp (findExisting pre c m) Q s \<longleftrightarrow>
     wp m (\<lambda>x. Q (Some x)) s \<and> (\<forall>e t. m s = (Err e, t) \<and> IsNotFound e \<and> c \<longrightarrow> Q None t)"
  by (auto simp: wp_def findExisting_def ok_simps split: if_splits)

section \<open>Net\<close>

definition idsGiven :: "'w Client \<Rightarrow> bool" where
  "idsGiven c \<longleftrightarrow>
     (\<forall>req w x w'. sdkNet c req w = (Inr x, w') \<longrightarrow> o_NetId x \<noteq> []) \<and>
     (\<forall>req w x w'. sdkSubnet c req w = (Inr x, w') \<longrightarrow> o_SubnetId x \<noteq> []) \<and>
     (\<forall>req w xs w'. sdkSubnets c req w = (Inr xs, w') \<longrightarrow> [] \<notin> o_SubnetId ` set xs)"

lemma idsGivenD:
  assumes "idsGiven c"
  shows "sdkNet c req w = (Inr x, w') \<Longrightarrow> o_NetId x \<noteq> []" "sdkSubnet c req w = (Inr y, w') \<Longrightarrow> o_SubnetId y \<noteq> []"
    "sdkSubnets c req w = (Inr ys, w') \<Longrightarrow> z \<in> set ys \<Longrightarrow> o_SubnetId z \<noteq> []"
  using assms unfolding idsGiven_def by (metis, metis, metis image_eqI)

abbreviation clientOf :: "('w, 'z) World_scheme \<Rightarrow> 'w Client" where
  "clientOf s \<equiv> tn_Client (csTenant (scope s))"

lemma getNetId_nonempty: "wp getNetId (\<lambda>rid t. rid \<noteq> [] \<and> tracked_Net t = rid) s"
  unfolding wp_conj
proof
  show "wp getNetId (\<lambda>rid _. rid \<noteq> []) s"
    by (rule wpI) (auto simp: getNetId_def ok_simps split: if_splits)
  show "wp getNetId (\<lambda>rid t. tracked_Net t = rid) s" by (rule wpI) (rule net_t.get_records)
qed

lemma tracked_Net_kept [simp]:
  "tracked_Net (s\<lparr>cloud := w, calls := c\<rparr>) = tracked_Net s" "tracked_Net (s\<lparr>events := es\<rparr>) = tracked_Net s"
  by (simp_all add: tracked_Net_def cs_GetNet_def cs_GetNetwork_def cs_GetResources_def)

lemma tracked_Net_set: "rid \<noteq> [] \<Longrightarrow> tracked_Net (upd_Resources (put_Net rid) s) \<noteq> []"
  by (simp add: tracked_Net_def put_defs)

lemma tracked_Net_generation: "wp (cs_SetReconciliationGeneration r) (\<lambda>_ t. tracked_Net t = tracked_Net s) s"
  by (simp add: tracked_Net_def cs_GetNet_def cs_GetNetwork_def cs_GetResources_def scope_setters wp_simps)

lemma net_tracked:
  assumes "fst (cs_NeedReconciliation ReconcilerNet s) = Ok True" and "idsGiven (clientOf s)"
  shows "wp reconcileNet (\<lambda>_ t. tracked_Net t \<noteq> []) s"
  unfolding reconcileNet_def
proof (rule wp_ifNeeded [OF _ assms(1)], goal_cases)
  case (1 u)
  have found: "wp getNet (\<lambda>_ t. tracked_Net t \<noteq> []) u"
    unfolding getNet_def svc_GetNet_def wp_simps
    by (rule wp_mono [OF getNetId_nonempty]) (auto split: option.split)
  have gen: "wp (cs_SetReconciliationGeneration r) (\<lambda>_ t. tracked_Net t \<noteq> []) v" if "tracked_Net v \<noteq> []" for r v
    by (rule wp_mono [OF tracked_Net_generation]) (use that in simp)
  show ?case
    unfolding wp_simps option.case
  proof (intro conjI allI impI)
    show "wp getNet (\<lambda>_. wp (cs_SetReconciliationGeneration ReconcilerNet) (\<lambda>_ t. tracked_Net t \<noteq> [])) u"
      by (rule wp_mono [OF found gen])
  qed (use assms(2) in \<open>auto simp: 1 wp_simps svc_CreateNet_def svc_AddTag_def setNetId_def idsGiven_def intro!: gen tracked_Net_set\<close>)
qed

section \<open>Subnets\<close>

text \<open>Between two states, recorded subnets stay recorded and the client stays the same.\<close>

definition grows :: "('w, 'z) World_scheme \<Rightarrow> ('w, 'z) World_scheme \<Rightarrow> bool" where
  "grows s t \<longleftrightarrow> clientOf t = clientOf s \<and>
     (\<forall>k. nmap_get (rsrc_Subnet (cs_GetResources (scope s))) k \<noteq> [] \<longrightarrow> nmap_get (rsrc_Subnet (cs_GetResources (scope t))) k \<noteq> [])"

interpretation grow: frame grows
  by unfold_locales (auto simp: grows_def)

lemma grows_tracked: "grows s t \<Longrightarrow> tracked_Subnet sn s \<noteq> [] \<Longrightarrow> tracked_Subnet sn t \<noteq> []"
  by (auto simp: grows_def tracked_Subnet_def getResource_def split: if_splits)

lemma grows_steps [simp]:
  "grows s (s\<lparr>cloud := w, calls := c\<rparr>)" "grows s (s\<lparr>events := es\<rparr>)" "grows s (upd_Resources (put_Net rid) s)"
  "rid \<noteq> [] \<Longrightarrow> grows s (upd_Resources (put_Subnet sn rid) s)"
  by (auto simp: grows_def cs_GetResources_def put_defs upd_Resources_def upd_Status_def upd_OscCluster_def)

lemma grows_later:
  "grows s u \<Longrightarrow> grows s (u\<lparr>cloud := w, calls := c\<rparr>)"
  "grows s u \<Longrightarrow> rid \<noteq> [] \<Longrightarrow> grows s (upd_Resources (put_Subnet sn rid) u)"
  by (blast intro: grow.frame_trans grows_steps)+

lemma grows_sdk [frame_rules]: "keeps grows (sdk f t req)"
  by (auto simp: keeps_def sdk_run split: prod.split)

lemma grows_getNetId: "keeps grows getNetId"
  unfolding getNetId_def setNetId_def svc_ReadOwnedByTag_def svc_ReadTag_def
  by (intro frame_rules grow.keeps_modify) simp_all

lemma getSubnetOrId_grows:
  assumes "getSubnetOrId sn s = (r, t)" and "idsGiven (clientOf s)"
  shows "grows s t \<and> (case r of Ok (so, rid) \<Rightarrow> tracked_Subnet sn t \<noteq> [] | _ \<Rightarrow> True)"
proof -
  obtain q u where net: "getNetId s = (q, u)" by (cases "getNetId s")
  have su: "grows s u" by (rule keepsD [OF grows_getNetId net])
  note given = idsGivenD(3) [OF assms(2), OF _ list.set_intros(1)]
  show ?thesis
    using assms(1) su grow.frame_refl [of s]
    by (auto simp: getSubnetOrId_def svc_GetSubnetFromNet_def setSubnetId_def run_simps net tracked_Subnet_def put_defs
        first_of_def split: if_splits outcome.splits prod.splits sum.splits list.splits option.splits
        intro!: grows_later dest: given)
qed

lemma getSubnet_grows:
  assumes "getSubnet sn s = (r, t)" and "idsGiven (clientOf s)"
  shows "grows s t \<and> (case r of Ok _ \<Rightarrow> tracked_Subnet sn t \<noteq> [] | _ \<Rightarrow> True)"
proof -
  obtain q u where q: "getSubnetOrId sn s = (q, u)" by (cases "getSubnetOrId sn s")
  have "tracked_Subnet sn (u\<lparr>cloud := w, calls := c\<rparr>) = tracked_Subnet sn u" for w c
    by (simp add: tracked_Subnet_def)
  then show ?thesis
    using assms(1) getSubnetOrId_grows [OF q assms(2)]
    by (auto simp: getSubnet_def svc_GetSubnet_def orMissing_def run_simps q
        split: outcome.splits prod.splits sum.splits option.splits intro!: grows_later)
qed

lemma subnet_step:
  assumes "idsGiven (clientOf s)"
  shows "wp (reconcileSubnet netId sn) (\<lambda>_ t. grows s t \<and> tracked_Subnet sn t \<noteq> []) s"
proof -
  have found: "wp (getSubnet sn) (\<lambda>_ t. grows s t \<and> tracked_Subnet sn t \<noteq> []) s"
    by (rule wpI) (use getSubnet_grows [OF _ assms] in fastforce)
  have missing: "grows s t" if "getSubnet sn s = (Err e, t)" for e t
    using getSubnet_grows [OF that assms] by simp
  note given = idsGivenD(2) [OF assms]
  show ?thesis
    unfolding reconcileSubnet_def Let_def wp_simps option.case
    using found missing given
    by (auto simp: svc_CreateSubnet_def svc_AddTag_def setSubnetId_def wp_simps tracked_Subnet_def put_defs
        intro!: grows_later grow.frame_trans [OF _ grows_steps(2)])
qed

lemma GetSubnets_spec: "cs_GetNetwork cs = cs_GetNetwork cs' \<Longrightarrow> cs_GetSubnets cs = cs_GetSubnets cs'"
  unfolding cs_GetSubnets_def cs_GetNet_def cs_GetSubregions_def by (simp only:)

lemma grows_status: "keeps grows (cs_SetFailureDomain fd b)" "keeps grows (cs_SetReconciliationGeneration r)"
  by (auto simp: keeps_def grows_def scope_setters run_simps cs_GetResources_def)

text \<open>\<open>grounded D s\<close>: the client gives ids and the subnets of \<open>D\<close> are tracked.\<close>

definition grounded :: "OscSubnet set \<Rightarrow> ('w, 'z) World_scheme \<Rightarrow> bool" where
  "grounded D s \<longleftrightarrow> idsGiven (clientOf s) \<and> (\<forall>sn \<in> D. tracked_Subnet sn s \<noteq> [])"

lemma grounded_grows: "grounded D s \<Longrightarrow> grows s t \<Longrightarrow> grounded D t"
  using grows_tracked by (auto simp: grounded_def grows_def)

lemma grounded_step: "grounded D s \<Longrightarrow> wp (reconcileSubnet netId sn) (\<lambda>_. grounded (insert sn D)) s"
proof (rule wp_mono [OF subnet_step])
  fix t assume "grounded D s" "grows s t \<and> tracked_Subnet sn t \<noteq> []"
  then show "grounded (insert sn D) t" using grounded_grows [of D s t] by (auto simp: grounded_def)
qed (simp add: grounded_def)

lemma subnets_tracked:
  assumes "fst (cs_NeedReconciliation ReconcilerSubnet s) = Ok True" and "idsGiven (clientOf s)"
  shows "wp reconcileSubnets (\<lambda>_. grounded (set (cs_GetSubnets (scope s)))) s"
  unfolding reconcileSubnets_def
proof (rule wp_ifNeeded [OF _ assms(1)], goal_cases)
  case (1 u)
  have net: "wp getNetId (\<lambda>_ v. cs_GetSubnets (scope v) = cs_GetSubnets (scope s) \<and> grounded {} v) u"
  proof (rule wpI)
    fix rid v assume run: "getNetId u = (Ok rid, v)"
    have "cs_GetNetwork (scope v) = cs_GetNetwork (scope u)"
      using keepsD [OF spec_obs.obs_lookups(1) run] by (simp add: preserves_def spec_view_def)
    then show "cs_GetSubnets (scope v) = cs_GetSubnets (scope s) \<and> grounded {} v"
      using keepsD [OF grows_getNetId run] assms(2) 1 by (auto simp: grounded_def grows_def intro: GetSubnets_spec)
  qed
  have loop: "wp (forM sns (reconcileSubnet netId)) (\<lambda>_. grounded (set sns)) v" if "grounded {} v" for sns netId v
    using wp_forM [of sns grounded "reconcileSubnet netId" "{}" v] grounded_step that by auto
  have after: "wp m (\<lambda>_. grounded D) v" if "keeps grows m" "grounded D v" for m :: "('a, 'b, unit) Op" and D v
    using that by (auto intro: wp_keeps grounded_grows)
  have domains: "keeps grows (forM sns (\<lambda>sn. whenM (c sn) (cs_SetFailureDomain (fd sn) True)))" for sns c fd
    by (intro frame_rules grows_status)
  show ?case
    unfolding wp_simps
    by (rule wp_mono [OF net]) (auto intro!: wp_mono [OF loop] wp_mono [OF after [OF domains]] after [OF grows_status(2)])
qed

end
