(* ===== verification/Cluster_Runs.thy ===== *)
theory Cluster_Runs
  imports Observers
begin

text \<open>
  Facts on whole runs of the cluster controller (\<^verbatim>\<open>controllers/osccluster_controller.go\<close>): the
  requests of a reconciliation and of a deletion, the order of the deletions, the finalizer,
  the readiness flag and the conditions.
\<close>

lemma acts_calls:
  assumes "keeps (acts C K) m" and "m s = (r, t)" and "C (cs_GetNetwork (scope s))"
  shows "\<exists>cs. calls t = calls s @ cs \<and> effect_of ` set cs \<subseteq> K"
  using keepsD [OF assms(1,2)] assms(3) by (auto simp: acts_def issues_def list_all_iff)

lemma reconcile_deletes_only_rules:
  assumes "reconcile E s = (r, t)"
  shows "\<exists>cs. calls t = calls s @ cs \<and> (\<forall>c \<in> set cs. \<forall>res. effect_of c = EDelete res \<longrightarrow> res = RRule)"
  using acts_calls [OF acts_reconcile assms] by fastforce

lemma reused_net_not_built:
  assumes "reconcile E s = (r, t)" and "reuse_Net (UseExisting (cs_GetNetwork (scope s)))"
  shows "\<exists>cs. calls t = calls s @ cs \<and>
    effect_of ` set cs \<subseteq> {ERead, ETag, ECreate RSecurityGroup, ECreate RRule, EDelete RRule, ECreate RLoadBalancer, EChange RLoadBalancer}"
  using acts_calls [OF acts_reconcile_reused assms] by auto

lemma reused_net_not_deleted:
  assumes "reconcileDelete E s = (r, t)" and "reuse_Net (UseExisting (cs_GetNetwork (scope s)))"
    and "reuse_SecurityGroups (UseExisting (cs_GetNetwork (scope s)))"
  shows "\<exists>cs. calls t = calls s @ cs \<and> effect_of ` set cs \<subseteq> {ERead, EDelete RLoadBalancer, EDelete RPublicIp}"
  using acts_calls [OF acts_reconcileDelete_reused assms(1)] assms(2,3) by auto


lemma deletes_pure:
  "keeps (deletes_between a b) (raise e)" "keeps (deletes_between a b) (removeFinalizer E)"
  by (auto simp: keeps_def run_simps removeFinalizer_def upd_OscCluster_def deletes_between_def deletion_ranks_def map_filter_def)

lemma reconcileDelete_order: "keeps (deletes_between 0 11) (reconcileDelete E)"
proof (rule keepsI)
  fix s
  have "deletes_between 0 11 s (snd (andThen (deleteResources E) (andThen (removeFinalizer E) (ret (0 :: nat))) s))"
    by (rule keeps_def [THEN iffD1, rule_format], rule deletes_then [of 0 11 _ 11 11], rule deleteResources_order,
        rule deletes_then [of 11 11 _ 11 11]) (simp_all add: deletes_pure deletes_none)
  moreover have "deletes_between 0 11 s s"
    by (simp add: deletes_between_def deletion_ranks_def map_filter_def)
  ultimately show "deletes_between 0 11 s (snd (reconcileDelete E s))"
    by (simp add: reconcileDelete_def run_simps split: sum.split)
qed

lemma deletion_in_order:
  assumes "reconcileDelete E s = (r, t)"
  shows "\<exists>cs. calls t = calls s @ cs \<and> sorted (deletion_ranks cs) \<and> effect_of ` set cs \<subseteq> {ERead} \<union> range EDelete"
proof -
  obtain cs where "calls t = calls s @ cs" "sorted (deletion_ranks cs)"
    using keepsD [OF reconcileDelete_order assms] by (auto simp: deletes_between_def)
  then show ?thesis using acts_calls [OF acts_reconcileDelete assms] by auto
qed

lemma finalizer_guard:
  assumes "reconcileDelete E s = (r, t)"
  shows "(case r of
      Ok n \<Rightarrow> if n = 0 then cs_ListMachines E (scope s) = Inr [] \<and> (\<exists>u. deleteResources E s = (Ok (), u) \<and> t = snd (removeFinalizer E u))
             else t = s
    | _ \<Rightarrow> Finalizers (cl_Meta (csOscCluster (scope t))) = Finalizers (cl_Meta (csOscCluster (scope s))))"
proof -
  have kept: "Finalizers (cl_Meta (csOscCluster (scope u))) = Finalizers (cl_Meta (csOscCluster (scope s)))"
    if "deleteResources E s = (q, u)" for q u
    using keepsD [OF spec_obs.obs_deleteResources that] by (simp add: preserves_def spec_view_def)
  show ?thesis
    using assms by (auto simp: reconcileDelete_def removeFinalizer_def run_simps kept split: sum.splits prod.splits outcome.splits if_splits)
qed



lemma ready_meta_ops [obs_rules]:
  "keeps (preserves ready) (addFinalizer E)" "keeps (preserves ready) cs_EnsureExplicitUID"
  "keeps (preserves ready) (markTrue E cond)" "keeps (preserves ready) (markFalse E cond reason e)"
  by (auto simp: keeps_def preserves_def ready_def addFinalizer_def cs_EnsureExplicitUID_def markTrue_def markFalse_def
      Let_def run_simps upd_OscCluster_def upd_Status_def)

lemma ready_steps [obs_rules]:
  assumes "keeps (preserves ready) m"
  shows "keeps (preserves ready) (step E cond reason pre m)" "keeps (preserves ready) (stepT E cond reason pre m)"
    "keeps (preserves ready) (whenScope c m)"
  unfolding step_def stepT_def whenScope_def by (intro frame_rules obs_rules assms)+

lemma ready_kept:
  "keeps (preserves ready) (reconcileInternet E)" "keeps (preserves ready) (reconcilePeering E)"
  unfolding reconcileInternet_def reconcilePeering_def by (intro frame_rules obs_rules)+

text \<open>A run that sets the flag exactly when it returns a value.\<close>

definition ends_ready :: "('w, 'z, nat) Op \<Rightarrow> bool" where
  "ends_ready m \<longleftrightarrow> (\<forall>s r t. m s = (r, t) \<longrightarrow> (case r of Ok n \<Rightarrow> n = 0 \<and> ready t | _ \<Rightarrow> ready t = ready s))"

lemma ends_ready_last: "ends_ready (andThen cs_SetReady (ret 0))"
  by (auto simp: ends_ready_def run_simps cs_SetReady_def ready_def upd_Status_def upd_OscCluster_def)

lemma ends_ready_andThen:
  assumes "keeps (preserves ready) m" and "ends_ready k"
  shows "ends_ready (andThen m k)"
  unfolding ends_ready_def
proof (intro allI impI)
  fix s r t
  assume run: "andThen m k s = (r, t)"
  obtain q u where m: "m s = (q, u)" by (cases "m s")
  have "ready u = ready s" using keepsD [OF assms(1) m] by (simp add: preserves_def)
  then show "case r of Ok n \<Rightarrow> n = 0 \<and> ready t | _ \<Rightarrow> ready t = ready s"
    using assms(2) run m by (cases q) (auto simp: ends_ready_def andThen_run split: outcome.splits)
qed

lemma reconcile_ends_ready: "ends_ready (reconcile E)"
  unfolding reconcile_def
  by (rule ends_ready_last | rule ends_ready_andThen | intro frame_rules obs_rules ready_kept)+

lemma delete_waits:
  assumes "cs_ListMachines E (scope s) = Inr ps" "ps \<noteq> []"
  shows "reconcileDelete E s = (Ok 60, s)"
  using assms by (simp add: reconcileDelete_def run_simps)

section \<open>Reported errors\<close>

definition stepTable :: "(string \<times> string \<times> string) list" where
  "stepTable =
    [(NetReadyCondition, NetReconciliationFailedReason, ''reconcile net: ''),
     (SubnetsReadyCondition, SubnetsReconciliationFailedReason, ''reconcile subnets: ''),
     (InternetServicesReadyCondition, InternetServicesFailedReason, ''reconcile internetService: ''),
     (RouteTablesReadyCondition, RouteTableReconciliationFailedReason, ''reconcile public routeTables: ''),
     (NatServicesReadyCondition, NatServicesReconciliationFailedReason, ''reconcile natServices: ''),
     (RouteTablesReadyCondition, RouteTableReconciliationFailedReason, ''reconcile routeTables: ''),
     (NetPeeringReadyCondition, NetPeeringReconciliationFailedReason, ''reconcile netPeering: ''),
     (NetAccessPointsReadyCondition, NetAccessPointsReconciliationFailedReason, ''reconcile netAccessPoints: ''),
     (SecurityGroupReadyCondition, SecurityGroupReconciliationFailedReason, ''reconcile securityGroups: ''),
     (LoadBalancerReadyCondition, LoadBalancerFailedReason, ''reconcile loadBalancer: ''),
     (VmReadyCondition, VmNotReadyReason, ''reconcile bastion: '')]"

definition conditions :: "('w, 'z) World_scheme \<Rightarrow> Condition list" where
  "conditions s = cl_Conditions (cl_Status (csOscCluster (scope s)))"

definition reports :: "'w Env \<Rightarrow> ('w, 'z, 'a) Op \<Rightarrow> bool" where
  "reports E m \<longleftrightarrow> (\<forall>s e t. m s = (Err e, t) \<longrightarrow>
     (\<exists>cond reason pre e' before. (cond, reason, pre) \<in> set stepTable \<and> e = Errorf pre e' \<and>
        conditions t = MarkFalse E before cond reason ConditionSeverityWarning (error_msg e')))"

lemma reports_step: "(cond, reason, pre) \<in> set stepTable \<Longrightarrow> reports E (step E cond reason pre m)"
  by (fastforce simp: reports_def step_def markFalse_def conditions_def run_simps upd_Status_def upd_OscCluster_def
      split: prod.splits outcome.splits)

lemma reports_compose:
  "reports E m \<Longrightarrow> reports E k \<Longrightarrow> reports E (andThen m k)" "reports E p \<Longrightarrow> reports E (whenScope c p)"
  by (auto simp: reports_def andThen_run whenScope_def whenM_def run_simps split: prod.splits outcome.splits if_splits)

lemma reports_total: "reports E (markTrue E cond)" "reports E cs_SetReady" "reports E (ret x)" "reports E (addFinalizer E)"
    "reports E cs_EnsureExplicitUID"
  by (auto simp: reports_def markTrue_def cs_SetReady_def addFinalizer_def cs_EnsureExplicitUID_def Let_def run_simps split: if_splits)

lemma reports_stepT: "(cond, reason, pre) \<in> set stepTable \<Longrightarrow> reports E (stepT E cond reason pre m)"
  unfolding stepT_def by (intro reports_compose reports_step reports_total)

lemma reconcile_reports: "reports E (reconcile E)"
  unfolding reconcile_def reconcileInternet_def reconcilePeering_def
  by (intro reports_compose reports_step reports_stepT reports_total; simp add: stepTable_def)

end
