(* ===== verification/Settle.thy ===== *)
theory Settle
  imports Observers
begin

text \<open>
  Reconciling once per generation. A reconciler in the default mode runs when its recorded
  generation is older than the object's, and records the generation when it has succeeded; so
  a second run of a reconciler that succeeded does nothing until the object changes.
\<close>

definition onChange :: "'w ClusterScope \<Rightarrow> Reconciler \<Rightarrow> bool" where
  "onChange cs r \<longleftrightarrow> Mode (getreconciliationRule cs r) \<notin> {ReconciliationModeAlways, ReconciliationModeRandom}"

definition upToDate :: "('w, 'z) World_scheme \<Rightarrow> Reconciler \<Rightarrow> bool" where
  "upToDate s r = (case cl_ReconcilerGeneration (cl_Status (csOscCluster (scope s))) of
     None \<Rightarrow> False | Some m \<Rightarrow> recorded_generation m r \<ge> Generation (cl_Meta (csOscCluster (scope s))))"

lemma NeedReconciliation_onChange:
  "onChange (scope s) r \<Longrightarrow> cs_NeedReconciliation r s = (Ok (\<not> upToDate s r), s)"
  by (auto simp: cs_NeedReconciliation_def onChange_def upToDate_def run_simps Let_def split: option.splits)

lemma recorded_generation_update:
  "recorded_generation (AList.update r g m) r' = (if r' = r then g else recorded_generation m r')"
  by (simp add: recorded_generation_def update_conv')

lemma recorded_generation_Nil [simp]: "recorded_generation [] r = 0"
  by (simp add: recorded_generation_def)

lemma SetReconciliationGeneration_upToDate:
  "upToDate (snd (cs_SetReconciliationGeneration r s)) r' \<longleftrightarrow> r' = r \<or> upToDate s r' \<or>
     (cl_ReconcilerGeneration (cl_Status (csOscCluster (scope s))) = None \<and> Generation (cl_Meta (csOscCluster (scope s))) \<le> 0)"
  by (auto simp: upToDate_def cs_SetReconciliationGeneration_def run_simps upd_OscCluster_def recorded_generation_update
      split: option.splits)

lemma onChange_spec: "spec_view t = spec_view s \<Longrightarrow> onChange (scope t) r = onChange (scope s) r"
  by (simp add: onChange_def getreconciliationRule_def spec_view_def)

text \<open>A run that records the generation of \<open>r\<close> whenever it succeeds.\<close>

definition records :: "Reconciler \<Rightarrow> ('w, 'z, unit) Op \<Rightarrow> bool" where
  "records r m \<longleftrightarrow> (\<forall>s t. m s = (Ok (), t) \<longrightarrow> upToDate t r)"

named_theorems record_rules

lemma records_set [record_rules]: "records r (cs_SetReconciliationGeneration r)"
  unfolding records_def by (metis SetReconciliationGeneration_upToDate snd_conv)

lemma upToDate_event [simp]: "upToDate (s\<lparr>events := es\<rparr>) r = upToDate s r"
  by (simp add: upToDate_def split: option.split)

lemma records_set_event [record_rules]:
  "records r (andThen (cs_SetReconciliationGeneration r) (record_event reason msg))"
  unfolding records_def record_event_def by (auto simp: ok_simps dest: records_set [unfolded records_def, rule_format])

lemma records_compose [record_rules]:
  "records r k \<Longrightarrow> records r (andThen m k)" "(\<And>x. records r (f x)) \<Longrightarrow> records r (bind p f)"
  "records r (raise e)" "records r panic"
  by (auto simp: records_def ok_simps)

lemma records_branches [record_rules]:
  "records r m \<Longrightarrow> records r k \<Longrightarrow> records r (if c then m else k)"
  "records r m' \<Longrightarrow> (\<And>x. records r (f x)) \<Longrightarrow> records r (case o' of None \<Rightarrow> m' | Some x \<Rightarrow> f x)"
  "(\<And>x y. records r (g x y)) \<Longrightarrow> records r (case p of (x, y) \<Rightarrow> g x y)"
  "records r (h z) \<Longrightarrow> records r (let y = z in h y)"
  by (auto split: option.split prod.split)

text \<open>Running the reconciler again after a success changes nothing and issues no request.\<close>

definition settles :: "Reconciler \<Rightarrow> ('w, 'z, unit) Op \<Rightarrow> bool" where
  "settles r m \<longleftrightarrow> (\<forall>s t. onChange (scope s) r \<and> m s = (Ok (), t) \<longrightarrow> m t = (Ok (), t))"

lemma settlesI:
  assumes "keeps (preserves spec_view) (ifNeeded r m)" and "\<And>s t. m s = (Ok (), t) \<Longrightarrow> t = s \<or> upToDate t r"
  shows "settles r (ifNeeded r m)"
  unfolding settles_def
proof (intro allI impI)
  fix s t assume *: "onChange (scope s) r \<and> ifNeeded r m s = (Ok (), t)"
  have oc: "onChange (scope t) r"
    using * keepsD [OF assms(1)] onChange_spec [of t s r] by (auto simp: preserves_def)
  have "t = s \<or> upToDate t r"
    using * assms(2) [of s t] by (auto simp: ifNeeded_def bind_run NeedReconciliation_onChange run_simps split: if_splits)
  then show "ifNeeded r m t = (Ok (), t)"
    using * oc by (auto simp: ifNeeded_def bind_run NeedReconciliation_onChange run_simps)
qed

lemma settles_records:
  "M = ifNeeded r m \<Longrightarrow> keeps (preserves spec_view) M \<Longrightarrow> records r m \<Longrightarrow> settles r M"
  by (simp, rule settlesI) (auto simp: records_def)

lemma settles_stops:
  assumes "M = ifNeeded r (bind (gets scope) (\<lambda>cs. if c cs then ret () else k cs))"
    and "keeps (preserves spec_view) M" and "\<And>cs. records r (k cs)"
  shows "settles r M"
  unfolding assms(1)
  by (rule settlesI) (use assms in \<open>auto simp: ok_simps records_def split: if_splits\<close>)

lemma reconcilers_settle:
  "settles ReconcilerNet reconcileNet" "settles ReconcilerSubnet reconcileSubnets"
  "settles ReconcilerLoadbalancer (reconcileLoadBalancer E)"
  by (rule settles_records [OF reconcileNet_def] settles_records [OF reconcileSubnets_def]
      settles_records [OF reconcileLoadBalancer_def], intro obs_rules, intro record_rules)+

lemma records_whenM [record_rules]: "records r m \<Longrightarrow> c \<Longrightarrow> records r (whenM c m)"
  by (simp add: whenM_def)

lemma records_createBastion [record_rules]: "records r (createBastion cs)"
  unfolding createBastion_def by (intro record_rules)

lemma reconcilers_settle_or_stop:
  "settles ReconcilerInternetService reconcileInternetService"
  "settles ReconcilerRouteTable (reconcileRouteTable E [])"
  "settles ReconcilerNetAccessPoint reconcileNetAccessPoints"
  "settles ReconcilerSecurityGroup reconcileSecurityGroup"
  "settles ReconcilerBastion reconcileBastion"
  by (rule settles_stops [OF reconcileInternetService_def] settles_stops [OF reconcileRouteTable_def]
      settles_stops [OF reconcileNetAccessPoints_def] settles_stops [OF reconcileSecurityGroup_def]
      settles_stops [OF reconcileBastion_def], intro obs_rules, intro record_rules, (rule refl)?)+

lemma nat_settles: "settles ReconcilerNatService reconcileNatService"
  unfolding reconcileNatService_def
  by (rule settlesI) (auto simp: reconcileNatService_def [symmetric] ok_simps intro!: obs_rules
      dest: records_set [unfolded records_def, rule_format] split: if_splits)

end
