(* ===== verification/Ownership.thy ===== *)
theory Ownership
  imports Cluster_Runs Settle
begin

text \<open>
  Ownership in the cluster controller: the load balancer is touched only when its name tag is
  the one of the cluster, the peering routes that are removed are the ones of the peering, and
  the entry point writes the object back whatever the outcome.
\<close>

section \<open>Load balancer\<close>

definition foundLB :: "('w, 'z) World_scheme \<Rightarrow> string + osc_LoadBalancer option" where
  "foundLB s = map_sum id first_of (fst (sdkLoadBalancers (tn_Client (csTenant (scope s)))
     (ReadLoadBalancersRequest [LoadBalancerName (cs_GetLoadBalancer (scope s))]) (cloud s)))"

lemma lb_deletion:
  "calls (snd (reconcileDeleteLoadBalancer E s)) = calls s @ ReadLoadBalancersRequest [LoadBalancerName (cs_GetLoadBalancer (scope s))] #
     (case foundLB s of
        Inr (Some lb) \<Rightarrow> if getLoadBalancerNameTag E lb = lbNameTag (scope s)
          then [DeleteLoadBalancerRequest (LoadBalancerName (cs_GetLoadBalancer (scope s)))] else []
      | _ \<Rightarrow> [])"
  by (simp add: reconcileDeleteLoadBalancer_def svc_GetLoadBalancer_def svc_DeleteLoadBalancer_def run_simps Let_def foundLB_def
      split: prod.split sum.split option.split)

lemma lb_not_adopted:
  assumes "foundLB s = Inr (Some lb)" and "getLoadBalancerNameTag E lb \<noteq> lbNameTag (scope s)"
    and "getLoadBalancerNameTag E lb \<noteq> [] \<or> o_LoadBalancerName lb = LoadBalancerName (cs_GetLoadBalancer (scope s))"
    and "onChange (scope s) ReconcilerLoadbalancer" "\<not> upToDate s ReconcilerLoadbalancer"
  shows "\<exists>m t. reconcileLoadBalancer E s = (Err (ErrorsNew m), t) \<and>
    calls t = calls s @ [ReadLoadBalancersRequest [LoadBalancerName (cs_GetLoadBalancer (scope s))]] \<and> scope t = scope s"
  using assms
  by (auto simp: reconcileLoadBalancer_def ifNeeded_def bind_run [of "cs_NeedReconciliation _"] NeedReconciliation_onChange
      svc_GetLoadBalancer_def run_simps Let_def foundLB_def map_sum_def split: prod.splits sum.splits option.splits)

section \<open>Peering routes\<close>

text \<open>Only routes through the peering are deleted, each in its own route table.\<close>

lemma issues_in: "issues (\<lambda>c. c \<in> A) s t \<longleftrightarrow> (\<exists>cs. calls t = calls s @ cs \<and> set cs \<subseteq> A)"
  by (simp only: issues_def list_all_iff subset_eq)

lemma deletePeeringRoutes_only:
  "keeps (issues (\<lambda>c. c \<in> {DeleteRouteRequest (o_DestinationIpRange r) (o_RouteTableId rtbl) | rtbl r.
      rtbl \<in> set rtbls \<and> r \<in> set (o_Routes rtbl) \<and> ptrFrom E (o_RouteNetPeeringId r) = npId}))
    (deletePeeringRoutes E t npId pre rtbls)"
  unfolding deletePeeringRoutes_def svc_DeleteRoute_def whenM_def by (intro frame_rules) auto

section \<open>Entry point\<close>

interpretation patch_obs: observer patched
  by unfold_locales (simp_all add: scope_setters run_simps)

lemma patched_meta_ops:
  "keeps (preserves patched) (addFinalizer E)" "keeps (preserves patched) cs_EnsureExplicitUID"
  "keeps (preserves patched) (removeFinalizer E)" "keeps (preserves patched) cs_SetReady"
  "keeps (preserves patched) (markTrue E cond)" "keeps (preserves patched) (markFalse E cond reason e)"
  by (auto simp: keeps_def preserves_def addFinalizer_def removeFinalizer_def cs_SetReady_def cs_EnsureExplicitUID_def
      markTrue_def markFalse_def Let_def run_simps upd_OscCluster_def upd_Status_def)

lemma patched_steps:
  assumes "keeps (preserves patched) m"
  shows "keeps (preserves patched) (step E cond reason pre m)" "keeps (preserves patched) (stepT E cond reason pre m)"
    "keeps (preserves patched) (whenScope c m)"
  unfolding step_def stepT_def whenScope_def by (intro frame_rules patched_meta_ops obs_rules assms)+

lemma patched_kept:
  "keeps (preserves patched) (reconcile E)" "keeps (preserves patched) (reconcileDelete E)"
  unfolding reconcile_def reconcileInternet_def reconcilePeering_def reconcileDelete_def
  by (intro frame_rules patched_meta_ops patched_steps obs_rules)+

text \<open>The guards of the entry point: the object, its cluster and its tenant, or the early result.\<close>

definition admitted :: "Kube \<Rightarrow> 'w Env \<Rightarrow> string \<Rightarrow> (CapiCluster \<times> OscCluster \<times> 'w Tenant) option" where
  "admitted K E req =
     (case k_GetOscCluster K req of
        Inl e \<Rightarrow> None
      | Inr oscCluster \<Rightarrow>
          (case k_GetOwnerCluster K (cl_Meta oscCluster) of
             Inr (Some cluster) \<Rightarrow>
               if k_IsPaused K cluster oscCluster then None
               else (case getTenant E oscCluster of
                       Inl e \<Rightarrow> None
                     | Inr t \<Rightarrow> if k_NewHelper K oscCluster = None then Some (cluster, oscCluster, t) else None)
           | _ \<Rightarrow> None))"

lemma Reconcile_refused: "admitted K E req = None \<Longrightarrow> snd (Reconcile K E req s) = s"
  by (auto simp: admitted_def Reconcile_def NewClusterScope_def run_simps split: sum.splits option.splits if_splits)

lemma Reconcile_admitted:
  assumes "admitted K E req = Some (cluster, oscCluster, t)"
  shows "Reconcile K E req s = deferClose K (if DeletionTimestamp (cl_Meta oscCluster) \<noteq> None then reconcileDelete E else reconcile E)
    (s\<lparr>scope := \<lparr>csCluster = cluster, csOscCluster = oscCluster, csTenant = t\<rparr>\<rparr>)"
  using assms
  by (auto simp: admitted_def Reconcile_def NewClusterScope_def run_simps split: sum.splits option.splits if_splits)

lemma deferClose_patches:
  assumes "keeps (preserves patched) m"
  shows "deferClose K m s = (case m s of (r, t) \<Rightarrow>
    (case k_Patch K (csOscCluster (scope t)) of
       None \<Rightarrow> (r, t\<lparr>patched := patched s @ [csOscCluster (scope t)]\<rparr>)
     | Some e \<Rightarrow> ((case r of Ok _ \<Rightarrow> Err e | _ \<Rightarrow> r), t)))"
proof -
  obtain r t where m: "m s = (r, t)" by (cases "m s")
  have "patched t = patched s" using keepsD [OF assms m] by (simp add: preserves_def)
  then show ?thesis by (simp add: deferClose_def cs_Close_def m run_simps split: option.split)
qed

end
