(* ===== verification/Provider_Id.thy ===== *)
theory Provider_Id
  imports Prelude
begin

text \<open>
  \<^verbatim>\<open>cloud/scope/providerid.go\<close>: the identifier of a node, \<^verbatim>\<open>aws:///<subregion>/<vm>\<close>, how it is
  written and how it is parsed. The regular expression of the code is decided by a scan of the
  string; it is shown to be the language of the expression.
\<close>

record ProviderID =
  original :: string
  cloudProvider :: string
  pid_id :: string

section \<open>Searching a string\<close>

text \<open>\<^verbatim>\<open>strings.Index(s, c)\<close> and \<^verbatim>\<open>strings.LastIndex(s, c)\<close> for one byte; \<open>None\<close> is -1.\<close>

primrec str_index :: "string \<Rightarrow> char \<Rightarrow> nat option" where
  "str_index [] c = None"
| "str_index (x # xs) c = (if x = c then Some 0 else map_option Suc (str_index xs c))"

primrec str_last_index :: "string \<Rightarrow> char \<Rightarrow> nat option" where
  "str_last_index [] c = None"
| "str_last_index (x # xs) c =
     (case str_last_index xs c of Some i \<Rightarrow> Some (Suc i) | None \<Rightarrow> if x = c then Some 0 else None)"

section \<open>Provider ids\<close>

text \<open>
  \<^verbatim>\<open>^[^:]+://.*[^/]$\<close>: the part before the first colon is not empty, a colon and two slashes
  follow, then at least one byte, the last of them not a slash; the ones before the last are not
  newlines, which \<^verbatim>\<open>.\<close> does not match.
\<close>

definition providerIDRegex :: "string \<Rightarrow> bool" where
  "providerIDRegex s =
     (let rest = dropWhile (\<lambda>c. c \<noteq> CHR '':'') s; body = drop 3 rest
      in takeWhile (\<lambda>c. c \<noteq> CHR '':'') s \<noteq> [] \<and> take 3 rest = ''://'' \<and>
         body \<noteq> [] \<and> last body \<noteq> CHR ''/'' \<and> CHR 0x0A \<notin> set (butlast body))"

definition pid_Validate :: "ProviderID \<Rightarrow> bool" where
  "pid_Validate p \<longleftrightarrow> cloudProvider p \<noteq> [] \<and> pid_id p \<noteq> []"

definition pid_String :: "ProviderID \<Rightarrow> string" where
  "pid_String p = original p"

definition pid_Equals :: "ProviderID \<Rightarrow> ProviderID \<Rightarrow> bool" where
  "pid_Equals p q \<longleftrightarrow> pid_String p = pid_String q"

definition pid_IndexKey :: "ProviderID \<Rightarrow> string" where
  "pid_IndexKey p = pid_String p"

text \<open>A slice up to an index that was not found would panic; the expression rules it out.\<close>

definition NewProviderID :: "string \<Rightarrow> gerror + ProviderID" where
  "NewProviderID s =
     (if s = [] then Inl ErrEmptyProviderID
      else if \<not> providerIDRegex s then Inl ErrInvalidProviderID
      else
        (let colonIndex = (case str_index s CHR '':'' of Some i \<Rightarrow> i | None \<Rightarrow> 0);
             instanceStart = (case str_last_index s CHR ''/'' of Some i \<Rightarrow> Suc i | None \<Rightarrow> 0);
             res = \<lparr>original = s, cloudProvider = take colonIndex s, pid_id = drop instanceStart s\<rparr>
         in if pid_Validate res then Inr res else Inl ErrInvalidProviderID))"

definition ProviderIDPrefix :: string where
  "ProviderIDPrefix = ''aws://''"

definition GenerateProviderID :: "string list \<Rightarrow> string" where
  "GenerateProviderID ids = ProviderIDPrefix @ ''/'' @ str_join ids ''/''"

section \<open>The language of the expression\<close>

lemma str_index_takeWhile:
  "str_index s c = (if c \<in> set s then Some (length (takeWhile (\<lambda>x. x \<noteq> c) s)) else None)"
  by (induction s) auto

lemma str_last_index_append:
  "c \<notin> set b \<Longrightarrow> str_last_index (a @ c # b) c = Some (length a)"
proof (induction a)
  case Nil
  have "c \<notin> set xs \<Longrightarrow> str_last_index xs c = None" for xs by (induction xs) auto
  then show ?case using Nil by simp
qed simp

lemma providerIDRegex_iff:
  "providerIDRegex s \<longleftrightarrow>
     (\<exists>p r c. s = p @ ''://'' @ r @ [c] \<and> p \<noteq> [] \<and> CHR '':'' \<notin> set p \<and> CHR 0x0A \<notin> set r \<and> c \<noteq> CHR ''/'')"
proof
  assume m: "providerIDRegex s"
  define p where "p = takeWhile (\<lambda>c. c \<noteq> CHR '':'') s"
  define rest where "rest = dropWhile (\<lambda>c. c \<noteq> CHR '':'') s"
  have parts: "s = p @ rest" "rest = take 3 rest @ drop 3 rest" by (simp_all add: p_def rest_def)
  have body: "p \<noteq> []" "take 3 rest = ''://''" "drop 3 rest \<noteq> []" "last (drop 3 rest) \<noteq> CHR ''/''"
    "CHR 0x0A \<notin> set (butlast (drop 3 rest))"
    using m unfolding providerIDRegex_def p_def rest_def Let_def by blast+
  have "s = p @ ''://'' @ butlast (drop 3 rest) @ [last (drop 3 rest)]"
    using parts body(2,3) by (metis append_butlast_last_id)
  moreover have "CHR '':'' \<notin> set p" by (auto simp: p_def dest: set_takeWhileD)
  ultimately show "\<exists>p r c. s = p @ ''://'' @ r @ [c] \<and> p \<noteq> [] \<and> CHR '':'' \<notin> set p \<and> CHR 0x0A \<notin> set r \<and> c \<noteq> CHR ''/''"
    using body by blast
next
  assume "\<exists>p r c. s = p @ ''://'' @ r @ [c] \<and> p \<noteq> [] \<and> CHR '':'' \<notin> set p \<and> CHR 0x0A \<notin> set r \<and> c \<noteq> CHR ''/''"
  then obtain p r c where s: "s = p @ ''://'' @ r @ [c]" "p \<noteq> []" "CHR '':'' \<notin> set p" "CHR 0x0A \<notin> set r" "c \<noteq> CHR ''/''"
    by blast
  have ne: "\<forall>x \<in> set p. x \<noteq> CHR '':''" using s(3) by auto
  have "takeWhile (\<lambda>c. c \<noteq> CHR '':'') s = p" "dropWhile (\<lambda>c. c \<noteq> CHR '':'') s = ''://'' @ r @ [c]"
    unfolding s(1) using ne by (simp_all add: takeWhile_append dropWhile_append)
  then show "providerIDRegex s"
    using s by (simp add: providerIDRegex_def butlast_append)
qed

text \<open>What a parse gives: the text before the colon and the text after the last slash.\<close>

lemma NewProviderID_parts:
  assumes "p \<noteq> []" "CHR '':'' \<notin> set p" "CHR 0x0A \<notin> set r" "b \<noteq> []" "CHR ''/'' \<notin> set b" "CHR 0x0A \<notin> set b"
  shows "NewProviderID (p @ ''://'' @ r @ ''/'' @ b) =
    Inr \<lparr>original = p @ ''://'' @ r @ ''/'' @ b, cloudProvider = p, pid_id = b\<rparr>"
proof -
  let ?s = "p @ ''://'' @ r @ ''/'' @ b"
  have "?s = p @ ''://'' @ (r @ ''/'' @ butlast b) @ [last b]" using assms(4) by simp
  moreover have "last b \<noteq> CHR ''/''" using assms(4,5) last_in_set by metis
  moreover have "CHR 0x0A \<notin> set (r @ ''/'' @ butlast b)" using assms(3,6) by (auto dest: in_set_butlastD)
  ultimately have m: "providerIDRegex ?s" unfolding providerIDRegex_iff using assms(1,2) by blast
  have ne: "\<forall>x \<in> set p. x \<noteq> CHR '':''" using assms(2) by auto
  have colon: "str_index ?s CHR '':'' = Some (length p)"
    using ne by (simp add: str_index_takeWhile takeWhile_append)
  have "?s = (p @ ''://'' @ r) @ CHR ''/'' # b" by simp
  then have slash: "str_last_index ?s CHR ''/'' = Some (length (p @ ''://'' @ r))"
    using str_last_index_append [OF assms(5)] by metis
  have "drop (Suc (length (p @ ''://'' @ r))) ?s = b"
    using append_eq_conv_conj [of "p @ ''://'' @ r @ ''/''" b ?s] by simp
  then show ?thesis using m assms(1,4) by (simp only: NewProviderID_def colon slash pid_Validate_def Let_def option.case) simp
qed

text \<open>A string is parsed exactly when it is in the language: the check of the parts never refuses what the expression accepts.\<close>

lemma str_last_index_Some:
  "c \<in> set s \<Longrightarrow> \<exists>a b. s = a @ c # b \<and> c \<notin> set b \<and> str_last_index s c = Some (length a)"
  using split_list_last [of c s] str_last_index_append by metis

lemma NewProviderID_language:
  "(\<exists>p. NewProviderID s = Inr p) \<longleftrightarrow>
     (\<exists>p r c. s = p @ ''://'' @ r @ [c] \<and> p \<noteq> [] \<and> CHR '':'' \<notin> set p \<and> CHR 0x0A \<notin> set r \<and> c \<noteq> CHR ''/'')"
  (is "?parsed \<longleftrightarrow> ?language")
proof
  assume ?parsed
  then have "providerIDRegex s" by (auto simp: NewProviderID_def split: if_splits)
  then show ?language by (simp only: providerIDRegex_iff)
next
  assume lang: ?language
  then have regex: "providerIDRegex s" by (simp only: providerIDRegex_iff)
  from lang obtain p r c where s: "s = p @ ''://'' @ r @ [c]" "p \<noteq> []" "CHR '':'' \<notin> set p" "c \<noteq> CHR ''/''" by blast
  have ne: "\<forall>x \<in> set p. x \<noteq> CHR '':''" using s(3) by auto
  have colon: "str_index s CHR '':'' = Some (length p)" using ne by (simp add: s(1) str_index_takeWhile takeWhile_append)
  have "CHR ''/'' \<in> set s" by (simp add: s(1))
  then obtain a b where ab: "s = a @ CHR ''/'' # b" "str_last_index s CHR ''/'' = Some (length a)"
    using str_last_index_Some by blast
  have "last s = c" by (simp add: s(1))
  then have b: "b \<noteq> []" using s(4) ab(1) by (cases b) auto
  have "pid_Validate \<lparr>original = s, cloudProvider = take (length p) s, pid_id = drop (Suc (length a)) s\<rparr>"
  proof -
    have "take (length p) s = p" by (simp add: s(1))
    moreover have "drop (Suc (length a)) s = b" by (simp add: ab(1))
    ultimately show ?thesis using b s(2) by (simp add: pid_Validate_def)
  qed
  then show ?parsed using regex s(2) by (simp only: NewProviderID_def colon ab(2) Let_def option.case) (simp add: s(1))
qed

end
