(* ===== verification/Machine_Scope.thy ===== *)
theory Machine_Scope
  imports Cluster_Controller Provider_Id
begin

text \<open>
  \<^verbatim>\<open>cloud/scope/machine.go\<close>: the view the machine controller has of an \<^verbatim>\<open>OscMachine\<close>. The world of the
  machine controller extends the one of the cluster controller by the scope of the machine, the
  state of the subregion allocator and the versions of the machine written back, so that the
  operations on the cluster are used as they are.
\<close>

section \<open>The world of the machine controller\<close>

record MachineScope =
  msCluster :: CapiCluster
  msMachine :: CapiMachine
  msOscMachine :: OscMachine

text \<open>
  The fields of \<^verbatim>\<open>MultiAZAllocator\<close>: the machines of a deployment and the subregion of a machine,
  by namespace and name. A missing deployment has no machine.
\<close>

type_synonym NamespacedName = "string \<times> string"

record MultiAZAllocator =
  deployments :: "(NamespacedName \<times> NamespacedName list) list"
  azs :: "(NamespacedName \<times> string) list"

record 'w MWorld = "'w World" +
  mscope :: MachineScope
  azAllocator :: MultiAZAllocator
  mpatched :: "OscMachine list"

type_synonym ('w, 'z, 'a) MOp = "(('w, 'z) MWorld_scheme, 'a) M"

definition upd_OscMachine :: "(OscMachine \<Rightarrow> OscMachine) \<Rightarrow> ('w, 'z) MWorld_scheme \<Rightarrow> ('w, 'z) MWorld_scheme" where
  "upd_OscMachine f s = s\<lparr>mscope := (mscope s)\<lparr>msOscMachine := f (msOscMachine (mscope s))\<rparr>\<rparr>"

definition upd_MStatus :: "(OscMachineStatus \<Rightarrow> OscMachineStatus) \<Rightarrow> ('w, 'z) MWorld_scheme \<Rightarrow> ('w, 'z) MWorld_scheme" where
  "upd_MStatus f = upd_OscMachine (\<lambda>m. m\<lparr>ma_Status := f (ma_Status m)\<rparr>)"

definition upd_MResources :: "(OscMachineResources \<Rightarrow> OscMachineResources) \<Rightarrow> ('w, 'z) MWorld_scheme \<Rightarrow> ('w, 'z) MWorld_scheme" where
  "upd_MResources f = upd_MStatus (\<lambda>st. st\<lparr>ma_Resources := f (ma_Resources st)\<rparr>)"

section \<open>Reading\<close>

definition ms_GetName :: "MachineScope \<Rightarrow> string" where
  "ms_GetName m = om_Name (ma_Meta (msOscMachine m))"

definition ms_GetNamespace :: "MachineScope \<Rightarrow> string" where
  "ms_GetNamespace m = om_Namespace (ma_Meta (msOscMachine m))"

definition ms_GetUID :: "MachineScope \<Rightarrow> string" where
  "ms_GetUID m = m_UID (msMachine m)"

definition ms_GetClientToken :: "MachineScope \<Rightarrow> 'w ClusterScope \<Rightarrow> string" where
  "ms_GetClientToken m cs =
     (let ct = om_Name (ma_Meta (msOscMachine m)) @ ''-'' @ cs_GetUID cs in if length ct > 64 then str_last 64 ct else ct)"

definition ms_GetNode :: "MachineScope \<Rightarrow> OscNode" where
  "ms_GetNode m = Node (ma_Spec (msOscMachine m))"

definition ms_GetVolumes :: "MachineScope \<Rightarrow> OscVolume list" where
  "ms_GetVolumes m = Volumes (ms_GetNode m)"

definition ms_GetVm :: "MachineScope \<Rightarrow> OscVm" where
  "ms_GetVm m = Vm (ms_GetNode m)"

definition ms_GetImage :: "MachineScope \<Rightarrow> OscImage" where
  "ms_GetImage m = Image (ms_GetNode m)"

definition ms_GetImageId :: "MachineScope \<Rightarrow> string" where
  "ms_GetImageId m = vm_ImageId (ms_GetVm m)"

definition ms_GetVmPrivateIps :: "MachineScope \<Rightarrow> OscPrivateIpElement list" where
  "ms_GetVmPrivateIps m = vm_PrivateIps (ms_GetVm m)"

definition ms_GetVmSecurityGroups :: "MachineScope \<Rightarrow> OscSecurityGroupElement list" where
  "ms_GetVmSecurityGroups m = vm_SecurityGroupNames (ms_GetVm m)"

definition ms_IsControlPlane :: "'w Env \<Rightarrow> MachineScope \<Rightarrow> bool" where
  "ms_IsControlPlane E m = IsControlPlaneMachine E (msMachine m)"

text \<open>\<^verbatim>\<open>clusterv1.MachineDeploymentNameLabel\<close>.\<close>

abbreviation MachineDeploymentNameLabel :: string where
  "MachineDeploymentNameLabel \<equiv> ''cluster.x-k8s.io/deployment-name''"

definition zero_OscPlacement :: OscPlacement where
  "zero_OscPlacement = \<lparr>RepulseServer = None, AttractServer = [], ServerStrict = False, RepulseCluster = [],
     AttractCluster = [], ClusterStrict = False\<rparr>"

definition ms_GetPlacement :: "'w Env \<Rightarrow> MachineScope \<Rightarrow> OscPlacement" where
  "ms_GetPlacement E m =
     (let repulse = Placement (ms_GetVm m);
          hasRepulse = (\<exists>k \<in> set (map fst (nmap_entries (vm_Tags (ms_GetVm m)))).
             str_has_prefix k ''osc.fcu.repulse'' \<or> str_has_prefix k ''osc.fcu.attract'')
      in if ms_IsControlPlane E m \<or> RepulseCluster repulse \<noteq> [] \<or> RepulseServer repulse \<noteq> None \<or>
            AttractCluster repulse \<noteq> [] \<or> AttractServer repulse \<noteq> [] then repulse
         else if \<not> hasRepulse
         then zero_OscPlacement\<lparr>RepulseServer := Some (nmap_get (m_Labels (msMachine m)) MachineDeploymentNameLabel)\<rparr>
         else repulse)"

abbreviation APIServerRoleTagValue :: string where "APIServerRoleTagValue \<equiv> ''apiserver''"
abbreviation NodeRoleTagValue :: string where "NodeRoleTagValue \<equiv> ''node''"

definition ms_GetRole :: "'w Env \<Rightarrow> MachineScope \<Rightarrow> string" where
  "ms_GetRole E m = (if ms_IsControlPlane E m then APIServerRoleTagValue else NodeRoleTagValue)"

definition ms_GetProviderID :: "MachineScope \<Rightarrow> string" where
  "ms_GetProviderID m = (case ProviderID (ma_Spec (msOscMachine m)) of Some pid \<Rightarrow> pid | None \<Rightarrow> [])"

definition ms_GetInstanceID :: "MachineScope \<Rightarrow> string" where
  "ms_GetInstanceID m = (case NewProviderID (ms_GetProviderID m) of Inl e \<Rightarrow> [] | Inr parsed \<Rightarrow> pid_id parsed)"

definition ms_GetVmState :: "MachineScope \<Rightarrow> VmState option" where
  "ms_GetVmState m = ma_VmState (ma_Status (msOscMachine m))"

definition ms_GetResources :: "MachineScope \<Rightarrow> OscMachineResources" where
  "ms_GetResources m = ma_Resources (ma_Status (msOscMachine m))"

section \<open>Writing\<close>

definition ms_SetImageId :: "string \<Rightarrow> ('w, 'z, unit) MOp" where
  "ms_SetImageId imageId = modify (upd_OscMachine (\<lambda>m. m\<lparr>ma_Spec := (ma_Spec m)
     \<lparr>Node := (Node (ma_Spec m))\<lparr>Vm := (Vm (Node (ma_Spec m)))\<lparr>vm_ImageId := imageId\<rparr>\<rparr>\<rparr>\<rparr>))"

definition ms_SetProviderID :: "string \<Rightarrow> string \<Rightarrow> ('w, 'z, unit) MOp" where
  "ms_SetProviderID subregionName vmId = modify (upd_OscMachine (\<lambda>m. m\<lparr>ma_Spec := (ma_Spec m)
     \<lparr>ProviderID := Some (''aws:///'' @ subregionName @ ''/'' @ vmId)\<rparr>\<rparr>))"

definition ms_SetVmState :: "VmState \<Rightarrow> ('w, 'z, unit) MOp" where
  "ms_SetVmState v = modify (upd_MStatus (\<lambda>st. st\<lparr>ma_VmState := Some v\<rparr>))"

definition ms_SetReady :: "('w, 'z, unit) MOp" where
  "ms_SetReady = modify (upd_MStatus (\<lambda>st. st\<lparr>ma_Ready := True\<rparr>))"

definition ms_SetNotReady :: "('w, 'z, unit) MOp" where
  "ms_SetNotReady = modify (upd_MStatus (\<lambda>st. st\<lparr>ma_Ready := False\<rparr>))"

definition ms_SetFailureMessage :: "gerror \<Rightarrow> ('w, 'z, unit) MOp" where
  "ms_SetFailureMessage v = modify (upd_MStatus (\<lambda>st. st\<lparr>FailureMessage := Some (error_msg v)\<rparr>))"

definition ms_SetFailureReason :: "string \<Rightarrow> ('w, 'z, unit) MOp" where
  "ms_SetFailureReason v = modify (upd_MStatus (\<lambda>st. st\<lparr>FailureReason := Some v\<rparr>))"

definition ms_SetAddresses :: "NodeAddress list \<Rightarrow> ('w, 'z, unit) MOp" where
  "ms_SetAddresses addrs = modify (upd_MStatus (\<lambda>st. st\<lparr>Addresses := addrs\<rparr>))"

definition ms_SetFailureDomain :: "string \<Rightarrow> ('w, 'z, unit) MOp" where
  "ms_SetFailureDomain subregion = modify (upd_MStatus (\<lambda>st. st\<lparr>ma_FailureDomain := Some subregion\<rparr>))"

section \<open>Generations and bootstrap data\<close>

definition ms_NeedReconciliation :: "Reconciler \<Rightarrow> ('w, 'z, bool) MOp" where
  "ms_NeedReconciliation reconciler =
     bind (gets mscope) (\<lambda>ms.
       case ma_ReconcilerGeneration (ma_Status (msOscMachine ms)) of
         None \<Rightarrow> ret True
       | Some m \<Rightarrow>
           if recorded_generation m reconciler < Generation (ma_Meta (msOscMachine ms)) then ret True
           else case ReconciliationRule (ms_GetNode ms) of
             None \<Rightarrow> ret False
           | Some r \<Rightarrow>
               if Mode r = ReconciliationModeAlways then ret True
               else if Mode r = ReconciliationModeRandom
               then bind cs_Rand (\<lambda>n. ret (n < ReconciliationChance r))
               else ret False)"

definition ms_SetReconciliationGeneration :: "Reconciler \<Rightarrow> ('w, 'z, unit) MOp" where
  "ms_SetReconciliationGeneration reconciler = modify (upd_OscMachine (\<lambda>c. c\<lparr>ma_Status := (ma_Status c)
     \<lparr>ma_ReconcilerGeneration := Some (AList.update reconciler (Generation (ma_Meta c))
        (case ma_ReconcilerGeneration (ma_Status c) of None \<Rightarrow> [] | Some m \<Rightarrow> m))\<rparr>\<rparr>))"

definition ms_GetBootstrapData :: "'w Env \<Rightarrow> MachineScope \<Rightarrow> gerror + string" where
  "ms_GetBootstrapData E m =
     (case m_DataSecretName (msMachine m) of
        None \<Rightarrow> Inl (ErrorsNew ''error retrieving bootstrap data: DataSecretName is not set'')
      | Some name \<Rightarrow>
          (case k8sSecret E name (ms_GetNamespace m) of
             Inl e \<Rightarrow> Inl (Errorf ''failed to retrieve bootstrap data secret: '' e)
           | Inr d \<Rightarrow>
               (case map_of d ''value'' of
                  None \<Rightarrow> Inl (ErrorsNew ''error retrieving bootstrap data: secret value key is missing'')
                | Some v \<Rightarrow> Inr v)))"

end
