(* ===== verification/Machine_Tracker.thy ===== *)
theory Machine_Tracker
  imports Machine_Scope
begin

text \<open>
  \<^verbatim>\<open>cloud/services/compute/fgpu.go\<close>, the creation of a VM of \<^verbatim>\<open>vm.go\<close>, and
  \<^verbatim>\<open>controllers/oscmachine_resources.go\<close>: the VM, the image, the flexible GPU and the public IP of a
  machine, with the ids recorded in its status.
\<close>

section \<open>Flexible GPUs\<close>

text \<open>\<^verbatim>\<open>strings.CutPrefix\<close>, and the part before the separator of \<^verbatim>\<open>strings.Cut\<close>.\<close>

definition str_cut_prefix :: "string \<Rightarrow> string \<Rightarrow> string option" where
  "str_cut_prefix s p = (if str_has_prefix s p then Some (drop (length p) s) else None)"

definition vmGeneration :: "string \<Rightarrow> string option" where
  "vmGeneration vmType = map_option (takeWhile (\<lambda>c. c \<noteq> CHR ''.'')) (str_cut_prefix vmType ''tina'')"

definition svc_AllocateFGPU :: "'w Tenant \<Rightarrow> string \<Rightarrow> string \<Rightarrow> MachineScope \<Rightarrow> ('w, 'z, osc_FlexibleGpu) Op" where
  "svc_AllocateFGPU t model az ms =
     bind (sdk sdkFlexibleGpu t (CreateFlexibleGpuRequest model az True (vmGeneration (vm_VmType (ms_GetVm ms))))) (\<lambda>fgpu.
     andThen (wrap ''tag fgpu: '' (svc_AddTag t [o_FlexibleGpuId fgpu] [tag NameKey (ms_GetName ms)])) (ret fgpu))"

definition svc_GetFGPU :: "'w Tenant \<Rightarrow> string \<Rightarrow> ('w, 'z, osc_FlexibleGpu option) Op" where
  "svc_GetFGPU t i = bind (sdk sdkFlexibleGpus t (ReadFlexibleGpusRequest [i])) (\<lambda>xs. ret (first_of xs))"

definition svc_LinkFGPU :: "'w Tenant \<Rightarrow> string \<Rightarrow> string \<Rightarrow> ('w, 'z, unit) Op" where
  "svc_LinkFGPU t fGPUId vmId = sdk sdkUnit t (LinkFlexibleGpuRequest fGPUId vmId)"

section \<open>Creating a VM\<close>

definition volumeMapping :: "OscVolume \<Rightarrow> string \<times> BsuToCreate" where
  "volumeMapping vol = (Device vol,
     \<lparr>bsu_VolumeType = vol_VolumeType vol, bsu_VolumeSize = (if Size vol > 0 then Some (Size vol) else None),
      bsu_Iops = (if vol_VolumeType vol = ''io1'' then Some (Iops vol) else None),
      bsu_SnapshotId = (if FromSnapshot vol \<noteq> [] then Some (FromSnapshot vol) else None)\<rparr>)"

text \<open>As for the bastion, the first VM of an empty answer panics before the emptiness test.\<close>

definition svc_CreateVm :: "'w Env \<Rightarrow> 'w Tenant \<Rightarrow> MachineScope \<Rightarrow> OscVm \<Rightarrow> string \<Rightarrow> string \<Rightarrow> string list \<Rightarrow> string list
    \<Rightarrow> string \<Rightarrow> string \<Rightarrow> nmap \<Rightarrow> OscVolume list \<Rightarrow> ('w, 'z, osc_Vm option) Op" where
  "svc_CreateVm E t ms spec imageId subnetId securityGroupIds privateIps vmName vmClientToken tags volumes =
     bind (wrap ''failed to decode bootstrap data: '' (lift (ms_GetBootstrapData E ms))) (\<lambda>bootstrapData.
     bind (sdk sdkVms t (CreateVms
       \<lparr>cvm_ImageId = imageId, cvm_KeypairName = vm_KeypairName spec, cvm_VmType = vm_VmType spec,
        cvm_SubnetId = subnetId, cvm_SecurityGroupIds = securityGroupIds,
        cvm_UserData = b64_EncodeToString (ConvertsTagsToUserDataOutscaleSection tags @ bootstrapData),
        cvm_BlockDeviceMappings = rootDiskMapping (vm_RootDisk spec) # map volumeMapping volumes,
        cvm_ClientToken = vmClientToken,
        cvm_BootOnCreation = (if vm_FGPU spec \<noteq> None then Some False else None),
        cvm_PrivateIps = (if privateIps \<noteq> [] then Some privateIps else None)\<rparr>)) (\<lambda>vms.
     case vms of
       [] \<Rightarrow> panic
     | vm # _ \<Rightarrow> andThen (svc_AddTag t [o_VmId vm] [tag ''Name'' vmName]) (ret (Some vm))))"

section \<open>Public IPs\<close>

definition m_getPublicIP :: "('w, 'z) MWorld_scheme \<Rightarrow> string \<Rightarrow> string option" where
  "m_getPublicIP s key =
     (let ip = nmap_get (mr_PublicIPs (ms_GetResources (mscope s))) key in if ip \<noteq> [] then Some ip else None)"

definition m_setPublicIP :: "string \<Rightarrow> string \<Rightarrow> ('w, 'z) MWorld_scheme \<Rightarrow> ('w, 'z) MWorld_scheme" where
  "m_setPublicIP key rid = upd_MResources (\<lambda>r. r\<lparr>mr_PublicIPs := nmap_put (mr_PublicIPs r) key rid\<rparr>)"

definition m_IPAllocator where
  "m_IPAllocator = \<lparr>getPublicIP = m_getPublicIP, setPublicIP = m_setPublicIP\<rparr>"

definition m_getPublicIps :: "MachineScope \<Rightarrow> nmap" where
  "m_getPublicIps ms = mr_PublicIPs (ms_GetResources ms)"

definition m_untrackIP :: "string \<Rightarrow> ('w, 'z, unit) MOp" where
  "m_untrackIP name = modify (upd_MResources (\<lambda>r. r\<lparr>mr_PublicIPs := nmap_delete (mr_PublicIPs r) name\<rparr>))"

section \<open>VM\<close>

definition setVmId :: "string \<Rightarrow> ('w, 'z, unit) MOp" where
  "setVmId rid = modify (upd_MResources (\<lambda>r. r\<lparr>mr_Vm := nmap_put (mr_Vm r) defaultResource rid\<rparr>))"

text \<open>The map is created even when there is no device.\<close>

definition setVolumeIds :: "(string \<times> string) list \<Rightarrow> ('w, 'z, unit) MOp" where
  "setVolumeIds devices = modify (upd_MResources (\<lambda>r. r\<lparr>mr_Volumes :=
     fold (\<lambda>(d, i) m. nmap_put m d i) devices (Some (nmap_entries (mr_Volumes r)))\<rparr>))"

definition trackVm :: "osc_Vm \<Rightarrow> ('w, 'z, unit) MOp" where
  "trackVm vm = andThen (setVmId (o_VmId vm)) (setVolumeIds (o_BlockDeviceMappings vm))"

definition getVmOrId :: "('w, 'z, osc_Vm option \<times> string) MOp" where
  "getVmOrId =
     bind (gets mscope) (\<lambda>ms.
     bind (gets scope) (\<lambda>cs.
     if vm_ResourceId (ms_GetVm ms) \<noteq> [] then ret (None, vm_ResourceId (ms_GetVm ms))
     else if getResource defaultResource (mr_Vm (ms_GetResources ms)) \<noteq> []
     then ret (None, getResource defaultResource (mr_Vm (ms_GetResources ms)))
     else bind (wrap ''get vm from client token: '' (svc_GetVmFromClientToken (csTenant cs) (ms_GetClientToken ms cs))) (\<lambda>r.
       case r of
         Some vm \<Rightarrow> ret (Some vm, o_VmId vm)
       | None \<Rightarrow>
           bind (wrap ''get vm: '' (svc_ReadTag (csTenant cs) VmResourceType NameKey (ms_GetName ms @ ''-'' @ cs_GetUID cs))) (\<lambda>tg.
           if tag_id tg \<noteq> [] then ret (None, tag_id tg)
           else raise (Errorf ''get vm: '' ErrNoResourceFound)))))"

text \<open>
  \<^verbatim>\<open>return vm, err\<close> with the error of \<^verbatim>\<open>RetrackIP\<close>: every caller tests the error first, so a failed
  retracking is an error.
\<close>

definition foundVm :: "osc_Vm \<Rightarrow> ('w, 'z, osc_Vm) MOp" where
  "foundVm vm =
     andThen (trackVm vm)
     (case o_VmPublicIp vm of
        None \<Rightarrow> ret vm
      | Some ip \<Rightarrow> andThen (RetrackIP m_IPAllocator defaultResource ip) (ret vm))"

definition getVm :: "('w, 'z, osc_Vm) MOp" where
  "getVm =
     bind getVmOrId (\<lambda>(r, rid).
     case r of
       Some vm \<Rightarrow> foundVm vm
     | None \<Rightarrow>
         bind (gets tenantOf) (\<lambda>t.
         bind (svc_GetVm t rid) (\<lambda>r.
         bind (orMissing (''get vm '' @ rid @ '': '') r) foundVm)))"

section \<open>Image\<close>

definition OutscaleOpenSourceAccounts :: "(string \<times> string) list" where
  "OutscaleOpenSourceAccounts =
    [(''eu-west-2'', ''671899555720''), (''us-east-2'', ''852047997530''), (''cloudgouv-eu-west-1'', ''545146734248'')]"

definition setImageId :: "string \<Rightarrow> ('w, 'z, unit) MOp" where
  "setImageId imageId = modify (upd_MResources (\<lambda>r. r\<lparr>mr_Image := nmap_put (mr_Image r) defaultResource imageId\<rparr>))"

definition imageAccount :: "OscImage \<Rightarrow> string \<Rightarrow> string" where
  "imageAccount img region =
     (if OutscaleOpenSource img then nmap_get (Some OutscaleOpenSourceAccounts) region else AccountId img)"

definition getImageId :: "('w, 'z, string) MOp" where
  "getImageId =
     bind (gets mscope) (\<lambda>ms.
     bind (gets scope) (\<lambda>cs.
     if getResource defaultResource (mr_Image (ms_GetResources ms)) \<noteq> []
     then ret (getResource defaultResource (mr_Image (ms_GetResources ms)))
     else bind (wrap ''cannot get image: ''
            (if img_Name (ms_GetImage ms) \<noteq> []
             then svc_GetImageByName (csTenant cs) (img_Name (ms_GetImage ms)) (imageAccount (ms_GetImage ms) (cs_GetRegion cs))
             else svc_GetImage (csTenant cs) (ms_GetImageId ms))) (\<lambda>img.
       case img of
         None \<Rightarrow> raise (ErrorsNew ''no image found'')
       | Some img \<Rightarrow> andThen (setImageId (o_ImageId img)) (ret (o_ImageId img)))))"

section \<open>GPU\<close>

definition trackFGPU :: "osc_FlexibleGpu \<Rightarrow> ('w, 'z, unit) MOp" where
  "trackFGPU fgpu = modify (upd_MResources (\<lambda>r. r\<lparr>mr_FGPU := nmap_put (mr_FGPU r) defaultResource (o_FlexibleGpuId fgpu)\<rparr>))"

text \<open>The code returns an id only, never the GPU itself.\<close>

definition getFGPUOrId :: "('w, 'z, osc_FlexibleGpu option \<times> string) MOp" where
  "getFGPUOrId =
     bind (gets mscope) (\<lambda>ms.
     bind (gets scope) (\<lambda>cs.
     if getResource defaultResource (mr_FGPU (ms_GetResources ms)) \<noteq> []
     then ret (None, getResource defaultResource (mr_FGPU (ms_GetResources ms)))
     else bind (wrap ''get fgpu: '' (svc_ReadTag (csTenant cs) FlexibleGPUResourceType NameKey (ms_GetName ms))) (\<lambda>tg.
       if tag_id tg \<noteq> [] then ret (None, tag_id tg)
       else raise (Errorf ''get fgpu: '' ErrNoResourceFound))))"

definition getFGPU :: "('w, 'z, osc_FlexibleGpu) MOp" where
  "getFGPU =
     bind getFGPUOrId (\<lambda>(r, rid).
     case r of
       Some fgpu \<Rightarrow> andThen (trackFGPU fgpu) (ret fgpu)
     | None \<Rightarrow>
         bind (gets tenantOf) (\<lambda>t.
         bind (svc_GetFGPU t rid) (\<lambda>r.
         bind (orMissing (''get fgpu '' @ rid @ '': '') r) (\<lambda>fgpu.
         andThen (trackFGPU fgpu) (ret fgpu)))))"

end
