(* ===== verification/Multi_Az.thy ===== *)
theory Multi_Az
  imports Machine_Scope
begin

text \<open>
  \<^verbatim>\<open>controllers/oscmachine_multiaz.go\<close>: the subregion of a worker. The allocator caches the machines
  of each deployment and their subregions, and puts a machine without one where the deployment
  has the fewest nodes. Its methods run under a mutex, so one call is one step.
\<close>

section \<open>Iterating over a map\<close>

text \<open>
  \<^verbatim>\<open>for k, v := range m\<close> visits the entries in an order the language leaves open: \<open>permute n\<close> is the
  order the die \<open>n\<close> selects, and every order is selected by some die.
\<close>

function permute :: "nat \<Rightarrow> 'a list \<Rightarrow> 'a list" where
  "permute n xs =
     (if xs = [] then []
      else let i = n mod length xs
           in xs ! i # permute (n div length xs) (take i xs @ drop (Suc i) xs))"
  by pat_completeness auto
termination
proof (relation "measure (\<lambda>(n, xs). length xs)")
  fix n :: nat and xs :: "'a list" and i
  assume "xs \<noteq> []" "i = n mod length xs"
  then have "i < length xs" by simp
  then show "((n div length xs, take i xs @ drop (Suc i) xs), n, xs) \<in> measure (\<lambda>(n, xs). length xs)" by simp
qed simp

declare permute.simps [simp del]

definition map_range :: "('k \<times> 'v) list \<Rightarrow> ('w, 'z, ('k \<times> 'v) list) Op" where
  "map_range m = (\<lambda>s. (Ok (permute (dice s (drawn s)) m), s\<lparr>drawn := Suc (drawn s)\<rparr>))"

section \<open>The allocator\<close>

definition az_deployment :: "OscMachine \<Rightarrow> gerror + NamespacedName" where
  "az_deployment m =
     (let md = nmap_get (Labels (ma_Meta m)) MachineDeploymentNameLabel
      in if md = [] then Inl (ErrorsNew ''no MachineDeployment label found'')
         else Inr (om_Namespace (ma_Meta m), md))"

definition az_name :: "OscMachine \<Rightarrow> NamespacedName" where
  "az_name m = (om_Namespace (ma_Meta m), om_Name (ma_Meta m))"

text \<open>The zero value of a missing key.\<close>

definition members :: "MultiAZAllocator \<Rightarrow> NamespacedName \<Rightarrow> NamespacedName list" where
  "members a deploy = (case map_of (deployments a) deploy of None \<Rightarrow> [] | Some ms \<Rightarrow> ms)"

definition azOf :: "MultiAZAllocator \<Rightarrow> NamespacedName \<Rightarrow> string" where
  "azOf a name = (case map_of (azs a) name of None \<Rightarrow> [] | Some az \<Rightarrow> az)"

definition NewMultiAZAllocator :: MultiAZAllocator where
  "NewMultiAZAllocator = \<lparr>deployments = [], azs = []\<rparr>"

lemma NewMultiAZAllocator_empty [simp]: "members NewMultiAZAllocator deploy = []" "azOf NewMultiAZAllocator name = []"
  by (simp_all add: NewMultiAZAllocator_def members_def azOf_def)

definition allocateRandomAZ :: "string list \<Rightarrow> ('w, 'z, string) Op" where
  "allocateRandomAZ azlist = bind (rand_IntN (length azlist)) (\<lambda>n. ret (azlist ! n))"

text \<open>The two loops of \<^verbatim>\<open>refreshWorkers\<close>: truncate the known deployments, then fill them again.\<close>

definition truncateOne :: "OscMachine \<Rightarrow> MultiAZAllocator \<Rightarrow> MultiAZAllocator" where
  "truncateOne m a =
     (case az_deployment m of
        Inl e \<Rightarrow> a
      | Inr deploy \<Rightarrow>
          if members a deploy \<noteq> [] then a\<lparr>deployments := AList.update deploy [] (deployments a)\<rparr> else a)"

definition refillOne :: "'w Env \<Rightarrow> OscMachine \<Rightarrow> MultiAZAllocator \<Rightarrow> MultiAZAllocator" where
  "refillOne E m a =
     (case az_deployment m of
        Inl e \<Rightarrow> a
      | Inr deploy \<Rightarrow>
          if GetRole (Vm (Node (ma_Spec m))) = RoleControlPlane then a
          else a\<lparr>deployments := AList.update deploy (members a deploy @ [az_name m]) (deployments a),
                 azs := AList.update (az_name m) (ptrFrom E (ma_FailureDomain (ma_Status m))) (azs a)\<rparr>)"

definition refreshWorkers :: "'w Env \<Rightarrow> string \<Rightarrow> ('w, 'z, unit) MOp" where
  "refreshWorkers E ns =
     bind (lift (listOscMachines E ns)) (\<lambda>ms.
     modify (\<lambda>s. s\<lparr>azAllocator := fold (refillOne E) ms (fold truncateOne ms (azAllocator s))\<rparr>))"

text \<open>
  The counts per subregion: the requested subregions start at 0, and \<^verbatim>\<open>perAZ[k]++\<close> adds a key that
  is missing.
\<close>

definition incrAZ :: "string \<Rightarrow> (string \<times> int) list \<Rightarrow> (string \<times> int) list" where
  "incrAZ az perAZ = AList.update az ((case map_of perAZ az of None \<Rightarrow> 0 | Some n \<Rightarrow> n) + 1) perAZ"

definition initialCounts :: "MultiAZAllocator \<Rightarrow> NamespacedName list \<Rightarrow> string list \<Rightarrow> (string \<times> int) list" where
  "initialCounts a names azlist =
     fold (\<lambda>name perAZ. if azOf a name \<noteq> [] then incrAZ (azOf a name) perAZ else perAZ) names
       (fold (\<lambda>az m. AList.update az 0 m) azlist [])"

abbreviation MaxInt :: int where "MaxInt \<equiv> 9223372036854775807"

text \<open>The first subregion with the least count, in the order of the iteration.\<close>

fun minAZ :: "(string \<times> int) list \<Rightarrow> string \<times> int \<Rightarrow> string \<times> int" where
  "minAZ [] (az, m) = (az, m)"
| "minAZ ((k, v) # rest) (az, m) = (if v < m then minAZ rest (k, v) else minAZ rest (az, m))"

definition leastAZ :: "(string \<times> int) list \<Rightarrow> string" where
  "leastAZ perAZ = fst (minAZ perAZ ([], MaxInt))"

text \<open>The loop over the machines of the deployment, up to the machine that is asked for.\<close>

fun assignAZs :: "string \<Rightarrow> NamespacedName list \<Rightarrow> (string \<times> int) list \<Rightarrow> ('w, 'z, string) MOp" where
  "assignAZs target [] perAZ = raise (ErrorsNew ''allocate AZ: machine was not found'')"
| "assignAZs target (name # names) perAZ =
     bind (gets azAllocator) (\<lambda>a.
     if azOf a name = [] then
       bind (map_range perAZ) (\<lambda>order.
       let az = leastAZ order in
       andThen (modify (\<lambda>s. s\<lparr>azAllocator := (azAllocator s)\<lparr>azs := AList.update name az (azs (azAllocator s))\<rparr>\<rparr>))
       (if snd name = target then ret az else assignAZs target names (incrAZ az perAZ)))
     else if snd name = target then ret (azOf a name)
     else assignAZs target names perAZ)"

definition allocateAZ :: "OscMachine \<Rightarrow> string list \<Rightarrow> ('w, 'z, string) MOp" where
  "allocateAZ m azlist =
     bind (wrap ''allocate AZ: '' (lift (az_deployment m))) (\<lambda>deploy.
     bind (gets azAllocator) (\<lambda>a.
     assignAZs (om_Name (ma_Meta m)) (members a deploy) (initialCounts a (members a deploy) azlist)))"

definition allocateLeastNodeAZ :: "'w Env \<Rightarrow> OscMachine \<Rightarrow> string list \<Rightarrow> ('w, 'z, string) MOp" where
  "allocateLeastNodeAZ E m azlist =
     bind (gets azAllocator) (\<lambda>a.
     bind (case map_of (azs a) (az_name m) of
             Some az \<Rightarrow> ret az
           | None \<Rightarrow>
               andThen (wrap ''allocate AZ: '' (refreshWorkers E (om_Namespace (ma_Meta m))))
               (bind (gets azAllocator) (\<lambda>a.
                case map_of (azs a) (az_name m) of
                  Some az \<Rightarrow> ret az
                | None \<Rightarrow> raise (ErrorsNew ''allocate AZ: no machine found'')))) (\<lambda>az.
     if az \<noteq> [] then ret az else allocateAZ m azlist))"

definition AllocateAZ :: "'w Env \<Rightarrow> OscMachine \<Rightarrow> SubregionMode \<Rightarrow> string list \<Rightarrow> ('w, 'z, string) MOp" where
  "AllocateAZ E m mode azlist =
     (case azlist of
        [] \<Rightarrow> raise (ErrorsNew ''no subregions configured'')
      | [az] \<Rightarrow> ret az
      | _ \<Rightarrow> if mode = SubregionModeRandom then allocateRandomAZ azlist else allocateLeastNodeAZ E m azlist)"

end
