(* ===== verification/Machine_Vm.thy ===== *)
theory Machine_Vm
  imports Machine_Tracker Multi_Az
begin

text \<open>
  \<^verbatim>\<open>controllers/oscmachine_vm.go\<close> and \<^verbatim>\<open>oscmachine_publicip.go\<close>: the VM of a machine is found or created
  in the subregion chosen for it, gets its flexible GPU, is started, linked to the load balancer
  when it is a control plane node, and reported in the status of the machine; and its deletion,
  with that of its public IPs. A result is the delay after which the machine is queued again.
\<close>

section \<open>Constants\<close>

text \<open>The tags of \<^verbatim>\<open>cloud/services/compute/vm.go\<close>, and the states the Outscale API documents.\<close>

abbreviation RepulseServerTag :: string where "RepulseServerTag \<equiv> ''osc.fcu.repulse_server''"
abbreviation RepulseClusterTag :: string where "RepulseClusterTag \<equiv> ''osc.fcu.repulse_cluster''"
abbreviation RepulseServerStrictTag :: string where "RepulseServerStrictTag \<equiv> ''osc.fcu.repulse_server_strict''"
abbreviation RepulseClusterStrictTag :: string where "RepulseClusterStrictTag \<equiv> ''osc.fcu.repulse_cluster_strict''"
abbreviation AttractServerTag :: string where "AttractServerTag \<equiv> ''osc.fcu.attract_server''"
abbreviation AttractClusterTag :: string where "AttractClusterTag \<equiv> ''osc.fcu.attract_cluster''"
abbreviation AttractServerStrictTag :: string where "AttractServerStrictTag \<equiv> ''osc.fcu.attract_server_strict''"
abbreviation AttractClusterStrictTag :: string where "AttractClusterStrictTag \<equiv> ''osc.fcu.attract_cluster_strict''"

abbreviation VmStateStopped :: string where "VmStateStopped \<equiv> ''stopped''"
abbreviation VmStateRunning :: string where "VmStateRunning \<equiv> ''running''"
abbreviation FlexibleGpuStateAllocated :: string where "FlexibleGpuStateAllocated \<equiv> ''allocated''"
abbreviation FlexibleGpuStateAttached :: string where "FlexibleGpuStateAttached \<equiv> ''attached''"

abbreviation NodeInternalIP :: string where "NodeInternalIP \<equiv> ''InternalIP''"
abbreviation NodeExternalIP :: string where "NodeExternalIP \<equiv> ''ExternalIP''"

section \<open>Creating the VM\<close>

text \<open>
  Where the VM goes: with its GPU, in the failure domain of the machine (a subnet name or a
  subregion), or where the allocator says. The result is the name of the subnet and the subregion.
\<close>

definition vmPlacement :: "'w Env \<Rightarrow> osc_FlexibleGpu option \<Rightarrow> ('w, 'z, string \<times> string) MOp" where
  "vmPlacement E fgpu =
     bind (gets mscope) (\<lambda>ms.
     bind (gets scope) (\<lambda>cs.
     let vmSpec = ms_GetVm ms in
     case fgpu of
       Some g \<Rightarrow> ret (vm_SubnetName vmSpec, o_FlexibleGpuSubregionName g)
     | None \<Rightarrow>
         (case m_FailureDomain (msMachine ms) of
            Some fd \<Rightarrow> ret (fd, fd)
          | None \<Rightarrow>
              let azlist = GetSubregions vmSpec;
                  azlist = (if azlist = [] then cs_GetSubregions cs else azlist)
              in bind (AllocateAZ E (msOscMachine ms) (vm_SubregionMode vmSpec) azlist) (\<lambda>az.
                 ret (vm_SubnetName vmSpec, az)))))"

definition vmGpu :: "'w Env \<Rightarrow> osc_FlexibleGpu option \<Rightarrow> string \<Rightarrow> ('w, 'z, osc_FlexibleGpu option) MOp" where
  "vmGpu E fgpu subregionName =
     bind (gets mscope) (\<lambda>ms.
     bind (gets scope) (\<lambda>cs.
     case vm_FGPU (ms_GetVm ms) of
       None \<Rightarrow> ret fgpu
     | Some spec \<Rightarrow>
         if ms_IsControlPlane E ms then ret fgpu
         else if fgpu \<noteq> None then ret fgpu
         else bind (svc_AllocateFGPU (csTenant cs) (Model spec) subregionName ms) (\<lambda>g.
           andThen (record_event FGPUAllocatedReason (o_FlexibleGpuId g @ '' ('' @ Model spec @ '') allocated''))
           (ret (Some g)))))"

text \<open>The tags for the placement: at most one for the cluster and one for the server.\<close>

definition clusterTags :: "OscPlacement \<Rightarrow> nmap \<Rightarrow> nmap" where
  "clusterTags repulse tags =
     (if RepulseCluster repulse \<noteq> [] \<and> ClusterStrict repulse
      then nmap_put tags RepulseClusterStrictTag (RepulseCluster repulse)
      else if RepulseCluster repulse \<noteq> [] \<and> \<not> ClusterStrict repulse
      then nmap_put tags RepulseClusterTag (RepulseCluster repulse)
      else if AttractCluster repulse \<noteq> [] \<and> ClusterStrict repulse
      then nmap_put tags AttractClusterStrictTag (AttractCluster repulse)
      else if AttractCluster repulse \<noteq> [] \<and> \<not> ClusterStrict repulse
      then nmap_put tags AttractClusterTag (AttractCluster repulse)
      else tags)"

definition serverTags :: "OscPlacement \<Rightarrow> nmap \<Rightarrow> nmap" where
  "serverTags repulse tags =
     (case RepulseServer repulse of
        Some (c # cs) \<Rightarrow> nmap_put tags (if ServerStrict repulse then RepulseServerStrictTag else RepulseServerTag) (c # cs)
      | _ \<Rightarrow>
          if AttractServer repulse \<noteq> [] \<and> ServerStrict repulse
          then nmap_put tags AttractServerStrictTag (AttractServer repulse)
          else if AttractServer repulse \<noteq> [] \<and> \<not> ServerStrict repulse
          then nmap_put tags AttractServerTag (AttractServer repulse)
          else tags)"

definition vmTags :: "('w, 'z, nmap) MOp" where
  "vmTags =
     bind (gets mscope) (\<lambda>ms.
     let tags = Some (nmap_entries (vm_Tags (ms_GetVm ms))) in
     if vm_PublicIp (ms_GetVm ms)
     then bind (wrap ''allocate IP: '' (AllocateIP m_IPAllocator defaultResource (ms_GetName ms) (PublicIpPool (ms_GetVm ms))))
       (\<lambda>(_, publicIp).
       andThen (record_event IPAllocated (''IP '' @ publicIp @ '' allocated''))
       (ret (nmap_put tags AutoAttachExternalIPTag publicIp)))
     else ret tags)"

definition vmSecurityGroupIds :: "('w, 'z, string list) MOp" where
  "vmSecurityGroupIds =
     bind (gets mscope) (\<lambda>ms.
     bind (gets scope) (\<lambda>cs.
     bind (wrap ''cannot find securityGroup: ''
       (lift (cs_GetSecurityGroupsFor cs (ms_GetVmSecurityGroups ms) (GetRole (ms_GetVm ms))))) (\<lambda>securityGroups.
     foldM securityGroups [] (\<lambda>ids sgSpec. bind (getSecurityGroupId sgSpec) (\<lambda>i. ret (ids @ [i]))))))"

definition createVm :: "'w Env \<Rightarrow> osc_FlexibleGpu option \<Rightarrow> ('w, 'z, osc_Vm \<times> osc_FlexibleGpu option) MOp" where
  "createVm E fgpu =
     bind (gets mscope) (\<lambda>ms.
     bind (gets scope) (\<lambda>cs.
     let vmSpec = ms_GetVm ms in
     bind (vmPlacement E fgpu) (\<lambda>(subnetName, subregionName).
     bind (vmGpu E fgpu subregionName) (\<lambda>fgpu.
     bind (wrap ''reconcile vm: '' (lift (cs_GetSubnet cs subnetName (GetRole vmSpec) subregionName))) (\<lambda>subnetSpec.
     bind (wrap ''reconcile vm: '' (getSubnetId subnetSpec)) (\<lambda>subnetId.
     bind vmSecurityGroupIds (\<lambda>securityGroupIds.
     bind getImageId (\<lambda>imageId.
     bind vmTags (\<lambda>tags.
     let repulse = ms_GetPlacement E ms;
         tags = serverTags repulse (clusterTags repulse tags) in
     bind (wrap ''cannot create vm: '' (svc_CreateVm E (csTenant cs) ms vmSpec imageId subnetId securityGroupIds
        (map PrivateIp (ms_GetVmPrivateIps ms)) (ms_GetName ms) (ms_GetClientToken ms cs) tags (ms_GetVolumes ms))) (\<lambda>created.
     case created of
       None \<Rightarrow> panic
     | Some vm \<Rightarrow>
         andThen (trackVm vm)
         (andThen (ms_SetVmState (o_VmState vm))
         (andThen (ms_SetProviderID (o_VmSubregionName vm) (o_VmId vm))
         (andThen (record_event VmCreatedReason (''VM '' @ o_VmId vm @ '' created in '' @ subregionName))
         (ret (vm, fgpu)))))))))))))))"

section \<open>Bringing the VM to its desired state\<close>

text \<open>The flexible GPU: \<open>True\<close> when the machine can go on, \<open>False\<close> when it has to be queued again.\<close>

definition settleGpu :: "osc_Vm \<Rightarrow> osc_FlexibleGpu option \<Rightarrow> ('w, 'z, bool) MOp" where
  "settleGpu vm fgpu =
     bind (gets tenantOf) (\<lambda>t.
     case fgpu of
       None \<Rightarrow> ret True
     | Some g \<Rightarrow>
         if o_FlexibleGpuState g = FlexibleGpuStateAllocated then
           andThen (whenM (o_VmState vm = VmStateStopped)
             (andThen (wrap ''link fgpu: '' (svc_LinkFGPU t (o_FlexibleGpuId g) (o_VmId vm)))
             (record_event FGPUAttachedReason (o_FlexibleGpuId g @ '' attached''))))
           (ret False)
         else ret (o_FlexibleGpuState g = FlexibleGpuStateAttached))"

definition linkControlPlane :: "osc_Vm \<Rightarrow> ('w, 'z, unit) MOp" where
  "linkControlPlane vm =
     bind (gets mscope) (\<lambda>ms.
     bind (gets scope) (\<lambda>cs.
     whenM (GetRole (ms_GetVm ms) = RoleControlPlane \<and> \<not> cs_IsLBDisabled cs)
       (let loadBalancerName = LoadBalancerName (cs_GetLoadBalancer cs) in
        bind (wrap ''cannot get loadbalancer: '' (svc_GetLoadBalancer (csTenant cs) loadBalancerName)) (\<lambda>loadbalancer.
        case loadbalancer of
          None \<Rightarrow> raise (ErrorsNew ''no loadbalancer found'')
        | Some lb \<Rightarrow>
            whenM (o_VmId vm \<notin> set (o_BackendVmIds lb))
              (wrap (''cannot link vm '' @ o_VmId vm @ '' to loadBalancerName '' @ loadBalancerName @ '': '')
                (svc_LinkLoadBalancerBackendMachines (csTenant cs) [o_VmId vm] loadBalancerName))))))"

definition vmAddresses :: "osc_Vm \<Rightarrow> NodeAddress list" where
  "vmAddresses vm = \<lparr>addr_Type = NodeInternalIP, Address = o_VmPrivateIp vm\<rparr> #
     (case o_VmPublicIp vm of None \<Rightarrow> [] | Some ip \<Rightarrow> [\<lparr>addr_Type = NodeExternalIP, Address = ip\<rparr>])"

text \<open>What follows once the VM runs.\<close>

definition vmRunning :: "'w Env \<Rightarrow> osc_Vm \<Rightarrow> ('w, 'z, nat) MOp" where
  "vmRunning E vm =
     andThen ms_SetReady
     (andThen (linkControlPlane vm)
     (case o_PrivateDnsName vm of
        None \<Rightarrow> raise (ErrorsNew ''cannot find privateDnsName'')
      | Some dns \<Rightarrow>
          andThen (ms_SetAddresses (vmAddresses vm))
          (andThen (ms_SetFailureDomain (o_VmSubregionName vm))
          (bind (gets scope) (\<lambda>cs.
           andThen (whenM (\<not> HasCCMTags E vm)
             (wrap ''cannot add ccm tag: '' (svc_AddCCMTags E (csTenant cs) (cs_GetUID cs) dns (o_VmId vm))))
           (andThen (ms_SetReconciliationGeneration ReconcilerVm) (ret 0)))))))"

definition settleVm :: "'w Env \<Rightarrow> osc_Vm \<Rightarrow> osc_FlexibleGpu option \<Rightarrow> ('w, 'z, nat) MOp" where
  "settleVm E vm fgpu =
     bind (settleGpu vm fgpu) (\<lambda>go.
     if \<not> go then ret 30
     else if o_VmState vm = VmStateStopped then
       bind (gets tenantOf) (\<lambda>t. andThen (wrap ''start vm: '' (svc_StartVm t (o_VmId vm))) (ret 30))
     else if o_VmState vm = VmStateRunning then vmRunning E vm
     else ret 30)"

text \<open>The VM of the machine, found or created, with its GPU.\<close>

definition ensureVm :: "'w Env \<Rightarrow> osc_FlexibleGpu option \<Rightarrow> ('w, 'z, osc_Vm \<times> osc_FlexibleGpu option) MOp" where
  "ensureVm E fgpu =
     bind (findExisting ''cannot get VM: '' True getVm) (\<lambda>found.
     case found of
       Some vm \<Rightarrow> andThen (ms_SetVmState (o_VmState vm)) (ret (vm, fgpu))
     | None \<Rightarrow> createVm E fgpu)"

definition reconcileVm :: "'w Env \<Rightarrow> ('w, 'z, nat) MOp" where
  "reconcileVm E =
     bind (ms_NeedReconciliation ReconcilerVm) (\<lambda>need.
     if \<not> need then ret 0
     else bind (gets mscope) (\<lambda>ms.
       bind (if vm_FGPU (ms_GetVm ms) \<noteq> None then findExisting [] True getFGPU else ret None) (\<lambda>fgpu.
       bind (ensureVm E fgpu) (\<lambda>(vm, fgpu).
       settleVm E vm fgpu))))"

section \<open>Deleting\<close>

definition unlinkControlPlane :: "osc_Vm \<Rightarrow> ('w, 'z, unit) MOp" where
  "unlinkControlPlane vm =
     bind (gets mscope) (\<lambda>ms.
     bind (gets scope) (\<lambda>cs.
     whenM (GetRole (ms_GetVm ms) = RoleControlPlane \<and> \<not> cs_IsLBDisabled cs)
       (let loadBalancerName = LoadBalancerName (cs_GetLoadBalancer cs) in
        bind (wrap ''cannot get loadbalancer: '' (svc_GetLoadBalancer (csTenant cs) loadBalancerName)) (\<lambda>loadbalancer.
        case loadbalancer of
          None \<Rightarrow> ret ()
        | Some lb \<Rightarrow>
            whenM (o_VmId vm \<in> set (o_BackendVmIds lb))
              (wrap (''cannot unlink vm '' @ o_VmId vm @ '' to loadBalancerName '' @ loadBalancerName @ '': '')
                (svc_UnlinkLoadBalancerBackendMachines (csTenant cs) [o_VmId vm] loadBalancerName))))))"

definition reconcileDeleteVm :: "('w, 'z, nat) MOp" where
  "reconcileDeleteVm =
     bind (findExisting ''cannot get vm: '' True getVm) (\<lambda>found.
     case found of
       None \<Rightarrow> ret 0
     | Some vm \<Rightarrow>
         if o_VmState vm = ''terminated'' then ret 0
         else andThen (unlinkControlPlane vm)
           (bind (gets tenantOf) (\<lambda>t.
            andThen (wrap ''cannot delete vm: '' (svc_DeleteVm t (o_VmId vm))) (ret 0))))"

definition m_reconcileDeletePublicIp :: "'w Env \<Rightarrow> ('w, 'z, nat) MOp" where
  "m_reconcileDeletePublicIp E =
     bind (gets mscope) (\<lambda>ms.
     if PublicIpPool (ms_GetVm ms) \<noteq> [] then ret 0
     else andThen (forM (nmap_entries (m_getPublicIps ms)) (\<lambda>(k, ipid).
         andThen (wrap (''cannot delete publicIp '' @ ipid @ '': '') (DeallocateIP E m_IPAllocator k)) (m_untrackIP k)))
       (ret 0))"

end
