(* ===== verification/Machine_Controller.thy ===== *)
theory Machine_Controller
  imports Machine_Vm
begin

text \<open>
  \<^verbatim>\<open>controllers/oscmachine_controller.go\<close>: the reconciliation of a machine, its deletion, the entry
  point called by the controller runtime, and the requests a change of a cluster triggers.
\<close>

section \<open>Conditions and finalizer\<close>

abbreviation OscMachineFinalizer :: string where
  "OscMachineFinalizer \<equiv> ''oscmachine.infrastructure.cluster.x-k8s.io''"

abbreviation ConditionSeverityInfo :: string where "ConditionSeverityInfo \<equiv> ''Info''"

definition m_markTrue :: "'w Env \<Rightarrow> string \<Rightarrow> ('w, 'z, unit) MOp" where
  "m_markTrue E cond = modify (upd_MStatus (\<lambda>st. st\<lparr>ma_Conditions := MarkTrue E (ma_Conditions st) cond\<rparr>))"

definition m_markFalse :: "'w Env \<Rightarrow> string \<Rightarrow> string \<Rightarrow> string \<Rightarrow> string \<Rightarrow> ('w, 'z, unit) MOp" where
  "m_markFalse E cond reason severity msg = modify (upd_MStatus (\<lambda>st. st\<lparr>ma_Conditions :=
     MarkFalse E (ma_Conditions st) cond reason severity msg\<rparr>))"

definition m_addFinalizer :: "'w Env \<Rightarrow> ('w, 'z, unit) MOp" where
  "m_addFinalizer E = modify (upd_OscMachine (\<lambda>m. m\<lparr>ma_Meta := (ma_Meta m)
     \<lparr>Finalizers := AddFinalizer E (Finalizers (ma_Meta m)) OscMachineFinalizer\<rparr>\<rparr>))"

definition m_removeFinalizer :: "'w Env \<Rightarrow> ('w, 'z, unit) MOp" where
  "m_removeFinalizer E = modify (upd_OscMachine (\<lambda>m. m\<lparr>ma_Meta := (ma_Meta m)
     \<lparr>Finalizers := RemoveFinalizer E (Finalizers (ma_Meta m)) OscMachineFinalizer\<rparr>\<rparr>))"

section \<open>Reconciling and deleting\<close>

definition m_reconcile :: "'w Env \<Rightarrow> ('w, 'z, nat) MOp" where
  "m_reconcile E =
     bind (gets mscope) (\<lambda>ms.
     if FailureReason (ma_Status (msOscMachine ms)) \<noteq> None \<or> FailureMessage (ma_Status (msOscMachine ms)) \<noteq> None then ret 0
     else andThen (m_addFinalizer E)
       (if \<not> c_InfrastructureReady (msCluster ms)
        then andThen (m_markFalse E VmReadyCondition WaitingForClusterInfrastructureReason ConditionSeverityInfo []) (ret 0)
        else if m_DataSecretName (msMachine ms) = None then ret 0
        else handle (reconcileVm E) (\<lambda>r. case r of
          Inl e \<Rightarrow> andThen (m_markFalse E VmReadyCondition VmNotReadyReason ConditionSeverityWarning (error_msg e)) (raise e)
        | Inr requeue \<Rightarrow>
            if requeue \<noteq> 0
            then andThen (m_markFalse E VmReadyCondition VmNotReadyReason ConditionSeverityWarning ''VM is not running yet'')
              (ret requeue)
            else andThen (m_markTrue E VmReadyCondition) (ret 0))))"

definition m_reconcileDelete :: "'w Env \<Rightarrow> ('w, 'z, nat) MOp" where
  "m_reconcileDelete E =
     andThen reconcileDeleteVm (andThen (m_reconcileDeletePublicIp E) (andThen (m_removeFinalizer E) (ret 0)))"

section \<open>Entry point\<close>

text \<open>What the entry point uses of the Kubernetes API beside what the one of the clusters does.\<close>

record MKube = Kube +
  k_GetOscMachine :: "string \<Rightarrow> gerror + OscMachine"
  k_GetOwnerMachine :: "ObjectMeta \<Rightarrow> gerror + CapiMachine option"
  k_GetClusterFromMetadata :: "CapiMachine \<Rightarrow> gerror + CapiCluster"
  k_GetOscClusterByName :: "string \<Rightarrow> string \<Rightarrow> gerror + OscCluster"
  k_NewMHelper :: "OscMachine \<Rightarrow> gerror option"
  k_MPatch :: "OscMachine \<Rightarrow> gerror option"

definition NewMachineScope :: "MKube \<Rightarrow> CapiCluster \<Rightarrow> CapiMachine \<Rightarrow> OscMachine \<Rightarrow> ('w, 'z, unit) MOp" where
  "NewMachineScope K cluster machine oscMachine =
     (case k_NewMHelper K oscMachine of
        Some e \<Rightarrow> raise (Errorf ''failed to init patch helper: '' e)
      | None \<Rightarrow> modify (\<lambda>s. s\<lparr>mscope := \<lparr>msCluster = cluster, msMachine = machine, msOscMachine = oscMachine\<rparr>\<rparr>))"

definition ms_Close :: "MKube \<Rightarrow> ('w, 'z, unit) MOp" where
  "ms_Close K = bind (gets mscope) (\<lambda>ms.
     case k_MPatch K (msOscMachine ms) of
       Some e \<Rightarrow> raise e
     | None \<Rightarrow> modify (\<lambda>s. s\<lparr>mpatched := mpatched s @ [msOscMachine ms]\<rparr>))"

text \<open>As for a cluster: the scope is closed whatever the outcome, and its error replaces a missing one only.\<close>

definition m_deferClose :: "MKube \<Rightarrow> ('w, 'z, 'a) MOp \<Rightarrow> ('w, 'z, 'a) MOp" where
  "m_deferClose K m = (\<lambda>s. case m s of (r, t) \<Rightarrow>
     (case ms_Close K t of
        (Err e, u) \<Rightarrow> ((case r of Ok _ \<Rightarrow> Err e | _ \<Rightarrow> r), u)
      | (_, u) \<Rightarrow> (r, u)))"

text \<open>
  Every error of the owning cluster ends the run, as does that of the \<^verbatim>\<open>OscCluster\<close>; a cluster without
  infrastructure reference is dereferenced. The scope of the cluster is never closed here: what
  the run records in it is not written back.
\<close>

definition m_Reconcile :: "MKube \<Rightarrow> 'w Env \<Rightarrow> string \<Rightarrow> ('w, 'z, nat) MOp" where
  "m_Reconcile K E req =
     (case k_GetOscMachine K req of
        Inl e \<Rightarrow> if k_IsNotFound K e then ret 0 else raise e
      | Inr oscMachine \<Rightarrow>
     (case k_GetOwnerMachine K (ma_Meta oscMachine) of
        Inl e \<Rightarrow> if k_IsNotFound K e then ret 0 else raise e
      | Inr None \<Rightarrow> ret 0
      | Inr (Some machine) \<Rightarrow>
     (case k_GetClusterFromMetadata K machine of
        Inl e \<Rightarrow> ret 0
      | Inr cluster \<Rightarrow>
     (case c_InfrastructureRefName cluster of
        None \<Rightarrow> panic
      | Some infra \<Rightarrow>
     (case k_GetOscClusterByName K (om_Namespace (ma_Meta oscMachine)) infra of
        Inl e \<Rightarrow> ret 0
      | Inr oscCluster \<Rightarrow>
          if k_IsPaused K cluster oscCluster then ret 0
          else bind (wrap ''unable to fetch tenant: '' (lift (getTenant E oscCluster))) (\<lambda>t.
            andThen (NewClusterScope (Kube.truncate K) cluster oscCluster t)
            (andThen (wrap ''failed to create scope: '' (NewMachineScope K cluster machine oscMachine))
            (m_deferClose K (if DeletionTimestamp (ma_Meta oscMachine) \<noteq> None
               then m_reconcileDelete E else m_reconcile E)))))))))"

section \<open>Requests triggered by a cluster\<close>

text \<open>
  \<^verbatim>\<open>OscClusterToOscMachines\<close> for an \<^verbatim>\<open>OscCluster\<close>: the machines of the owning cluster whose infrastructure
  is an \<^verbatim>\<open>OscMachine\<close>. The list of machines is the answer of the Kubernetes API to the list in a
  namespace with a label selector. Every error gives no request.
\<close>

definition OscClusterToOscMachines :: "Kube \<Rightarrow> (string \<Rightarrow> string \<Rightarrow> gerror + CapiMachine list) \<Rightarrow> OscCluster \<Rightarrow> (string \<times> string) list" where
  "OscClusterToOscMachines K list_machines c =
     (if DeletionTimestamp (cl_Meta c) \<noteq> None then []
      else case k_GetOwnerCluster K (cl_Meta c) of
        Inl e \<Rightarrow> []
      | Inr None \<Rightarrow> []
      | Inr (Some cluster) \<Rightarrow>
          (case list_machines (om_Namespace (cl_Meta c)) (c_Name cluster) of
             Inl e \<Rightarrow> []
           | Inr ms \<Rightarrow> map (\<lambda>m. (m_Namespace m, m_InfraName m))
               (filter (\<lambda>m. m_InfraKind m = ''OscMachine'' \<and> m_InfraName m \<noteq> []) ms)))"

end
