(* ===== verification/Machine_Effects.thy ===== *)
theory Machine_Effects
  imports Machine_Controller Cluster_Runs
begin

text \<open>
  What the machine controller may do to the cloud, and what it leaves alone: the effects of each
  operation of \<^verbatim>\<open>controllers/oscmachine_*.go\<close>, the interpretations of the interface of the IP store
  and of the observer for the state of a machine, and the order of the requests of a deletion.
\<close>

section \<open>Effects of the operations\<close>

lemma upd_OscMachine_views [simp]:
  "calls (upd_OscMachine g s) = calls s" "scope (upd_OscMachine g s) = scope s"
  "cloud (upd_OscMachine g s) = cloud s" "dice (upd_OscMachine g s) = dice s" "drawn (upd_OscMachine g s) = drawn s"
  "azAllocator (upd_OscMachine g s) = azAllocator s" "msMachine (mscope (upd_OscMachine g s)) = msMachine (mscope s)"
  "msCluster (mscope (upd_OscMachine g s)) = msCluster (mscope s)"
  "msOscMachine (mscope (upd_OscMachine g s)) = g (msOscMachine (mscope s))"
  "mpatched (upd_OscMachine g s) = mpatched s" "patched (upd_OscMachine g s) = patched s"
  by (simp_all add: upd_OscMachine_def)

lemmas machine_setters = m_setPublicIP_def m_untrackIP_def setVmId_def setVolumeIds_def setImageId_def trackFGPU_def
  ms_SetImageId_def ms_SetProviderID_def ms_SetVmState_def ms_SetReady_def ms_SetNotReady_def ms_SetAddresses_def
  ms_SetFailureDomain_def ms_SetReconciliationGeneration_def m_markTrue_def m_markFalse_def m_addFinalizer_def
  m_removeFinalizer_def upd_MResources_def upd_MStatus_def

lemma acts_machine_upd [acts_rules]:
  "keeps (acts C K) (modify (upd_OscMachine g))" "keeps (acts C K) (modify (\<lambda>s. s\<lparr>azAllocator := h s\<rparr>))"
  "keeps (acts C K) (map_range xs)"
  by (auto simp: keeps_def acts_def run_simps map_range_def intro!: issues_append [of _ _ "[]"])

lemma acts_machine_setters [acts_rules]:
  "keeps (acts C K) (modify (m_setPublicIP k v))" "keeps (acts C K) (m_untrackIP k)"
  "keeps (acts C K) (trackVm vm)" "keeps (acts C K) (setImageId i)" "keeps (acts C K) (trackFGPU g)"
  "keeps (acts C K) (ms_SetProviderID a b)" "keeps (acts C K) (ms_SetVmState v)" "keeps (acts C K) ms_SetReady"
  "keeps (acts C K) (ms_SetAddresses as)" "keeps (acts C K) (ms_SetFailureDomain fd)"
  "keeps (acts C K) (ms_SetReconciliationGeneration rc)"
  "keeps (acts C K) (m_markTrue E c)" "keeps (acts C K) (m_markFalse E c r sv msg)"
  "keeps (acts C K) (m_addFinalizer E)" "keeps (acts C K) (m_removeFinalizer E)"
  unfolding trackVm_def machine_setters by (intro frame_rules acts_rules)+

lemma acts_machine_allocator [acts_rules]:
  "ERead \<in> K \<Longrightarrow> keeps (acts C K) (RetrackIP m_IPAllocator key ip)"
  "{ERead, EDelete RPublicIp} \<subseteq> K \<Longrightarrow> keeps (acts C K) (DeallocateIP E m_IPAllocator key)"
  "{ERead, ETag, ECreate RPublicIp} \<subseteq> K \<Longrightarrow> keeps (acts C K) (AllocateIP m_IPAllocator key name pool)"
  unfolding RetrackIP_def DeallocateIP_def AllocateIP_def allocateNewIP_def allocate_def allocateFromPool_def
    m_IPAllocator_def IPAllocator.simps net_service_defs
  by (intro frame_rules acts_rules; simp)+

lemma acts_machine_lookups [acts_rules]:
  assumes "ERead \<in> K"
  shows "keeps (acts C K) getVm" "keeps (acts C K) getFGPU" "keeps (acts C K) getImageId"
  unfolding getVm_def getVmOrId_def foundVm_def getFGPU_def getFGPUOrId_def getImageId_def svc_GetFGPU_def
    net_service_defs compute_service_defs
  by (intro frame_rules acts_rules; simp add: assms)+

lemma acts_machine_need [acts_rules]: "keeps (acts C K) (ms_NeedReconciliation rc)"
  unfolding ms_NeedReconciliation_def cs_Rand_def by (intro frame_rules acts_rules)

lemma acts_assignAZs [acts_rules]: "keeps (acts C K) (assignAZs target names perAZ)"
  by (induction target names perAZ rule: assignAZs.induct) (auto simp: Let_def intro!: frame_rules acts_rules)

lemma acts_AllocateAZ [acts_rules]: "keeps (acts C K) (AllocateAZ E m mode xs)"
  unfolding AllocateAZ_def allocateRandomAZ_def allocateLeastNodeAZ_def allocateAZ_def refreshWorkers_def
  by (intro frame_rules acts_rules)

lemma acts_createVm [acts_rules]:
  "{ERead, ETag, ECreate RGpu, ECreate RPublicIp, ECreate RVm} \<subseteq> K \<Longrightarrow> keeps (acts C K) (createVm E fgpu)"
  unfolding createVm_def vmPlacement_def vmGpu_def vmSecurityGroupIds_def vmTags_def svc_CreateVm_def svc_AllocateFGPU_def
    svc_AddTag_def
  by (intro frame_rules acts_rules; simp)

lemma acts_settleVm [acts_rules]:
  "{ERead, ETag, EChange RGpu, EChange RVm, EChange RLoadBalancer} \<subseteq> K \<Longrightarrow> keeps (acts C K) (settleVm E vm fgpu)"
  unfolding settleVm_def settleGpu_def vmRunning_def linkControlPlane_def svc_LinkFGPU_def net_service_defs compute_service_defs
  by (intro frame_rules acts_rules; simp)

abbreviation machineEffects :: "effect set" where
  "machineEffects \<equiv> {ERead, ETag, ECreate RGpu, ECreate RPublicIp, ECreate RVm, EChange RGpu, EChange RVm, EChange RLoadBalancer}"

lemma acts_m_reconcile: "keeps (acts C machineEffects) (m_reconcile E)"
  unfolding m_reconcile_def reconcileVm_def ensureVm_def by (intro frame_rules acts_rules; simp)

lemma acts_deleteVm [acts_rules]:
  "{ERead, EChange RLoadBalancer, EDelete RVm} \<subseteq> K \<Longrightarrow> keeps (acts C K) reconcileDeleteVm"
  "{ERead, EDelete RPublicIp} \<subseteq> K \<Longrightarrow> keeps (acts C K) (m_reconcileDeletePublicIp E)"
  unfolding reconcileDeleteVm_def unlinkControlPlane_def m_reconcileDeletePublicIp_def net_service_defs compute_service_defs
  by (intro frame_rules acts_rules; simp)+

section \<open>What a machine keeps\<close>

text \<open>
  An observation of the state that neither the operations on the cluster nor those that record
  the progress of the machine change.
\<close>

locale vm_observer = observer f
  for f :: "('w, 'z) MWorld_scheme \<Rightarrow> 'b" +
  assumes obs_mresources: "f (upd_MResources r s) = f s"
    and obs_provider: "f (snd (ms_SetProviderID a b s)) = f s"
    and obs_mvmstate: "f (snd (ms_SetVmState st s)) = f s"
    and obs_allocator_state: "f (s\<lparr>azAllocator := az\<rparr>) = f s"
begin

lemma obs_machine_primitives [obs_rules]:
  "keeps (preserves f) (modify (upd_MResources r))" "keeps (preserves f) (modify (m_setPublicIP k v))"
  "keeps (preserves f) (ms_SetProviderID a b)" "keeps (preserves f) (ms_SetVmState st)"
  "keeps (preserves f) (modify (\<lambda>s. s\<lparr>azAllocator := h s\<rparr>))" "keeps (preserves f) (map_range xs)"
  by (auto simp: keeps_def preserves_def run_simps map_range_def m_setPublicIP_def
      obs_mresources obs_mvmstate obs_provider obs_allocator_state obs_drawn)

lemma obs_machine_setters [obs_rules]:
  "keeps (preserves f) (m_untrackIP k)" "keeps (preserves f) (trackVm vm)" "keeps (preserves f) (setImageId i)"
  "keeps (preserves f) (trackFGPU gpu)"
  unfolding m_untrackIP_def trackVm_def setVmId_def setVolumeIds_def setImageId_def trackFGPU_def
  by (intro frame_rules obs_rules)+

lemma obs_machine_allocator [obs_rules]:
  "keeps (preserves f) (RetrackIP m_IPAllocator key ip)"
  "keeps (preserves f) (DeallocateIP E m_IPAllocator key)"
  "keeps (preserves f) (AllocateIP m_IPAllocator key name pool)"
  unfolding RetrackIP_def DeallocateIP_def AllocateIP_def allocateNewIP_def allocate_def allocateFromPool_def
    m_IPAllocator_def IPAllocator.simps net_service_defs
  by (intro frame_rules obs_rules)+

lemma obs_machine_lookups [obs_rules]:
  "keeps (preserves f) getVm" "keeps (preserves f) getFGPU" "keeps (preserves f) getImageId"
  "keeps (preserves f) (ms_NeedReconciliation rc)"
  unfolding getVm_def getVmOrId_def foundVm_def getFGPU_def getFGPUOrId_def getImageId_def svc_GetFGPU_def
    ms_NeedReconciliation_def cs_Rand_def net_service_defs compute_service_defs
  by (intro frame_rules obs_rules)+

lemma obs_assignAZs [obs_rules]: "keeps (preserves f) (assignAZs target names perAZ)"
  by (induction target names perAZ rule: assignAZs.induct) (auto simp: Let_def intro!: frame_rules obs_rules)

lemma obs_placement [obs_rules]:
  "keeps (preserves f) (vmPlacement E fgpu)" "keeps (preserves f) (vmGpu E fgpu zone)"
  "keeps (preserves f) vmSecurityGroupIds" "keeps (preserves f) vmTags"
  unfolding vmPlacement_def vmGpu_def vmSecurityGroupIds_def vmTags_def AllocateAZ_def allocateRandomAZ_def
    allocateLeastNodeAZ_def allocateAZ_def refreshWorkers_def svc_AllocateFGPU_def svc_AddTag_def
  by (intro frame_rules obs_rules)+

lemma obs_vm_steps [obs_rules]:
  "keeps (preserves f) (createVm E fgpu)" "keeps (preserves f) (ensureVm E fgpu)" "keeps (preserves f) (settleGpu vm fgpu)" "keeps (preserves f) (linkControlPlane vm)"
  "keeps (preserves f) (unlinkControlPlane vm)" "keeps (preserves f) reconcileDeleteVm"
  "keeps (preserves f) (m_reconcileDeletePublicIp E)"
  unfolding ensureVm_def createVm_def settleGpu_def linkControlPlane_def reconcileDeleteVm_def
    unlinkControlPlane_def m_reconcileDeletePublicIp_def svc_CreateVm_def svc_LinkFGPU_def net_service_defs compute_service_defs
  by (intro frame_rules obs_rules)+

end

text \<open>An observation that does not depend on the status of the machine at all.\<close>

locale machine_observer = vm_observer f
  for f :: "('w, 'z) MWorld_scheme \<Rightarrow> 'b" +
  assumes obs_status: "f (upd_MStatus g s) = f s"
begin

lemma obs_status_setters [obs_rules]:
  "keeps (preserves f) (modify (upd_MStatus g))" "keeps (preserves f) ms_SetReady"
  "keeps (preserves f) (ms_SetAddresses as)" "keeps (preserves f) (ms_SetFailureDomain fd)"
  "keeps (preserves f) (m_markTrue E c)" "keeps (preserves f) (m_markFalse E c rs sv msg)"
  by (simp_all add: keeps_def preserves_def run_simps ms_SetReady_def ms_SetAddresses_def ms_SetFailureDomain_def
      m_markTrue_def m_markFalse_def obs_status)

lemma obs_machine_generation [obs_rules]: "keeps (preserves f) (ms_SetReconciliationGeneration rc)"
proof (rule keepsI)
  fix s :: "('w, 'z) MWorld_scheme"
  have "snd (ms_SetReconciliationGeneration rc s) = upd_MStatus (\<lambda>st. st
      \<lparr>ma_ReconcilerGeneration := Some (AList.update rc (Generation (ma_Meta (msOscMachine (mscope s))))
         (case ma_ReconcilerGeneration st of None \<Rightarrow> [] | Some m \<Rightarrow> m))\<rparr>) s"
    by (simp add: ms_SetReconciliationGeneration_def run_simps upd_MStatus_def upd_OscMachine_def)
  then show "preserves f s (snd (ms_SetReconciliationGeneration rc s))" by (simp add: preserves_def obs_status)
qed

lemma obs_machine_vm [obs_rules]:
  "keeps (preserves f) (vmRunning E vm)" "keeps (preserves f) (settleVm E vm fgpu)" "keeps (preserves f) (reconcileVm E)"
  unfolding reconcileVm_def settleVm_def vmRunning_def net_service_defs compute_service_defs
  by (intro frame_rules obs_rules)+

end

text \<open>The machine, its specification and that of the cluster; the metadata of the machine; what was written back.\<close>

definition machine_view where
  "machine_view s = (msCluster (mscope s), msMachine (mscope s), ms_GetNode (mscope s), spec_view s)"

definition machine_meta :: "('w, 'z) MWorld_scheme \<Rightarrow> ObjectMeta" where
  "machine_meta s = ma_Meta (msOscMachine (mscope s))"

definition machine_patches :: "('w, 'z) MWorld_scheme \<Rightarrow> OscCluster list \<times> OscMachine list" where
  "machine_patches s = (patched s, mpatched s)"

lemmas machine_upd_defs = upd_MResources_def upd_MStatus_def upd_OscMachine_def ms_SetProviderID_def ms_SetVmState_def

interpretation mv: machine_observer machine_view
  by unfold_locales (simp_all add: machine_view_def ms_GetNode_def spec_view_def cs_GetNetwork_def scope_setters run_simps
      machine_upd_defs)

interpretation mm: machine_observer machine_meta
  by unfold_locales (simp_all add: machine_meta_def scope_setters run_simps machine_upd_defs)

interpretation mp: machine_observer machine_patches
  by unfold_locales (simp_all add: machine_patches_def scope_setters run_simps machine_upd_defs)

text \<open>The readiness of the machine does not change before its VM is settled.\<close>

definition mready :: "('w, 'z) MWorld_scheme \<Rightarrow> bool" where
  "mready s = ma_Ready (ma_Status (msOscMachine (mscope s)))"

interpretation mr: vm_observer mready
  by unfold_locales (simp_all add: mready_def scope_setters run_simps machine_upd_defs)

text \<open>The operations on the cluster keep the whole scope of the machine.\<close>

interpretation msc: observer mscope
  by unfold_locales (simp_all add: scope_setters run_simps)

lemma obs_finalizers [obs_rules]:
  "keeps (preserves machine_view) (m_addFinalizer E)" "keeps (preserves machine_view) (m_removeFinalizer E)"
  "keeps (preserves machine_patches) (m_addFinalizer E)" "keeps (preserves machine_patches) (m_removeFinalizer E)"
  by (simp_all add: keeps_def preserves_def m_addFinalizer_def m_removeFinalizer_def run_simps machine_view_def machine_patches_def
      ms_GetNode_def upd_OscMachine_def spec_view_def cs_GetNetwork_def)

section \<open>The store of public IPs of a machine\<close>

interpretation m_ips: ip_store m_IPAllocator
  by unfold_locales (auto simp: m_IPAllocator_def m_getPublicIP_def m_setPublicIP_def upd_MResources_def upd_MStatus_def
      upd_OscMachine_def ms_GetResources_def Let_def)

end
