(* ===== verification/Machine_Runs.thy ===== *)
theory Machine_Runs
  imports Machine_Effects
begin

text \<open>
  Facts on whole runs of the machine controller: which requests a machine allows, the life cycle
  of its VM, what a finished run has recorded, the order of the requests of a deletion, the
  finalizer, the provider id, and the entry point.
\<close>

section \<open>Requests a machine allows\<close>

text \<open>
  The frame of \<open>acts\<close> with a condition on what a machine keeps: when it holds, only requests whose
  effect is in \<open>K\<close> are issued.
\<close>

definition macts where
  "macts P K s t \<longleftrightarrow> machine_view t = machine_view s \<and> (P (machine_view s) \<longrightarrow> issues (\<lambda>c. effect_of c \<in> K) s t)"

interpretation mact: frame "macts P K" for P K
  by unfold_locales (auto simp: macts_def intro: iss.frame_refl iss.frame_trans)

lemma keeps_macts:
  "keeps (acts always K) m \<Longrightarrow> keeps (preserves machine_view) m \<Longrightarrow> keeps (macts P K) m"
  by (simp add: keeps_def macts_def acts_def preserves_def)

lemma macts_calls:
  "keeps (macts P K) m \<Longrightarrow> P (machine_view s) \<Longrightarrow> \<exists>cs. calls (snd (m s)) = calls s @ cs \<and> effect_of ` set cs \<subseteq> K"
  by (auto simp: keeps_def macts_def issues_def list_all_iff dest!: spec [of _ s])

lemma keeps_macts_quiet:
  assumes "\<And>s. P (machine_view s) \<Longrightarrow> snd (m s) = s" and "keeps (preserves machine_view) m"
  shows "keeps (macts P K) m"
  using assms by (auto simp: keeps_def macts_def preserves_def intro: iss.frame_refl)

lemmas mview_simps = machine_view_def ms_IsControlPlane_def ms_GetVm_def spec_view_def

lemma macts_vmGpu:
  "keeps (macts (\<lambda>(c, m, _). IsControlPlaneMachine E m) K) (vmGpu E fgpu az)"
  by (rule keeps_macts_quiet [OF _ mv.obs_placement(2)])
    (auto simp: mview_simps vmGpu_def run_simps split: option.split)

lemma macts_createVm:
  assumes "{ERead, ETag, ECreate RPublicIp, ECreate RVm} \<subseteq> K"
  shows "keeps (macts (\<lambda>(c, m, _). IsControlPlaneMachine E m) K) (createVm E fgpu)"
  unfolding createVm_def Let_def
  apply (rule mact.keeps_bind, rule mact.keeps_pure)+
  apply (rule mact.keeps_bind, rule keeps_macts)
  subgoal unfolding vmPlacement_def by (intro frame_rules acts_rules; use assms in simp)
  subgoal by (rule obs_rules)
  apply (rule keeps_case_prod, rule mact.keeps_bind, rule macts_vmGpu, rule keeps_macts)
  subgoal using assms unfolding vmSecurityGroupIds_def vmTags_def svc_CreateVm_def svc_AddTag_def
    by (intro frame_rules acts_rules; simp)
  subgoal unfolding svc_CreateVm_def svc_AddTag_def by (intro frame_rules obs_rules)
  done

lemmas mact_rules = mact.keeps_bind mact.keeps_pure mact.keeps_andThen mact.keeps_handle mact.keeps_wrap mact.keeps_whenM
  keeps_if keeps_case_prod keeps_case_option keeps_case_sum

lemma macts_leaves:
  assumes "{ERead} \<subseteq> K"
  shows "keeps (macts P K) (ms_NeedReconciliation rc)" "keeps (macts P K) (findExisting pre b getFGPU)"
    "keeps (macts P K) (findExisting pre b getVm)" "keeps (macts P K) (ms_SetVmState v)" "keeps (macts P K) ms_SetReady"
    "keeps (macts P K) (ms_SetAddresses as)" "keeps (macts P K) (ms_SetFailureDomain fd)"
    "keeps (macts P K) (ms_SetReconciliationGeneration rc)" "keeps (macts P K) (m_markTrue E c)"
    "keeps (macts P K) (m_markFalse E c rs sv msg)" "keeps (macts P K) (m_addFinalizer E)"
  by (rule keeps_macts; (intro acts_rules obs_rules)?; use assms in simp)+

text \<open>The frame of the controller, from the frames of the creation and the settling of the VM.\<close>

lemma macts_m_reconcile:
  fixes E :: "'w Env"
  assumes "{ERead} \<subseteq> K"
    and "\<And>fgpu. keeps (macts P K) (createVm E fgpu :: ('w, 'z, osc_Vm \<times> osc_FlexibleGpu option) MOp)"
    and "\<And>vm fgpu. keeps (macts P K) (settleVm E vm fgpu :: ('w, 'z, nat) MOp)"
  shows "keeps (macts P K) (m_reconcile E :: ('w, 'z, nat) MOp)"
  unfolding m_reconcile_def reconcileVm_def ensureVm_def by (intro mact_rules macts_leaves assms)

lemma macts_gpu:
  "keeps (macts (\<lambda>(c, m, _). IsControlPlaneMachine E m) (machineEffects - {ECreate RGpu})) (m_reconcile E)"
  by (rule macts_m_reconcile) (auto intro!: macts_createVm keeps_macts acts_rules obs_rules)

text \<open>The machine is not behind the load balancer.\<close>

abbreviation unbalanced where
  "unbalanced v \<equiv> (case v of (c, m, node, cl, tn, md, cr, nw) \<Rightarrow>
     GetRole (Vm node) \<noteq> RoleControlPlane \<or> DisableLB \<in> set (Disable nw))"

lemma linkControlPlane_quiet:
  "unbalanced (machine_view s) \<Longrightarrow> linkControlPlane vm s = (Ok (), s)"
  "unbalanced (machine_view s) \<Longrightarrow> unlinkControlPlane vm s = (Ok (), s)"
  by (auto simp: mview_simps cs_IsLBDisabled_def linkControlPlane_def unlinkControlPlane_def bind_run gets_run whenM_def ret_run)

lemma macts_linkControlPlane:
  "keeps (macts unbalanced K) (linkControlPlane vm)" "keeps (macts unbalanced K) (unlinkControlPlane vm)"
proof -
  have kept: "keeps (preserves machine_view) (linkControlPlane vm)" "keeps (preserves machine_view) (unlinkControlPlane vm)"
    unfolding linkControlPlane_def unlinkControlPlane_def net_service_defs by (intro frame_rules obs_rules)+
  show "keeps (macts unbalanced K) (linkControlPlane vm)"
    by (rule keeps_macts_quiet [OF _ kept(1)]) (simp only: linkControlPlane_quiet snd_conv)
  show "keeps (macts unbalanced K) (unlinkControlPlane vm)"
    by (rule keeps_macts_quiet [OF _ kept(2)]) (simp only: linkControlPlane_quiet snd_conv)
qed

lemma macts_settleVm:
  assumes "{ERead, ETag, EChange RGpu, EChange RVm} \<subseteq> K"
  shows "keeps (macts unbalanced K) (settleVm E vm fgpu)"
proof -
  have "keeps (macts unbalanced K) (vmRunning E vm)"
    unfolding vmRunning_def svc_AddCCMTags_def svc_AddTag_def using assms
    by (intro mact_rules macts_leaves macts_linkControlPlane) (auto intro!: keeps_macts acts_rules obs_rules)
  moreover have "keeps (macts unbalanced K) (settleGpu vm fgpu)"
    unfolding settleGpu_def svc_LinkFGPU_def using assms
    by (intro mact_rules) (auto intro!: keeps_macts acts_rules obs_rules)
  moreover have "keeps (macts unbalanced K) (svc_StartVm t (o_VmId vm))" for t
    unfolding svc_StartVm_def using assms by (auto intro!: keeps_macts acts_rules obs_rules)
  ultimately show ?thesis unfolding settleVm_def by (intro mact_rules)
qed

lemma macts_balancer:
  "keeps (macts unbalanced (machineEffects - {EChange RLoadBalancer})) (m_reconcile E)"
  by (rule macts_m_reconcile, simp, rule keeps_macts, rule acts_rules, simp, rule obs_rules, rule macts_settleVm, simp)

section \<open>The life cycle of the VM\<close>

text \<open>
  The specification of what a run does with the VM and the GPU it has found: link the GPU, start
  the VM, finish the machine, or wait. A VM with a GPU is started once the GPU is attached.
\<close>

datatype VmAction = Wait | LinkGpu string | StartVm | Finish

definition vm_action :: "osc_FlexibleGpu option \<Rightarrow> string \<Rightarrow> VmAction" where
  "vm_action fgpu state =
     (let gpu_ready = (case fgpu of None \<Rightarrow> True | Some g \<Rightarrow> o_FlexibleGpuState g = FlexibleGpuStateAttached);
          start = (if state = VmStateStopped then StartVm else if state = VmStateRunning then Finish else Wait)
      in if gpu_ready then start
         else case fgpu of
           None \<Rightarrow> start
         | Some g \<Rightarrow> if o_FlexibleGpuState g = FlexibleGpuStateAllocated \<and> state = VmStateStopped
                     then LinkGpu (o_FlexibleGpuId g) else Wait)"

lemma settleGpu_simps:
  "settleGpu vm None s = (Ok True, s)"
  "o_FlexibleGpuState g = FlexibleGpuStateAttached \<Longrightarrow> settleGpu vm (Some g) s = (Ok True, s)"
  "o_FlexibleGpuState g \<noteq> FlexibleGpuStateAttached \<Longrightarrow>
     o_FlexibleGpuState g \<noteq> FlexibleGpuStateAllocated \<or> o_VmState vm \<noteq> VmStateStopped \<Longrightarrow> settleGpu vm (Some g) s = (Ok False, s)"
  by (auto simp: settleGpu_def bind_run gets_run ret_run andThen_run whenM_def)

lemma link_request:
  assumes "o_FlexibleGpuState g = FlexibleGpuStateAllocated" "o_VmState vm = VmStateStopped"
  shows "settleVm E vm (Some g) s = andThen (andThen (wrap ''link fgpu: '' (sdk sdkUnit (tenantOf s)
      (LinkFlexibleGpuRequest (o_FlexibleGpuId g) (o_VmId vm)))) (record_event FGPUAttachedReason (o_FlexibleGpuId g @ '' attached''))) (ret 30) s"
  using assms by (simp add: settleVm_def settleGpu_def svc_LinkFGPU_def bind_run gets_run andThen_run whenM_def ret_run wrap_run
      split: prod.split outcome.split)

lemma start_request:
  assumes "settleGpu vm fgpu s = (Ok True, s)" "o_VmState vm = VmStateStopped"
  shows "settleVm E vm fgpu s = andThen (wrap ''start vm: '' (sdk sdkUnit (tenantOf s) (StartVmsRequest [o_VmId vm]))) (ret 30) s"
  using assms by (simp add: settleVm_def bind_run gets_run svc_StartVm_def)

lemma one_request:
  fixes s :: "('w, 'z) MWorld_scheme"
  assumes "run = andThen (wrap pre (sdk sdkUnit t req)) (ret (30 :: nat)) s \<or>
      run = andThen (andThen (wrap pre (sdk sdkUnit t req)) (record_event r m)) (ret 30) s"
  shows "calls (snd run) = calls s @ [req] \<and> mscope (snd run) = mscope s \<and>
    (case fst run of Ok n \<Rightarrow> n = 30 | Err e \<Rightarrow> True | Panic \<Rightarrow> False)"
  using assms by (auto simp: andThen_run wrap_run sdk_run record_event_def modify_run ret_run split: prod.splits sum.splits)

lemma settleVm_refines:
  "case vm_action fgpu (o_VmState vm) of
     Wait \<Rightarrow> settleVm E vm fgpu s = (Ok 30, s)
   | LinkGpu g \<Rightarrow> calls (snd (settleVm E vm fgpu s)) = calls s @ [LinkFlexibleGpuRequest g (o_VmId vm)] \<and>
       mscope (snd (settleVm E vm fgpu s)) = mscope s \<and> (case fst (settleVm E vm fgpu s) of Ok n \<Rightarrow> n = 30 | Err e \<Rightarrow> True | Panic \<Rightarrow> False)
   | StartVm \<Rightarrow> calls (snd (settleVm E vm fgpu s)) = calls s @ [StartVmsRequest [o_VmId vm]] \<and>
       mscope (snd (settleVm E vm fgpu s)) = mscope s \<and> (case fst (settleVm E vm fgpu s) of Ok n \<Rightarrow> n = 30 | Err e \<Rightarrow> True | Panic \<Rightarrow> False)
   | Finish \<Rightarrow> settleVm E vm fgpu s = vmRunning E vm s"
proof -
  have gpu: "settleGpu vm fgpu s = (Ok True, s)" if "fgpu = None \<or> (\<exists>g. fgpu = Some g \<and> o_FlexibleGpuState g = FlexibleGpuStateAttached)"
    using that by (auto simp: settleGpu_simps)
  consider (ready) "fgpu = None \<or> (\<exists>g. fgpu = Some g \<and> o_FlexibleGpuState g = FlexibleGpuStateAttached)"
    | (link) g where "fgpu = Some g" "o_FlexibleGpuState g = FlexibleGpuStateAllocated" "o_VmState vm = VmStateStopped"
    | (wait) g where "fgpu = Some g" "o_FlexibleGpuState g \<noteq> FlexibleGpuStateAttached"
        "o_FlexibleGpuState g \<noteq> FlexibleGpuStateAllocated \<or> o_VmState vm \<noteq> VmStateStopped"
    by (cases fgpu) auto
  then show ?thesis
  proof cases
    case ready
    then have action: "vm_action fgpu (o_VmState vm) =
        (if o_VmState vm = VmStateStopped then StartVm else if o_VmState vm = VmStateRunning then Finish else Wait)"
      by (auto simp: vm_action_def)
    show ?thesis
    proof (cases "o_VmState vm = VmStateStopped")
      case True
      then have "vm_action fgpu (o_VmState vm) = StartVm" using action by simp
      then show ?thesis
        using one_request [OF disjI1 [OF start_request [OF gpu [OF ready] True]]] by (simp only: VmAction.case)
    next
      case False
      then show ?thesis using gpu [OF ready] by (simp add: action settleVm_def bind_run ret_run)
    qed
  next
    case link
    then have action: "vm_action fgpu (o_VmState vm) = LinkGpu (o_FlexibleGpuId g)" by (simp add: vm_action_def)
    show ?thesis using one_request [OF disjI2 [OF link_request [OF link(2,3)]]] by (simp only: action [unfolded link(1)] link(1) VmAction.case)
  next
    case wait
    then have "vm_action fgpu (o_VmState vm) = Wait" by (auto simp: vm_action_def)
    then show ?thesis using settleGpu_simps(3) [OF wait(2,3), of s] by (simp add: wait(1) settleVm_def bind_run ret_run)
  qed
qed

section \<open>A created VM and a finished machine\<close>

lemma wp_bindI: "(\<And>x t. wp (k x) Q t) \<Longrightarrow> wp (bind m k) Q s"
  by (auto simp: wp_def ok_simps)

lemma wp_andThenI: "(\<And>x t. wp k Q t) \<Longrightarrow> wp (andThen m k) Q s"
  unfolding andThen_def by (rule wp_bindI)

lemma wp_case_prodI: "(\<And>x y. p = (x, y) \<Longrightarrow> wp (k x y) Q s) \<Longrightarrow> wp (case p of (x, y) \<Rightarrow> k x y) Q s"
  by (cases p) simp

text \<open>What \<open>createVm\<close> records: the id that \<open>getVmOrId\<close> reads first, the state and the provider id.\<close>

definition records_vm :: "osc_Vm \<Rightarrow> ('w, 'z) MWorld_scheme \<Rightarrow> bool" where
  "records_vm vm t \<longleftrightarrow>
     getResource defaultResource (mr_Vm (ms_GetResources (mscope t))) = o_VmId vm \<and>
     ma_VmState (ma_Status (msOscMachine (mscope t))) = Some (o_VmState vm)"

lemmas machine_run_defs = trackVm_def setVmId_def setVolumeIds_def upd_MResources_def upd_MStatus_def upd_OscMachine_def
  ms_SetVmState_def ms_SetProviderID_def record_event_def ms_GetResources_def getResource_def andThen_run modify_run ret_run

lemma wp_created:
  "wp (andThen (trackVm vm) (andThen (ms_SetVmState (o_VmState vm)) (andThen (ms_SetProviderID (o_VmSubregionName vm) (o_VmId vm))
     (andThen (record_event reason msg) (ret (vm, g))))))
   (\<lambda>(vm, g) t. records_vm vm t \<and>
     ProviderID (ma_Spec (msOscMachine (mscope t))) = Some (''aws:///'' @ o_VmSubregionName vm @ ''/'' @ o_VmId vm)) s"
  by (simp add: wp_def records_vm_def machine_run_defs)

lemma createVm_records:
  "wp (createVm E fgpu) (\<lambda>(vm, g) t. records_vm vm t \<and>
     ProviderID (ma_Spec (msOscMachine (mscope t))) = Some (''aws:///'' @ o_VmSubregionName vm @ ''/'' @ o_VmId vm)) s"
proof -
  have step: "wp (case created of None \<Rightarrow> panic | Some vm \<Rightarrow> k vm) Q t" if "\<And>vm. wp (k vm) Q t" for created k Q and t :: "('a, 'b) MWorld_scheme"
    using that by (simp add: wp_simps split: option.split)
  show ?thesis unfolding createVm_def Let_def by (rule wp_bindI wp_case_prodI step wp_created)+
qed

text \<open>A machine whose run has finished: the VM runs and the status says so.\<close>

definition finished :: "osc_Vm \<Rightarrow> ('w, 'z) MWorld_scheme \<Rightarrow> bool" where
  "finished vm t \<longleftrightarrow> o_VmState vm = VmStateRunning \<and> mready t \<and>
     Addresses (ma_Status (msOscMachine (mscope t))) = vmAddresses vm \<and>
     ma_FailureDomain (ma_Status (msOscMachine (mscope t))) = Some (o_VmSubregionName vm) \<and>
     (\<exists>m. ma_ReconcilerGeneration (ma_Status (msOscMachine (mscope t))) = Some m \<and>
        recorded_generation m ReconcilerVm = Generation (ma_Meta (msOscMachine (mscope t))))"

lemma scope_steps:
  "keeps (preserves mscope) (linkControlPlane vm)"
  "keeps (preserves mscope) (whenM c (wrap pre (svc_AddCCMTags E tn uid dns i)))"
  unfolding linkControlPlane_def net_service_defs compute_service_defs by (intro frame_rules obs_rules)+

lemma wp_scope_steps:
  "(\<And>t. mscope t = mscope s \<Longrightarrow> Q () t) \<Longrightarrow> wp (linkControlPlane vm) Q s"
  "(\<And>t. mscope t = mscope s \<Longrightarrow> Q () t) \<Longrightarrow> wp (whenM c (wrap pre (svc_AddCCMTags E tn uid dns i))) Q s"
  by (rule wp_keeps [OF scope_steps(1)] wp_keeps [OF scope_steps(2)], simp add: preserves_def)+

lemma vmRunning_finishes:
  assumes "records_vm vm s" and "o_VmState vm = VmStateRunning"
  shows "wp (vmRunning E vm) (\<lambda>n t. n = 0 \<and> records_vm vm t \<and> finished vm t) s"
proof (cases "o_PrivateDnsName vm")
  case None
  show ?thesis unfolding vmRunning_def None option.case by (rule wp_andThenI)+ (simp only: wp_pure)
next
  case (Some dns)
  show ?thesis unfolding vmRunning_def Some option.case
    apply (simp only: wp_compose wp_pure ms_SetReady_def ms_SetAddresses_def ms_SetFailureDomain_def ms_SetReconciliationGeneration_def)
    apply (rule wp_scope_steps(1), simp only: wp_compose wp_pure, rule wp_scope_steps(2), simp only: wp_compose wp_pure)
    using assms by (simp add: upd_MStatus_def upd_OscMachine_def records_vm_def finished_def mready_def ms_GetResources_def
        recorded_generation_def update_conv')
qed

text \<open>What was found or created is recorded.\<close>

lemma wp_foundVm:
  "wp (foundVm vm) (\<lambda>vm' t. vm' = vm \<and> getResource defaultResource (mr_Vm (ms_GetResources (mscope t))) = o_VmId vm) s"
proof -
  have kept: "keeps (preserves (\<lambda>s. mr_Vm (ms_GetResources (mscope s)))) (RetrackIP m_IPAllocator key ip)" for key ip
    unfolding RetrackIP_def m_IPAllocator_def IPAllocator.simps svc_GetPublicIpByIp_def
    by (intro frame_rules)
      (auto simp: keeps_def preserves_def sdk_run run_simps m_setPublicIP_def upd_MResources_def upd_MStatus_def upd_OscMachine_def
        ms_GetResources_def split: prod.splits)
  have tracked: "getResource defaultResource (mr_Vm (ms_GetResources (mscope (snd (trackVm vm s))))) = o_VmId vm"
    by (simp add: machine_run_defs)
  show ?thesis
    using tracked by (auto simp: foundVm_def wp_def ok_simps preserves_def split: option.splits dest!: keepsD [OF kept])
qed

lemma getVm_records:
  "wp getVm (\<lambda>vm t. getResource defaultResource (mr_Vm (ms_GetResources (mscope t))) = o_VmId vm) s"
proof -
  have found: "wp (foundVm vm) (\<lambda>vm t. getResource defaultResource (mr_Vm (ms_GetResources (mscope t))) = o_VmId vm) s"
    for vm and s :: "('a, 'b) MWorld_scheme"
    by (rule wp_mono [OF wp_foundVm]) simp
  show ?thesis unfolding getVm_def
    by (rule wp_bindI wp_case_prodI found | simp only: split: option.split | intro conjI allI impI)+
qed

lemma wp_seq: "wp m R s \<Longrightarrow> (\<And>x t. R x t \<Longrightarrow> wp (k x) Q t) \<Longrightarrow> wp (bind m k) Q s"
  by (auto simp: wp_def ok_simps)

lemma wp_kept: "keeps (preserves f) m \<Longrightarrow> wp m (\<lambda>x t. f t = f s) s"
  by (rule wp_keeps [where R = "preserves f"]) (simp_all add: preserves_def)

lemma ensureVm_records:
  "wp (ensureVm E fgpu) (\<lambda>r t. records_vm (fst r) t \<and> mready t = mready s) s"
proof -
  have "wp (ensureVm E fgpu) (\<lambda>r t. records_vm (fst r) t) s"
    unfolding ensureVm_def
  proof (rule wp_seq)
    show "wp (findExisting ''cannot get VM: '' True getVm) (\<lambda>found t. \<forall>vm. found = Some vm \<longrightarrow>
        getResource defaultResource (mr_Vm (ms_GetResources (mscope t))) = o_VmId vm) s"
      using wpD [OF getVm_records] by (auto simp: findExisting_def wp_def ok_simps split: sum.splits if_splits)
  next
    fix found :: "osc_Vm option" and t :: "('a, 'b) MWorld_scheme"
    assume r: "\<forall>vm. found = Some vm \<longrightarrow> getResource defaultResource (mr_Vm (ms_GetResources (mscope t))) = o_VmId vm"
    show "wp (case found of Some vm \<Rightarrow> andThen (ms_SetVmState (o_VmState vm)) (ret (vm, fgpu)) | None \<Rightarrow> createVm E fgpu)
        (\<lambda>r t. records_vm (fst r) t) t"
    proof (cases found)
      case None
      then show ?thesis by (auto intro: wp_mono [OF createVm_records])
    next
      case (Some vm)
      then show ?thesis using r by (simp add: wp_simps ms_SetVmState_def records_vm_def machine_run_defs)
    qed
  qed
  moreover have "wp (ensureVm E fgpu) (\<lambda>r t. mready t = mready s) s"
    by (rule wp_kept) (rule mr.obs_vm_steps)
  ultimately show ?thesis by (simp only: wp_conj simp_thms)
qed

text \<open>From then on the VM is identified by the recorded id.\<close>

lemma created_then_found:
  "wp (createVm E fgpu) (\<lambda>(vm, g) t. records_vm vm t \<and>
     ProviderID (ma_Spec (msOscMachine (mscope t))) = Some (''aws:///'' @ o_VmSubregionName vm @ ''/'' @ o_VmId vm) \<and>
     (if vm_ResourceId (ms_GetVm (mscope s)) = [] \<and> o_VmId vm \<noteq> [] then getVmOrId t = (Ok (None, o_VmId vm), t) else True)) s"
proof (rule wpI, unfold case_prod_beta)
  fix x t
  assume run: "createVm E fgpu s = (Ok x, t)"
  have "machine_view t = machine_view s" using keepsD [OF mv.obs_vm_steps(1) run] by (simp add: preserves_def)
  then have "ms_GetVm (mscope t) = ms_GetVm (mscope s)" by (simp add: machine_view_def ms_GetVm_def)
  then show "records_vm (fst x) t \<and>
      ProviderID (ma_Spec (msOscMachine (mscope t))) = Some (''aws:///'' @ o_VmSubregionName (fst x) @ ''/'' @ o_VmId (fst x)) \<and>
      (if vm_ResourceId (ms_GetVm (mscope s)) = [] \<and> o_VmId (fst x) \<noteq> [] then getVmOrId t = (Ok (None, o_VmId (fst x)), t) else True)"
    using wpD [OF createVm_records run]
    by (simp add: case_prod_beta getVmOrId_def bind_run gets_run ret_run records_vm_def)
qed

section \<open>Deletion\<close>

text \<open>Looking the VM up and unlinking it come before its deletion, which is the last request of that step.\<close>

lemma acts_before:
  "keeps (acts always {ERead, EChange RLoadBalancer}) (findExisting pre b getVm)"
  "keeps (acts always {ERead, EChange RLoadBalancer}) (unlinkControlPlane vm)"
  unfolding unlinkControlPlane_def net_service_defs by (intro frame_rules acts_rules; simp)+

lemma acts_calls_snd:
  assumes "keeps (acts always K) m"
  shows "\<exists>cs. calls (snd (m s)) = calls s @ cs \<and> effect_of ` set cs \<subseteq> K"
  using acts_calls [OF assms prod.collapse [symmetric], of s] by simp

lemma deleteVm_calls:
  "\<exists>before vms. calls (snd (reconcileDeleteVm s)) = calls s @ before @ vms \<and>
     effect_of ` set before \<subseteq> {ERead, EChange RLoadBalancer} \<and> (vms = [] \<or> (\<exists>i. vms = [DeleteVmsRequest [i]]))"
proof -
  obtain r u where find: "findExisting ''cannot get vm: '' True getVm s = (r, u)" by (cases "findExisting ''cannot get vm: '' True getVm s")
  obtain b1 where b1: "calls u = calls s @ b1" "effect_of ` set b1 \<subseteq> {ERead, EChange RLoadBalancer}"
    using acts_calls [OF acts_before(1) find] by auto
  show ?thesis
  proof (cases "\<exists>vm. r = Ok (Some vm) \<and> o_VmState vm \<noteq> ''terminated''")
    case False
    then have "calls (snd (reconcileDeleteVm s)) = calls s @ b1 @ []"
      using find b1(1) by (auto simp: reconcileDeleteVm_def bind_run ret_run split: outcome.split option.split)
    then show ?thesis using b1(2) by blast
  next
    case True
    then obtain vm where vm: "r = Ok (Some vm)" "o_VmState vm \<noteq> ''terminated''" by blast
    obtain q v where unlink: "unlinkControlPlane vm u = (q, v)" by (cases "unlinkControlPlane vm u")
    obtain b2 where b2: "calls v = calls u @ b2" "effect_of ` set b2 \<subseteq> {ERead, EChange RLoadBalancer}"
      using acts_calls [OF acts_before(2) unlink] by auto
    have "\<exists>vms. calls (snd (reconcileDeleteVm s)) = calls v @ vms \<and> (vms = [] \<or> (\<exists>i. vms = [DeleteVmsRequest [i]]))"
      using find unlink vm
      by (cases q) (auto simp: reconcileDeleteVm_def bind_run gets_run andThen_run wrap_run svc_DeleteVm_def sdk_run ret_run split: prod.split sum.split)
    then obtain vms where "calls (snd (reconcileDeleteVm s)) = calls s @ (b1 @ b2) @ vms" "vms = [] \<or> (\<exists>i. vms = [DeleteVmsRequest [i]])"
      using b1(1) b2(1) by auto
    then show ?thesis using b1(2) b2(2) by (intro exI [of _ "b1 @ b2"] exI [of _ vms]) auto
  qed
qed

lemma machine_deletion_order:
  "\<exists>before vms ips. calls (snd (m_reconcileDelete E s)) = calls s @ before @ vms @ ips \<and>
     effect_of ` set before \<subseteq> {ERead, EChange RLoadBalancer} \<and> (vms = [] \<or> (\<exists>i. vms = [DeleteVmsRequest [i]])) \<and>
     effect_of ` set ips \<subseteq> {ERead, EDelete RPublicIp}"
proof -
  obtain before vms where b: "calls (snd (reconcileDeleteVm s)) = calls s @ before @ vms"
    "effect_of ` set before \<subseteq> {ERead, EChange RLoadBalancer}" "vms = [] \<or> (\<exists>i. vms = [DeleteVmsRequest [i]])"
    using deleteVm_calls by blast
  have rest: "keeps (acts always {ERead, EDelete RPublicIp}) (andThen (m_reconcileDeletePublicIp E) (andThen (m_removeFinalizer E) (ret (0::nat))))"
    by (intro frame_rules acts_rules) simp_all
  have "\<exists>ips. calls (snd (m_reconcileDelete E s)) = calls (snd (reconcileDeleteVm s)) @ ips \<and> effect_of ` set ips \<subseteq> {ERead, EDelete RPublicIp}"
  proof (cases "reconcileDeleteVm s")
    case (Pair r u)
    show ?thesis
    proof (cases r)
      case (Ok n)
      then show ?thesis using acts_calls_snd [OF rest, of u] Pair by (simp add: m_reconcileDelete_def andThen_run [of reconcileDeleteVm])
    qed (simp_all add: m_reconcileDelete_def andThen_run [of reconcileDeleteVm] Pair)
  qed
  then obtain ips where "calls (snd (m_reconcileDelete E s)) = calls s @ before @ vms @ ips" "effect_of ` set ips \<subseteq> {ERead, EDelete RPublicIp}"
    using b(1) by auto
  then show ?thesis using b(2,3) by blast
qed

lemma pool_ips_stay:
  "PublicIpPool (ms_GetVm (mscope s)) \<noteq> [] \<Longrightarrow> m_reconcileDeletePublicIp E s = (Ok 0, s)"
  by (simp add: m_reconcileDeletePublicIp_def bind_run gets_run ret_run)

lemma pool_machine_deletion:
  assumes "PublicIpPool (ms_GetVm (mscope s)) \<noteq> []"
  shows "\<exists>cs. calls (snd (m_reconcileDelete E s)) = calls s @ cs \<and> effect_of ` set cs \<subseteq> {ERead, EChange RLoadBalancer, EDelete RVm}"
proof -
  obtain r u where vm: "reconcileDeleteVm s = (r, u)" by (cases "reconcileDeleteVm s")
  have "machine_view u = machine_view s" using keepsD [OF mv.obs_vm_steps(6) vm] by (simp add: preserves_def)
  then have "PublicIpPool (ms_GetVm (mscope u)) \<noteq> []" using assms by (simp add: machine_view_def ms_GetVm_def)
  then have "calls (snd (m_reconcileDelete E s)) = calls u"
    by (cases r) (simp_all add: m_reconcileDelete_def andThen_run vm pool_ips_stay m_removeFinalizer_def modify_run ret_run)
  then show ?thesis using acts_calls [OF acts_deleteVm(1) vm] by simp
qed

lemma machine_finalizer_last:
  "case fst (m_reconcileDelete E s) of
     Ok n \<Rightarrow> n = 0 \<and> (\<exists>u v. reconcileDeleteVm s = (Ok 0, u) \<and> m_reconcileDeletePublicIp E u = (Ok 0, v) \<and>
       snd (m_reconcileDelete E s) = snd (m_removeFinalizer E v))
   | _ \<Rightarrow> Finalizers (machine_meta (snd (m_reconcileDelete E s))) = Finalizers (machine_meta s)"
proof -
  obtain r u where vm: "reconcileDeleteVm s = (r, u)" by (cases "reconcileDeleteVm s")
  obtain q v where ip: "m_reconcileDeletePublicIp E u = (q, v)" by (cases "m_reconcileDeletePublicIp E u")
  have kept: "machine_meta u = machine_meta s" "machine_meta v = machine_meta u"
    using keepsD [OF mm.obs_vm_steps(6) vm] keepsD [OF mm.obs_vm_steps(7) ip] by (simp_all add: preserves_def)
  have zero: "r = Ok n \<Longrightarrow> n = 0" "q = Ok n \<Longrightarrow> n = 0" for n
    using vm ip by (auto simp: reconcileDeleteVm_def m_reconcileDeletePublicIp_def ok_simps split: option.splits if_splits)
  show ?thesis using kept zero
    by (cases r; cases q) (auto simp: m_reconcileDelete_def andThen_run vm ip m_removeFinalizer_def modify_run ret_run)
qed

section \<open>Provider id\<close>

text \<open>A run that finds the VM leaves the provider id as it is.\<close>

definition provider_id :: "('w, 'z) MWorld_scheme \<Rightarrow> string option" where
  "provider_id s = ProviderID (ma_Spec (msOscMachine (mscope s)))"

lemma provider_id_upd [simp]: "provider_id (upd_MStatus g s) = provider_id s"
  by (simp add: provider_id_def upd_MStatus_def upd_OscMachine_def)

interpretation prv: observer provider_id
  by unfold_locales (simp_all add: provider_id_def scope_setters run_simps)

lemma provider_upd [obs_rules]: "keeps (preserves provider_id) (modify (upd_MStatus g))"
  by (simp add: keeps_def preserves_def run_simps)

lemma provider_allocator [obs_rules]: "keeps (preserves provider_id) (RetrackIP m_IPAllocator key ip)"
  unfolding RetrackIP_def m_IPAllocator_def IPAllocator.simps m_setPublicIP_def upd_MResources_def net_service_defs
  by (intro frame_rules obs_rules)

lemma provider_generation [obs_rules]: "keeps (preserves provider_id) (ms_SetReconciliationGeneration rc)"
  by (simp add: keeps_def preserves_def provider_id_def ms_SetReconciliationGeneration_def modify_run upd_OscMachine_def)

lemma provider_kept [obs_rules]:
  "keeps (preserves provider_id) getVm" "keeps (preserves provider_id) getFGPU"
  "keeps (preserves provider_id) (ms_NeedReconciliation rc)" "keeps (preserves provider_id) (settleVm E vm fgpu)"
  unfolding getVm_def getVmOrId_def foundVm_def trackVm_def setVmId_def setVolumeIds_def getFGPU_def getFGPUOrId_def trackFGPU_def
    upd_MResources_def svc_GetFGPU_def ms_NeedReconciliation_def cs_Rand_def settleVm_def settleGpu_def vmRunning_def
    linkControlPlane_def ms_SetReady_def ms_SetAddresses_def ms_SetFailureDomain_def svc_LinkFGPU_def
    net_service_defs compute_service_defs
  by (intro frame_rules obs_rules)+

lemma found_vm_keeps_provider_id:
  assumes "vm_FGPU (ms_GetVm (mscope s)) = None" and "ms_NeedReconciliation ReconcilerVm s = (Ok True, s1)" and "getVm s1 = (Ok vm, u)"
  shows "provider_id (snd (reconcileVm E s)) = provider_id s"
proof -
  have s1: "machine_view s1 = machine_view s" "provider_id s1 = provider_id s" "provider_id u = provider_id s1"
    using keepsD [OF mv.obs_machine_lookups(4) assms(2)] keepsD [OF provider_kept(3) assms(2)] keepsD [OF provider_kept(1) assms(3)]
    by (simp_all add: preserves_def)
  then have "vm_FGPU (ms_GetVm (mscope s1)) = None" using assms(1) by (simp add: machine_view_def ms_GetVm_def)
  then have "reconcileVm E s = settleVm E vm None (upd_MStatus (\<lambda>st. st\<lparr>ma_VmState := Some (o_VmState vm)\<rparr>) u)"
    using assms(2,3) by (simp add: reconcileVm_def ensureVm_def findExisting_def bind_run gets_run ret_run handle_run andThen_run
        ms_SetVmState_def modify_run)
  moreover have "preserves provider_id w (snd (settleVm E vm None w))" for w :: "('a, 'b) MWorld_scheme"
    by (rule keepsD [OF provider_kept(4) prod.collapse [symmetric]])
  ultimately show ?thesis using s1 by (simp add: preserves_def)
qed

section \<open>Reported errors\<close>

lemma machine_reports:
  "case fst (m_reconcile E s) of
     Err e \<Rightarrow> \<exists>before. ma_Conditions (ma_Status (msOscMachine (mscope (snd (m_reconcile E s))))) =
       MarkFalse E before VmReadyCondition VmNotReadyReason ConditionSeverityWarning (error_msg e)
   | _ \<Rightarrow> True"
proof -
  define s1 where "s1 = snd (m_addFinalizer E s)"
  have add: "m_addFinalizer E s = (Ok (), s1)" by (simp add: s1_def m_addFinalizer_def modify_run)
  obtain r t where vm: "reconcileVm E s1 = (r, t)" by (cases "reconcileVm E s1")
  show ?thesis
    by (cases r) (auto simp: m_reconcile_def bind_run gets_run ret_run andThen_run add handle_run vm raise_run m_markFalse_def m_markTrue_def
        modify_run upd_MStatus_def upd_OscMachine_def)
qed

section \<open>Entry point\<close>

text \<open>The objects of a run that is admitted.\<close>

definition m_admitted :: "MKube \<Rightarrow> 'w Env \<Rightarrow> string \<Rightarrow> (CapiCluster \<times> CapiMachine \<times> OscMachine \<times> OscCluster \<times> 'w Tenant) option" where
  "m_admitted K E req =
     (case k_GetOscMachine K req of
        Inl e \<Rightarrow> None
      | Inr oscMachine \<Rightarrow>
     (case k_GetOwnerMachine K (ma_Meta oscMachine) of
        Inr (Some machine) \<Rightarrow>
     (case k_GetClusterFromMetadata K machine of
        Inl e \<Rightarrow> None
      | Inr cluster \<Rightarrow>
     (case c_InfrastructureRefName cluster of
        None \<Rightarrow> None
      | Some infra \<Rightarrow>
     (case k_GetOscClusterByName K (om_Namespace (ma_Meta oscMachine)) infra of
        Inl e \<Rightarrow> None
      | Inr oscCluster \<Rightarrow>
          if k_IsPaused K cluster oscCluster then None
          else (case getTenant E oscCluster of
            Inl e \<Rightarrow> None
          | Inr t \<Rightarrow> if k_NewHelper K oscCluster = None \<and> k_NewMHelper K oscMachine = None
                     then Some (cluster, machine, oscMachine, oscCluster, t) else None))))
      | _ \<Rightarrow> None))"

definition untouched :: "('w, 'z) MWorld_scheme \<Rightarrow> 'w \<times> osc_request list \<times> OscCluster list \<times> OscMachine list" where
  "untouched s = (cloud s, calls s, patched s, mpatched s)"

lemma m_Reconcile_refused: "m_admitted K E req = None \<Longrightarrow> untouched (snd (m_Reconcile K E req s)) = untouched s"
  by (auto simp: m_admitted_def m_Reconcile_def NewClusterScope_def NewMachineScope_def run_simps untouched_def Kube.defs
      split: sum.splits option.splits if_splits)

lemma m_Reconcile_admitted:
  assumes "m_admitted K E req = Some (cluster, machine, oscMachine, oscCluster, t)"
  shows "m_Reconcile K E req s =
    m_deferClose K (if DeletionTimestamp (ma_Meta oscMachine) \<noteq> None then m_reconcileDelete E else m_reconcile E)
      (s\<lparr>scope := \<lparr>csCluster = cluster, csOscCluster = oscCluster, csTenant = t\<rparr>,
         mscope := \<lparr>msCluster = cluster, msMachine = machine, msOscMachine = oscMachine\<rparr>\<rparr>)"
  using assms
  by (auto simp: m_admitted_def m_Reconcile_def NewClusterScope_def NewMachineScope_def run_simps Kube.defs
      split: sum.splits option.splits if_splits)

lemma m_patched_kept: "keeps (preserves machine_patches) (m_reconcileDelete E)" "keeps (preserves machine_patches) (m_reconcile E)"
  unfolding m_reconcileDelete_def m_reconcile_def by (intro frame_rules obs_rules)+

lemma m_deferClose_patches:
  assumes "keeps (preserves machine_patches) m"
  shows "case m_deferClose K m s of (r, t) \<Rightarrow> patched t = patched s \<and> calls t = calls (snd (m s)) \<and> mscope t = mscope (snd (m s)) \<and>
    (case k_MPatch K (msOscMachine (mscope t)) of
       None \<Rightarrow> r = fst (m s) \<and> mpatched t = mpatched s @ [msOscMachine (mscope t)]
     | Some e \<Rightarrow> r = (case fst (m s) of Ok _ \<Rightarrow> Err e | q \<Rightarrow> q) \<and> mpatched t = mpatched s)"
proof -
  obtain r t where m: "m s = (r, t)" by (cases "m s")
  have "machine_patches t = machine_patches s" using keepsD [OF assms m] by (simp add: preserves_def)
  then show ?thesis by (simp add: m_deferClose_def ms_Close_def m run_simps machine_patches_def split: option.split outcome.split)
qed

end
