(* ===== verification/Teardown.thy ===== *)
theory Teardown
  imports Tracking Ownership Machine_Runs
begin

text \<open>
  What a completed deletion has done. A deletion step looks a resource up and requests its deletion, so the
  contents of a teardown are stated as pairs of a lookup, as the trackers and services make it, and of the requests
  that answer what it found, in the log of the same run; public IPs are given back under the interface
  \<open>ip_holder\<close>. \<open>cluster_deleted\<close> and \<open>machine_deleted\<close> collect them for the two controllers.
\<close>

section \<open>Later states\<close>

definition later :: "('w, 'z) World_scheme \<Rightarrow> ('w, 'z) World_scheme \<Rightarrow> bool" where
  "later s t \<longleftrightarrow> (\<exists>cs. calls t = calls s @ cs) \<and> spec_view t = spec_view s"

interpretation lat: frame later
proof
  fix s t u :: "('a, 'b) World_scheme"
  show "later s s" by (simp add: later_def)
  assume "later s t" "later t u"
  then show "later s u" unfolding later_def by (metis append_assoc)
qed

lemma keeps_later: "keeps (acts always UNIV) m \<Longrightarrow> keeps (preserves spec_view) m \<Longrightarrow> keeps later m"
  by (auto simp: keeps_def later_def preserves_def acts_def issues_def)

text \<open>
  \<open>carried_out look dels s t\<close>: between \<open>s\<close> and \<open>t\<close> the lookup answered \<open>x\<close>, and the requests \<open>dels x\<close> followed.
\<close>

definition carried_out ::
  "('w, 'z, 'x) Op \<Rightarrow> ('x \<Rightarrow> osc_request list) \<Rightarrow> ('w, 'z) World_scheme \<Rightarrow> ('w, 'z) World_scheme \<Rightarrow> bool" where
  "carried_out look dels s t \<longleftrightarrow>
     (\<exists>u x v cs. later s u \<and> look u = (Ok x, v) \<and> calls t = calls v @ dels x @ cs)"

lemma carried_out_later: "carried_out look dels s t \<Longrightarrow> later t u \<Longrightarrow> carried_out look dels s u"
  unfolding carried_out_def later_def by (metis append_assoc)

lemma carried_out_earlier: "later r s \<Longrightarrow> carried_out look dels s t \<Longrightarrow> carried_out look dels r t"
  unfolding carried_out_def using lat.frame_trans by blast

lemma carriedI:
  assumes "later s u" "look u = (Ok x, v)" and "wp (k x) (\<lambda>_ t. calls t = calls v @ dels x) v" and "k x v = (Ok y, t)"
  shows "carried_out look dels s t"
  using assms unfolding carried_out_def wp_def by (metis append_Nil2)

lemma wp_carried:
  assumes "\<And>x v. wp (k x) (\<lambda>_ t. calls t = calls v @ dels x) v"
  shows "wp (bind look k) (\<lambda>_ t. carried_out look dels s t) s"
proof (rule wpI)
  fix y t assume "bind look k s = (Ok y, t)"
  then obtain x v where "look s = (Ok x, v)" "k x v = (Ok y, t)" by (auto simp: ok_simps)
  then show "carried_out look dels s t" by (rule carriedI [where k = k, OF lat.frame_refl _ assms])
qed

text \<open>The message added to an error does not matter to a lookup that succeeds.\<close>

lemma findExisting_prefix: "wp (bind (findExisting pre c m) k) Q s \<longleftrightarrow> wp (bind (findExisting [] c m) k) Q s"
  by (auto simp: wp_def findExisting_def ok_simps split: if_splits)

lemma findExisting_Ok: "findExisting pre c m s = (Ok x, t) \<longleftrightarrow> findExisting [] c m s = (Ok x, t)"
  by (auto simp: findExisting_def ok_simps split: if_splits)

text \<open>A listing of what the net of the cluster holds, nothing when there is no net.\<close>

definition in_net :: "('w Tenant \<Rightarrow> string \<Rightarrow> ('w, 'z, 'x list) Op) \<Rightarrow> ('w, 'z, 'x list) Op" where
  "in_net listing = bind (findExisting [] True getNetId) (\<lambda>found. bind (gets tenantOf) (\<lambda>t.
     case found of None \<Rightarrow> ret [] | Some netId \<Rightarrow> listing t netId))"

lemma wp_in_net:
  assumes "\<And>xs v. wp (k xs) (\<lambda>_ t. calls t = calls v @ dels xs) v" and "dels [] = []" 
    and m: "\<And>netId u xs v. tenantOf u = tenantOf s \<Longrightarrow> m netId u = (Ok xs, v) \<Longrightarrow> listing (tenantOf u) netId u = (Ok xs, v)"
  shows "wp (bind (findExisting pre True getNetId) (\<lambda>found. case found of None \<Rightarrow> ret () | Some netId \<Rightarrow> bind (m netId) k)) (\<lambda>_ t. carried_out (in_net listing) dels s t) s"
proof (rule wpI)
  fix y t
  assume "bind (findExisting pre True getNetId) (\<lambda>found. case found of None \<Rightarrow> ret () | Some netId \<Rightarrow> bind (m netId) k) s = (Ok y, t)"
  then obtain found u where find: "findExisting [] True getNetId s = (Ok found, u)"
      and rest: "(case found of None \<Rightarrow> ret () | Some netId \<Rightarrow> bind (m netId) k) u = (Ok y, t)"
    by (auto simp: ok_simps findExisting_Ok [of pre])
  have kept: "keeps (preserves spec_view) (findExisting [] True getNetId)" by (intro spec_obs.obs_shapes spec_obs.obs_lookups)
  then have tn: "tenantOf u = tenantOf s" using keepsD [OF kept find] by (simp add: preserves_def spec_view_def)
  show "carried_out (in_net listing) dels s t"
  proof (cases found)
    case None
    then have "in_net listing s = (Ok [], u)" "calls t = calls u @ dels [] @ []"
      using find rest assms(2) by (simp_all add: in_net_def run_simps)
    then show ?thesis unfolding carried_out_def using lat.frame_refl by blast
  next
    case (Some netId)
    then obtain xs v where "m netId u = (Ok xs, v)" and k: "k xs v = (Ok y, t)" using rest by (auto simp: ok_simps)
    then have "in_net listing s = (Ok xs, v)" using find Some m [OF tn] by (simp add: in_net_def run_simps)
    then show ?thesis using k by (rule carriedI [where k = k, OF lat.frame_refl _ assms(1)])
  qed
qed

section \<open>Loops of requests\<close>

lemma wp_loop:
  assumes "\<And>x s. wp (f x) (\<lambda>_ t. calls t = calls s @ dels x) s"
  shows "wp (forM xs f) (\<lambda>_ t. calls t = calls s @ concat (map dels xs)) s"
proof (induction xs arbitrary: s)
  case (Cons x xs)
  show ?case by (simp add: wp_simps) (rule wp_mono [OF assms], rule wp_mono [OF Cons], simp)
qed (simp add: wp_simps)

lemma wp_then:
  assumes "\<And>s. wp m (\<lambda>_ t. calls t = calls s @ xs) s" and "\<And>s. wp k (\<lambda>_ t. calls t = calls s @ ys) s"
  shows "wp (andThen m k) (\<lambda>_ t. calls t = calls s @ xs @ ys) s"
  by (simp add: wp_simps) (rule wp_mono [OF assms(1)], rule wp_mono [OF assms(2)], simp)

lemma wp_guarded:
  assumes "wp m (\<lambda>_ t. calls t = calls s @ xs) s"
  shows "wp (whenM c m) (\<lambda>_ t. calls t = calls s @ (if c then xs else [])) s"
  using assms by (simp add: wp_simps)


section \<open>The steps of a cluster\<close>

text \<open>The requests that answer what a lookup has found.\<close>

definition drop_net :: "osc_Net option \<Rightarrow> osc_request list" where
  "drop_net found = (case found of None \<Rightarrow> [] | Some net \<Rightarrow> [DeleteNetRequest (o_NetId net)])"

definition drop_subnet :: "osc_Subnet option \<Rightarrow> osc_request list" where
  "drop_subnet found = (case found of None \<Rightarrow> [] | Some sn \<Rightarrow> [DeleteSubnetRequest (o_SubnetId sn)])"

definition drop_internet :: "osc_InternetService option \<Rightarrow> osc_request list" where
  "drop_internet found = (case found of None \<Rightarrow> []
     | Some isv \<Rightarrow> (if o_LinkedNetId isv \<noteq> [] then [UnlinkInternetServiceRequest (o_InternetServiceId isv) (o_LinkedNetId isv)] else []) @
         [DeleteInternetServiceRequest (o_InternetServiceId isv)])"

definition drop_nats :: "osc_NatService list \<Rightarrow> osc_request list" where
  "drop_nats nats = map (\<lambda>ns. DeleteNatServiceRequest (o_NatServiceId ns)) (filter (\<lambda>ns. o_NatState ns \<noteq> ''deleted'') nats)"

definition drop_naps :: "osc_NetAccessPoint list \<Rightarrow> osc_request list" where
  "drop_naps naps = map (\<lambda>nap. DeleteNetAccessPointRequest (o_NetAccessPointId nap)) naps"

definition drop_peerings :: "osc_NetPeering list \<Rightarrow> osc_request list" where
  "drop_peerings nps = map (\<lambda>np. DeleteNetPeeringRequest (o_NetPeeringId np))
     (filter (\<lambda>np. o_NetPeeringState np = NetPeeringPending \<or> o_NetPeeringState np = NetPeeringActive) nps)"

definition drop_routeTables :: "osc_RouteTable list \<Rightarrow> osc_request list" where
  "drop_routeTables rtbls = concat (map (\<lambda>rtbl.
     map (\<lambda>link. UnlinkRouteTableRequest (o_LinkRouteTableId link)) (o_LinkRouteTables rtbl) @
     [DeleteRouteTableRequest (o_RouteTableId rtbl)]) rtbls)"

definition drop_bastion :: "osc_Vm option \<Rightarrow> osc_request list" where
  "drop_bastion found = (case found of None \<Rightarrow> []
     | Some vm \<Rightarrow> if o_VmState vm = ''terminated'' then [] else [DeleteVmsRequest [o_VmId vm]])"

definition drop_loadBalancer :: "'w Env \<Rightarrow> 'w ClusterScope \<Rightarrow> osc_LoadBalancer option \<Rightarrow> osc_request list" where
  "drop_loadBalancer E cs found = (case found of None \<Rightarrow> []
     | Some lb \<Rightarrow> if getLoadBalancerNameTag E lb = lbNameTag cs then [DeleteLoadBalancerRequest (LoadBalancerName (cs_GetLoadBalancer cs))] else [])"

text \<open>The rules between groups go first, then every group that is not the default one.\<close>

definition member_rules :: "osc_SecurityGroup \<Rightarrow> string \<Rightarrow> osc_SecurityGroupRule list \<Rightarrow> osc_request list" where
  "member_rules sg flow rules = concat (map (\<lambda>rule. map (\<lambda>member. DeleteSecurityGroupRuleRequest flow (o_SecurityGroupId sg)
     [sdk_rule (o_IpProtocol rule) [] member (o_FromPortRange rule) (o_ToPortRange rule)]) (o_SecurityGroupsMembers rule)) rules)"

definition drop_securityGroups :: "osc_SecurityGroup list \<Rightarrow> osc_request list" where
  "drop_securityGroups sgs =
     (let own = filter (\<lambda>sg. o_SecurityGroupName sg \<noteq> ''default'') sgs
      in concat (map (\<lambda>sg. member_rules sg ''Inbound'' (o_InboundRules sg) @ member_rules sg ''Outbound'' (o_OutboundRules sg)) own) @
         map (\<lambda>sg. DeleteSecurityGroupRequest (o_SecurityGroupId sg)) own)"

lemma concat_filter: "concat (map (\<lambda>x. if c x then f x else []) xs) = concat (map f (filter c xs))"
  by (induction xs) simp_all

lemma map_filter_concat: "map f (filter c xs) = concat (map (\<lambda>x. if c x then [f x] else []) xs)"
  by (induction xs) simp_all

lemma wp_map: "(\<And>x s. wp (f x) (\<lambda>_ t. calls t = calls s @ [r x]) s) \<Longrightarrow> wp (forM xs f) (\<lambda>_ t. calls t = calls s @ map r xs) s"
  using wp_loop [of f "\<lambda>x. [r x]" xs s] by simp

lemma wp_unless: "\<not> c (scope s) \<Longrightarrow> wp (k (scope s)) Q s \<Longrightarrow> wp (bind (gets scope) (\<lambda>cs. if c cs then ret () else k cs)) Q s"
  by (simp add: wp_simps)

lemma wp_scope: "wp (k (scope s)) Q s \<Longrightarrow> wp (bind (gets scope) k) Q s"
  by (simp add: wp_simps)

lemma wp_found:
  assumes "\<And>x v. wp (k x) (\<lambda>_ t. calls t = calls v @ dels x) v"
  shows "wp (bind (findExisting pre True look) k) (\<lambda>_ t. carried_out (findExisting [] True look) dels s t) s"
  unfolding findExisting_prefix [of pre] by (rule wp_carried [OF assms])

lemma net_deleted: "\<not> useExistingNet (scope s) \<Longrightarrow> wp reconcileDeleteNet (\<lambda>_ t. carried_out (findExisting [] True getNet) drop_net s t) s"
  unfolding reconcileDeleteNet_def
  by (rule wp_unless, assumption, rule wp_found) (simp add: wp_simps svc_DeleteNet_def drop_net_def split: option.split)

lemma internet_deleted:
  "\<not> useExistingNet (scope s) \<Longrightarrow> wp reconcileDeleteInternetService (\<lambda>_ t. carried_out (findExisting [] True getInternetService) drop_internet s t) s"
  unfolding reconcileDeleteInternetService_def
  by (rule wp_unless, assumption, rule wp_found) (simp add: wp_simps svc_DeleteInternetService_def svc_UnlinkInternetService_def drop_internet_def split: option.split)

lemma bastion_deleted:
  "\<not> useExistingNet (scope s) \<Longrightarrow> wp reconcileDeleteBastion (\<lambda>_ t. carried_out (findExisting [] True getBastion) drop_bastion s t) s"
  unfolding reconcileDeleteBastion_def
  by (rule wp_unless, assumption, rule wp_found) (simp add: wp_simps svc_DeleteVm_def drop_bastion_def split: option.split)

lemma loadBalancer_deleted:
  "wp (reconcileDeleteLoadBalancer E) (\<lambda>_ t. carried_out (svc_GetLoadBalancer (tenantOf s) (LoadBalancerName (cs_GetLoadBalancer (scope s))))
     (drop_loadBalancer E (scope s)) s t) s"
  unfolding reconcileDeleteLoadBalancer_def
  by (rule wp_scope, unfold Let_def, rule wp_carried) (simp add: wp_simps svc_DeleteLoadBalancer_def drop_loadBalancer_def split: option.split)

lemma nats_deleted:
  "\<not> useExistingNet (scope s) \<Longrightarrow> wp reconcileDeleteNatService (\<lambda>_ t. carried_out (in_net svc_ListNatServices) drop_nats s t) s"
  unfolding reconcileDeleteNatService_def drop_nats_def map_filter_concat
  by (rule wp_unless, assumption, rule wp_in_net, rule wp_loop) (simp_all add: wp_simps ok_simps svc_DeleteNatService_def)

lemma naps_deleted:
  "\<not> useExistingNet (scope s) \<Longrightarrow> wp reconcileDeleteNetAccessPoints (\<lambda>_ t. carried_out (in_net svc_ListNetAccessPoints) drop_naps s t) s"
  unfolding reconcileDeleteNetAccessPoints_def drop_naps_def
  by (rule wp_unless, assumption, rule wp_in_net, rule wp_map) (simp_all add: wp_simps ok_simps svc_DeleteNetAccessPoint_def)

lemma peerings_deleted:
  "\<not> useExistingNet (scope s) \<Longrightarrow> wp reconcileDeleteNetPeering (\<lambda>_ t. carried_out (in_net svc_ListNetPeerings) drop_peerings s t) s"
  unfolding reconcileDeleteNetPeering_def drop_peerings_def map_filter_concat
  by (rule wp_unless, assumption, rule wp_in_net, rule wp_loop) (simp_all add: wp_simps ok_simps svc_DeleteNetPeering_def)

lemma routeTables_deleted:
  "\<not> useExistingNet (scope s) \<Longrightarrow> wp reconcileDeleteRouteTable (\<lambda>_ t. carried_out (in_net svc_GetRouteTablesFromNet) drop_routeTables s t) s"
proof -
  have table: "wp (andThen (forM (o_LinkRouteTables rtbl) (\<lambda>link. wrap ''cannot unlink routeTable: '' (svc_UnlinkRouteTable t (o_LinkRouteTableId link))))
      (wrap ''cannot delete routeTable: '' (svc_DeleteRouteTable t (o_RouteTableId rtbl))))
    (\<lambda>_ u. calls u = calls v @ map (\<lambda>link. UnlinkRouteTableRequest (o_LinkRouteTableId link)) (o_LinkRouteTables rtbl) @
      [DeleteRouteTableRequest (o_RouteTableId rtbl)]) v" for t rtbl v
    by (rule wp_then, rule wp_map) (simp_all add: wp_simps svc_UnlinkRouteTable_def svc_DeleteRouteTable_def)
  assume "\<not> useExistingNet (scope s)"
  then show ?thesis unfolding reconcileDeleteRouteTable_def drop_routeTables_def
    by (rule wp_unless) (rule wp_in_net, rule wp_loop, rule table, simp_all)
qed

lemma wp_fold:
  assumes "\<And>b x s. wp (f b x) (\<lambda>_ t. calls t = calls s @ dels x) s"
  shows "wp (foldM xs b f) (\<lambda>_ t. calls t = calls s @ concat (map dels xs)) s"
proof (induction xs arbitrary: s b)
  case (Cons x xs)
  show ?case by (simp add: wp_simps) (rule wp_mono [OF assms], rule wp_mono [OF Cons], simp)
qed (simp add: wp_simps)

lemma member_rules_deleted: "wp (deleteMemberRules t sg flow rules) (\<lambda>_ u. calls u = calls s @ member_rules sg flow rules) s"
  unfolding deleteMemberRules_def member_rules_def
  by (rule wp_loop, rule wp_map) (simp add: wp_simps svc_DeleteSecurityGroupRule_def)

lemma groups_dropped:
  "wp (deleteSecurityGroups t sgs) (\<lambda>_ u. calls u = calls s @
     map (\<lambda>sg. DeleteSecurityGroupRequest (o_SecurityGroupId sg)) (filter (\<lambda>sg. o_SecurityGroupName sg \<noteq> ''default'') sgs)) s"
  unfolding deleteSecurityGroups_def map_filter_concat
  by (rule wp_fold) (auto simp: wp_def svc_DeleteSecurityGroup_def handle_run sdk_run run_simps split: if_splits sum.splits prod.splits)

lemma groups_emptied:
  "wp (andThen (forM sgs (\<lambda>sg. whenM (o_SecurityGroupName sg \<noteq> ''default'') (
        andThen (deleteMemberRules t sg ''Inbound'' (o_InboundRules sg)) (deleteMemberRules t sg ''Outbound'' (o_OutboundRules sg)))))
      (bind (deleteSecurityGroups t sgs) (\<lambda>sgerr. case sgerr of None \<Rightarrow> ret () | Some e \<Rightarrow> raise e)))
     (\<lambda>_ u. calls u = calls s @ drop_securityGroups sgs) s"
  unfolding drop_securityGroups_def Let_def concat_filter [symmetric]
proof (rule wp_then)
  fix s
  show "wp (bind (deleteSecurityGroups t sgs) (\<lambda>sgerr. case sgerr of None \<Rightarrow> ret () | Some e \<Rightarrow> raise e)) (\<lambda>_ u. calls u = calls s @
      map (\<lambda>sg. DeleteSecurityGroupRequest (o_SecurityGroupId sg)) (filter (\<lambda>sg. o_SecurityGroupName sg \<noteq> ''default'') sgs)) s"
    unfolding wp_compose by (rule wp_mono [OF groups_dropped]) (simp add: wp_simps split: option.split)
qed (rule wp_loop, rule wp_guarded, rule wp_then; rule member_rules_deleted)

lemma securityGroups_deleted:
  assumes "\<not> reuse_SecurityGroups (UseExisting (cs_GetNetwork (scope s)))"
  shows "wp reconcileDeleteSecurityGroup (\<lambda>_ t. carried_out (in_net svc_GetSecurityGroupsFromNet) drop_securityGroups s t) s"
  unfolding reconcileDeleteSecurityGroup_def
  by (rule wp_unless, rule assms, rule wp_in_net, rule groups_emptied) (simp_all add: ok_simps drop_securityGroups_def)

text \<open>Every subnet of the specification, or of the generated layout, is looked up and deleted in its turn.\<close>

lemma later_subnet: "keeps later (bind (findExisting pre True (getSubnet sn)) (\<lambda>found. case found of None \<Rightarrow> ret ()
    | Some subnet \<Rightarrow> wrap pre' (svc_DeleteSubnet t (o_SubnetId subnet))))"
  unfolding svc_DeleteSubnet_def by (intro keeps_later frame_rules acts_rules spec_obs.obs_shapes spec_obs.obs_getters spec_obs.obs_primitives) simp_all

lemma subnets_deleted:
  assumes "\<not> useExistingNet (scope s)"
  shows "wp reconcileDeleteSubnets (\<lambda>_ t. \<forall>sn \<in> set (cs_GetSubnets (scope s)). carried_out (findExisting [] True (getSubnet sn)) drop_subnet s t) s"
proof -
  let ?done = "\<lambda>D t. later s t \<and> (\<forall>sn \<in> D. carried_out (findExisting [] True (getSubnet sn)) drop_subnet s t)"
  let ?step = "\<lambda>sn. bind (findExisting ''find existing: '' True (getSubnet sn)) (\<lambda>found. case found of None \<Rightarrow> ret ()
    | Some subnet \<Rightarrow> wrap ''cannot delete subnet: '' (svc_DeleteSubnet (csTenant (scope s)) (o_SubnetId subnet)))"
  have step: "wp (?step sn) (\<lambda>_ t. ?done (insert sn D) t) u" if "?done D u" for sn D u
  proof (rule wpI)
    fix x t assume run: "?step sn u = (Ok x, t)"
    have here: "wp (?step sn) (\<lambda>_ t. carried_out (findExisting [] True (getSubnet sn)) drop_subnet u t) u"
      by (rule wp_found) (simp add: wp_simps svc_DeleteSubnet_def drop_subnet_def split: option.split)
    have su: "later s u" and ut: "later u t" using that keepsD [OF later_subnet run] by simp_all
    have "carried_out (findExisting [] True (getSubnet sn)) drop_subnet s t" by (rule carried_out_earlier [OF su wpD [OF here run]])
    then show "?done (insert sn D) t" using that lat.frame_trans [OF su ut] by (auto intro: carried_out_later [OF _ ut])
  qed
  have loop: "wp (forM (cs_GetSubnets (scope s)) ?step) (\<lambda>_ t. ?done ({} \<union> set (cs_GetSubnets (scope s))) t) s"
    using wp_forM [of "cs_GetSubnets (scope s)" "?done" ?step "{}" s] step lat.frame_refl by blast
  show ?thesis unfolding reconcileDeleteSubnets_def by (rule wp_unless, rule assms, rule wp_mono [OF loop]) simp
qed

section \<open>Public IPs\<close>

text \<open>
  An IP has been given back: when its id was read, it did not exist any more, or it was not linked and its
  deletion was requested, unless its tags forbid it.
\<close>

definition given_back :: "'w Env \<Rightarrow> string \<Rightarrow> ('w, 'z) World_scheme \<Rightarrow> ('w, 'z) World_scheme \<Rightarrow> bool" where
  "given_back E rid s t \<longleftrightarrow> (\<exists>(u :: ('w, 'z) World_scheme) pips w cs. (\<exists>before. calls u = calls s @ before) \<and>
     sdkPublicIps (clientOf s) (ReadPublicIpsRequest (Some [rid]) None None None) (cloud u) = (Inr pips, w) \<and>
     calls t = calls u @ ReadPublicIpsRequest (Some [rid]) None None None #
       (case pips of [] \<Rightarrow> [] | pip # _ \<Rightarrow> if CanDelete E pip then [DeletePublicIpRequest rid] else []) @ cs \<and>
     (case pips of [] \<Rightarrow> True | pip # _ \<Rightarrow> o_LinkPublicIpId pip = None))"

lemma given_backI:
  assumes "sdkPublicIps (clientOf s) (ReadPublicIpsRequest (Some [rid]) None None None) (cloud s) = (Inr pips, w)"
    and "calls t = calls s @ ReadPublicIpsRequest (Some [rid]) None None None #
       (case pips of [] \<Rightarrow> [] | pip # _ \<Rightarrow> if CanDelete E pip then [DeletePublicIpRequest rid] else [])"
    and "case pips of [] \<Rightarrow> True | pip # _ \<Rightarrow> o_LinkPublicIpId pip = None"
  shows "given_back E rid s t"
  unfolding given_back_def using assms
  by (intro exI [of _ s] exI [of _ pips] exI [of _ w] exI [of _ "[]"]) simp

lemma given_back_mono:
  fixes s t r u :: "('w, 'z) World_scheme"
  assumes "given_back E rid s t" and "calls s = calls r @ cs" "tenantOf r = tenantOf s" and "calls u = calls t @ ds"
  shows "given_back E rid r u"
proof -
  obtain v :: "('w, 'z) World_scheme" and pips w before after where v: "calls v = calls s @ before"
      "sdkPublicIps (clientOf s) (ReadPublicIpsRequest (Some [rid]) None None None) (cloud v) = (Inr pips, w)"
      "calls t = calls v @ ReadPublicIpsRequest (Some [rid]) None None None #
         (case pips of [] \<Rightarrow> [] | pip # _ \<Rightarrow> if CanDelete E pip then [DeletePublicIpRequest rid] else []) @ after"
      "case pips of [] \<Rightarrow> True | pip # _ \<Rightarrow> o_LinkPublicIpId pip = None"
    using assms(1) unfolding given_back_def by blast
  then show ?thesis unfolding given_back_def using assms(2-4)
    by (intro exI [of _ v] exI [of _ pips] exI [of _ w] exI [of _ "after @ ds"]) simp
qed

text \<open>What was recorded stays recorded until it is given back: the IP of a VM that is found is recorded under a free key only.\<close>

definition remembers :: "('w, 'z) IPAllocator \<Rightarrow> ('w, 'z) World_scheme \<Rightarrow> ('w, 'z) World_scheme \<Rightarrow> bool" where
  "remembers a s t \<longleftrightarrow> (\<forall>k rid. getPublicIP a s k = Some rid \<longrightarrow> getPublicIP a t k = Some rid)"

interpretation mem: frame "remembers a" for a
  by unfold_locales (simp_all add: remembers_def)

text \<open>A store of IPs whose entries can be dropped one by one.\<close>

locale ip_holder = ip_store a
  for a :: "('w, 'z) IPAllocator" +
  fixes untrack :: "string \<Rightarrow> ('w, 'z, unit) Op"
  assumes untrack: "untrack key s = (Ok (), t) \<Longrightarrow> calls t = calls s \<and> tenantOf t = tenantOf s \<and>
      getPublicIP a t key' = (if key' = key then None else getPublicIP a s key')"
    and set_other: "key' \<noteq> key \<Longrightarrow> getPublicIP a (setPublicIP a key rid s) key' = getPublicIP a s key'"
begin

lemma remembers_sdk: "keeps (remembers a) (sdk f t req)"
  by (simp add: keeps_def remembers_def sdk_run get_sdk split: prod.split)

lemma set_free: "getPublicIP a s key = None \<Longrightarrow> getPublicIP a s k = Some rid \<Longrightarrow> getPublicIP a (setPublicIP a key v s) k = Some rid"
  by (cases "k = key") (simp_all add: set_other)

lemma remembers_retrack: "keeps (remembers a) (RetrackIP a key ip)"
  using get_nonempty
  by (auto simp: keeps_def remembers_def RetrackIP_def run_simps svc_GetPublicIpByIp_def get_sdk set_free
      split: prod.splits sum.splits option.splits outcome.splits if_splits)

lemma deallocate_gives_back:
  "wp (DeallocateIP E a key) (\<lambda>_ t. (\<exists>cs. calls t = calls s @ cs) \<and> tenantOf t = tenantOf s \<and> getPublicIP a t = getPublicIP a s \<and>
     (\<forall>rid. getPublicIP a s key = Some rid \<longrightarrow> given_back E rid s t)) s"
proof (cases "getPublicIP a s key")
  case None
  then show ?thesis by (simp add: DeallocateIP_def wp_simps)
next
  case (Some rid)
  show ?thesis
  proof (rule wpI)
    fix x t assume "DeallocateIP E a key s = (Ok x, t)"
    then obtain pips w where read: "sdkPublicIps (clientOf s) (ReadPublicIpsRequest (Some [rid]) None None None) (cloud s) = (Inr pips, w)"
        and rest: "(case first_of pips of None \<Rightarrow> ret ()
          | Some pip \<Rightarrow> if o_LinkPublicIpId pip \<noteq> None then raise (ErrorsNew ''decallocate ip: IP is still linked'')
              else if \<not> CanDelete E pip then ret () else wrap ''decallocate ip: '' (svc_DeletePublicIp (tenantOf s) rid))
          (s\<lparr>cloud := w, calls := calls s @ [ReadPublicIpsRequest (Some [rid]) None None None]\<rparr>) = (Ok (), t)"
      using Some by (auto simp: DeallocateIP_def svc_GetPublicIp_def ok_simps simp del: not_None_eq)
    from rest have log: "calls t = calls s @ ReadPublicIpsRequest (Some [rid]) None None None #
          (case pips of [] \<Rightarrow> [] | pip # _ \<Rightarrow> if CanDelete E pip then [DeletePublicIpRequest rid] else [])"
        "case pips of [] \<Rightarrow> True | pip # _ \<Rightarrow> o_LinkPublicIpId pip = None" "tenantOf t = tenantOf s" "getPublicIP a t = getPublicIP a s"
      by (cases pips; auto simp: first_of_def svc_DeletePublicIp_def ok_simps get_sdk split: if_splits)+
    have "given_back E rid s t" by (rule given_backI [OF read log(1,2)])
    then show "(\<exists>cs. calls t = calls s @ cs) \<and> tenantOf t = tenantOf s \<and> getPublicIP a t = getPublicIP a s \<and>
        (\<forall>rid. getPublicIP a s key = Some rid \<longrightarrow> given_back E rid s t)"
      using log Some by simp
  qed
qed

text \<open>Giving back every entry gives back every IP that was recorded.\<close>

lemma all_given_back:
  fixes es :: "(string \<times> string) list"
  shows "wp (forM es (\<lambda>(k, ipid). andThen (wrap (pre ipid) (DeallocateIP E a k)) (untrack k)))
     (\<lambda>_ t. \<forall>k \<in> fst ` set es. \<forall>rid. getPublicIP a s k = Some rid \<longrightarrow> given_back E rid s t) s"
proof -
  let ?step = "\<lambda>(k, ipid). andThen (wrap (pre ipid) (DeallocateIP E a k)) (untrack k)"
  define I where "I D t \<longleftrightarrow> (\<exists>cs. calls t = calls s @ cs) \<and> tenantOf t = tenantOf s \<and>
     (\<forall>k. getPublicIP a t k = (if k \<in> fst ` D then None else getPublicIP a s k)) \<and>
     (\<forall>k \<in> fst ` D. \<forall>rid. getPublicIP a s k = Some rid \<longrightarrow> given_back E rid s t)" for D :: "(string \<times> string) set" and t
  have step: "wp (?step e) (\<lambda>_. I (insert e D)) u" if IH: "I D u" for e D and u :: "('w, 'z) World_scheme"
  proof (rule wpI)
    fix x t assume "?step e u = (Ok x, t)"
    then obtain v where dealloc: "DeallocateIP E a (fst e) u = (Ok (), v)" and un: "untrack (fst e) v = (Ok (), t)"
      by (cases e) (auto simp: ok_simps)
    note v = wpD [OF deallocate_gives_back dealloc] and t = untrack [OF un]
    obtain cs where "calls u = calls s @ cs" using IH unfolding I_def by blast
    moreover obtain ds where "calls v = calls u @ ds" using v by blast
    ultimately have log: "calls u = calls s @ cs" "calls v = calls u @ ds" by simp_all
    have "given_back E rid s t" if "getPublicIP a u (fst e) = Some rid" for rid
      using given_back_mono [of E rid u v s cs t "[]"] v that log t \<open>I D u\<close> by (auto simp: I_def)
    moreover have "given_back E rid s t" if "given_back E rid s u" for rid
      using given_back_mono [OF that, of s "[]" t ds] log t by simp
    ultimately show "I (insert e D) t" using IH v t log by (cases "fst e \<in> fst ` D") (auto simp: I_def)
  qed
  have "wp (forM es ?step) (\<lambda>_. I ({} \<union> set es)) s" by (rule wp_forM, erule step) (simp_all add: I_def)
  then show ?thesis by (rule wp_mono) (simp add: I_def)
qed

end

interpretation cl_holder: ip_holder cl_IPAllocator untrackIP
  by unfold_locales (auto simp: untrackIP_def run_simps cl_IPAllocator_def cl_getPublicIP_def cl_setPublicIP_def put_PublicIP_def cs_GetResources_def
      upd_Resources_def upd_Status_def upd_OscCluster_def Let_def split: if_splits)

interpretation m_holder: ip_holder m_IPAllocator m_untrackIP
  by unfold_locales (auto simp: m_untrackIP_def run_simps m_IPAllocator_def m_getPublicIP_def m_setPublicIP_def ms_GetResources_def upd_MResources_def
      upd_MStatus_def upd_OscMachine_def Let_def split: if_splits)

lemma remembers_cluster_setters:
  "keeps (remembers cl_IPAllocator) (modify (upd_Resources (put_Net i)))" "keeps (remembers cl_IPAllocator) (setBastionId i)"
  by (auto simp: keeps_def remembers_def setBastionId_def run_simps cl_IPAllocator_def cl_getPublicIP_def put_defs cs_GetResources_def upd_Resources_def
      upd_Status_def upd_OscCluster_def)

lemma remembers_cluster:
  "keeps (remembers cl_IPAllocator) reconcileDeleteBastion" "keeps (remembers cl_IPAllocator) (reconcileDeleteLoadBalancer E)"
  "keeps (remembers cl_IPAllocator) reconcileDeleteNatService"
  unfolding reconcileDeleteBastion_def reconcileDeleteLoadBalancer_def reconcileDeleteNatService_def findExisting_def getBastion_def getBastionOrId_def
    retrackBastionIP_def orMissing_def getNetId_def setNetId_def net_service_defs compute_service_defs
  by (intro frame_rules remembers_cluster_setters cl_holder.remembers_sdk cl_holder.remembers_retrack)+

lemma remembers_machine:
  "keeps (remembers m_IPAllocator) reconcileDeleteVm"
  unfolding reconcileDeleteVm_def unlinkControlPlane_def findExisting_def getVm_def getVmOrId_def foundVm_def trackVm_def setVmId_def setVolumeIds_def
    orMissing_def net_service_defs compute_service_defs
  by (intro frame_rules m_holder.remembers_sdk m_holder.remembers_retrack mem.keeps_modify)
    (simp_all add: remembers_def m_IPAllocator_def m_getPublicIP_def ms_GetResources_def upd_MResources_def upd_MStatus_def upd_OscMachine_def)

section \<open>The deletion of a cluster\<close>

text \<open>
  What a completed deletion has requested: unless the net is reused, the net, every subnet, the route tables and net access
  points in the net and, where they are enabled, the internet service, the NAT services, the net peerings and the
  bastion; unless the security groups are reused, every group of the net but the default one; where there is a load balancer, the
  one that carries the name tag of the cluster; and, with internet access, every recorded public IP is given back.
\<close>

definition ips_back :: "'w Env \<Rightarrow> ('w, 'z) World_scheme \<Rightarrow> ('w, 'z) World_scheme \<Rightarrow> bool" where
  "ips_back E s t \<longleftrightarrow> (\<forall>k rid. cl_getPublicIP s k = Some rid \<longrightarrow> given_back E rid s t)"

definition network_deleted :: "('w, 'z) World_scheme \<Rightarrow> ('w, 'z) World_scheme \<Rightarrow> bool" where
  "network_deleted s t \<longleftrightarrow>
     carried_out (findExisting [] True getNet) drop_net s t \<and>
     (\<forall>sn \<in> set (cs_GetSubnets (scope s)). carried_out (findExisting [] True (getSubnet sn)) drop_subnet s t) \<and>
     carried_out (in_net svc_GetRouteTablesFromNet) drop_routeTables s t \<and>
     carried_out (in_net svc_ListNetAccessPoints) drop_naps s t \<and>
     (if cs_IsInternetDisabled (scope s) then True
      else carried_out (findExisting [] True getInternetService) drop_internet s t \<and>
        carried_out (in_net svc_ListNatServices) drop_nats s t) \<and>
     (if np_Enable (NetPeering (cs_GetNetwork (scope s))) then carried_out (in_net svc_ListNetPeerings) drop_peerings s t else True) \<and>
     (if bn_Enable (Bastion (cs_GetNetwork (scope s))) then carried_out (findExisting [] True getBastion) drop_bastion s t else True)"

definition cluster_deleted :: "'w Env \<Rightarrow> ('w, 'z) World_scheme \<Rightarrow> ('w, 'z) World_scheme \<Rightarrow> bool" where
  "cluster_deleted E s t \<longleftrightarrow>
     (if useExistingNet (scope s) then True else network_deleted s t) \<and>
     (if reuse_SecurityGroups (UseExisting (cs_GetNetwork (scope s))) then True
      else carried_out (in_net svc_GetSecurityGroupsFromNet) drop_securityGroups s t) \<and>
     (if cs_IsLBDisabled (scope s) then True
      else carried_out (svc_GetLoadBalancer (tenantOf s) (LoadBalancerName (cs_GetLoadBalancer (scope s)))) (drop_loadBalancer E (scope s)) s t) \<and>
     (if cs_IsInternetDisabled (scope s) then True else ips_back E s t)"

lemma later_scope:
  assumes "later s t"
  shows "cs_IsInternetDisabled (scope t) = cs_IsInternetDisabled (scope s)" "cs_IsLBDisabled (scope t) = cs_IsLBDisabled (scope s)"
    "cs_GetNetwork (scope t) = cs_GetNetwork (scope s)" "cs_GetSubnets (scope t) = cs_GetSubnets (scope s)"
    "tenantOf t = tenantOf s" "cs_GetLoadBalancer (scope t) = cs_GetLoadBalancer (scope s)" "lbNameTag (scope t) = lbNameTag (scope s)"
proof -
  have same: "cs_GetName (scope t) = cs_GetName (scope s)" "cs_GetUID (scope t) = cs_GetUID (scope s)"
    "cs_GetNetwork (scope t) = cs_GetNetwork (scope s)" "tenantOf t = tenantOf s"
    using assms by (simp_all add: later_def spec_view_def cs_GetName_def cs_GetUID_def split: option.split)
  then have "cs_GetLoadBalancer (scope t) = cs_GetLoadBalancer (scope s)" by (simp only: cs_GetLoadBalancer_def)
  then show "cs_IsInternetDisabled (scope t) = cs_IsInternetDisabled (scope s)" "cs_IsLBDisabled (scope t) = cs_IsLBDisabled (scope s)"
    "cs_GetNetwork (scope t) = cs_GetNetwork (scope s)" "cs_GetSubnets (scope t) = cs_GetSubnets (scope s)"
    "tenantOf t = tenantOf s" "cs_GetLoadBalancer (scope t) = cs_GetLoadBalancer (scope s)" "lbNameTag (scope t) = lbNameTag (scope s)"
    using same GetSubnets_spec [of "scope t" "scope s"]
    by (simp_all add: cs_IsInternetDisabled_def cs_IsLBDisabled_def lbNameTag_def)
qed

lemma later_steps:
  "keeps later reconcileDeleteBastion" "keeps later (reconcileDeleteLoadBalancer E)" "keeps later reconcileDeleteNatService"
  "keeps later (reconcileDeletePublicIp E)" "keeps later reconcileDeleteNetAccessPoints" "keeps later (reconcileDeleteNetPeeringRoutes E)"
  "keeps later reconcileDeleteNetPeering" "keeps later reconcileDeleteRouteTable" "keeps later reconcileDeleteSecurityGroup"
  "keeps later reconcileDeleteInternetService" "keeps later reconcileDeleteSubnets" "keeps later reconcileDeleteNet"
  by (rule keeps_later; (rule acts_rules spec_obs.obs_network spec_obs.obs_security spec_obs.obs_peering; simp?))+

lemma publicIps_given_back:
  assumes "reconcileDeletePublicIp E s = (Ok (), t)" and "cl_getPublicIP s k = Some rid"
  shows "given_back E rid s t"
proof -
  have k: "k \<in> fst ` set (nmap_entries (getPublicIps (scope s)))"
    using assms(2) by (auto simp: cl_getPublicIP_def getPublicIps_def nmap_get_def nmap_entries_def Let_def
        split: option.splits if_splits intro: image_eqI [OF _ map_of_SomeD])
  have all: "wp (reconcileDeletePublicIp E) (\<lambda>_ t. \<forall>k \<in> fst ` set (nmap_entries (getPublicIps (scope s))).
      \<forall>rid. getPublicIP cl_IPAllocator s k = Some rid \<longrightarrow> given_back E rid s t) s"
    unfolding reconcileDeletePublicIp_def by (rule wp_scope) (rule cl_holder.all_given_back)
  show ?thesis using wpD [OF all assms(1)] k assms(2) by (auto simp: cl_IPAllocator_def)
qed

text \<open>A fact on two states of a run that holds of every longer stretch of it, and a run that establishes it.\<close>

definition stretches :: "(('w, 'z) World_scheme \<Rightarrow> ('w, 'z) World_scheme \<Rightarrow> bool) \<Rightarrow> bool" where
  "stretches R \<longleftrightarrow> (\<forall>s u v t. later s u \<and> R u v \<and> later v t \<longrightarrow> R s t)"

definition does :: "(('w, 'z) World_scheme \<Rightarrow> ('w, 'z) World_scheme \<Rightarrow> bool) \<Rightarrow> ('w, 'z, 'a) Op \<Rightarrow> bool" where
  "does R m \<longleftrightarrow> (\<forall>s x t. m s = (Ok x, t) \<longrightarrow> R s t)"

lemma doesI: "(\<And>s. wp m (\<lambda>_ t. R s t) s) \<Longrightarrow> does R m"
  by (simp add: does_def wp_def)

lemma doesD: "does R m \<Longrightarrow> m s = (Ok x, t) \<Longrightarrow> R s t"
  by (simp add: does_def)

lemma does_wrap: "does R m \<Longrightarrow> does R (wrap pre m)"
  by (simp add: does_def ok_simps)

lemma does_whenScope: "does R m \<Longrightarrow> does (\<lambda>s t. if c (scope s) then R s t else True) (whenScope c m)"
  by (auto simp: does_def whenScope_def ok_simps split: if_splits)

lemma does_here: "stretches R \<Longrightarrow> does R m \<Longrightarrow> keeps later k \<Longrightarrow> does R (andThen m k)"
  unfolding stretches_def does_def using lat.frame_refl keepsD [of later k] by (fastforce simp: ok_simps)

lemma does_there: "stretches R \<Longrightarrow> keeps later m \<Longrightarrow> does R k \<Longrightarrow> does R (andThen m k)"
  unfolding stretches_def does_def using lat.frame_refl keepsD [of later m] by (fastforce simp: ok_simps)

lemma stretches_carried: "stretches (carried_out look dels)"
  unfolding stretches_def by (blast intro: carried_out_later carried_out_earlier)

lemma stretches_if:
  assumes "\<And>s t :: ('w, 'z) World_scheme. later s t \<Longrightarrow> c (scope t) = c (scope s)" and "stretches R"
  shows "stretches (\<lambda>(s :: ('w, 'z) World_scheme) t. if c (scope s) then R s t else True)"
  using assms unfolding stretches_def by metis

lemma later_whenScope: "keeps later m \<Longrightarrow> keeps later (whenScope c m)"
  unfolding whenScope_def by (intro frame_rules)

lemma later_parts: "keeps later (deleteInternet E)" "keeps later (deletePeering E)"
  unfolding deleteInternet_def deletePeering_def by (intro frame_rules later_steps)+

lemmas later_deletion = later_whenScope lat.keeps_wrap lat.keeps_andThen later_parts later_steps

text \<open>Where a step stands in the deletion: the steps before and after it only go on.\<close>

lemma does_deletion:
  assumes "stretches R" and
    "does R (whenScope (\<lambda>cs. bn_Enable (Bastion (cs_GetNetwork cs))) (wrap ''reconcile delete bastion: '' reconcileDeleteBastion)) \<or>
     does R (whenScope (\<lambda>cs. \<not> cs_IsLBDisabled cs) (wrap ''reconcile delete loadBalancer: '' (reconcileDeleteLoadBalancer E))) \<or>
     does R (whenScope (\<lambda>cs. \<not> cs_IsInternetDisabled cs) (deleteInternet E)) \<or>
     does R (wrap ''reconcile delete netAccessPoints: '' reconcileDeleteNetAccessPoints) \<or>
     does R (whenScope (\<lambda>cs. np_Enable (NetPeering (cs_GetNetwork cs))) (deletePeering E)) \<or>
     does R (wrap ''reconcile delete routeTables: '' reconcileDeleteRouteTable) \<or>
     does R (wrap ''reconcile delete securityGroups: '' reconcileDeleteSecurityGroup) \<or>
     does R (whenScope (\<lambda>cs. \<not> cs_IsInternetDisabled cs) (wrap ''reconcile delete internetServices: '' reconcileDeleteInternetService)) \<or>
     does R (wrap ''reconcile delete subnets: '' reconcileDeleteSubnets) \<or> does R (wrap ''reconcile delete net: '' reconcileDeleteNet)"
  shows "does R (deleteResources E)"
  using assms(2) unfolding deleteResources_def
  by (elim disjE)
    ((rule does_here [OF assms(1)], assumption, intro later_deletion) |
     (rule does_there [OF assms(1)], intro later_deletion) | assumption)+

abbreviation fresh :: "('w, 'z) World_scheme \<Rightarrow> bool" where
  "fresh s \<equiv> \<not> useExistingNet (scope s)"

lemma fresh_later: "later s t \<Longrightarrow> useExistingNet (scope t) = useExistingNet (scope s)"
  by (simp add: later_scope)

lemma stretches_fresh: "stretches R \<Longrightarrow> stretches (\<lambda>s t. if fresh s then R s t else True)"
  by (rule stretches_if) (simp add: fresh_later)

lemma does_fresh: "(\<And>s. fresh s \<Longrightarrow> wp m (\<lambda>_ t. R s t) s) \<Longrightarrow> does (\<lambda>s t. if fresh s then R s t else True) m"
  by (rule doesI) (simp add: wp_def)

lemma does_network:
  "does (\<lambda>s t. if fresh s then carried_out (findExisting [] True getNet) drop_net s t else True) (deleteResources E)"
  "does (\<lambda>s t. if fresh s then carried_out (in_net svc_GetRouteTablesFromNet) drop_routeTables s t else True) (deleteResources E)"
  "does (\<lambda>s t. if fresh s then carried_out (in_net svc_ListNetAccessPoints) drop_naps s t else True) (deleteResources E)"
  using does_wrap [OF does_fresh [OF net_deleted]] does_wrap [OF does_fresh [OF routeTables_deleted]] does_wrap [OF does_fresh [OF naps_deleted]]
  by (intro does_deletion stretches_fresh stretches_carried; blast)+

lemma stretches_subnets:
  "stretches (\<lambda>s t. \<forall>sn \<in> set (cs_GetSubnets (scope s)). carried_out (findExisting [] True (getSubnet sn)) drop_subnet s t)"
  unfolding stretches_def using later_scope(4) by (metis carried_out_later carried_out_earlier)

lemma does_subnets:
  "does (\<lambda>s t. if fresh s then \<forall>sn \<in> set (cs_GetSubnets (scope s)). carried_out (findExisting [] True (getSubnet sn)) drop_subnet s t else True)
     (deleteResources E)"
  using does_wrap [OF does_fresh [OF subnets_deleted]] by (intro does_deletion stretches_fresh stretches_subnets) blast

text \<open>The steps under a condition on the specification.\<close>

lemma stretches_conditions:
  assumes "stretches R"
  shows "stretches (\<lambda>s t. if \<not> cs_IsInternetDisabled (scope s) then R s t else True)"
    "stretches (\<lambda>s t. if \<not> cs_IsLBDisabled (scope s) then R s t else True)"
    "stretches (\<lambda>s t. if np_Enable (NetPeering (cs_GetNetwork (scope s))) then R s t else True)"
    "stretches (\<lambda>s t. if bn_Enable (Bastion (cs_GetNetwork (scope s))) then R s t else True)"
    "stretches (\<lambda>s t. if \<not> reuse_SecurityGroups (UseExisting (cs_GetNetwork (scope s))) then R s t else True)"
  by (rule stretches_if [OF _ assms]; simp add: later_scope)+

lemma does_internet:
  "does (\<lambda>s t. if \<not> cs_IsInternetDisabled (scope s) then if fresh s then carried_out (findExisting [] True getInternetService) drop_internet s t else True
     else True) (deleteResources E)"
  "does (\<lambda>s t. if \<not> cs_IsInternetDisabled (scope s) then if fresh s then carried_out (in_net svc_ListNatServices) drop_nats s t else True
     else True) (deleteResources E)"
proof -
  have nats: "does (\<lambda>s t. if fresh s then carried_out (in_net svc_ListNatServices) drop_nats s t else True) (deleteInternet E)"
    unfolding deleteInternet_def
    by (intro does_here stretches_fresh stretches_carried does_wrap does_fresh nats_deleted later_deletion)
  note internet = does_whenScope [OF does_wrap [OF does_fresh [OF internet_deleted]], where c = "\<lambda>cs. \<not> cs_IsInternetDisabled cs"]
  show "does (\<lambda>s t. if \<not> cs_IsInternetDisabled (scope s) then if fresh s then carried_out (findExisting [] True getInternetService) drop_internet s t
      else True else True) (deleteResources E)"
    using internet by (intro does_deletion stretches_conditions stretches_fresh stretches_carried) blast
  show "does (\<lambda>s t. if \<not> cs_IsInternetDisabled (scope s) then if fresh s then carried_out (in_net svc_ListNatServices) drop_nats s t else True
      else True) (deleteResources E)"
    using does_whenScope [OF nats, of "\<lambda>cs. \<not> cs_IsInternetDisabled cs"]
    by (intro does_deletion stretches_conditions stretches_fresh stretches_carried) blast
qed

lemma does_peering:
  "does (\<lambda>s t. if np_Enable (NetPeering (cs_GetNetwork (scope s))) then if fresh s then carried_out (in_net svc_ListNetPeerings) drop_peerings s t else True
     else True) (deleteResources E)"
proof -
  have "does (\<lambda>s t. if fresh s then carried_out (in_net svc_ListNetPeerings) drop_peerings s t else True) (deletePeering E)"
    unfolding deletePeering_def
    by (intro does_there stretches_fresh stretches_carried does_wrap does_fresh peerings_deleted later_deletion)
  from does_whenScope [OF this, of "\<lambda>cs. np_Enable (NetPeering (cs_GetNetwork cs))"] show ?thesis
    by (intro does_deletion stretches_conditions stretches_fresh stretches_carried) blast
qed

lemma does_bastion:
  "does (\<lambda>s t. if bn_Enable (Bastion (cs_GetNetwork (scope s))) then if fresh s then carried_out (findExisting [] True getBastion) drop_bastion s t else True
     else True) (deleteResources E)"
  using does_whenScope [OF does_wrap [OF does_fresh [OF bastion_deleted]], where c = "\<lambda>cs. bn_Enable (Bastion (cs_GetNetwork cs))"]
  by (intro does_deletion stretches_conditions stretches_fresh stretches_carried) blast

lemma does_securityGroups:
  "does (\<lambda>s t. if \<not> reuse_SecurityGroups (UseExisting (cs_GetNetwork (scope s))) then
       carried_out (in_net svc_GetSecurityGroupsFromNet) drop_securityGroups s t else True) (deleteResources E)"
proof -
  have "does (\<lambda>s t. if \<not> reuse_SecurityGroups (UseExisting (cs_GetNetwork (scope s))) then
      carried_out (in_net svc_GetSecurityGroupsFromNet) drop_securityGroups s t else True) reconcileDeleteSecurityGroup"
    using securityGroups_deleted by (auto simp: does_def wp_def)
  from does_wrap [OF this] show ?thesis
    by (intro does_deletion stretches_conditions stretches_carried) blast
qed

lemma does_loadBalancer:
  "does (\<lambda>s t. if \<not> cs_IsLBDisabled (scope s) then
       carried_out (svc_GetLoadBalancer (tenantOf s) (LoadBalancerName (cs_GetLoadBalancer (scope s)))) (drop_loadBalancer E (scope s)) s t else True)
     (deleteResources E)"
proof -
  have "stretches (\<lambda>s t. carried_out (svc_GetLoadBalancer (tenantOf s) (LoadBalancerName (cs_GetLoadBalancer (scope s)))) (drop_loadBalancer E (scope s))
      s (t :: ('a, 'b) World_scheme))"
    unfolding stretches_def
  proof (intro allI impI, elim conjE)
    fix s u v t :: "('a, 'b) World_scheme"
    assume su: "later s u" and vt: "later v t"
      and uv: "carried_out (svc_GetLoadBalancer (tenantOf u) (LoadBalancerName (cs_GetLoadBalancer (scope u)))) (drop_loadBalancer E (scope u)) u v"
    have "drop_loadBalancer E (scope u) = drop_loadBalancer E (scope s)"
      using later_scope(6,7) [OF su] by (simp add: drop_loadBalancer_def fun_eq_iff split: option.split)
    then show "carried_out (svc_GetLoadBalancer (tenantOf s) (LoadBalancerName (cs_GetLoadBalancer (scope s)))) (drop_loadBalancer E (scope s)) s t"
      using carried_out_later [OF carried_out_earlier [OF su uv] vt] by (simp add: later_scope [OF su])
  qed
  then show ?thesis
    using does_whenScope [OF does_wrap [OF doesI [OF loadBalancer_deleted]], where c = "\<lambda>cs. \<not> cs_IsLBDisabled cs"]
    by (intro does_deletion stretches_conditions) blast+
qed

text \<open>The IPs recorded when the deletion starts are still recorded when they are given back.\<close>

lemma ips_back_stretch:
  assumes "later s u" "remembers cl_IPAllocator s u" "ips_back E u v" "later v t"
  shows "ips_back E s t"
proof -
  obtain cs ds where log: "calls u = calls s @ cs" "calls t = calls v @ ds" using assms(1,4) by (auto simp: later_def)
  show ?thesis unfolding ips_back_def
  proof (intro allI impI)
    fix k rid assume "cl_getPublicIP s k = Some rid"
    then have "given_back E rid u v" using assms(2,3) unfolding remembers_def ips_back_def cl_IPAllocator_def IPAllocator.simps by blast
    then show "given_back E rid s t" by (rule given_back_mono) (use log later_scope(5) [OF assms(1)] in simp_all)
  qed
qed

lemma ips_there:
  assumes "keeps later m" "keeps (remembers cl_IPAllocator) m" "does (ips_back E) k"
  shows "does (ips_back E) (andThen m k)"
  unfolding does_def
proof (intro allI impI)
  fix s x t assume "andThen m k s = (Ok x, t)"
  then obtain y u where m: "m s = (Ok y, u)" and k: "k u = (Ok x, t)" by (auto simp: ok_simps)
  show "ips_back E s t" by (rule ips_back_stretch [OF keepsD [OF assms(1) m] keepsD [OF assms(2) m] doesD [OF assms(3) k] lat.frame_refl])
qed

lemma andThen_assoc: "andThen (andThen m n) k = andThen m (andThen n k)"
  by (auto simp: fun_eq_iff run_simps split: prod.splits outcome.splits)

lemma remembers_whenScope: "keeps (remembers a) m \<Longrightarrow> keeps (remembers a) (whenScope c m)"
  unfolding whenScope_def by (intro frame_rules)

lemma does_publicIps: "does (\<lambda>s t. if \<not> cs_IsInternetDisabled (scope s) then ips_back E s t else True) (deleteResources E)"
  unfolding does_def
proof (intro allI impI)
  fix s t :: "('a, 'b) World_scheme" and x
  assume run: "deleteResources E s = (Ok x, t)"
  show "if \<not> cs_IsInternetDisabled (scope s) then ips_back E s t else True"
  proof (cases "cs_IsInternetDisabled (scope s)")
    case False
    have ips: "does (ips_back E) (reconcileDeletePublicIp E)" using publicIps_given_back by (auto simp: does_def ips_back_def)
    have internet: "does (ips_back E) (deleteInternet E)" unfolding deleteInternet_def
      by (intro ips_there lat.keeps_wrap mem.keeps_wrap later_steps remembers_cluster does_wrap ips)
    let ?first = "andThen (whenScope (\<lambda>cs. bn_Enable (Bastion (cs_GetNetwork cs))) (wrap ''reconcile delete bastion: '' reconcileDeleteBastion))
      (whenScope (\<lambda>cs. \<not> cs_IsLBDisabled cs) (wrap ''reconcile delete loadBalancer: '' (reconcileDeleteLoadBalancer E)))"
    let ?internet = "whenScope (\<lambda>cs. \<not> cs_IsInternetDisabled cs) (deleteInternet E)"
    have "\<exists>k :: ('a, 'b, unit) Op. deleteResources E s = andThen ?first (andThen ?internet k) s \<and> keeps later k"
      unfolding deleteResources_def andThen_assoc by (intro exI conjI, rule refl, intro later_deletion)
    then obtain k :: "('a, 'b, unit) Op" where k: "andThen ?first (andThen ?internet k) s = (Ok x, t)" "keeps later k" using run by metis
    then obtain u v where u: "?first s = (Ok (), u)" and v: "?internet u = (Ok (), v)" and "k v = (Ok x, t)"
      unfolding andThen_Ok [of ?first] andThen_Ok [of ?internet] by auto
    then have after: "later v t" using keepsD [OF k(2)] by blast
    have kept: "keeps later ?first" "keeps (remembers cl_IPAllocator) ?first"
      by (intro later_deletion mem.keeps_andThen remembers_whenScope mem.keeps_wrap remembers_cluster)+
    note su = keepsD [OF kept(1) u] keepsD [OF kept(2) u]
    have "deleteInternet E u = (Ok (), v)" using v False later_scope(1) [OF su(1)] by (simp add: whenScope_def ok_simps)
    then show ?thesis using False ips_back_stretch [OF su doesD [OF internet] after] by simp
  qed simp
qed

lemma deletion_contents:
  assumes "deleteResources E s = (Ok (), t)"
  shows "cluster_deleted E s t"
  using does_network [THEN doesD, OF assms] doesD [OF does_subnets assms] does_internet [THEN doesD, OF assms] doesD [OF does_peering assms]
    doesD [OF does_bastion assms] doesD [OF does_securityGroups assms] doesD [OF does_loadBalancer assms] doesD [OF does_publicIps assms]
  unfolding cluster_deleted_def network_deleted_def by simp

section \<open>The deletion of a machine\<close>

text \<open>
  The requests that answer what the lookup of the VM has found: a VM that is not terminated is unlinked from the load balancer,
  if it is the one of a control plane and the load balancer lists it, and deleted.
\<close>

definition unlink_requests :: "('w, 'z) MWorld_scheme \<Rightarrow> osc_Vm \<Rightarrow> osc_request list" where
  "unlink_requests s vm =
     (if GetRole (ms_GetVm (mscope s)) = RoleControlPlane \<and> \<not> cs_IsLBDisabled (scope s) then
        ReadLoadBalancersRequest [LoadBalancerName (cs_GetLoadBalancer (scope s))] #
        (case foundLB s of
           Inr (Some lb) \<Rightarrow> if o_VmId vm \<in> set (o_BackendVmIds lb)
             then [UnlinkLoadBalancerBackendMachinesRequest [o_VmId vm] (LoadBalancerName (cs_GetLoadBalancer (scope s)))] else []
         | _ \<Rightarrow> [])
      else [])"

definition vm_requests :: "('w, 'z) MWorld_scheme \<Rightarrow> osc_Vm option \<Rightarrow> osc_request list" where
  "vm_requests s found = (case found of None \<Rightarrow> []
     | Some vm \<Rightarrow> if o_VmState vm = ''terminated'' then [] else unlink_requests s vm @ [DeleteVmsRequest [o_VmId vm]])"

text \<open>
  What a completed deletion has requested: reads that look the VM up, the requests that answer what was found, and those for the public IPs,
  all of which are given back unless they come from a pool.
\<close>

definition machine_deleted :: "'w Env \<Rightarrow> ('w, 'z) MWorld_scheme \<Rightarrow> ('w, 'z) MWorld_scheme \<Rightarrow> bool" where
  "machine_deleted E s t \<longleftrightarrow> (\<exists>found u reads ips.
     findExisting [] True getVm s = (Ok found, u) \<and> calls u = calls s @ reads \<and> effect_of ` set reads \<subseteq> {ERead} \<and>
     calls t = calls u @ vm_requests u found @ ips \<and> effect_of ` set ips \<subseteq> {ERead, EDelete RPublicIp} \<and>
     (if PublicIpPool (ms_GetVm (mscope s)) \<noteq> [] then ips = []
      else \<forall>k rid. m_getPublicIP s k = Some rid \<longrightarrow> given_back E rid s t))"

lemma unlink_log: "wp (unlinkControlPlane vm) (\<lambda>_ t. calls t = calls s @ unlink_requests s vm \<and> tenantOf t = tenantOf s) s"
  by (simp add: unlinkControlPlane_def wp_simps svc_GetLoadBalancer_def svc_UnlinkLoadBalancerBackendMachines_def Let_def unlink_requests_def
      foundLB_def split: option.split)

lemma deleteVm_log:
  assumes "reconcileDeleteVm s = (Ok n, t)"
  obtains found u where "findExisting [] True getVm s = (Ok found, u)" "calls t = calls u @ vm_requests u found"
proof -
  obtain found u where find: "findExisting [] True getVm s = (Ok found, u)"
      and rest: "(case found of None \<Rightarrow> ret 0 | Some vm \<Rightarrow> if o_VmState vm = ''terminated'' then ret 0
          else andThen (unlinkControlPlane vm) (bind (gets tenantOf) (\<lambda>t. andThen (wrap ''cannot delete vm: '' (svc_DeleteVm t (o_VmId vm))) (ret 0)))) u
        = (Ok n, t)"
    using assms by (auto simp: reconcileDeleteVm_def bind_Ok findExisting_Ok [of "''cannot get vm: ''"])
  from rest have "calls t = calls u @ vm_requests u found"
    by (auto simp: vm_requests_def ok_simps svc_DeleteVm_def dest!: wpD [OF unlink_log] split: option.splits if_splits)
  then show thesis using find that by blast
qed

lemma machine_ips_given_back:
  assumes "m_reconcileDeletePublicIp E s = (Ok n, t)" and "PublicIpPool (ms_GetVm (mscope s)) = []" and "m_getPublicIP s k = Some rid"
  shows "given_back E rid s t"
proof -
  let ?es = "nmap_entries (m_getPublicIps (mscope s))"
  have k: "k \<in> fst ` set ?es"
    using assms(3) by (auto simp: m_getPublicIP_def m_getPublicIps_def nmap_get_def nmap_entries_def Let_def
        split: option.splits if_splits intro: image_eqI [OF _ map_of_SomeD])
  obtain x where loop: "forM ?es (\<lambda>(k, ipid). andThen (wrap (''cannot delete publicIp '' @ ipid @ '': '') (DeallocateIP E m_IPAllocator k)) (m_untrackIP k)) s
      = (Ok x, t)"
    using assms(1,2) by (auto simp: m_reconcileDeletePublicIp_def ok_simps)
  show ?thesis using wpD [OF m_holder.all_given_back loop] k assms(3) by (auto simp: m_IPAllocator_def)
qed

lemma machine_deletion_contents:
  assumes "m_reconcileDelete E s = (Ok n, t)"
  shows "machine_deleted E s t"
proof -
  obtain v w where vm: "reconcileDeleteVm s = (Ok 0, v)" and ip: "m_reconcileDeletePublicIp E v = (Ok 0, w)" and t: "calls t = calls w"
    using machine_finalizer_last [where E = E and s = s] assms by (auto simp: m_removeFinalizer_def run_simps upd_OscMachine_def)
  obtain found u where find: "findExisting [] True getVm s = (Ok found, u)" and log: "calls v = calls u @ vm_requests u found"
    using deleteVm_log [OF vm] by blast
  have lookup: "keeps (acts always {ERead}) (findExisting [] True getVm)" by (intro acts_rules) simp
  obtain reads where reads: "calls u = calls s @ reads" "effect_of ` set reads \<subseteq> {ERead}" using acts_calls [OF lookup find] by auto
  have release: "keeps (acts always {ERead, EDelete RPublicIp}) (m_reconcileDeletePublicIp E)" by (intro acts_rules) simp
  obtain ips where ips: "calls w = calls v @ ips" "effect_of ` set ips \<subseteq> {ERead, EDelete RPublicIp}" using acts_calls [OF release ip] by auto
  have "machine_view v = machine_view s" using keepsD [OF mv.obs_vm_steps(6) vm] by (simp add: preserves_def)
  then have same: "ms_GetVm (mscope v) = ms_GetVm (mscope s)" "tenantOf s = tenantOf v"
    by (simp_all add: machine_view_def spec_view_def ms_GetVm_def)
  have pool: "ips = []" if "PublicIpPool (ms_GetVm (mscope s)) \<noteq> []"
    using pool_ips_stay [of v E] that ip ips(1) by (simp add: same)
  have given: "given_back E rid s t" if "PublicIpPool (ms_GetVm (mscope s)) = []" "m_getPublicIP s k = Some rid" for k rid
  proof (rule given_back_mono)
    have "m_getPublicIP v k = Some rid" using keepsD [OF remembers_machine vm] that(2) by (simp add: remembers_def m_IPAllocator_def)
    then show "given_back E rid v w" using machine_ips_given_back [OF ip] that(1) by (simp add: same)
  qed (use t log reads same in simp_all)
  show ?thesis unfolding machine_deleted_def using find reads log ips t pool given
    by (intro exI [of _ found] exI [of _ u] exI [of _ reads] exI [of _ ips]) auto
qed

end
