(* ===== verification/Security_Rules.thy ===== *)
theory Security_Rules
  imports Cluster_Security
begin

text \<open>
  Convergence of the rules of a security group: which requests the two passes of
  \<^verbatim>\<open>controllers/osccluster_securitygroup.go\<close> issue, and that they are exactly the difference
  between the rules the specification asks for and the ones the group has.
\<close>

section \<open>Convergence of the rules\<close>

text \<open>
  A rule is identified by its flow, protocol, ports and one range. \<open>desired\<close> is what the
  specification asks for, \<open>present\<close> what a security group has and \<open>present_own\<close> what it has apart from rules towards
  other groups, which the code leaves alone.
\<close>

type_synonym rule_key = "string \<times> string \<times> int \<times> int \<times> string"

definition desired :: "OscSecurityGroupRule list \<Rightarrow> rule_key set" where
  "desired specs = {(Flow sp, rule_IpProtocol sp, rule_FromPortRange sp, rule_ToPortRange sp, r) | sp r.
     sp \<in> set specs \<and> r \<in> set (GetIpRanges sp)}"

definition present :: "osc_SecurityGroup \<Rightarrow> rule_key set" where
  "present sg = {(flow, o_IpProtocol ru, o_FromPortRange ru, o_ToPortRange ru, r) | flow ru r.
     (flow = ''Inbound'' \<and> ru \<in> set (o_InboundRules sg) \<or> flow = ''Outbound'' \<and> ru \<in> set (o_OutboundRules sg)) \<and> r \<in> set (o_IpRanges ru)}"

definition present_own :: "osc_SecurityGroup \<Rightarrow> rule_key set" where
  "present_own sg = {(flow, o_IpProtocol ru, o_FromPortRange ru, o_ToPortRange ru, r) | flow ru r.
     (flow = ''Inbound'' \<and> ru \<in> set (o_InboundRules sg) \<or> flow = ''Outbound'' \<and> ru \<in> set (o_OutboundRules sg)) \<and>
     o_SecurityGroupsMembers ru = [] \<and> r \<in> set (o_IpRanges ru)}"

definition creation :: "osc_SecurityGroup \<Rightarrow> rule_key \<Rightarrow> osc_request" where
  "creation sg = (\<lambda>(flow, proto, from, to, r).
     CreateSecurityGroupRuleRequest flow (o_SecurityGroupId sg) [sdk_rule proto r [] from to])"

definition deletion :: "osc_SecurityGroup \<Rightarrow> rule_key \<Rightarrow> osc_request" where
  "deletion sg = (\<lambda>(flow, proto, from, to, r).
     DeleteSecurityGroupRuleRequest flow (o_SecurityGroupId sg) [sdk_rule proto r [] from to])"

text \<open>The requests of a loop whose body issues \<open>g x\<close> when it succeeds.\<close>

lemma forM_calls:
  assumes "\<And>x s t. x \<in> set xs \<Longrightarrow> f x s = (Ok (), t) \<Longrightarrow> calls t = calls s @ g x" and "forM xs f s = (Ok (), t)"
  shows "calls t = calls s @ concat (map g xs)"
  using assms
proof (induction xs arbitrary: s)
  case Nil
  then show ?case by (simp add: ok_simps)
next
  case (Cons x xs)
  from Cons.prems(2) obtain u where "f x s = (Ok (), u)" "forM xs f u = (Ok (), t)" by (auto simp: ok_simps)
  then show ?case using Cons.IH [of u] Cons.prems(1) by fastforce
qed

lemma concat_guarded: "concat (map (\<lambda>x. if P x then [] else [h x]) xs) = map h (filter (\<lambda>x. \<not> P x) xs)"
  by (induction xs) auto

lemma forM_guarded_calls:
  assumes "\<And>x s t. x \<in> set xs \<Longrightarrow> f x s = (Ok (), t) \<Longrightarrow> calls t = calls s @ (if P x then [] else [h x])"
    and "forM xs f s = (Ok (), t)"
  shows "calls t = calls s @ map h (filter (\<lambda>x. \<not> P x) xs)"
  using forM_calls [OF assms] by (simp add: concat_guarded)

text \<open>The rules to create and to delete, in the order of the requests.\<close>

definition missing_keys :: "OscSecurityGroupRule list \<Rightarrow> osc_SecurityGroup \<Rightarrow> rule_key list" where
  "missing_keys specs sg = concat (map (\<lambda>sp.
     map (\<lambda>r. (Flow sp, rule_IpProtocol sp, rule_FromPortRange sp, rule_ToPortRange sp, r))
       (filter (\<lambda>r. r \<notin> set (existingRanges sp sg)) (GetIpRanges sp))) specs)"

definition extra_keys :: "OscSecurityGroupRule list \<Rightarrow> string \<Rightarrow> osc_SecurityGroupRule list \<Rightarrow> rule_key list" where
  "extra_keys specs flow rules = concat (map (\<lambda>ru. if o_SecurityGroupsMembers ru \<noteq> [] then [] else
     map (\<lambda>r. (flow, o_IpProtocol ru, o_FromPortRange ru, o_ToPortRange ru, r))
       (filter (\<lambda>r. r \<notin> set (okRanges flow specs ru)) (o_IpRanges ru))) rules)"

lemma addRule_loop:
  assumes "forM (GetIpRanges sp) (\<lambda>ipRange. if ipRange \<in> set (existingRanges sp sg) then ret ()
         else andThen (wrap ''cannot create securityGroupRule: ''
           (svc_CreateSecurityGroupRule ten (o_SecurityGroupId sg) (Flow sp) (rule_IpProtocol sp) ipRange []
              (rule_FromPortRange sp) (rule_ToPortRange sp))) (ret ())) s = (Ok (), t)"
  shows "calls t = calls s @ map (\<lambda>r. creation sg (Flow sp, rule_IpProtocol sp, rule_FromPortRange sp, rule_ToPortRange sp, r))
      (filter (\<lambda>r. r \<notin> set (existingRanges sp sg)) (GetIpRanges sp))"
  by (rule forM_guarded_calls [OF _ assms])
    (auto simp: ok_simps svc_CreateSecurityGroupRule_def creation_def split: if_splits)

lemma AddRules_calls:
  assumes "reconcileSecurityGroupAddRules specs sg s = (Ok (), t)"
  shows "calls t = calls s @ map (creation sg) (missing_keys specs sg)"
  using assms unfolding reconcileSecurityGroupAddRules_def missing_keys_def map_concat
  by (auto simp: ok_simps comp_def intro: forM_calls [OF addRule_loop])

lemma deleteRule_loop:
  assumes "forM (o_IpRanges ru) (\<lambda>ipRange. if ipRange \<in> set (okRanges flow specs ru) then ret ()
         else wrap ''cannot create securityGroupRule: ''
           (svc_DeleteSecurityGroupRule ten (o_SecurityGroupId sg) flow (o_IpProtocol ru) ipRange []
              (o_FromPortRange ru) (o_ToPortRange ru))) s = (Ok (), t)"
  shows "calls t = calls s @ map (\<lambda>r. deletion sg (flow, o_IpProtocol ru, o_FromPortRange ru, o_ToPortRange ru, r))
      (filter (\<lambda>r. r \<notin> set (okRanges flow specs ru)) (o_IpRanges ru))"
  by (rule forM_guarded_calls [OF _ assms])
    (auto simp: ok_simps svc_DeleteSecurityGroupRule_def deletion_def split: if_splits)

lemma checkRules_calls:
  assumes "checkRules ten specs sg flow rules s = (Ok (), t)"
  shows "calls t = calls s @ map (deletion sg) (extra_keys specs flow rules)"
proof -
  have "calls t = calls s @ concat (map (\<lambda>ru. if o_SecurityGroupsMembers ru \<noteq> [] then [] else
     map (\<lambda>r. deletion sg (flow, o_IpProtocol ru, o_FromPortRange ru, o_ToPortRange ru, r))
       (filter (\<lambda>r. r \<notin> set (okRanges flow specs ru)) (o_IpRanges ru))) rules)"
    using assms unfolding checkRules_def
    by (rule forM_calls [rotated]) (auto simp: ok_simps dest!: deleteRule_loop split: if_splits)
  then show ?thesis by (simp add: extra_keys_def map_concat comp_def if_distrib [of "map (deletion sg)"] cong: if_cong)
qed

lemma DeleteRules_calls:
  assumes "reconcileSecurityGroupDeleteRules specs sg s = (Ok (), t)"
  shows "calls t = calls s @ map (deletion sg) (extra_keys specs ''Inbound'' (o_InboundRules sg)
    @ extra_keys specs ''Outbound'' (o_OutboundRules sg))"
  using assms by (auto simp: reconcileSecurityGroupDeleteRules_def ok_simps dest!: checkRules_calls)

lemma lower_flows: "str_to_lower ''Inbound'' = ''inbound''" "str_to_lower ''Outbound'' = ''outbound''"
  by code_simp+

lemma rulesOfFlow_cases:
  "rulesOfFlow ''Inbound'' sg = o_InboundRules sg" "rulesOfFlow ''Outbound'' sg = o_OutboundRules sg"
  by (simp_all add: rulesOfFlow_def lower_flows)

lemma set_missing_keys:
  assumes "\<And>sp. sp \<in> set specs \<Longrightarrow> Flow sp \<in> {''Inbound'', ''Outbound''}"
  shows "set (missing_keys specs sg) = desired specs - present sg"
proof -
  have "r \<in> set (existingRanges sp sg) \<longleftrightarrow>
      (Flow sp, rule_IpProtocol sp, rule_FromPortRange sp, rule_ToPortRange sp, r) \<in> present sg" if "sp \<in> set specs" for sp r
    using assms [OF that] by (auto simp: existingRanges_def present_def rulesOfFlow_cases) metis+
  then show ?thesis by (fastforce simp: missing_keys_def desired_def)
qed

lemma set_extra_keys:
  "set (extra_keys specs ''Inbound'' (o_InboundRules sg) @ extra_keys specs ''Outbound'' (o_OutboundRules sg))
     = present_own sg - desired specs"
proof -
  have "r \<in> set (okRanges flow specs ru) \<longleftrightarrow>
      (flow, o_IpProtocol ru, o_FromPortRange ru, o_ToPortRange ru, r) \<in> desired specs" for flow ru r
    by (auto simp: okRanges_def desired_def)
  then show ?thesis by (fastforce simp: extra_keys_def present_own_def split: if_splits)
qed

end
