(* ===== verification/Scope_Security.thy ===== *)
theory Scope_Security
  imports Cluster_Scope
begin

text \<open>
  What the generated security groups of \<^verbatim>\<open>cloud/scope/cluster.go\<close> open: the inbound ranges of the
  rules, by group and ports, and the client tokens that make creations idempotent.
\<close>

section \<open>Exposure of the generated security groups\<close>

definition exposure :: "OscSecurityGroup list \<Rightarrow> (OscRole list \<times> int \<times> int \<times> string) set" where
  "exposure sgs = {(sg_Roles sg, rule_FromPortRange ru, rule_ToPortRange ru, r) | sg ru r.
     sg \<in> set sgs \<and> ru \<in> set (SecurityGroupRules sg) \<and> Flow ru = ''Inbound'' \<and> r \<in> set (GetIpRanges ru)}"

text \<open>The ranges allowed from outside: the ones of the specification, everything by default.\<close>

definition outsideRanges :: "'w ClusterScope \<Rightarrow> string set" where
  "outsideRanges cs = (if cs_HasIPRestriction cs then set (AllowFromIPRanges (cs_GetNetwork cs)) else {''0.0.0.0/0''})"

text \<open>The range of the net and the ranges of its subnets.\<close>

definition insideRanges :: "'w ClusterScope \<Rightarrow> string set" where
  "insideRanges cs = insert (net_IpRange (cs_GetNet cs)) (IpSubnetRange ` set (cs_GetSubnets cs))"

lemma subnetRanges_inside:
  "subnetRanges cs sns (a, b, c) = (a', b', c') \<Longrightarrow>
     set a' \<subseteq> set a \<union> IpSubnetRange ` set sns \<and> set b' \<subseteq> set b \<union> IpSubnetRange ` set sns \<and>
     set c' \<subseteq> set c \<union> IpSubnetRange ` set sns"
proof (induction sns arbitrary: a b c)
  case (Cons sn sns)
  then show ?case by (auto simp: Let_def split: if_splits dest!: Cons.IH)
qed simp

text \<open>The ranges of a rule, and the exposure of one rule.\<close>

lemma rule_ranges [simp]:
  "Flow (rulesRanges fl pr fr to rs) = fl" "Flow (rulesRange fl pr fr to r) = fl"
  "rule_FromPortRange (rulesRanges fl pr fr to rs) = fr" "rule_FromPortRange (rulesRange fl pr fr to r) = fr"
  "rule_ToPortRange (rulesRanges fl pr fr to rs) = to" "rule_ToPortRange (rulesRange fl pr fr to r) = to"
  "GetIpRanges (rulesRanges fl pr fr to rs) = rs" "GetIpRanges (rulesRange fl pr fr to r) = (if r = [] then [] else [r])"
  by (simp_all add: rulesRanges_def rulesRange_def GetIpRanges_def zero_OscSecurityGroupRule_def)

definition rules_exposed :: "OscRole list \<Rightarrow> OscSecurityGroupRule list \<Rightarrow> (OscRole list \<times> int \<times> int \<times> string) set" where
  "rules_exposed roles rules = (\<Union>ru \<in> set rules. if Flow ru = ''Inbound''
     then (\<lambda>r. (roles, rule_FromPortRange ru, rule_ToPortRange ru, r)) ` set (GetIpRanges ru) else {})"

lemma rules_exposed_simps [simp]:
  "rules_exposed roles [] = {}"
  "rules_exposed roles (ru # rules) = (if Flow ru = ''Inbound''
     then (\<lambda>r. (roles, rule_FromPortRange ru, rule_ToPortRange ru, r)) ` set (GetIpRanges ru) else {}) \<union> rules_exposed roles rules"
  "rules_exposed roles (rules @ rules') = rules_exposed roles rules \<union> rules_exposed roles rules'"
  by (auto simp: rules_exposed_def)

lemma exposure_simps:
  "exposure [] = {}" "exposure (sg # sgs) = rules_exposed (sg_Roles sg) (SecurityGroupRules sg) \<union> exposure sgs"
  by (auto simp: exposure_def rules_exposed_def split: if_splits)

text \<open>The additional rules of the specification are the only other source of ranges.\<close>

definition additionalExposure :: "'w ClusterScope \<Rightarrow> (OscRole list \<times> int \<times> int \<times> string) set" where
  "additionalExposure cs = (\<Union>ar \<in> set (AdditionalSecurityRules (cs_GetNetwork cs)). rules_exposed (ar_Roles ar) (Rules ar))"

lemma additional_exposed: "rules_exposed roles (getAdditionalRules cs roles) \<subseteq> additionalExposure cs"
proof (cases "filter (\<lambda>ar. roles = ar_Roles ar) (AdditionalSecurityRules (cs_GetNetwork cs))")
  case (Cons ar ars)
  then have "ar \<in> set (AdditionalSecurityRules (cs_GetNetwork cs))" "roles = ar_Roles ar"
    using filter_eq_ConsD [OF Cons] by auto
  then show ?thesis using Cons by (auto simp: getAdditionalRules_def additionalExposure_def)
qed (simp add: getAdditionalRules_def)

lemma generated_exposure:
  assumes "SecurityGroups (cs_GetNetwork cs) = []"
  shows "exposure (cs_GetSecurityGroups cs) \<subseteq>
    {([RoleLoadBalancer], 6443, 6443, r) | r. r \<in> outsideRanges cs} \<union>
    {([RoleBastion], 22, 22, r) | r. bn_Enable (Bastion (cs_GetNetwork cs)) \<and> r \<in> outsideRanges cs} \<union>
    {(roles, from, to, r) | roles from to r. r \<in> insideRanges cs} \<union> additionalExposure cs"
proof -
  obtain allSN allSNCP allSNB where ranges: "subnetRanges cs (cs_GetSubnets cs) ([], [], []) = (allSN, allSNCP, allSNB)"
    by (metis prod_cases3)
  have inside: "set allSN \<subseteq> insideRanges cs" "set allSNCP \<subseteq> insideRanges cs" "set allSNB \<subseteq> insideRanges cs"
    "net_IpRange (cs_GetNet cs) \<in> insideRanges cs"
    using subnetRanges_inside [OF ranges] by (auto simp: insideRanges_def)
  have outside: "outsideRanges cs = set (if AllowFromIPRanges (cs_GetNetwork cs) = [] then [''0.0.0.0/0''] else AllowFromIPRanges (cs_GetNetwork cs))"
    by (simp add: outsideRanges_def cs_HasIPRestriction_def)
  note add = additional_exposed [of "[RoleLoadBalancer]" cs, THEN subsetD] additional_exposed [of "[RoleWorker]" cs, THEN subsetD]
    additional_exposed [of "[RoleControlPlane]" cs, THEN subsetD] additional_exposed [of "[RoleControlPlane, RoleWorker]" cs, THEN subsetD]
    additional_exposed [of "[RoleBastion]" cs, THEN subsetD]
  have out: "rules_exposed roles (if c then [rulesRanges ''Outbound'' p fr to rs] else []) = {}" for roles c p fr to rs
    by simp
  show ?thesis
    using inside add
    by (cases "bn_Enable (Bastion (cs_GetNetwork cs))")
      (simp_all add: cs_GetSecurityGroups_def assms getAutomaticSecurityGroups_def Let_def ranges exposure_simps out flip: outside, blast+)
qed

section \<open>Client tokens\<close>

text \<open>
  A token made of a name and the UID of the cluster is cut to its last 64 bytes, the limit of
  the API. A UID of at most 64 bytes survives the cut, so tokens of different clusters differ.
\<close>

lemma str_last_append: "length ys \<le> k \<Longrightarrow> str_last k (xs @ ys) = str_last (k - length ys) xs @ ys"
  by (simp add: str_last_def)

lemma token_suffix:
  assumes "length uid \<le> 64"
  shows "\<exists>p. (let ct = n @ ''-'' @ uid in if length ct > 64 then str_last 64 ct else ct) = p @ uid"
  using str_last_append [OF assms, of "n @ ''-''"] by (simp add: Let_def)

lemma nat_token_suffix: "length (cs_GetUID cs) \<le> 64 \<Longrightarrow> \<exists>p. cs_GetNatServiceClientToken cs ns = p @ cs_GetUID cs"
  using token_suffix by (simp add: cs_GetNatServiceClientToken_def)

lemma bastion_token_suffix: "length (cs_GetUID cs) \<le> 64 \<Longrightarrow> \<exists>p. cs_GetBastionClientToken cs = p @ cs_GetUID cs"
  using token_suffix by (auto simp: cs_GetBastionClientToken_def Let_def)

lemma token_length: "length (let ct = n @ ''-'' @ uid in if length ct > 64 then str_last 64 ct else ct) \<le> 64"
  by (simp add: Let_def)

text \<open>What is lost: of a longer name, only the last bytes that fit before the UID count.\<close>

lemma cut_token:
  assumes "length uid < 64" and "63 - length uid < length n"
  shows "(let ct = n @ ''-'' @ uid in if length ct > 64 then str_last 64 ct else ct) = str_last (63 - length uid) n @ ''-'' @ uid"
proof -
  have "63 < length n + length uid" using assms by arith
  then show ?thesis using str_last_append [of "''-'' @ uid" 64 n] assms(1) by (simp add: Let_def)
qed

end
