(* ===== verification/Samples.thy ===== *)
theory Samples
  imports Cluster_Runs
begin

text \<open>
  Concrete inputs for the witnesses of the properties: a cluster whose specification leaves
  everything to the provider, a client that finds nothing and creates what it is asked to, and
  a world in which nothing has been done yet. The properties are applied to variants of these.
\<close>

definition noCredentials :: OscCredentials where
  "noCredentials = \<lparr>FromSecret = [], FromFile = [], Profile = []\<rparr>"

definition sampleNetwork :: OscNetwork where
  "sampleNetwork = \<lparr>UseExisting = \<lparr>reuse_Net = False, reuse_SecurityGroups = False\<rparr>, Disable = [],
     LoadBalancer = \<lparr>LoadBalancerName = [], LoadBalancerType = [], lb_SubnetName = [], SecurityGroupName = [],
       Listener = \<lparr>BackendPort = 0, BackendProtocol = [], LoadBalancerPort = 0, LoadBalancerProtocol = []\<rparr>,
       HealthCheck = \<lparr>CheckInterval = 0, HealthyThreshold = 0, hc_Port = 0, hc_Protocol = [], hc_Timeout = 0,
         UnhealthyThreshold = 0\<rparr>\<rparr>,
     Net = zero_OscNet,
     NetPeering = \<lparr>np_Enable = False, ManagementCredentials = noCredentials, ManagementAccountID = [],
       ManagementNetID = [], ManagementSubnetID = []\<rparr>,
     NetAccessPoints = [], ControlPlaneSubnets = [], Subnets = [], InternetService = \<lparr>is_Name = []\<rparr>,
     NatService = zero_OscNatService, NatServices = [], NatPublicIpPool = [], RouteTables = [], SecurityGroups = [],
     AdditionalSecurityRules = [], Bastion = zero_OscBastion, nw_SubregionName = ''eu-west-2a'', Subregions = [],
     AllowFromIPRanges = [], AllowToIPRanges = [], ReconciliationRules = []\<rparr>"

definition sampleCluster :: OscCluster where
  "sampleCluster =
    \<lparr>cl_Meta = \<lparr>om_Name = ''c1'', om_Namespace = ''default'', om_UID = ''u1'', Labels = Some [], Generation = 1,
       DeletionTimestamp = None, Finalizers = []\<rparr>,
     cl_Spec = \<lparr>Credentials = noCredentials, Network = sampleNetwork, ControlPlaneEndpoint = \<lparr>Host = [], ep_Port = 0\<rparr>\<rparr>,
     cl_Status = \<lparr>cl_Ready = False,
       cl_Resources = \<lparr>rsrc_Net = None, rsrc_NetPeering = None, rsrc_Subnet = None, rsrc_InternetService = None,
         rsrc_NetAccessPoint = None, rsrc_SecurityGroup = None, rsrc_NatService = None, rsrc_Bastion = None,
         rsrc_PublicIPs = None\<rparr>,
       cl_ReconcilerGeneration = None, FailureDomains = None, cl_Conditions = [], cl_VmState = None\<rparr>\<rparr>"

text \<open>A cloud without state that finds nothing and whose creations succeed.\<close>

definition sampleVm :: osc_Vm where
  "sampleVm = \<lparr>o_VmId = ''i-1'', o_VmState = ''pending'', o_VmPublicIp = None, o_VmPrivateIp = ''10.0.2.4'',
     o_PrivateDnsName = None, o_VmSubregionName = ''eu-west-2a'', o_VmTags = [], o_BlockDeviceMappings = []\<rparr>"

definition samplePip :: osc_PublicIp where
  "samplePip = \<lparr>o_PublicIpId = ''eipalloc-1'', o_PublicIp = ''203.0.113.7'', o_LinkPublicIpId = None, o_PublicIpTags = []\<rparr>"

definition sampleClient :: "unit Client" where
  "sampleClient =
    \<lparr>sdkUnit = (\<lambda>_ w. (Inr (), w)),
     sdkNet = (\<lambda>_ w. (Inr \<lparr>o_NetId = ''vpc-1'', o_IpRange = ''10.0.0.0/16''\<rparr>, w)),
     sdkNets = (\<lambda>_ w. (Inr [], w)),
     sdkSubnet = (\<lambda>_ w. (Inr \<lparr>o_SubnetId = ''subnet-1'', o_SubnetIpRange = ''10.0.2.0/24''\<rparr>, w)),
     sdkSubnets = (\<lambda>_ w. (Inr [], w)),
     sdkInternetService = (\<lambda>_ w. (Inr \<lparr>o_InternetServiceId = ''igw-1'', o_LinkedNetId = []\<rparr>, w)),
     sdkInternetServices = (\<lambda>_ w. (Inr [], w)),
     sdkNatService = (\<lambda>_ w. (Inr \<lparr>o_NatServiceId = ''nat-1'', o_NatState = ''available'', o_NatPublicIps = []\<rparr>, w)),
     sdkNatServices = (\<lambda>_ w. (Inr [], w)),
     sdkRouteTable = (\<lambda>_ w. (Inr \<lparr>o_RouteTableId = ''rtb-1'', o_LinkRouteTables = [], o_Routes = []\<rparr>, w)),
     sdkRouteTables = (\<lambda>_ w. (Inr [], w)),
     sdkLinkRouteTableId = (\<lambda>_ w. (Inr ''rtbassoc-1'', w)),
     sdkPublicIp = (\<lambda>_ w. (Inr samplePip, w)),
     sdkPublicIps = (\<lambda>_ w. (Inr [], w)),
     sdkNetPeering = (\<lambda>_ w. (Inr \<lparr>o_NetPeeringId = ''pcx-1'', o_NetPeeringState = NetPeeringPending\<rparr>, w)),
     sdkNetPeerings = (\<lambda>_ w. (Inr [], w)),
     sdkNetAccessPoint = (\<lambda>_ w. (Inr \<lparr>o_NetAccessPointId = ''vpce-1''\<rparr>, w)),
     sdkNetAccessPoints = (\<lambda>_ w. (Inr [], w)),
     sdkLoadBalancer = (\<lambda>_ w. (Inr \<lparr>o_LoadBalancerName = ''c1-k8s'', o_DnsName = ''c1.lbu.outscale.com'',
       o_LoadBalancerTags = [], o_BackendVmIds = []\<rparr>, w)),
     sdkLoadBalancers = (\<lambda>_ w. (Inr [], w)),
     sdkTags = (\<lambda>_ w. (Inr [], w)),
     sdkSecurityGroup = (\<lambda>_ w. (Inr \<lparr>o_SecurityGroupId = ''sg-1'', o_SecurityGroupName = ''c1-lb'', o_InboundRules = [],
       o_OutboundRules = []\<rparr>, w)),
     sdkSecurityGroups = (\<lambda>_ w. (Inr [], w)),
     sdkVms = (\<lambda>_ w. (Inr [sampleVm], w)),
     sdkFlexibleGpu = (\<lambda>_ w. (Inr \<lparr>o_FlexibleGpuId = ''fgpu-1'', o_FlexibleGpuState = ''allocated'',
       o_FlexibleGpuSubregionName = ''eu-west-2a''\<rparr>, w)),
     sdkFlexibleGpus = (\<lambda>_ w. (Inr [], w)),
     sdkImages = (\<lambda>_ w. (Inr [\<lparr>o_ImageId = ''ami-1''\<rparr>], w))\<rparr>"

definition worldOf :: "unit Client \<Rightarrow> OscCluster \<Rightarrow> unit World" where
  "worldOf client cluster =
    \<lparr>cloud = (), calls = [], events = [], dice = (\<lambda>n. n), drawn = 0, patched = [],
     scope = \<lparr>csCluster = \<lparr>c_Name = ''c1'', c_Namespace = ''default'', c_UID = ''u1'', c_InfrastructureRefName = Some ''c1'', c_InfrastructureReady = False\<rparr>,
              csOscCluster = cluster, csTenant = \<lparr>tn_Region = ''eu-west-2'', tn_Client = client\<rparr>\<rparr>\<rparr>"

abbreviation sampleWorld :: "unit World" where "sampleWorld \<equiv> worldOf sampleClient sampleCluster"

text \<open>The sample cluster with a modified network specification.\<close>

definition withNetwork :: "(OscNetwork \<Rightarrow> OscNetwork) \<Rightarrow> OscCluster \<Rightarrow> OscCluster" where
  "withNetwork f c = c\<lparr>cl_Spec := (cl_Spec c)\<lparr>Network := f (Network (cl_Spec c))\<rparr>\<rparr>"

text \<open>Helper packages that follow their documentation: tags by key, a finalizer as a set member.\<close>

definition sampleEnv :: "unit Env" where
  "sampleEnv =
    \<lparr>tagsHas = (\<lambda>ts k. k \<in> set (map Key ts)),
     tagsGetName = (\<lambda>ts. case map_of (map (\<lambda>t. (Key t, Value t)) ts) ''Name'' of None \<Rightarrow> [] | Some v \<Rightarrow> v),
     tagsClusterIDKey = (\<lambda>uid. ''OscK8sClusterID/'' @ uid), tagsPublicIPPool = ''OscK8sIPPool'',
     tagsVmNodeName = ''OscK8sNodeName'', tagsResourceLifecycleOwned = ''owned'',
     ptrFrom = (\<lambda>p. case p of None \<Rightarrow> [] | Some v \<Rightarrow> v),
     MarkTrue = (\<lambda>cs c. \<lparr>cond_Type = c, cond_Status = True, Severity = [], Reason = [], Message = []\<rparr>
        # filter (\<lambda>x. cond_Type x \<noteq> c) cs),
     MarkFalse = (\<lambda>cs c r sev m. \<lparr>cond_Type = c, cond_Status = False, Severity = sev, Reason = r, Message = m\<rparr>
        # filter (\<lambda>x. cond_Type x \<noteq> c) cs),
     AddFinalizer = (\<lambda>fs f. if f \<in> set fs then fs else fs @ [f]),
     RemoveFinalizer = (\<lambda>fs f. filter (\<lambda>x. x \<noteq> f) fs),
     md_AccountID = ''123456789012'', md_NetID = ''vpc-mgmt'',
     tenantFromFile = (\<lambda>_ _. Inl (ErrorsNew ''no file'')), tenantFromProfile = (\<lambda>_ _ _. Inl (ErrorsNew ''no profile'')),
     tenantDefault = Inr \<lparr>tn_Region = ''eu-west-2'', tn_Client = sampleClient\<rparr>,
     IsControlPlaneMachine = (\<lambda>m. map_of (nmap_entries (m_Labels m)) ''cluster.x-k8s.io/control-plane'' \<noteq> None),
     listMachines = (\<lambda>_. Inr []), listOscMachines = (\<lambda>_. Inr []), k8sSecret = (\<lambda>_ _. Inl (ErrorsNew ''no secret''))\<rparr>"

text \<open>Variants of the specification: a reused network, restricted sources, a named bastion.\<close>

definition reusing :: "OscNetwork \<Rightarrow> OscNetwork" where
  "reusing nw = nw\<lparr>UseExisting := \<lparr>reuse_Net = True, reuse_SecurityGroups = True\<rparr>\<rparr>"

definition reusingNetOnly :: "OscNetwork \<Rightarrow> OscNetwork" where
  "reusingNetOnly nw = nw\<lparr>UseExisting := \<lparr>reuse_Net = True, reuse_SecurityGroups = False\<rparr>,
     Net := zero_OscNet\<lparr>net_ResourceId := ''vpc-ext''\<rparr>\<rparr>"

definition restricted :: "OscNetwork \<Rightarrow> OscNetwork" where
  "restricted nw = nw\<lparr>AllowFromIPRanges := [''198.51.100.0/24'']\<rparr>"

definition namedBastion :: "OscNetwork \<Rightarrow> OscNetwork" where
  "namedBastion nw = nw\<lparr>Bastion := zero_OscBastion\<lparr>bn_Name := ''bastion''\<rparr>\<rparr>"

definition oneSubnet :: "OscNetwork \<Rightarrow> OscNetwork" where
  "oneSubnet nw = nw\<lparr>Net := zero_OscNet\<lparr>net_IpRange := ''10.0.0.0/16'', net_ResourceId := ''vpc-1''\<rparr>,
     Subnets := [\<lparr>sn_Name = ''sn'', sn_Roles = [RoleWorker], IpSubnetRange = ''10.0.2.0/24'', sn_SubregionName = ''eu-west-2a'',
       sn_ResourceId = []\<rparr>]\<rparr>"

text \<open>A machine of the cluster.\<close>

definition sampleVmSpec :: OscVm where
  "sampleVmSpec = \<lparr>vm_Name = [], vm_ImageId = ''ami-1'', vm_KeypairName = [], vm_VmType = [], vm_SubnetName = [],
     vm_RootDisk = zero_OscRootDisk, vm_PublicIp = False, PublicIpPool = [], vm_FGPU = None, vm_SubregionName = [],
     vm_SubregionMode = [], SubregionNames = [], vm_PrivateIps = [], vm_SecurityGroupNames = [], vm_ResourceId = [],
     vm_Role = [], vm_Tags = None,
     Placement = \<lparr>RepulseServer = None, AttractServer = [], ServerStrict = False, RepulseCluster = [], AttractCluster = [],
       ClusterStrict = False\<rparr>\<rparr>"

definition sampleOscMachine :: OscMachine where
  "sampleOscMachine =
    \<lparr>ma_Meta = \<lparr>om_Name = ''m1'', om_Namespace = ''default'', om_UID = ''u2'', Labels = None, Generation = 1,
       DeletionTimestamp = None, Finalizers = []\<rparr>,
     ma_Spec = \<lparr>ProviderID = None, Node = \<lparr>Vm = sampleVmSpec,
       Image = \<lparr>img_Name = [], AccountId = [], OutscaleOpenSource = False\<rparr>, Volumes = [],
       KeyPair = \<lparr>kp_Name = [], PublicKey = [], kp_ResourceId = [], kp_ClusterName = [], DeleteKeypair = False\<rparr>,
       ReconciliationRule = None\<rparr>\<rparr>,
     ma_Status = \<lparr>ma_Ready = False, Addresses = [], ma_FailureDomain = None, FailureReason = None, FailureMessage = None,
       ma_VmState = None,
       ma_Resources = \<lparr>mr_Vm = None, mr_FGPU = None, mr_Image = None, mr_Volumes = None, mr_PublicIPs = None\<rparr>,
       ma_ReconcilerGeneration = None, ma_Conditions = []\<rparr>\<rparr>"

definition sampleMachine :: CapiMachine where
  "sampleMachine = \<lparr>m_Name = ''m'', m_Namespace = ''default'', m_UID = ''u3'', m_Labels = None, m_ClusterName = ''c1'',
     m_InfraKind = ''OscMachine'', m_InfraGroupKind = oscMachineGroupKind, m_InfraName = ''m1'', m_FailureDomain = None,
     m_DataSecretName = Some ''boot''\<rparr>"

definition machinesEnv :: "unit Env" where
  "machinesEnv = sampleEnv\<lparr>listMachines := (\<lambda>_. Inr [sampleMachine]), listOscMachines := (\<lambda>_. Inr [sampleOscMachine])\<rparr>"

text \<open>A rule to add and a group with another rule.\<close>

definition sampleRules :: "OscSecurityGroupRule list" where
  "sampleRules = [rulesRange ''Inbound'' ''tcp'' 6443 6443 ''10.0.0.0/16'']"

definition sampleGroup :: osc_SecurityGroup where
  "sampleGroup = \<lparr>o_SecurityGroupId = ''sg-1'', o_SecurityGroupName = ''c1-lb'',
     o_InboundRules = [\<lparr>o_FromPortRange = 22, o_ToPortRange = 22, o_IpProtocol = ''tcp'', o_IpRanges = [''0.0.0.0/0''],
       o_SecurityGroupsMembers = []\<rparr>], o_OutboundRules = []\<rparr>"

text \<open>Clients: a pool with one free IP, a load balancer without tag, a cloud that links no internet service, one that tags nothing, a net with a group of another user.\<close>

definition poolClient :: "unit Client" where
  "poolClient = sampleClient\<lparr>sdkPublicIps := (\<lambda>_ w. (Inr [samplePip\<lparr>o_LinkPublicIpId := Some ''eipassoc-1''\<rparr>, samplePip], w))\<rparr>"

definition foreignLB :: osc_LoadBalancer where
  "foreignLB = \<lparr>o_LoadBalancerName = ''c1-k8s'', o_DnsName = ''x'', o_LoadBalancerTags = [], o_BackendVmIds = []\<rparr>"

definition foreignClient :: "unit Client" where
  "foreignClient = sampleClient\<lparr>sdkLoadBalancers := (\<lambda>_ w. (Inr [foreignLB], w))\<rparr>"

definition unlinkableClient :: "unit Client" where
  "unlinkableClient = sampleClient\<lparr>sdkUnit := (\<lambda>req w. (if effect_of req = EChange RInternetService then Inl ''refused'' else Inr (), w))\<rparr>"

definition untaggableClient :: "unit Client" where
  "untaggableClient = sampleClient\<lparr>sdkUnit := (\<lambda>req w. (if effect_of req = ETag then Inl ''refused'' else Inr (), w))\<rparr>"

definition sharedNetClient :: "unit Client" where
  "sharedNetClient = sampleClient\<lparr>sdkSecurityGroups := (\<lambda>_ w. (Inr [\<lparr>o_SecurityGroupId = ''sg-other'', o_SecurityGroupName = ''database'',
     o_InboundRules = [], o_OutboundRules = []\<rparr>], w))\<rparr>"

text \<open>Other objects: another cluster, one reconciled once, one without labels; a NAT service with a long name.\<close>

definition otherCluster :: OscCluster where
  "otherCluster = sampleCluster\<lparr>cl_Meta := (cl_Meta sampleCluster)\<lparr>Labels := Some [(clusterUIDLabel, ''u9'')]\<rparr>\<rparr>"

definition reconciledOnce :: OscCluster where
  "reconciledOnce = sampleCluster\<lparr>cl_Status := (cl_Status sampleCluster)\<lparr>cl_ReconcilerGeneration := Some [(ReconcilerNet, 1)]\<rparr>\<rparr>"

definition unlabelled :: OscCluster where
  "unlabelled = sampleCluster\<lparr>cl_Meta := (cl_Meta sampleCluster)\<lparr>Labels := None\<rparr>\<rparr>"

definition longNat :: "char \<Rightarrow> OscNatService" where
  "longNat c = zero_OscNatService\<lparr>nat_Name := c # replicate 64 CHR ''x''\<rparr>"

definition leakWorld :: "unit World" where
  "leakWorld = upd_Resources (put_Net ''vpc-1'') (worldOf unlinkableClient sampleCluster)"

lemmas sample_defs = sampleNetwork_def sampleCluster_def sampleVm_def samplePip_def sampleClient_def worldOf_def
  withNetwork_def sampleEnv_def noCredentials_def

end
