(* ===== verification/Resource_Properties.thy ===== *)
theory Resource_Properties
  imports Teardown Security_Rules Scope_Security Samples
begin

text \<open>
  Properties of the resources the cluster controller manages: rules of security groups, tracked
  ids, public IPs, the generations that decide whether a reconciler runs, the load balancer, the
  peering routes, and the cases in which a resource is lost or a foreign one is deleted.
\<close>

section \<open>Facts on the sample inputs\<close>

lemma sample_ids: "idsGiven sampleClient"
  by (auto simp: idsGiven_def sampleClient_def)

lemma sample_needed: "fst (cs_NeedReconciliation r (worldOf c (withNetwork f sampleCluster))) = Ok True"
  by (simp add: cs_NeedReconciliation_def run_simps worldOf_def withNetwork_def sampleCluster_def)

section \<open>Security group rules\<close>

text \<open>
  C19. The rules of an authoritative security group converge. When both passes succeed, the rules
  created are exactly the desired ones the group lacks, the rules deleted exactly its own ones
  that are not desired, and what remains is the desired set with the rules towards other groups. The flows of the specification are
  written Inbound or Outbound, as the validation demands.
\<close>

theorem rules_converge:
  assumes "andThen (reconcileSecurityGroupAddRules specs sg) (reconcileSecurityGroupDeleteRules specs sg) s = (Ok (), t)"
    and "\<And>sp. sp \<in> set specs \<Longrightarrow> Flow sp \<in> {''Inbound'', ''Outbound''}"
  shows "\<exists>new old. calls t = calls s @ map (creation sg) new @ map (deletion sg) old \<and>
    set new = desired specs - present sg \<and> set old = present_own sg - desired specs \<and>
    (present sg \<union> set new) - set old = desired specs \<union> (present sg - present_own sg)"
proof -
  obtain u where add: "reconcileSecurityGroupAddRules specs sg s = (Ok (), u)"
    and del: "reconcileSecurityGroupDeleteRules specs sg u = (Ok (), t)"
    using assms(1) by (auto simp: ok_simps)
  have own: "present_own sg \<subseteq> present sg" by (auto simp: present_own_def present_def)
  show ?thesis
    using AddRules_calls [OF add] DeleteRules_calls [OF del] set_missing_keys [of specs, OF assms(2)] set_extra_keys [of specs sg] own
    by (intro exI [of _ "missing_keys specs sg"]
        exI [of _ "extra_keys specs ''Inbound'' (o_InboundRules sg) @ extra_keys specs ''Outbound'' (o_OutboundRules sg)"]) auto
qed

theorem rules_converge_witness:
  "\<exists>t new old. andThen (reconcileSecurityGroupAddRules sampleRules sampleGroup)
      (reconcileSecurityGroupDeleteRules sampleRules sampleGroup) sampleWorld = (Ok (), t) \<and>
    calls t = map (creation sampleGroup) new @ map (deletion sampleGroup) old \<and>
    set new = desired sampleRules - present sampleGroup \<and> set old = present_own sampleGroup - desired sampleRules"
proof -
  define run where "run = andThen (reconcileSecurityGroupAddRules sampleRules sampleGroup)
      (reconcileSecurityGroupDeleteRules sampleRules sampleGroup) sampleWorld"
  have "fst run = Ok ()" unfolding run_def by code_simp
  then have run: "andThen (reconcileSecurityGroupAddRules sampleRules sampleGroup)
      (reconcileSecurityGroupDeleteRules sampleRules sampleGroup) sampleWorld = (Ok (), snd run)"
    by (metis prod.collapse run_def)
  have "Flow sp \<in> {''Inbound'', ''Outbound''}" if "sp \<in> set sampleRules" for sp
    using that by (simp add: sampleRules_def)
  from rules_converge [OF run this] run show ?thesis by (auto simp: worldOf_def)
qed

section \<open>Tracking resources\<close>

text \<open>
  Every lookup of the resource tracker is stable: once the id of the net, the peering, the
  internet service, a subnet, a NAT service or a security group has been found, it is recorded
  and later lookups return it without asking the cloud.
\<close>

theorem lookups_are_stable:
  "stable getNetId \<and> stable getNetPeeringId \<and> stable getInternetServiceId \<and> stable (getSubnetId sn) \<and>
   stable (getNatServiceId ns) \<and> stable (getSecurityGroupId sg)"
  unfolding stable_def
  by (intro conjI allI impI; elim conjE)
    (rule net_t.lookup_stable peering_t.lookup_stable is_t.lookup_stable subnet_t.lookup_stable nat_t.lookup_stable
      sg_t.lookup_stable; assumption)+

text \<open>
  The net is there for the steps after it: when the reconciler of the net had to run and
  succeeded, the id of the net is recorded and every later lookup returns it without a request.
  Of the cloud it is assumed that it gives no empty id.
\<close>

theorem net_found_afterwards:
  assumes "fst (cs_NeedReconciliation ReconcilerNet s) = Ok True" and "idsGiven (clientOf s)" and "reconcileNet s = (Ok (), t)"
  shows "tracked_Net t \<noteq> [] \<and> getNetId t = (Ok (tracked_Net t), t)"
proof -
  have "tracked_Net t \<noteq> []" using wpD [OF net_tracked [OF assms(1,2)] assms(3)] .
  then show ?thesis using net_t.get_tracked by blast
qed

theorem net_found_afterwards_witness:
  "\<exists>t. reconcileNet (worldOf sampleClient (withNetwork id sampleCluster)) = (Ok (), t) \<and> getNetId t = (Ok (tracked_Net t), t)"
proof -
  have "fst (reconcileNet (worldOf sampleClient (withNetwork id sampleCluster))) = Ok ()" by code_simp
  then obtain t where run: "reconcileNet (worldOf sampleClient (withNetwork id sampleCluster)) = (Ok (), t)" by (metis prod.collapse)
  then show ?thesis using net_found_afterwards [OF sample_needed _ run] sample_ids by (simp add: worldOf_def)
qed

text \<open>
  C30. Every subnet is there for the steps after it: when the reconciler of the subnets had to run
  and succeeded, each subnet of the cluster has a recorded id, and looking it up issues no request.
\<close>

theorem subnets_found_afterwards:
  assumes "fst (cs_NeedReconciliation ReconcilerSubnet s) = Ok True" and "idsGiven (clientOf s)"
    and "reconcileSubnets s = (Ok (), t)" and "sn \<in> set (cs_GetSubnets (scope s))"
  shows "tracked_Subnet sn t \<noteq> [] \<and> getSubnetId sn t = (Ok (tracked_Subnet sn t), t)"
proof -
  have "tracked_Subnet sn t \<noteq> []"
    using wpD [OF subnets_tracked [OF assms(1,2)] assms(3)] assms(4) by (simp add: grounded_def)
  then show ?thesis using subnet_t.get_tracked by blast
qed

theorem subnets_found_afterwards_witness:
  "\<exists>t sn. reconcileSubnets (worldOf sampleClient (withNetwork oneSubnet sampleCluster)) = (Ok (), t) \<and>
     getSubnetId sn t = (Ok (tracked_Subnet sn t), t) \<and> tracked_Subnet sn t \<noteq> []"
proof -
  define w where "w = worldOf sampleClient (withNetwork oneSubnet sampleCluster)"
  have "fst (reconcileSubnets w) = Ok ()" unfolding w_def by code_simp
  then obtain t where run: "reconcileSubnets w = (Ok (), t)" by (metis prod.collapse)
  have ids: "idsGiven (clientOf w)" using sample_ids by (simp add: w_def worldOf_def)
  have need: "fst (cs_NeedReconciliation ReconcilerSubnet w) = Ok True" unfolding w_def by (rule sample_needed)
  have "\<exists>sn. sn \<in> set (cs_GetSubnets (scope w))"
    by (simp add: w_def worldOf_def withNetwork_def sampleCluster_def oneSubnet_def cs_GetSubnets_def cs_GetNetwork_def)
  then show ?thesis using subnets_found_afterwards [OF need ids run] run unfolding w_def by blast
qed

section \<open>Public IPs\<close>

text \<open>
  An allocated public IP is remembered: when the allocator of the cluster returns an id, the
  status holds that id under the key, whether it was known, created or taken from a pool.
\<close>

theorem allocated_ip_tracked:
  assumes "AllocateIP cl_IPAllocator key name pool s = (Ok (rid, ip), t)" and "rid \<noteq> []"
  shows "cl_getPublicIP t key = Some rid"
  using cl_ips.allocate_tracks [OF assms] by (simp add: cl_IPAllocator_def)

theorem allocated_ip_tracked_witness:
  "\<exists>t. AllocateIP cl_IPAllocator ''k'' ''n'' [] sampleWorld = (Ok (''eipalloc-1'', ''203.0.113.7''), t) \<and>
     cl_getPublicIP t ''k'' = Some ''eipalloc-1''"
proof -
  have "fst (AllocateIP cl_IPAllocator ''k'' ''n'' [] sampleWorld) = Ok (''eipalloc-1'', ''203.0.113.7'')" by code_simp
  then obtain t where "AllocateIP cl_IPAllocator ''k'' ''n'' [] sampleWorld = (Ok (''eipalloc-1'', ''203.0.113.7''), t)"
    by (metis prod.collapse)
  with allocated_ip_tracked [OF this] show ?thesis by blast
qed

text \<open>
  C31. A public IP is deleted only when it may be. Giving back the IP of a key issues no request
  when none is recorded; otherwise it reads it, and deletes it only if the answer shows it
  unlinked and without the tag that protects it.
\<close>

theorem deallocation_safe:
  "calls (snd (DeallocateIP E cl_IPAllocator key s)) = calls s \<and> cl_getPublicIP s key = None \<or>
   (\<exists>rid. cl_getPublicIP s key = Some rid \<and>
     (calls (snd (DeallocateIP E cl_IPAllocator key s)) = calls s @ [ReadPublicIpsRequest (Some [rid]) None None None] \<or>
      calls (snd (DeallocateIP E cl_IPAllocator key s)) =
        calls s @ [ReadPublicIpsRequest (Some [rid]) None None None, DeletePublicIpRequest rid] \<and>
      (\<exists>pip ips w. sdkPublicIps (tn_Client (csTenant (scope s))) (ReadPublicIpsRequest (Some [rid]) None None None) (cloud s)
         = (Inr (pip # ips), w) \<and> o_LinkPublicIpId pip = None \<and> CanDelete E pip)))"
  using cl_ips.deallocate_safe [OF prod.collapse [symmetric], of E key s] by (simp add: cl_IPAllocator_def)

text \<open>
  The search of a pool is exhaustive, from whatever random offset it starts: it returns an IP
  of the pool that is not linked, and fails only when every IP of the pool is linked.
\<close>

theorem pool_search_exhaustive:
  assumes "sdkPublicIps (tn_Client (csTenant (scope s)))
      (ReadPublicIpsRequest None None (Some [PublicIPPoolTag]) (Some [pool])) (cloud s) = (Inr pips, w)"
  shows "case fst (allocateFromPool pool s) of
      Ok pip \<Rightarrow> pip \<in> set pips \<and> o_LinkPublicIpId pip = None
    | Err e \<Rightarrow> e = ErrEmptyPool \<and> None \<notin> o_LinkPublicIpId ` set pips
    | Panic \<Rightarrow> False"
  using pool_scan [OF assms] by (auto split: outcome.splits)

theorem pool_search_exhaustive_witness:
  "\<exists>pip. fst (allocateFromPool ''p'' (worldOf poolClient sampleCluster)) = Ok pip \<and> o_LinkPublicIpId pip = None"
proof -
  have answer: "sdkPublicIps (tn_Client (csTenant (scope (worldOf poolClient sampleCluster))))
      (ReadPublicIpsRequest None None (Some [PublicIPPoolTag]) (Some [''p''])) (cloud (worldOf poolClient sampleCluster)) =
    (Inr [samplePip\<lparr>o_LinkPublicIpId := Some ''eipassoc-1''\<rparr>, samplePip], ())"
    by (simp add: worldOf_def poolClient_def)
  show ?thesis using pool_search_exhaustive [OF answer] by (simp add: samplePip_def split: outcome.splits)
qed

section \<open>Reconciling once per generation\<close>

text \<open>
  C36. A reconciler that succeeded does not run again. For the reconcilers of the net, the subnets,
  the internet service, the NAT services, the route tables, the net access points, the security
  groups, the load balancer and the bastion: in the mode that reconciles on change, a run right
  after a successful one returns at once, with the state unchanged and no request issued. For the route tables this is the pass over all
  roles.
\<close>

theorem reconcilers_run_once:
  "settles ReconcilerNet reconcileNet \<and> settles ReconcilerSubnet reconcileSubnets \<and>
   settles ReconcilerInternetService reconcileInternetService \<and> settles ReconcilerNatService reconcileNatService \<and>
   settles ReconcilerRouteTable (reconcileRouteTable E []) \<and> settles ReconcilerNetAccessPoint reconcileNetAccessPoints \<and>
   settles ReconcilerSecurityGroup reconcileSecurityGroup \<and> settles ReconcilerLoadbalancer (reconcileLoadBalancer E) \<and>
   settles ReconcilerBastion reconcileBastion"
  by (intro conjI reconcilers_settle reconcilers_settle_or_stop nat_settles)

text \<open>
  Which reconcilers need to run: in the mode that reconciles on change, \<open>NeedReconciliation\<close>
  answers whether the recorded generation is older than the object's; recording a generation
  brings that reconciler up to date and changes the answer for no other one.
\<close>

theorem generations_decide:
  assumes "onChange (scope s) r" and "cl_ReconcilerGeneration (cl_Status (csOscCluster (scope s))) \<noteq> None"
  shows "cs_NeedReconciliation r s = (Ok (\<not> upToDate s r), s) \<and>
    {r'. upToDate (snd (cs_SetReconciliationGeneration r s)) r'} = insert r {r'. upToDate s r'}"
  using NeedReconciliation_onChange [OF assms(1)] assms(2) by (auto simp: SetReconciliationGeneration_upToDate)

theorem generations_decide_witness:
  "cs_NeedReconciliation ReconcilerSubnet (worldOf sampleClient reconciledOnce) = (Ok True, worldOf sampleClient reconciledOnce)"
  using generations_decide [of "worldOf sampleClient reconciledOnce" ReconcilerSubnet]
  by (simp add: sample_defs reconciledOnce_def onChange_def getreconciliationRule_def cs_GetNetwork_def upToDate_def
      recorded_generation_def zero_OscReconciliationRule_def)

section \<open>Ownership\<close>

text \<open>
  C37. Only the cluster's own load balancer is deleted: the deletion of the load balancer reads the
  one of that name, and requests its deletion exactly when it was found with the name tag of this
  cluster.
\<close>

theorem own_load_balancer_deleted:
  "calls (snd (reconcileDeleteLoadBalancer E s)) = calls s @ ReadLoadBalancersRequest [LoadBalancerName (cs_GetLoadBalancer (scope s))] #
     (case foundLB s of
        Inr (Some lb) \<Rightarrow> if getLoadBalancerNameTag E lb = lbNameTag (scope s)
          then [DeleteLoadBalancerRequest (LoadBalancerName (cs_GetLoadBalancer (scope s)))] else []
      | _ \<Rightarrow> [])"
  by (rule lb_deletion)

text \<open>
  The load balancer of someone else is never adopted: when the name is taken by a load
  balancer with another cluster's tag, or by an untagged one, the reconciler stops with an error
  after that read, and the object (its control plane endpoint included) is unchanged.
\<close>

theorem foreign_load_balancer_refused:
  assumes "foundLB s = Inr (Some lb)" and "getLoadBalancerNameTag E lb \<noteq> lbNameTag (scope s)"
    and "getLoadBalancerNameTag E lb \<noteq> [] \<or> o_LoadBalancerName lb = LoadBalancerName (cs_GetLoadBalancer (scope s))"
    and "onChange (scope s) ReconcilerLoadbalancer" "\<not> upToDate s ReconcilerLoadbalancer"
  shows "\<exists>m t. reconcileLoadBalancer E s = (Err (ErrorsNew m), t) \<and>
    calls t = calls s @ [ReadLoadBalancersRequest [LoadBalancerName (cs_GetLoadBalancer (scope s))]] \<and> scope t = scope s"
  by (rule lb_not_adopted [OF assms])

theorem foreign_load_balancer_refused_witness:
  "\<exists>m t. reconcileLoadBalancer sampleEnv (worldOf foreignClient sampleCluster) = (Err (ErrorsNew m), t) \<and>
    scope t = scope (worldOf foreignClient sampleCluster)"
proof -
  have "LoadBalancerName (cs_GetLoadBalancer (scope (worldOf foreignClient sampleCluster))) = ''c1-k8s''"
    by (simp add: sample_defs cs_GetLoadBalancer_def cs_GetNetwork_def OscLoadBalancer_SetDefaultValue_def cs_GetName_def)
  moreover have "foundLB (worldOf foreignClient sampleCluster) = Inr (Some foreignLB)"
    by (simp add: foundLB_def foreignClient_def worldOf_def first_of_def)
  moreover have "onChange (scope (worldOf foreignClient sampleCluster)) ReconcilerLoadbalancer"
    "\<not> upToDate (worldOf foreignClient sampleCluster) ReconcilerLoadbalancer"
    by (simp_all add: sample_defs onChange_def getreconciliationRule_def cs_GetNetwork_def upToDate_def zero_OscReconciliationRule_def)
  moreover have "getLoadBalancerNameTag sampleEnv foreignLB = []"
    by (simp add: getLoadBalancerNameTag_def sampleEnv_def foreignLB_def)
  ultimately show ?thesis
    using foreign_load_balancer_refused [of "worldOf foreignClient sampleCluster" foreignLB sampleEnv]
    by (auto simp: foreignLB_def lbNameTag_def)
qed

text \<open>
  Only routes of the peering are removed: the requests of \<open>deletePeeringRoutes\<close> delete routes
  of the given tables whose peering is the given one, each in its own table.
\<close>

theorem peering_routes_only:
  "\<exists>cs. calls (snd (deletePeeringRoutes E t npId pre rtbls s)) = calls s @ cs \<and>
    set cs \<subseteq> {DeleteRouteRequest (o_DestinationIpRange r) (o_RouteTableId rtbl) | rtbl r.
      rtbl \<in> set rtbls \<and> r \<in> set (o_Routes rtbl) \<and> ptrFrom E (o_RouteNetPeeringId r) = npId}"
proof -
  have "issues (\<lambda>c. c \<in> {DeleteRouteRequest (o_DestinationIpRange r) (o_RouteTableId rtbl) | rtbl r.
      rtbl \<in> set rtbls \<and> r \<in> set (o_Routes rtbl) \<and> ptrFrom E (o_RouteNetPeeringId r) = npId})
    s (snd (deletePeeringRoutes E t npId pre rtbls s))"
    by (rule keepsD [OF deletePeeringRoutes_only prod.collapse [symmetric]])
  then show ?thesis by (simp only: issues_in)
qed

section \<open>Resources that are lost or taken\<close>

text \<open>
  An internet service whose link fails is lost: its id is recorded only after the link, and
  an unlinked service is not found by the lookup, so the next run creates a second one. Shown on
  a cloud that creates internet services and refuses to link them.
\<close>

theorem internet_service_created_twice:
  "map effect_of (calls (snd (reconcileInternetService (snd (reconcileInternetService leakWorld))))) =
     [ERead, ECreate RInternetService, ETag, EChange RInternetService,
      ERead, ECreate RInternetService, ETag, EChange RInternetService]"
  by code_simp

text \<open>
  A net whose tags fail is lost: the id of a created net is recorded only after it has been
  tagged, and an untagged net is not found by the lookup, so the next run creates a second one.
  Shown on a cloud that creates nets and refuses tags.
\<close>

theorem net_created_twice:
  "map effect_of (calls (snd (reconcileNet (snd (reconcileNet (worldOf untaggableClient sampleCluster)))))) =
     [ERead, ECreate RNet, ETag, ERead, ECreate RNet, ETag]"
  by code_simp

text \<open>
  C40. With a reused net but security groups managed by the provider, deleting the cluster deletes every security group of the reused
  net other than the default one, with the rules it shares with other groups: whatever groups the net turns out to hold, the
  requests of a deletion that succeeds are one listing, followed by the deletion of all of them. Neither their tags nor what the
  cluster has created is consulted, so the groups of other users of the net are among them.
\<close>

theorem foreign_security_group_deleted:
  assumes "reuse_Net (UseExisting (cs_GetNetwork (scope s)))" and "\<not> reuse_SecurityGroups (UseExisting (cs_GetNetwork (scope s)))"
    and "getNetId s = (Ok netId, u)"
    and "sdkSecurityGroups (clientOf u) (ReadSecurityGroupsRequest None None (Some [netId])) (cloud u) = (Inr sgs, w)"
    and "reconcileDeleteSecurityGroup s = (Ok (), t)"
    and "sg \<in> set sgs" and "o_SecurityGroupName sg \<noteq> ''default''"
  shows "calls t = calls u @ ReadSecurityGroupsRequest None None (Some [netId]) # drop_securityGroups sgs \<and>
    DeleteSecurityGroupRequest (o_SecurityGroupId sg) \<in> set (drop_securityGroups sgs)"
proof -
  let ?v = "u\<lparr>cloud := w, calls := calls u @ [ReadSecurityGroupsRequest None None (Some [netId])]\<rparr>"
  have "csTenant (scope u) = csTenant (scope s)"
    using keepsD [OF spec_obs.obs_lookups(1) assms(3)] by (simp add: preserves_def spec_view_def)
  then have "svc_GetSecurityGroupsFromNet (csTenant (scope s)) netId u = (Ok sgs, ?v)"
    using assms(4) by (simp add: svc_GetSecurityGroupsFromNet_def run_simps)
  then have "andThen (forM sgs (\<lambda>sg. whenM (o_SecurityGroupName sg \<noteq> ''default'') (
        andThen (deleteMemberRules (csTenant (scope s)) sg ''Inbound'' (o_InboundRules sg))
          (deleteMemberRules (csTenant (scope s)) sg ''Outbound'' (o_OutboundRules sg)))))
      (bind (deleteSecurityGroups (csTenant (scope s)) sgs) (\<lambda>sgerr. case sgerr of None \<Rightarrow> ret () | Some e \<Rightarrow> raise e)) ?v = (Ok (), t)"
    using assms(2,3,5) by (simp add: reconcileDeleteSecurityGroup_def findExisting_def bind_run gets_run handle_run ret_run wrap_run)
  then have "calls t = calls u @ ReadSecurityGroupsRequest None None (Some [netId]) # drop_securityGroups sgs"
    using wpD [OF groups_emptied] by fastforce
  moreover have "DeleteSecurityGroupRequest (o_SecurityGroupId sg) \<in> set (drop_securityGroups sgs)"
    using assms(6,7) by (simp add: drop_securityGroups_def Let_def image_iff) blast
  ultimately show ?thesis by blast
qed

text \<open>A reused net with a group the cluster has never seen.\<close>

theorem foreign_security_group_deleted_witness:
  "calls (snd (reconcileDeleteSecurityGroup (worldOf sharedNetClient (withNetwork reusingNetOnly sampleCluster)))) =
     [ReadSecurityGroupsRequest None None (Some [''vpc-ext'']), DeleteSecurityGroupRequest ''sg-other'']"
proof -
  let ?s = "worldOf sharedNetClient (withNetwork reusingNetOnly sampleCluster)"
  let ?r = "reconcileDeleteSecurityGroup ?s"
  let ?sgs = "case fst (sdkSecurityGroups sharedNetClient (ReadSecurityGroupsRequest None None (Some [''vpc-ext''])) ()) of Inr sgs \<Rightarrow> sgs | Inl _ \<Rightarrow> []"
  have "fst ?r = Ok ()" by code_simp
  then have run: "?r = (Ok (), snd ?r)" by (simp only: prod_eq_iff fst_conv snd_conv)
  have "net_ResourceId (cs_GetNet (scope ?s)) = ''vpc-ext''" by code_simp
  then have net: "getNetId ?s = (Ok ''vpc-ext'', ?s)" unfolding getNetId_def bind_run [of "gets scope"] gets_run by (simp add: ret_run)
  have groups: "sdkSecurityGroups (clientOf ?s) (ReadSecurityGroupsRequest None None (Some [''vpc-ext''])) (cloud ?s) = (Inr ?sgs, ())"
    by (simp add: worldOf_def sharedNetClient_def)
  have drop: "drop_securityGroups ?sgs = [DeleteSecurityGroupRequest ''sg-other'']" by code_simp
  have member: "hd ?sgs \<in> set ?sgs" "o_SecurityGroupName (hd ?sgs) \<noteq> ''default''" by (simp_all add: sharedNetClient_def)
  have reuse: "reuse_Net (UseExisting (cs_GetNetwork (scope ?s)))" "\<not> reuse_SecurityGroups (UseExisting (cs_GetNetwork (scope ?s)))"
    by (simp_all add: cs_GetNetwork_def sample_defs withNetwork_def reusingNetOnly_def)
  show ?thesis using foreign_security_group_deleted [OF reuse net groups run member] drop by (simp add: worldOf_def)
qed

end
