(* ===== verification/Scope_Layout.thy ===== *)
theory Scope_Layout
  imports Cluster_Scope
begin

text \<open>
  The layout \<^verbatim>\<open>cloud/scope/cluster.go\<close> generates when the specification leaves the subnets out:
  the blocks of the generated subnets, the search for a subnet by name, role and subregion,
  and the NAT service a route of a subregion resolves to.
\<close>

section \<open>The generated subnets\<close>

definition shift2 :: "IPNet \<Rightarrow> nat \<Rightarrow> IPNet" where
  "shift2 n k = n\<lparr>IP := (IP n)[2 := IP n ! 2 + of_nat k]\<rparr>"

lemma incr2_shift2: "2 < length (IP n) \<Longrightarrow> shift2 (incr2 n) k = shift2 n (Suc k)"
  by (simp add: incr2_def shift2_def add_ac)

lemma shift2_0 [simp]: "shift2 n 0 = n"
  by (simp add: shift2_def)

lemma shift2_lengths [simp]: "length (IP (shift2 n k)) = length (IP n)" "Mask (shift2 n k) = Mask n"
  "length (IP (incr2 n)) = length (IP n)" "Mask (incr2 n) = Mask n"
  by (simp_all add: shift2_def incr2_def)

lemma gen_subnets_ranges:
  "2 < length (IP n) \<Longrightarrow> map IpSubnetRange (gen_subnets ps n) = map (\<lambda>k. IPNet_String (shift2 n (Suc k))) [0..<length ps]"
proof (induction ps n rule: gen_subnets.induct)
  case (2 fd roles rest n)
  have "map (\<lambda>k. IPNet_String (shift2 n (Suc k))) [0..<Suc (length rest)] =
      IPNet_String (shift2 n 1) # map (\<lambda>k. IPNet_String (shift2 n (Suc (Suc k)))) [0..<length rest]"
    by (simp add: upt_conv_Cons comp_def flip: map_Suc_upt del: upt_Suc)
  then show ?case using 2 incr2_shift2 [of n 0] by (simp add: Let_def incr2_shift2 del: upt_Suc)
qed simp

lemma gen_subnets_keys: "map (\<lambda>sn. (sn_SubregionName sn, sn_Roles sn)) (gen_subnets ps n) = ps"
  by (induction ps n rule: gen_subnets.induct) (auto simp: Let_def)

lemma gen_subnets_anonymous: "sn \<in> set (gen_subnets ps n) \<Longrightarrow> sn_Name sn = [] \<and> sn_ResourceId sn = []"
  by (induction ps n rule: gen_subnets.induct) (auto simp: Let_def)

lemma byte_of_nat_inj:
  assumes "i < 256" "j < 256" "(of_nat i :: byte) = of_nat j" shows "i = j"
proof -
  have "unat (of_nat i :: byte) = unat (of_nat j :: byte)" by (simp only: assms(3))
  then show ?thesis using assms(1,2) by (simp only: unat_of_nat) simp
qed

lemma shift2_inj:
  assumes "length (IP n) = 4" and "i < 256" "j < 256" and "IP (shift2 n i) = IP (shift2 n j)"
  shows "i = j"
proof -
  have "IP n ! 2 + of_nat i = IP n ! 2 + of_nat j"
    using arg_cong [OF assms(4), of "\<lambda>xs. xs ! 2"] assms(1) by (simp add: shift2_def)
  then show ?thesis using byte_of_nat_inj [OF assms(2,3)] by simp
qed

lemma gen_subnets_distinct:
  assumes "length (IP n) = 4" "length (Mask n) = 4" "length ps < 256"
  shows "distinct (map IpSubnetRange (gen_subnets ps n))"
proof -
  have "inj_on (\<lambda>k. IPNet_String (shift2 n (Suc k))) {0..<length ps}"
  proof (rule inj_onI)
    fix i j assume ij: "i \<in> {0..<length ps}" "j \<in> {0..<length ps}"
      and eq: "IPNet_String (shift2 n (Suc i)) = IPNet_String (shift2 n (Suc j))"
    have "IP (shift2 n (Suc i)) = IP (shift2 n (Suc j))" using eq by (rule IPNet_String_inj) (simp_all add: assms)
    then show "i = j" using shift2_inj [OF assms(1), of "Suc i" "Suc j"] ij assms(3) by auto
  qed
  then show ?thesis using assms(1) by (simp add: gen_subnets_ranges distinct_map)
qed

definition generatedNet :: "IPNet \<Rightarrow> IPNet" where
  "generatedNet net = (incr2 net)\<lparr>Mask := (Mask net)[1 := 255, 2 := 255]\<rparr>"

lemma GetSubnets_generated:
  "Subnets (cs_GetNetwork cs) = [] \<Longrightarrow> ParseCIDR (net_IpRange (cs_GetNet cs)) = Some net \<Longrightarrow>
     cs_GetSubnets cs = gen_subnets (List.product (cs_GetSubregions cs) subnetRoles) (generatedNet net)"
  by (simp add: cs_GetSubnets_def generatedNet_def Let_def)

lemma length_subnetRoles [simp]: "length subnetRoles = 3"
  by (simp add: subnetRoles_def)

lemma length_CIDRMask [simp]: "length (CIDRMask n len) = len"
  by (induction len arbitrary: n) auto

lemma GetSubnets_length:
  "Subnets (cs_GetNetwork cs) = [] \<Longrightarrow> ParseCIDR (net_IpRange (cs_GetNet cs)) = Some net \<Longrightarrow>
     length (cs_GetSubnets cs) = 3 * length (cs_GetSubregions cs)"
  using arg_cong [OF gen_subnets_keys [of "List.product (cs_GetSubregions cs) subnetRoles" "generatedNet net"], of length]
  by (simp add: GetSubnets_generated)

text \<open>The address of a parsed block has the length of its mask and is masked.\<close>

lemma ParseCIDR_shape:
  assumes "ParseCIDR s = Some net"
  shows "length (Mask net) = length (IP net)" and "\<exists>ip. length ip = length (Mask net) \<and> IP net = map2 (AND) ip (Mask net)"
  using assms by (auto simp: ParseCIDR_def Let_def split: list.splits option.splits if_splits)

lemma generated_subnets_in_16:
  assumes "ParseCIDR s = Some net" and "Mask net = [255, 255, 0, 0]" and "k < length ps" "length ps \<le> 253"
  shows "\<exists>a b. take 2 (IP net) = [a, b] \<and>
    ParseCIDR (IpSubnetRange (gen_subnets ps (generatedNet net) ! k)) = Some \<lparr>IP = [a, b, of_nat (k + 2), 0], Mask = [255, 255, 255, 0]\<rparr>"
proof -
  obtain ip where "length ip = length (Mask net)" "IP net = map2 (AND) ip (Mask net)"
    using ParseCIDR_shape(2) [OF assms(1)] by blast
  then obtain a b where IP: "IP net = [a, b, 0, 0]" by (auto simp: assms(2) length_Suc_conv)
  have "IpSubnetRange (gen_subnets ps (generatedNet net) ! k) = map IpSubnetRange (gen_subnets ps (generatedNet net)) ! k"
    using assms(3) arg_cong [OF gen_subnets_keys [of ps], of length] by simp
  also have "\<dots> = IPNet_String \<lparr>IP = [a, b, of_nat (k + 2), 0], Mask = [255, 255, 255, 0]\<rparr>"
  proof -
    have "shift2 (generatedNet net) (Suc k) = \<lparr>IP = [a, b, of_nat (k + 2), 0], Mask = [255, 255, 255, 0]\<rparr>"
      by (rule IPNet.equality) (simp_all add: shift2_def generatedNet_def incr2_def IP assms(2) numeral_2_eq_2)
    then show ?thesis using assms(3) by (subst gen_subnets_ranges) (simp_all add: generatedNet_def incr2_def IP)
  qed
  finally show ?thesis using IP ParseCIDR_print24 by simp
qed

section \<open>Finding subnets and NAT services in the generated layout\<close>

lemma find_subnet_by_role:
  "find_subnet cs [] role sr specs =
     (case find (\<lambda>sp. cs_SubnetHasRole cs sp role \<and> cs_GetSubnetSubregion cs sp = sr) specs of
        None \<Rightarrow> Inl ErrNoSubnetFound | Some sp \<Rightarrow> Inr sp)"
  by (induction specs) auto

lemma find_subnet_sound:
  assumes "find_subnet cs name role sr specs = Inr sp"
  shows "sp \<in> set specs \<and> (name \<noteq> [] \<and> sn_Name sp = name \<or> cs_SubnetHasRole cs sp role \<and> cs_GetSubnetSubregion cs sp = sr)"
  using assms by (induction specs) (auto split: if_splits)

lemma find_subnet_complete:
  "find_subnet cs name role sr specs = Inl e \<longleftrightarrow> e = ErrNoSubnetFound \<and>
     (\<forall>sp \<in> set specs. \<not> (name \<noteq> [] \<and> sn_Name sp = name) \<and>
        \<not> (cs_SubnetHasRole cs sp role \<and> cs_GetSubnetSubregion cs sp = sr))"
  by (induction specs) auto

text \<open>The automatic layout: no subnet in the specification, a net range that parses, named subregions.\<close>

definition automatic :: "'w ClusterScope \<Rightarrow> bool" where
  "automatic cs \<longleftrightarrow> Subnets (cs_GetNetwork cs) = [] \<and> ParseCIDR (net_IpRange (cs_GetNet cs)) \<noteq> None \<and>
     [] \<notin> set (cs_GetSubregions cs)"

definition knownRoles :: "OscRole set" where
  "knownRoles = {RoleLoadBalancer, RoleBastion, RoleNat, RoleWorker, RoleControlPlane}"

lemma automatic_subnet:
  assumes "automatic cs" and "sr \<in> set (cs_GetSubregions cs)" and "roles \<in> set subnetRoles"
  shows "\<exists>sn \<in> set (cs_GetSubnets cs). sn_SubregionName sn = sr \<and> sn_Roles sn = roles"
proof -
  obtain net where "ParseCIDR (net_IpRange (cs_GetNet cs)) = Some net" using assms(1) by (auto simp: automatic_def)
  then have gen: "cs_GetSubnets cs = gen_subnets (List.product (cs_GetSubregions cs) subnetRoles) (generatedNet net)"
    using assms(1) by (intro GetSubnets_generated) (auto simp: automatic_def)
  have "(sr, roles) \<in> set (List.product (cs_GetSubregions cs) subnetRoles)" using assms(2,3) by simp
  also have "set (List.product (cs_GetSubregions cs) subnetRoles) = (\<lambda>sn. (sn_SubregionName sn, sn_Roles sn)) ` set (cs_GetSubnets cs)"
    unfolding gen by (metis gen_subnets_keys set_map)
  finally show ?thesis by auto
qed

lemma knownRoles_covered: "role \<in> knownRoles \<Longrightarrow> \<exists>roles \<in> set subnetRoles. role \<in> set roles"
  by (auto simp: knownRoles_def subnetRoles_def)

lemma automatic_GetSubnet:
  assumes "automatic cs" and "sr \<in> set (cs_GetSubregions cs)" and "role \<in> knownRoles"
  shows "\<exists>sn. cs_GetSubnet cs [] role sr = Inr sn \<and> sn \<in> set (cs_GetSubnets cs) \<and>
    cs_SubnetHasRole cs sn role \<and> cs_GetSubnetSubregion cs sn = sr"
proof -
  obtain roles where roles: "roles \<in> set subnetRoles" "role \<in> set roles" using knownRoles_covered assms(3) by blast
  obtain sn where sn: "sn \<in> set (cs_GetSubnets cs)" "sn_SubregionName sn = sr" "sn_Roles sn = roles"
    using automatic_subnet [OF assms(1,2) roles(1)] by blast
  have sr: "sr \<noteq> []" using assms(1,2) by (auto simp: automatic_def)
  have ok: "cs_SubnetHasRole cs sn role" "cs_GetSubnetSubregion cs sn = sr"
    using sn(2,3) roles(2) sr by (auto simp: cs_SubnetHasRole_def cs_GetSubnetSubregion_def Let_def)
  then have "\<nexists>e. cs_GetSubnet cs [] role sr = Inl e"
    using sn(1) sr by (auto simp: cs_GetSubnet_def find_subnet_complete)
  then obtain sp where sp: "cs_GetSubnet cs [] role sr = Inr sp" by (metis sum.exhaust)
  then show ?thesis using sr find_subnet_sound [of cs "[]" role sr "cs_GetSubnets cs" sp] by (auto simp: cs_GetSubnet_def)
qed

text \<open>The NAT services of the automatic layout: one per subregion, in the order of the subregions.\<close>

definition automaticNats :: "'w ClusterScope \<Rightarrow> bool" where
  "automaticNats cs \<longleftrightarrow> automatic cs \<and> \<not> cs_IsInternetDisabled cs \<and> \<not> reuse_Net (UseExisting (cs_GetNetwork cs)) \<and>
     NatServices (cs_GetNetwork cs) = [] \<and> NatService (cs_GetNetwork cs) = zero_OscNatService"

lemma map_filter_by_key:
  "(\<And>x. x \<in> set xs \<Longrightarrow> P x = Q (k x) \<and> f x = g (k x)) \<Longrightarrow> map f (filter P xs) = map g (filter Q (map k xs))"
  by (induction xs) auto

lemma filter_product_nat:
  "map fst (filter (\<lambda>(fd, roles). RoleNat \<in> set roles) (List.product fds subnetRoles)) = fds"
  by (induction fds) (simp_all add: subnetRoles_def)

lemma automatic_nats:
  assumes "automaticNats cs"
  shows "cs_GetNatServices cs = map (\<lambda>fd. zero_OscNatService\<lparr>nat_SubregionName := fd\<rparr>) (cs_GetSubregions cs)"
proof -
  obtain net where "ParseCIDR (net_IpRange (cs_GetNet cs)) = Some net" using assms by (auto simp: automaticNats_def automatic_def)
  then have gen: "cs_GetSubnets cs = gen_subnets (List.product (cs_GetSubregions cs) subnetRoles) (generatedNet net)"
    using assms by (intro GetSubnets_generated) (auto simp: automaticNats_def automatic_def)
  define key where "key = (\<lambda>sn :: OscSubnet. (sn_SubregionName sn, sn_Roles sn))"
  have keys: "map key (cs_GetSubnets cs) = List.product (cs_GetSubregions cs) subnetRoles"
    unfolding gen key_def by (rule gen_subnets_keys)
  have props: "sn_Name sn = []" "sn_Roles sn \<noteq> []" "sn_SubregionName sn \<noteq> []" if "sn \<in> set (cs_GetSubnets cs)" for sn
  proof -
    show "sn_Name sn = []" using gen_subnets_anonymous that unfolding gen by blast
    have "key sn \<in> set (List.product (cs_GetSubregions cs) subnetRoles)" using that keys by (metis image_eqI set_map)
    then show "sn_Roles sn \<noteq> []" "sn_SubregionName sn \<noteq> []"
      using assms by (auto simp: key_def subnetRoles_def automaticNats_def automatic_def)
  qed
  have "cs_GetNatServices cs = map (\<lambda>sn. zero_OscNatService\<lparr>nat_SubregionName := cs_GetSubnetSubregion cs sn, nat_SubnetName := sn_Name sn\<rparr>)
      (filter (\<lambda>sn. cs_SubnetHasRole cs sn RoleNat) (cs_GetSubnets cs))"
    using assms by (simp add: cs_GetNatServices_def automaticNats_def)
  also have "\<dots> = map (\<lambda>p. zero_OscNatService\<lparr>nat_SubregionName := fst p\<rparr>)
      (filter (\<lambda>(fd, roles). RoleNat \<in> set roles) (map key (cs_GetSubnets cs)))"
    by (rule map_filter_by_key) (simp add: props key_def cs_SubnetHasRole_def cs_GetSubnetSubregion_def zero_OscNatService_def Let_def)
  also have "\<dots> = map (\<lambda>fd. zero_OscNatService\<lparr>nat_SubregionName := fd\<rparr>) (map fst
      (filter (\<lambda>(fd, roles). RoleNat \<in> set roles) (List.product (cs_GetSubregions cs) subnetRoles)))"
    unfolding keys by (simp add: comp_def)
  also have "\<dots> = map (\<lambda>fd. zero_OscNatService\<lparr>nat_SubregionName := fd\<rparr>) (cs_GetSubregions cs)"
    by (simp only: filter_product_nat)
  finally show ?thesis .
qed

lemma find_nat_named:
  "[] \<notin> set fds \<Longrightarrow> sr \<in> set fds \<Longrightarrow>
     find_nat cs sr (map (\<lambda>fd. zero_OscNatService\<lparr>nat_SubregionName := fd\<rparr>) fds) = Inr (zero_OscNatService\<lparr>nat_SubregionName := sr\<rparr>)"
  by (induction fds) (auto simp: Let_def)

lemma automatic_GetNatService:
  assumes "automaticNats cs" and "sr \<in> set (cs_GetSubregions cs)"
  shows "cs_GetNatService cs [] sr = Inr (zero_OscNatService\<lparr>nat_SubregionName := sr\<rparr>)"
proof -
  have ne: "[] \<notin> set (cs_GetSubregions cs)" using assms(1) by (simp add: automaticNats_def automatic_def)
  show ?thesis
  proof (cases "length (cs_GetSubregions cs) = 1")
    case True
    then have "cs_GetSubregions cs = [sr]" using assms(2) by (auto simp: length_Suc_conv)
    then show ?thesis by (simp add: cs_GetNatService_def automatic_nats [OF assms(1)])
  next
    case False
    then show ?thesis by (simp add: cs_GetNatService_def automatic_nats [OF assms(1)] find_nat_named [OF ne assms(2)])
  qed
qed

end
