(* ===== verification/Scope_Properties.thy ===== *)
theory Scope_Properties
  imports Scope_Layout Scope_Security Samples
begin

text \<open>
  Properties of the scope of a cluster (\<^verbatim>\<open>cloud/scope/cluster.go\<close>) and of the API types: what the
  generated security groups expose, the layout of the generated network, client tokens, the
  machines of a cluster and default values, each with a concrete instance where it has a hypothesis.
\<close>

section \<open>Facts on the sample inputs\<close>

lemma sample_range: "ParseCIDR ''10.0.0.0/16'' = Some \<lparr>IP = [10, 0, 0, 0], Mask = [255, 255, 0, 0]\<rparr>"
proof -
  have "nat_str 0 = ''0''" "nat_str 10 = ''10''" by code_simp+
  then have "ipv4_str [10, 0, 0, 0] = ''10.0.0.0''" by (simp add: ipv4_str_def)
  then have addr: "ParseAddr ''10.0.0.0'' = Some [10, 0, 0, 0]" using ParseAddr_print [of "[10, 0, 0, 0]"] by simp
  have bits: "dtoi ''16'' = Some 16" by (simp add: dtoi_def is_digit_def digit_val_def)
  show ?thesis by (simp add: ParseCIDR_def addr bits Let_def mask_byte_def)
qed

lemma sample_generated:
  "Subnets (cs_GetNetwork (scope sampleWorld)) = []" "net_IpRange (cs_GetNet (scope sampleWorld)) = ''10.0.0.0/16''"
  "cs_GetSubregions (scope sampleWorld) = [''eu-west-2a'']"
  by (simp_all add: sample_defs cs_GetNetwork_def cs_GetNet_def cs_GetSubregions_def OscNet_IsZero_def zero_OscNet_def DefaultNet_def)

lemma sample_automatic: "automatic (scope sampleWorld)"
  by (simp add: automatic_def sample_generated sample_range)

lemma sample_uids:
  "cs_GetUID (scope sampleWorld) = ''u1''" "cs_GetUID (scope (worldOf sampleClient otherCluster)) = ''u9''"
  by (simp_all add: cs_GetUID_def worldOf_def otherCluster_def sampleCluster_def nmap_entries_def)

section \<open>Security groups\<close>

text \<open>
  C20. What the generated security groups open to the outside. Without security groups in the
  specification, an inbound rule admits a range from outside the net only in the load balancer's
  group on port 6443 and, with a bastion, in the bastion's group on port 22; these ranges are the
  ones of \<open>allowFromIPRanges\<close>, everything when there are none. Additional rules add what they say.
\<close>

theorem generated_groups_exposure:
  assumes "SecurityGroups (cs_GetNetwork cs) = []"
  shows "exposure (cs_GetSecurityGroups cs) \<subseteq>
    {([RoleLoadBalancer], 6443, 6443, r) | r. r \<in> outsideRanges cs} \<union>
    {([RoleBastion], 22, 22, r) | r. bn_Enable (Bastion (cs_GetNetwork cs)) \<and> r \<in> outsideRanges cs} \<union>
    {(roles, from, to, r) | roles from to r. r \<in> insideRanges cs} \<union> additionalExposure cs"
  by (rule generated_exposure [OF assms])

theorem generated_groups_exposure_witness:
  "exposure (cs_GetSecurityGroups (scope (worldOf sampleClient (withNetwork restricted sampleCluster)))) \<subseteq>
    {([RoleLoadBalancer], 6443, 6443, r) | r. r \<in> {''198.51.100.0/24''}} \<union>
    {(roles, from, to, r) | roles from to r. r \<in> insideRanges (scope (worldOf sampleClient (withNetwork restricted sampleCluster)))}"
  using generated_groups_exposure [of "scope (worldOf sampleClient (withNetwork restricted sampleCluster))"]
  by (simp add: sample_defs restricted_def cs_GetNetwork_def outsideRanges_def cs_HasIPRestriction_def additionalExposure_def
      zero_OscBastion_def)

section \<open>The generated network\<close>

text \<open>
  C33. Generated subnets do not share a range: for an IPv4 net and at most 85 subregions the ranges
  of the generated subnets are pairwise different (the third byte wraps at 256).
\<close>

theorem generated_subnets_distinct:
  assumes "Subnets (cs_GetNetwork cs) = []" and "ParseCIDR (net_IpRange (cs_GetNet cs)) = Some net" and "length (IP net) = 4"
    and "length (cs_GetSubregions cs) \<le> 85"
  shows "distinct (map IpSubnetRange (cs_GetSubnets cs))"
  unfolding GetSubnets_generated [OF assms(1,2)] using assms(3,4) ParseCIDR_shape(1) [OF assms(2)]
  by (intro gen_subnets_distinct) (simp_all add: generatedNet_def incr2_def)

theorem generated_subnets_distinct_witness: "distinct (map IpSubnetRange (cs_GetSubnets (scope sampleWorld)))"
  by (rule generated_subnets_distinct [where net = "\<lparr>IP = [10, 0, 0, 0], Mask = [255, 255, 0, 0]\<rparr>"])
    (simp_all add: sample_generated sample_range)

text \<open>
  Generated subnets lie in the net: in a net with a /16 mask, and for at most 84 subregions,
  the range of the generated subnet number \<open>k\<close> parses as the /24 block number \<open>k + 2\<close> of the net.
\<close>

theorem generated_subnets_inside:
  assumes "Subnets (cs_GetNetwork cs) = []" and "ParseCIDR (net_IpRange (cs_GetNet cs)) = Some net" and "Mask net = [255, 255, 0, 0]"
    and "length (cs_GetSubregions cs) \<le> 84" and "k < length (cs_GetSubnets cs)"
  shows "\<exists>a b. take 2 (IP net) = [a, b] \<and>
    ParseCIDR (IpSubnetRange (cs_GetSubnets cs ! k)) = Some \<lparr>IP = [a, b, of_nat (k + 2), 0], Mask = [255, 255, 255, 0]\<rparr>"
proof -
  note len = GetSubnets_length [OF assms(1,2)]
  show ?thesis
    unfolding GetSubnets_generated [OF assms(1,2)]
    by (rule generated_subnets_in_16 [OF assms(2,3)]) (use assms(4,5) len in \<open>auto simp: length_product\<close>)
qed

theorem generated_subnets_inside_witness:
  "\<exists>a b. take 2 [10, 0, 0, 0 :: byte] = [a, b] \<and>
    ParseCIDR (IpSubnetRange (cs_GetSubnets (scope sampleWorld) ! 1)) = Some \<lparr>IP = [a, b, of_nat (1 + 2), 0], Mask = [255, 255, 255, 0]\<rparr>"
proof -
  have "length (cs_GetSubnets (scope sampleWorld)) = 3"
    using GetSubnets_length [of "scope sampleWorld"] by (simp add: sample_generated sample_range)
  then show ?thesis
    using generated_subnets_inside [of "scope sampleWorld" "\<lparr>IP = [10, 0, 0, 0], Mask = [255, 255, 0, 0]\<rparr>" 1]
    by (simp add: sample_generated sample_range)
qed

text \<open>
  \<open>GetSubnet\<close> finds exactly what was asked for. A subnet it returns is one of the cluster's and
  has the requested name, or the requested role in the requested subregion (the default one when
  none is given); it fails, with the error for a missing subnet, exactly when there is none.
\<close>

theorem GetSubnet_correct:
  "case cs_GetSubnet cs name role sr of
     Inr sp \<Rightarrow> sp \<in> set (cs_GetSubnets cs) \<and>
       (name \<noteq> [] \<and> sn_Name sp = name \<or>
        cs_SubnetHasRole cs sp role \<and> cs_GetSubnetSubregion cs sp = (if sr = [] then cs_GetDefaultSubregion cs else sr))
   | Inl e \<Rightarrow> e = ErrNoSubnetFound \<and>
       {sp \<in> set (cs_GetSubnets cs). name \<noteq> [] \<and> sn_Name sp = name \<or>
          cs_SubnetHasRole cs sp role \<and> cs_GetSubnetSubregion cs sp = (if sr = [] then cs_GetDefaultSubregion cs else sr)} = {}"
proof (cases "cs_GetSubnet cs name role sr")
  case (Inl e)
  from find_subnet_complete [THEN iffD1, OF Inl [unfolded cs_GetSubnet_def]] show ?thesis unfolding Inl by auto
next
  case (Inr sp)
  from find_subnet_sound [OF Inr [unfolded cs_GetSubnet_def]] show ?thesis unfolding Inr by auto
qed

text \<open>
  C34. The generated network has a place for everything: for every subregion of the cluster and
  every role (load balancer, bastion, NAT, worker, control plane), \<open>GetSubnet\<close> finds a generated
  subnet with that role in that subregion.
\<close>

theorem generated_network_complete:
  assumes "automatic cs" and "sr \<in> set (cs_GetSubregions cs)" and "role \<in> knownRoles"
  shows "\<exists>sn. cs_GetSubnet cs [] role sr = Inr sn \<and> sn \<in> set (cs_GetSubnets cs) \<and>
    cs_SubnetHasRole cs sn role \<and> cs_GetSubnetSubregion cs sn = sr"
  by (rule automatic_GetSubnet [OF assms])

theorem generated_network_complete_witness:
  "\<exists>sn. cs_GetSubnet (scope sampleWorld) [] RoleControlPlane ''eu-west-2a'' = Inr sn \<and> sn \<in> set (cs_GetSubnets (scope sampleWorld)) \<and>
    cs_SubnetHasRole (scope sampleWorld) sn RoleControlPlane \<and> cs_GetSubnetSubregion (scope sampleWorld) sn = ''eu-west-2a''"
  by (rule generated_network_complete [OF sample_automatic]) (simp_all add: sample_generated knownRoles_def)

text \<open>
  A private route uses the NAT service of its own subregion: in the generated network, with
  the internet enabled, \<open>GetNatService\<close> resolves every subregion of the cluster to the NAT service
  generated for that subregion.
\<close>

theorem nat_of_subregion:
  assumes "automaticNats cs" and "sr \<in> set (cs_GetSubregions cs)"
  shows "cs_GetNatService cs [] sr = Inr (zero_OscNatService\<lparr>nat_SubregionName := sr\<rparr>)"
  by (rule automatic_GetNatService [OF assms])

theorem nat_of_subregion_witness:
  "cs_GetNatService (scope sampleWorld) [] ''eu-west-2a'' = Inr (zero_OscNatService\<lparr>nat_SubregionName := ''eu-west-2a''\<rparr>)"
  by (rule nat_of_subregion)
    (simp_all add: automaticNats_def sample_automatic sample_generated, simp_all add: sample_defs cs_GetNetwork_def cs_IsInternetDisabled_def)

section \<open>Client tokens\<close>

text \<open>
  Client tokens of different clusters differ: for UIDs of the same length, at most 64 bytes (a
  Kubernetes UID has 36), the tokens of NAT services of two clusters, and of their bastions, are
  different whatever the names, although the tokens are cut to 64 bytes.
\<close>

theorem tokens_separate_clusters:
  assumes "length (cs_GetUID cs) = length (cs_GetUID cs')" and "length (cs_GetUID cs) \<le> 64" and "cs_GetUID cs \<noteq> cs_GetUID cs'"
  shows "cs_GetNatServiceClientToken cs ns \<noteq> cs_GetNatServiceClientToken cs' ns' \<and>
    cs_GetBastionClientToken cs \<noteq> cs_GetBastionClientToken cs'"
  using assms nat_token_suffix [of cs ns] nat_token_suffix [of cs' ns'] bastion_token_suffix [of cs] bastion_token_suffix [of cs']
  by (metis append_eq_append_conv)

theorem tokens_separate_clusters_witness:
  "cs_GetNatServiceClientToken (scope sampleWorld) zero_OscNatService \<noteq>
     cs_GetNatServiceClientToken (scope (worldOf sampleClient otherCluster)) zero_OscNatService"
  using tokens_separate_clusters [of "scope sampleWorld" "scope (worldOf sampleClient otherCluster)"]
  by (simp add: sample_uids)

text \<open>
  Client tokens fit the limit of the API: the token of a named NAT service or of a named
  bastion has at most 64 bytes.
\<close>

theorem tokens_bounded:
  assumes "nat_Name ns \<noteq> []" and "bn_Name (Bastion (cs_GetNetwork cs)) \<noteq> []"
  shows "length (cs_GetNatServiceClientToken cs ns) \<le> 64 \<and> length (cs_GetBastionClientToken cs) \<le> 64"
  using assms token_length by (simp add: cs_GetNatServiceClientToken_def cs_GetBastionClientToken_def Let_def)

theorem tokens_bounded_witness:
  "length (cs_GetBastionClientToken (scope (worldOf sampleClient (withNetwork namedBastion sampleCluster)))) \<le> 64"
  using tokens_bounded [of "zero_OscNatService\<lparr>nat_Name := ''n''\<rparr>" "scope (worldOf sampleClient (withNetwork namedBastion sampleCluster))"]
  by (simp add: sample_defs namedBastion_def cs_GetNetwork_def zero_OscNatService_def zero_OscBastion_def)

section \<open>Machines and default values\<close>

text \<open>
  The machines of a cluster: a pair \<open>ListMachines\<close> returns is a machine of the namespace that
  belongs to the cluster and refers to an \<open>OscMachine\<close> by name, with that \<open>OscMachine\<close>.
\<close>

theorem listed_machines_belong:
  assumes "cs_ListMachines E cs = Inr ps" and "(m, oscm) \<in> set ps"
  shows "\<exists>ms oscms. listMachines E (cs_GetNamespace cs) = Inr ms \<and> listOscMachines E (cs_GetNamespace cs) = Inr oscms \<and>
    m \<in> set ms \<and> oscm \<in> set oscms \<and> m_ClusterName m = c_Name (csCluster cs) \<and>
    m_InfraGroupKind m = oscMachineGroupKind \<and> m_InfraName m = om_Name (ma_Meta oscm)"
  by (rule ListMachines_sound [OF assms])

theorem listed_machines_belong_witness:
  "cs_ListMachines machinesEnv (scope sampleWorld) = Inr [(sampleMachine, sampleOscMachine)] \<and>
   m_InfraName sampleMachine = om_Name (ma_Meta sampleOscMachine)"
proof -
  have "cs_ListMachines machinesEnv (scope sampleWorld) = Inr [(sampleMachine, sampleOscMachine)]"
    by (simp add: cs_ListMachines_def machinesEnv_def worldOf_def Let_def sampleMachine_def sampleOscMachine_def List.map_filter_simps)
  with listed_machines_belong [OF this, of sampleMachine sampleOscMachine] show ?thesis by auto
qed

text \<open>
  Default values are stable: applying the defaults of a VM, a bastion or a load balancer a
  second time changes nothing.
\<close>

theorem defaults_idempotent:
  "OscVm_SetDefaultValue (OscVm_SetDefaultValue vm) = OscVm_SetDefaultValue vm \<and>
   OscBastion_SetDefaultValue (OscBastion_SetDefaultValue b) = OscBastion_SetDefaultValue b \<and>
   OscLoadBalancer_SetDefaultValue (OscLoadBalancer_SetDefaultValue lb) = OscLoadBalancer_SetDefaultValue lb"
  by (simp add: OscVm_SetDefaultValue_def OscBastion_SetDefaultValue_def OscLoadBalancer_SetDefaultValue_def
      default_str_def default_int_def Let_def)

section \<open>A limit of the client tokens\<close>

text \<open>
  Within a cluster, tokens of long names collide: two NAT services whose names agree on the
  last bytes that fit in front of the UID get the same client token, so the second one is taken
  for the first.
\<close>

theorem long_names_share_token:
  assumes "length (cs_GetUID cs) < 64"
    and "63 - length (cs_GetUID cs) < length (nat_Name ns)" and "63 - length (cs_GetUID cs) < length (nat_Name ns')"
    and "str_last (63 - length (cs_GetUID cs)) (nat_Name ns) = str_last (63 - length (cs_GetUID cs)) (nat_Name ns')"
  shows "cs_GetNatServiceClientToken cs ns = cs_GetNatServiceClientToken cs ns'"
proof -
  have "nat_Name ns \<noteq> []" "nat_Name ns' \<noteq> []" using assms(2,3) by auto
  then show ?thesis
    using cut_token [OF assms(1,2)] cut_token [OF assms(1,3)] assms(4) by (simp add: cs_GetNatServiceClientToken_def)
qed

theorem long_names_share_token_witness:
  "longNat CHR ''a'' \<noteq> longNat CHR ''b'' \<and>
   cs_GetNatServiceClientToken (scope sampleWorld) (longNat CHR ''a'') = cs_GetNatServiceClientToken (scope sampleWorld) (longNat CHR ''b'')"
  using long_names_share_token [of "scope sampleWorld" "longNat CHR ''a''" "longNat CHR ''b''"]
  by (simp add: sample_uids longNat_def zero_OscNatService_def str_last_def)

end
