(* ===== verification/Az_Balance.thy ===== *)
theory Az_Balance
  imports Multi_Az "HOL-Library.Multiset"
begin

text \<open>
  Correctness of \<^verbatim>\<open>controllers/oscmachine_multiaz.go\<close>: the order in which a map is visited, the choice of a
  subregion with the fewest nodes, and the balance of a deployment over its subregions.
\<close>

section \<open>Orders of a map\<close>

lemma permute_mset: "mset (permute n xs) = mset xs"
proof (induction n xs rule: permute.induct)
  case (1 n xs)
  show ?case
  proof (cases "xs = []")
    case False
    define i where "i = n mod length xs"
    have i: "i < length xs" using False by (simp add: i_def)
    have "mset (permute (n div length xs) (take i xs @ drop (Suc i) xs)) = mset (take i xs @ drop (Suc i) xs)"
      using 1 False i_def by blast
    then have "mset (permute n xs) = add_mset (xs ! i) (mset (take i xs) + mset (drop (Suc i) xs))"
      using False by (subst permute.simps) (simp add: Let_def i_def)
    then show ?thesis using id_take_nth_drop [OF i] by (metis mset.simps(2) mset_append union_mset_add_mset_right)
  qed (simp add: permute.simps)
qed

text \<open>Every order is selected by some die, so that the model covers every iteration of the language.\<close>

lemma permute_reaches: "mset ys = mset xs \<Longrightarrow> \<exists>n. permute n xs = ys"
proof (induction ys arbitrary: xs)
  case Nil
  then show ?case by (simp add: permute.simps)
next
  case (Cons y ys)
  then have "y \<in> set xs" by (metis list.set_intros(1) mset_eq_setD)
  then obtain i where i: "i < length xs" "xs ! i = y" by (auto simp: in_set_conv_nth)
  have "mset (take i xs @ drop (Suc i) xs) = mset ys"
    using Cons.prems id_take_nth_drop [OF i(1)] i(2)
    by (metis add_mset_add_mset_same_iff mset.simps(2) mset_append union_mset_add_mset_right)
  then obtain n where n: "permute n (take i xs @ drop (Suc i) xs) = ys" using Cons.IH by metis
  have "permute (n * length xs + i) xs = y # ys"
    using i n by (subst permute.simps) (auto simp: Let_def)
  then show ?case by blast
qed

section \<open>The subregion with the fewest nodes\<close>

lemma minAZ_least:
  assumes "minAZ xs (az, m) = (k, v)"
  shows "((k, v) \<in> set xs \<or> (k, v) = (az, m)) \<and> v \<le> m \<and> (\<forall>(k', v') \<in> set xs. v \<le> v')"
  using assms by (induction xs "(az, m)" arbitrary: az m rule: minAZ.induct) (force split: if_splits)+

lemma leastAZ_least:
  assumes "xs \<noteq> []" and "\<forall>(k, v) \<in> set xs. v < MaxInt"
  shows "\<exists>v. (leastAZ xs, v) \<in> set xs \<and> (\<forall>(k', v') \<in> set xs. v \<le> v')"
proof -
  obtain k v where run: "minAZ xs ([], MaxInt) = (k, v)" by (cases "minAZ xs ([], MaxInt)")
  obtain k' v' where x: "(k', v') \<in> set xs" using assms(1) by (cases xs) auto
  then have "v \<noteq> MaxInt" using minAZ_least [OF run] assms(2) by fastforce
  then show ?thesis using minAZ_least [OF run] by (auto simp: leastAZ_def run)
qed

section \<open>Balance\<close>

text \<open>The machines of a deployment that are in a subregion.\<close>

definition inAZ :: "MultiAZAllocator \<Rightarrow> NamespacedName list \<Rightarrow> string \<Rightarrow> nat" where
  "inAZ a names z = length (filter (\<lambda>name. azOf a name = z) names)"

definition counts :: "MultiAZAllocator \<Rightarrow> NamespacedName list \<Rightarrow> (string \<times> int) list \<Rightarrow> bool" where
  "counts a names perAZ \<longleftrightarrow> (\<forall>k \<in> dom (map_of perAZ). k \<noteq> [] \<and> map_of perAZ k = Some (int (inAZ a names k)))"

definition assign :: "NamespacedName \<Rightarrow> string \<Rightarrow> MultiAZAllocator \<Rightarrow> MultiAZAllocator" where
  "assign name az a = a\<lparr>azs := AList.update name az (azs a)\<rparr>"

lemma azOf_assign: "azOf (assign name az a) n = (if n = name then az else azOf a n)"
  by (simp add: azOf_def assign_def update_conv')

lemma inAZ_simps:
  "inAZ a (xs @ ys) z = inAZ a xs z + inAZ a ys z" "inAZ a (x # xs) z = (if azOf a x = z then 1 else 0) + inAZ a xs z"
  by (simp_all add: inAZ_def)

lemma inAZ_other: "name \<notin> set xs \<Longrightarrow> inAZ (assign name az a) xs z = inAZ a xs z"
  unfolding inAZ_def azOf_assign by (rule arg_cong [where f = length]) (auto intro: filter_cong)

lemma inAZ_assign:
  assumes "distinct names" "name \<in> set names" "azOf a name = []" "z \<noteq> []"
  shows "inAZ (assign name az a) names z = inAZ a names z + (if z = az then 1 else 0)"
proof -
  obtain ys zs where names: "names = ys @ name # zs" "name \<notin> set ys" "name \<notin> set zs"
    using assms(1,2) by (auto dest!: split_list)
  show ?thesis using assms(3,4) unfolding names(1) by (auto simp: inAZ_simps inAZ_other names(2,3) azOf_assign)
qed

lemma counts_assign:
  assumes "counts a names perAZ" "distinct names" "name \<in> set names" "azOf a name = []" "az \<in> dom (map_of perAZ)"
  shows "counts (assign name az a) names (incrAZ az perAZ)"
  using assms inAZ_assign [OF assms(2-4)]
  by (auto simp: counts_def incrAZ_def update_conv' dom_def split: if_splits)

lemma leastAZ_counts:
  assumes "counts a ms perAZ" "distinct (map fst perAZ)" "perAZ \<noteq> []" "int (length ms) < MaxInt"
  shows "leastAZ (permute d perAZ) \<in> dom (map_of perAZ) \<and>
    (\<forall>k \<in> dom (map_of perAZ). inAZ a ms (leastAZ (permute d perAZ)) \<le> inAZ a ms k)"
proof -
  have set: "set (permute d perAZ) = set perAZ" by (rule mset_eq_setD [OF permute_mset])
  have val: "map_of perAZ k = Some v" "v = int (inAZ a ms k)" if "(k, v) \<in> set perAZ" for k v
  proof -
    show some: "map_of perAZ k = Some v" using assms(2) that by (rule map_of_is_SomeI)
    then show "v = int (inAZ a ms k)" using assms(1) unfolding counts_def by (metis domI option.inject)
  qed
  have "v < MaxInt" if "(k, v) \<in> set perAZ" for k v
  proof -
    have "inAZ a ms k \<le> length ms" by (simp add: inAZ_def)
    then have "int (inAZ a ms k) \<le> int (length ms)" by (rule of_nat_mono)
    then show ?thesis using val(2) [OF that] assms(4) by (simp only:)
  qed
  then have "\<forall>(k, v) \<in> set (permute d perAZ). v < MaxInt" unfolding set by blast
  moreover have "permute d perAZ \<noteq> []" using set assms(3) by (metis set_empty)
  ultimately obtain v where v: "(leastAZ (permute d perAZ), v) \<in> set perAZ" "\<forall>(k', v') \<in> set perAZ. v \<le> v'"
    using leastAZ_least set by metis
  have "inAZ a ms (leastAZ (permute d perAZ)) \<le> inAZ a ms k" if k: "k \<in> dom (map_of perAZ)" for k
  proof -
    obtain w where "map_of perAZ k = Some w" using k by (blast dest: domD)
    then have kw: "(k, w) \<in> set perAZ" by (rule map_of_SomeD)
    then have "v \<le> w" using v(2) by blast
    then show ?thesis using val(2) [OF v(1)] val(2) [OF kw] by simp
  qed
  then show ?thesis using val(1) [OF v(1)] by blast
qed

lemma incrAZ_keys:
  "az \<in> dom (map_of perAZ) \<Longrightarrow> dom (map_of (incrAZ az perAZ)) = dom (map_of perAZ)"
  "distinct (map fst perAZ) \<Longrightarrow> distinct (map fst (incrAZ az perAZ))" "incrAZ az perAZ \<noteq> []"
  by (auto simp: incrAZ_def update_conv' distinct_update)

text \<open>
  The loop over the machines: the counts stay exact, and a machine without subregion gets one
  that holds the fewest machines of the deployment.
\<close>

lemma assignAZs_step:
  assumes "azOf (azAllocator s) name = []"
  shows "\<exists>d n. assignAZs target (name # names) perAZ s =
    (let az = leastAZ (permute d perAZ); u = s\<lparr>drawn := n, azAllocator := assign name az (azAllocator s)\<rparr>
     in if snd name = target then (Ok az, u) else assignAZs target names (incrAZ az perAZ) u)"
  using assms by (intro exI [of _ "dice s (drawn s)"] exI [of _ "Suc (drawn s)"])
    (simp add: bind_run gets_run map_range_def Let_def andThen_run modify_run assign_def ret_run)

lemma assignAZs_spec:
  fixes s :: "('w, 'z) MWorld_scheme"
  assumes "assignAZs target names perAZ s = (Ok az, t)" and "counts (azAllocator s) ms perAZ" and "distinct ms" "set names \<subseteq> set ms"
    and "distinct (map fst perAZ)" "perAZ \<noteq> []" "int (length ms) < MaxInt"
  shows "\<exists>name \<in> set names. snd name = target \<and> azOf (azAllocator t) name = az \<and>
    (azOf (azAllocator s) name = [] \<longrightarrow> az \<in> dom (map_of perAZ) \<and>
      (\<forall>k \<in> dom (map_of perAZ). inAZ (azAllocator t) ms az \<le> inAZ (azAllocator t) ms k + 1))"
  using assms
proof (induction names arbitrary: s perAZ)
  case Nil
  then show ?case by (simp add: raise_run)
next
  case (Cons name names)
  have mem: "name \<in> set ms" "set names \<subseteq> set ms" using Cons.prems(4) by auto
  show ?case
  proof (cases "azOf (azAllocator s) name = []")
    case False
    then have "if snd name = target then (az, t) = (azOf (azAllocator s) name, s) else assignAZs target names perAZ s = (Ok az, t)"
      using Cons.prems(1) by (auto simp: bind_run gets_run ret_run split: if_splits)
    then show ?thesis using False Cons.IH [OF _ Cons.prems(2,3) mem(2) Cons.prems(5-7)] by (auto split: if_splits)
  next
    case True
    obtain d n where run: "assignAZs target (name # names) perAZ s =
        (let az = leastAZ (permute d perAZ); u = s\<lparr>drawn := n, azAllocator := assign name az (azAllocator s)\<rparr>
         in if snd name = target then (Ok az, u) else assignAZs target names (incrAZ az perAZ) u)"
      using assignAZs_step [OF True] by blast
    define z where "z = leastAZ (permute d perAZ)"
    define u where "u = s\<lparr>drawn := n, azAllocator := assign name z (azAllocator s)\<rparr>"
    have z: "z \<in> dom (map_of perAZ)" "\<And>k. k \<in> dom (map_of perAZ) \<Longrightarrow> inAZ (azAllocator s) ms z \<le> inAZ (azAllocator s) ms k"
      using leastAZ_counts [OF Cons.prems(2,5-7), of d] by (auto simp: z_def)
    have keys: "k \<noteq> []" if "k \<in> dom (map_of perAZ)" for k using that Cons.prems(2) by (auto simp: counts_def)
    have after: "inAZ (azAllocator u) ms k = inAZ (azAllocator s) ms k + (if k = z then 1 else 0)" if "k \<in> dom (map_of perAZ)" for k
      using inAZ_assign [OF Cons.prems(3) mem(1) True keys [OF that]] by (simp add: u_def)
    show ?thesis
    proof (cases "snd name = target")
      case True
      then have "az = z" "t = u" using Cons.prems(1) unfolding run by (auto simp: Let_def z_def u_def)
      then show ?thesis using True z after by (intro bexI [of _ name]) (auto simp: u_def azOf_assign)
    next
      case False
      then have rest: "assignAZs target names (incrAZ z perAZ) u = (Ok az, t)"
        using Cons.prems(1) unfolding run by (simp add: Let_def z_def u_def)
      have cnt: "counts (azAllocator u) ms (incrAZ z perAZ)"
        using counts_assign [OF Cons.prems(2,3) mem(1) \<open>azOf (azAllocator s) name = []\<close> z(1)] by (simp add: u_def)
      have "azOf (azAllocator u) n' = azOf (azAllocator s) n'" if "snd n' = target" for n'
        using that False by (auto simp: u_def azOf_assign)
      then show ?thesis
        using Cons.IH [OF rest cnt Cons.prems(3) mem(2) incrAZ_keys(2) [OF Cons.prems(5)] incrAZ_keys(3) Cons.prems(7)]
        by (auto simp: incrAZ_keys(1) [OF z(1)])
    qed
  qed
qed

section \<open>Allocation\<close>

definition recorded :: "(string \<times> int) list \<Rightarrow> string \<Rightarrow> int" where
  "recorded perAZ k = (case map_of perAZ k of None \<Rightarrow> 0 | Some v \<Rightarrow> v)"

lemma initialCounts_loop:
  assumes "k \<noteq> []"
  shows "map_of (fold (\<lambda>name perAZ. if azOf a name \<noteq> [] then incrAZ (azOf a name) perAZ else perAZ) names perAZ) k =
    (if k \<in> dom (map_of perAZ) \<or> 0 < inAZ a names k then Some (recorded perAZ k + int (inAZ a names k)) else None)"
proof (induction names arbitrary: perAZ)
  case Nil
  then show ?case by (auto simp: inAZ_def recorded_def)
next
  case (Cons name names)
  show ?case using assms Cons.IH by (auto simp: inAZ_simps incrAZ_def update_conv' recorded_def split: option.splits)
qed

lemma zero_counts: "map_of (fold (\<lambda>az m. AList.update az (0::int) m) azlist p) k = (if k \<in> set azlist then Some 0 else map_of p k)"
  by (induction azlist arbitrary: p) (auto simp: update_conv')

lemma distinct_counts:
  "distinct (map fst p) \<Longrightarrow> distinct (map fst (fold (\<lambda>az m. AList.update az (0::int) m) azlist p))"
  "distinct (map fst p) \<Longrightarrow> distinct (map fst (fold (\<lambda>name q. if azOf a name \<noteq> [] then incrAZ (azOf a name) q else q) names p))"
  by (induction azlist arbitrary: p; simp add: distinct_update)
    (induction names arbitrary: p; simp add: incrAZ_keys(2))

lemma initialCounts_spec:
  assumes "[] \<notin> set azlist"
  shows "counts a names (initialCounts a names azlist)" "distinct (map fst (initialCounts a names azlist))"
    "set azlist \<subseteq> dom (map_of (initialCounts a names azlist))"
proof -
  have keys: "map_of (initialCounts a names azlist) k =
      (if k \<in> set azlist \<or> 0 < inAZ a names k then Some (int (inAZ a names k)) else None)" if "k \<noteq> []" for k
    using initialCounts_loop [OF that] by (simp add: initialCounts_def zero_counts recorded_def dom_def)
  have "map_of (fold (\<lambda>name q. if azOf a name \<noteq> [] then incrAZ (azOf a name) q else q) names q) [] = map_of q []" for q
    by (induction names arbitrary: q) (auto simp: incrAZ_def update_conv')
  then have none: "map_of (initialCounts a names azlist) [] = None" using assms by (simp add: initialCounts_def zero_counts)
  show "counts a names (initialCounts a names azlist)" unfolding counts_def
  proof
    fix k
    assume k: "k \<in> dom (map_of (initialCounts a names azlist))"
    then have "k \<noteq> []" using none by (auto simp: dom_def)
    then show "k \<noteq> [] \<and> map_of (initialCounts a names azlist) k = Some (int (inAZ a names k))"
      using k keys by (auto simp: dom_def split: if_splits)
  qed
  show "set azlist \<subseteq> dom (map_of (initialCounts a names azlist))" 
  proof
    fix k
    assume "k \<in> set azlist"
    moreover from this have "k \<noteq> []" using assms by auto
    ultimately show "k \<in> dom (map_of (initialCounts a names azlist))" using keys by (simp add: dom_def)
  qed
  show "distinct (map fst (initialCounts a names azlist))" unfolding initialCounts_def by (intro distinct_counts) simp
qed

text \<open>\<open>allocateAZ\<close> puts a machine without subregion where the deployment has the fewest machines.\<close>

lemma allocateAZ_least:
  fixes s :: "('w, 'z) MWorld_scheme"
  assumes "allocateAZ m azlist s = (Ok az, t)" and "az_deployment m = Inr deploy"
    and "[] \<notin> set azlist" "azlist \<noteq> []" and "distinct (members (azAllocator s) deploy)" "int (length (members (azAllocator s) deploy)) < MaxInt"
    and "\<forall>name \<in> set (members (azAllocator s) deploy). snd name = om_Name (ma_Meta m) \<longrightarrow> azOf (azAllocator s) name = []"
  shows "\<forall>z \<in> set azlist. inAZ (azAllocator t) (members (azAllocator s) deploy) az
    \<le> inAZ (azAllocator t) (members (azAllocator s) deploy) z + 1"
proof -
  let ?ms = "members (azAllocator s) deploy" let ?c = "initialCounts (azAllocator s) ?ms azlist"
  have run: "assignAZs (om_Name (ma_Meta m)) ?ms ?c s = (Ok az, t)"
    using assms(1,2) by (simp add: allocateAZ_def bind_run wrap_run lift_run gets_run)
  have ne: "?c \<noteq> []" using initialCounts_spec(3) [OF assms(3), of "azAllocator s" ?ms] assms(4) by auto
  show ?thesis
    using assignAZs_spec [OF run initialCounts_spec(1) [OF assms(3)] assms(5) subset_refl initialCounts_spec(2) [OF assms(3)] ne assms(6)]
      assms(7) initialCounts_spec(3) [OF assms(3), of "azAllocator s" ?ms] by blast
qed

end
