(* ===== verification/Machine_Samples.thy ===== *)
theory Machine_Samples
  imports Samples Machine_Runs Az_Balance
begin

text \<open>
  Concrete inputs for the witnesses of the properties of the machine controller: a machine of the
  sample cluster, clouds in which its VM runs, is missing or waits, and allocators.
\<close>

definition runningVm :: osc_Vm where
  "runningVm = sampleVm\<lparr>o_VmState := VmStateRunning, o_PrivateDnsName := Some ''ip-10-0-2-4''\<rparr>"

definition runningClient :: "unit Client" where
  "runningClient = sampleClient\<lparr>sdkVms := (\<lambda>_ w. (Inr [runningVm], w))\<rparr>"

definition withMachine :: "OscMachine \<Rightarrow> CapiMachine \<Rightarrow> unit World \<Rightarrow> unit MWorld" where
  "withMachine om m w = World.extend w (MWorld.fields
     \<lparr>msCluster = csCluster (scope w), msMachine = m, msOscMachine = om\<rparr> \<lparr>deployments = [], azs = []\<rparr> [])"

definition machineWorld :: "unit Client \<Rightarrow> OscMachine \<Rightarrow> unit MWorld" where
  "machineWorld client om = withMachine om sampleMachine (worldOf client sampleCluster)"

definition onVm :: "(OscVm \<Rightarrow> OscVm) \<Rightarrow> OscMachine \<Rightarrow> OscMachine" where
  "onVm f m = m\<lparr>ma_Spec := (ma_Spec m)\<lparr>Node := (Node (ma_Spec m))\<lparr>Vm := f (Vm (Node (ma_Spec m)))\<rparr>\<rparr>\<rparr>"

definition pooledMachine :: OscMachine where
  "pooledMachine = onVm (\<lambda>vm. vm\<lparr>PublicIpPool := ''pool''\<rparr>) sampleOscMachine"

definition controlPlane :: CapiMachine where
  "controlPlane = sampleMachine\<lparr>m_Labels := Some [(''cluster.x-k8s.io/control-plane'', [])]\<rparr>"

text \<open>A worker of a deployment, and an allocator that knows it and another worker.\<close>

definition worker :: OscMachine where
  "worker = sampleOscMachine\<lparr>ma_Meta := (ma_Meta sampleOscMachine)\<lparr>Labels := Some [(MachineDeploymentNameLabel, ''md'')]\<rparr>\<rparr>"

definition twoWorkers :: "string \<Rightarrow> MultiAZAllocator" where
  "twoWorkers az = \<lparr>deployments = [((''default'', ''md''), [(''default'', ''m0''), (''default'', ''m1'')])],
     azs = [((''default'', ''m0''), az), ((''default'', ''m1''), [])]\<rparr>"

lemmas machine_sample_defs = machineWorld_def withMachine_def World.defs MWorld.defs worldOf_def

text \<open>A run that finds the VM running.\<close>

lemma sample_need: "ms_NeedReconciliation ReconcilerVm (machineWorld client sampleOscMachine) = (Ok True, machineWorld client sampleOscMachine)"
  by (simp add: ms_NeedReconciliation_def bind_run gets_run ret_run machine_sample_defs sampleOscMachine_def)

lemma sample_getVm: "\<exists>u. getVm (machineWorld runningClient sampleOscMachine) = (Ok runningVm, u)"
  by (simp add: getVm_def getVmOrId_def bind_run gets_run ret_run wrap_run svc_GetVmFromClientToken_def sdk_run runningClient_def first_of_def
     machine_sample_defs sampleOscMachine_def ms_GetVm_def ms_GetNode_def sampleVmSpec_def getResource_def ms_GetResources_def nmap_get_def
     foundVm_def andThen_run runningVm_def sampleVm_def trackVm_def setVmId_def setVolumeIds_def modify_run)

definition sampleFound :: "unit MWorld" where
  "sampleFound = upd_MStatus (\<lambda>st. st\<lparr>ma_VmState := Some VmStateRunning\<rparr>) (snd (getVm (machineWorld runningClient sampleOscMachine)))"

lemma sampleFound_run:
  "reconcileVm sampleEnv (machineWorld runningClient sampleOscMachine) = settleVm sampleEnv runningVm None sampleFound"
proof -
  obtain u where u: "getVm (machineWorld runningClient sampleOscMachine) = (Ok runningVm, u)" using sample_getVm by blast
  have "vm_FGPU (ms_GetVm (mscope (machineWorld runningClient sampleOscMachine))) = None"
    by (simp add: machine_sample_defs sampleOscMachine_def ms_GetVm_def ms_GetNode_def sampleVmSpec_def)
  then show ?thesis
    by (simp add: reconcileVm_def ensureVm_def findExisting_def bind_run sample_need gets_run ret_run handle_run u andThen_run
        ms_SetVmState_def modify_run sampleFound_def runningVm_def)
qed

lemma sampleFound_view: "machine_view sampleFound = machine_view (machineWorld runningClient sampleOscMachine)"
  using keepsD [OF mv.obs_machine_lookups(1) prod.collapse [symmetric], of "machineWorld runningClient sampleOscMachine"]
  by (simp add: sampleFound_def preserves_def mv.obs_status)

lemma sampleFound_tenant: "tn_Client (tenantOf sampleFound) = runningClient" "unbalanced (machine_view sampleFound)"
proof -
  show "tn_Client (tenantOf sampleFound) = runningClient"
    using sampleFound_view by (simp add: machine_view_def spec_view_def machine_sample_defs)
  show "unbalanced (machine_view sampleFound)" unfolding sampleFound_view
    by (simp add: machine_view_def spec_view_def machine_sample_defs sampleOscMachine_def ms_GetNode_def sampleVmSpec_def GetRole_def)
qed

lemma sample_finishes: "fst (settleVm sampleEnv runningVm None sampleFound) = Ok 0 \<and> mready (snd (settleVm sampleEnv runningVm None sampleFound))"
proof -
  have "settleVm sampleEnv runningVm None sampleFound = vmRunning sampleEnv runningVm sampleFound"
    using settleVm_refines [of sampleEnv runningVm None sampleFound] by (simp add: vm_action_def runningVm_def)
  moreover have "linkControlPlane runningVm (upd_MStatus (\<lambda>st. st\<lparr>ma_Ready := True\<rparr>) sampleFound) =
      (Ok (), upd_MStatus (\<lambda>st. st\<lparr>ma_Ready := True\<rparr>) sampleFound)"
    using sampleFound_tenant(2) by (intro linkControlPlane_quiet) (simp only: mv.obs_status)
  moreover have "csTenant (scope sampleFound) = \<lparr>tn_Region = ''eu-west-2'', tn_Client = runningClient\<rparr>"
    using sampleFound_view by (simp add: machine_view_def spec_view_def machine_sample_defs)
  ultimately show ?thesis
    by (simp add: vmRunning_def andThen_run ms_SetReady_def modify_run runningVm_def bind_run gets_run whenM_def HasCCMTags_def
      svc_AddCCMTags_def svc_AddTag_def wrap_run sdk_run runningClient_def sampleClient_def sampleEnv_def sampleVm_def
      ms_SetAddresses_def ms_SetFailureDomain_def upd_MStatus_def ms_SetReconciliationGeneration_def ret_run mready_def)
qed

text \<open>A deployment whose former subregion holds fewer machines than the requested ones.\<close>

definition movedWorkers :: MultiAZAllocator where
  "movedWorkers = \<lparr>deployments = [((''default'', ''md''), map (\<lambda>n. (''default'', n)) [''w1'', ''w2'', ''w3'', ''w4'', ''w5'', ''m1''])],
     azs = [((''default'', ''w1''), ''b''), ((''default'', ''w2''), ''c''), ((''default'', ''w3''), ''b''), ((''default'', ''w4''), ''c''),
       ((''default'', ''w5''), ''a''), ((''default'', ''m1''), [])]\<rparr>"

lemma sample_allocation:
  "fst (allocateAZ worker [''b'', ''c''] ((machineWorld sampleClient worker)\<lparr>azAllocator := twoWorkers ''b''\<rparr>)) = Ok ''c''"
  by code_simp

end
