(* ===== verification/Vm_Progress.thy ===== *)
theory Vm_Progress
  imports Machine_Samples
begin

text \<open>
  Termination of the repeated runs of \<^verbatim>\<open>reconcileVm\<close> (\<^verbatim>\<open>controllers/oscmachine_vm.go\<close>): every run but the
  last asks for another one, and with a cloud that does its part the sequence of runs reaches the
  run that finds the VM running. The cloud is a step relation on what a run reads, the VM and its
  GPU; two of its steps need a request, which the run has to have issued.
\<close>

section \<open>Descending sequences\<close>

text \<open>A sequence that repeats its value or goes down, and does not stay where it is not done.\<close>

lemma descent_le:
  fixes rank :: "'p \<Rightarrow> nat"
  assumes "\<And>n. p (Suc n) = p n \<or> rank (p (Suc n)) < rank (p n)"
  shows "p (n + k) = p n \<or> rank (p (n + k)) < rank (p n)"
proof (induction k)
  case (Suc k)
  then show ?case using assms [of "n + k"] by auto
qed simp

lemma descent_terminates:
  fixes rank :: "'p \<Rightarrow> nat"
  assumes step: "\<And>n. p (Suc n) = p n \<or> rank (p (Suc n)) < rank (p n)"
    and moves: "\<And>n. \<not> done (p n) \<Longrightarrow> \<exists>m\<ge>n. p m \<noteq> p n"
  shows "\<exists>m\<ge>n. done (p m)"
proof (induction "rank (p n)" arbitrary: n rule: less_induct)
  case less
  show ?case
  proof (cases "done (p n)")
    case False
    then obtain m where m: "m \<ge> n" "p m \<noteq> p n" using moves by blast
    then have "rank (p m) < rank (p n)" using descent_le [of p rank n "m - n", OF step] by simp
    then obtain l where "l \<ge> m" "done (p l)" using less by blast
    then show ?thesis using m(1) le_trans by blast
  qed blast
qed

lemma descent_changes:
  fixes rank :: "'p \<Rightarrow> nat"
  assumes "\<And>n. p (Suc n) = p n \<or> rank (p (Suc n)) < rank (p n)"
  shows "card {m. m < n \<and> p (Suc m) \<noteq> p m} + rank (p n) \<le> rank (p 0)"
proof (induction n)
  case (Suc n)
  have "{m. m < Suc n \<and> p (Suc m) \<noteq> p m} = {m. m < n \<and> p (Suc m) \<noteq> p m} \<union> (if p (Suc n) \<noteq> p n then {n} else {})"
    by (auto simp: less_Suc_eq)
  then have "card {m. m < Suc n \<and> p (Suc m) \<noteq> p m} = card {m. m < n \<and> p (Suc m) \<noteq> p m} + (if p (Suc n) \<noteq> p n then 1 else 0)"
    by simp
  then show ?case using Suc.IH assms [of n] by (auto split: if_splits)
qed simp

section \<open>A run before and after it knows the VM\<close>

text \<open>The part of \<open>reconcileVm\<close> that finds or creates the VM and its GPU.\<close>

definition knownVm :: "'w Env \<Rightarrow> ('w, 'z, (osc_Vm \<times> osc_FlexibleGpu option) option) MOp" where
  "knownVm E =
     bind (ms_NeedReconciliation ReconcilerVm) (\<lambda>need.
     if \<not> need then ret None
     else bind (gets mscope) (\<lambda>ms.
       bind (if vm_FGPU (ms_GetVm ms) \<noteq> None then findExisting [] True getFGPU else ret None) (\<lambda>fgpu.
       bind (ensureVm E fgpu) (\<lambda>r. ret (Some r)))))"

lemma reconcileVm_known:
  assumes "knownVm E s = (Ok (Some (vm, fgpu)), t)"
  shows "reconcileVm E s = settleVm E vm fgpu t"
  using assms
  by (auto simp: knownVm_def reconcileVm_def bind_run gets_run ret_run split: prod.splits outcome.splits if_splits)

text \<open>The requests an operation issues.\<close>

definition issued :: "('w, 'z, 'a) MOp \<Rightarrow> ('w, 'z) MWorld_scheme \<Rightarrow> osc_request list" where
  "issued m s = drop (length (calls s)) (calls (snd (m s)))"

section \<open>The cloud\<close>

abbreviation VmStatePending :: string where "VmStatePending \<equiv> ''pending''"
abbreviation FlexibleGpuStateAttaching :: string where "FlexibleGpuStateAttaching \<equiv> ''attaching''"

type_synonym Sight = "osc_Vm \<times> osc_FlexibleGpu option"

definition phase :: "Sight \<Rightarrow> string \<times> string option" where
  "phase p = (o_VmState (fst p), map_option o_FlexibleGpuState (snd p))"

text \<open>No GPU is awaited.\<close>

definition gpu_ready :: "string option \<Rightarrow> bool" where
  "gpu_ready g \<longleftrightarrow> g = None \<or> g = Some FlexibleGpuStateAttached"

text \<open>
  The steps the Outscale API documents, between two readings: a requested link attaches the GPU, a
  requested start starts the VM, and what is under way comes to its end. A VM created for a GPU does
  not boot (\<^verbatim>\<open>BootOnCreation\<close> is false), so its creation ends in the state stopped.
\<close>

inductive cloud_step :: "osc_request list \<Rightarrow> Sight \<Rightarrow> Sight \<Rightarrow> bool" for reqs where
  linked: "LinkFlexibleGpuRequest (o_FlexibleGpuId g) (o_VmId vm) \<in> set reqs \<Longrightarrow>
    phase (vm, Some g) = (VmStateStopped, Some FlexibleGpuStateAllocated) \<Longrightarrow>
    phase q \<in> {(VmStateStopped, Some FlexibleGpuStateAttaching), (VmStateStopped, Some FlexibleGpuStateAttached)} \<Longrightarrow>
    cloud_step reqs (vm, Some g) q"
| attached: "phase p = (v, Some FlexibleGpuStateAttaching) \<Longrightarrow> phase q = (v, Some FlexibleGpuStateAttached) \<Longrightarrow>
    cloud_step reqs p q"
| created_stopped: "phase p = (VmStatePending, g) \<Longrightarrow> \<not> gpu_ready g \<Longrightarrow> phase q = (VmStateStopped, g) \<Longrightarrow> cloud_step reqs p q"
| started: "StartVmsRequest [o_VmId (fst p)] \<in> set reqs \<Longrightarrow> phase p = (VmStateStopped, g) \<Longrightarrow>
    phase q \<in> {(VmStatePending, g), (VmStateRunning, g)} \<Longrightarrow> cloud_step reqs p q"
| booted: "phase p = (VmStatePending, g) \<Longrightarrow> gpu_ready g \<Longrightarrow> phase q = (VmStateRunning, g) \<Longrightarrow> cloud_step reqs p q"

text \<open>The phases of a VM on its way, and how far each is from the end.\<close>

definition on_its_way :: "string \<times> string option \<Rightarrow> bool" where
  "on_its_way p \<longleftrightarrow> (case p of (v, g) \<Rightarrow>
     v \<in> {VmStatePending, VmStateStopped, VmStateRunning} \<and>
     (gpu_ready g \<or> v \<noteq> VmStateRunning \<and> g \<in> {Some FlexibleGpuStateAllocated, Some FlexibleGpuStateAttaching}))"

definition arrived :: "string \<times> string option \<Rightarrow> bool" where
  "arrived p \<longleftrightarrow> fst p = VmStateRunning \<and> gpu_ready (snd p)"

definition remaining :: "string \<times> string option \<Rightarrow> nat" where
  "remaining p = (case p of (v, g) \<Rightarrow>
     if gpu_ready g then (if v = VmStateRunning then 0 else if v = VmStatePending then 1 else 2)
     else (if v = VmStateStopped then 3 else 4) + (if g = Some FlexibleGpuStateAllocated then 1 else 0))"

lemmas phase_defs = on_its_way_def arrived_def remaining_def gpu_ready_def

lemma remaining_le: "on_its_way p \<Longrightarrow> remaining p \<le> 5"
  by (auto simp: phase_defs split: prod.splits if_splits)

section \<open>A run and the cloud together\<close>

text \<open>What a run asks for, from the refinement of the life cycle.\<close>

lemma settle_requests:
  "issued (settleVm E vm fgpu) s =
     (case vm_action fgpu (o_VmState vm) of
        Wait \<Rightarrow> [] | LinkGpu g \<Rightarrow> [LinkFlexibleGpuRequest g (o_VmId vm)] | StartVm \<Rightarrow> [StartVmsRequest [o_VmId vm]]
      | Finish \<Rightarrow> issued (vmRunning E vm) s)"
  using settleVm_refines [of E vm fgpu s] by (auto simp: issued_def split: VmAction.splits)

lemma vm_action_phase:
  "vm_action fgpu (o_VmState vm) = StartVm \<longleftrightarrow> o_VmState vm = VmStateStopped \<and> gpu_ready (snd (phase (vm, fgpu)))"
  "vm_action fgpu (o_VmState vm) = Finish \<longleftrightarrow> arrived (phase (vm, fgpu))"
  by (auto simp: vm_action_def phase_def arrived_def gpu_ready_def Let_def split: option.splits if_splits)

lemma cloud_step_descends:
  assumes "cloud_step (issued (settleVm E (fst p) (snd p)) s) p q" and "on_its_way (phase p)"
  shows "on_its_way (phase q) \<and> remaining (phase q) < remaining (phase p)"
  using assms
proof cases
  case (started g)
  have "vm_action (snd p) (o_VmState (fst p)) \<noteq> Finish" using started(2) vm_action_phase(2) [of "snd p" "fst p"] by (simp add: arrived_def)
  then have "vm_action (snd p) (o_VmState (fst p)) = StartVm"
    using started(1) by (simp add: settle_requests split: VmAction.splits)
  then have "gpu_ready g" using vm_action_phase(1) [of "snd p" "fst p"] started(2) by simp
  then show ?thesis using started(2,3) by (auto simp: phase_defs)
qed (use assms(2) in \<open>auto simp: phase_defs split: if_splits\<close>)

text \<open>Until the VM runs, the cloud has a step to take, given what the run has asked for.\<close>

lemma cloud_enabled:
  assumes "on_its_way (phase (vm, fgpu))" and "\<not> arrived (phase (vm, fgpu))"
  shows "\<exists>q. cloud_step (issued (settleVm E vm fgpu) s) (vm, fgpu) q"
proof -
  let ?q = "\<lambda>v. (vm\<lparr>o_VmState := v\<rparr>, fgpu)"
  let ?g = "(vm, map_option (o_FlexibleGpuState_update (\<lambda>_. FlexibleGpuStateAttached)) fgpu)"
  consider (pending) "o_VmState vm = VmStatePending" | (attaching) "snd (phase (vm, fgpu)) = Some FlexibleGpuStateAttaching"
    | (start) "o_VmState vm = VmStateStopped" "gpu_ready (snd (phase (vm, fgpu)))"
    | (link) g where "fgpu = Some g" "o_VmState vm = VmStateStopped" "o_FlexibleGpuState g = FlexibleGpuStateAllocated"
    using assms by (cases fgpu) (auto simp: phase_defs phase_def)
  then show ?thesis
  proof cases
    case pending
    show ?thesis
    proof (cases "gpu_ready (snd (phase (vm, fgpu)))")
      case True
      then show ?thesis using pending cloud_step.booted [of "(vm, fgpu)" _ "?q VmStateRunning"] by (auto simp: phase_def)
    next
      case False
      then show ?thesis using pending cloud_step.created_stopped [of "(vm, fgpu)" _ "?q VmStateStopped"] by (auto simp: phase_def)
    qed
  next
    case attaching
    then have "phase (vm, fgpu) = (o_VmState vm, Some FlexibleGpuStateAttaching)" "phase ?g = (o_VmState vm, Some FlexibleGpuStateAttached)"
      by (auto simp: phase_def)
    then have "cloud_step (issued (settleVm E vm fgpu) s) (vm, fgpu) ?g" by (rule cloud_step.attached)
    then show ?thesis by blast
  next
    case start
    then have "issued (settleVm E vm fgpu) s = [StartVmsRequest [o_VmId vm]]"
      using vm_action_phase(1) [of fgpu vm] by (simp add: settle_requests)
    then have "cloud_step (issued (settleVm E vm fgpu) s) (vm, fgpu) (?q VmStateRunning)"
      using start by (intro cloud_step.started) (simp_all add: phase_def)
    then show ?thesis by blast
  next
    case link
    then have "issued (settleVm E vm fgpu) s = [LinkFlexibleGpuRequest (o_FlexibleGpuId g) (o_VmId vm)]"
      by (simp add: settle_requests vm_action_def)
    then have "cloud_step (issued (settleVm E vm fgpu) s) (vm, fgpu) ?g"
      unfolding link(1) using link by (intro cloud_step.linked) (simp_all add: phase_def)
    then show ?thesis by blast
  qed
qed

lemma unfinished_run:
  assumes "\<not> arrived (phase (vm, fgpu))"
  shows "case fst (settleVm E vm fgpu s) of Ok n \<Rightarrow> n = 30 | Err e \<Rightarrow> True | Panic \<Rightarrow> False"
  using assms settleVm_refines [of E vm fgpu s] vm_action_phase(2) [of fgpu vm]
  by (cases "vm_action fgpu (o_VmState vm)") auto

lemma finished_run: "arrived (phase (vm, fgpu)) \<Longrightarrow> settleVm E vm fgpu s = vmRunning E vm s"
  using settleVm_refines [of E vm fgpu s] vm_action_phase(2) [of fgpu vm] by simp

section \<open>The result of a run\<close>

text \<open>A run of \<open>reconcileVm\<close> is a run of its first part, followed by \<open>settleVm\<close> when the VM is known.\<close>

lemma reconcileVm_unknown:
  "knownVm E s = (Ok None, u) \<Longrightarrow> reconcileVm E s = (Ok 0, u) \<and> fst (ms_NeedReconciliation ReconcilerVm s) = Ok False"
  "knownVm E s = (Err e, u) \<Longrightarrow> reconcileVm E s = (Err e, u)" "knownVm E s = (Panic, u) \<Longrightarrow> reconcileVm E s = (Panic, u)"
  by (auto simp: knownVm_def reconcileVm_def bind_run gets_run ret_run split: prod.splits outcome.splits if_splits)

lemma knownVm_ready: "keeps (preserves mready) (knownVm E)"
  unfolding knownVm_def by (intro frame_rules obs_rules)

lemma knownVm_records: "knownVm E s = (Ok (Some (vm, fgpu)), u) \<Longrightarrow> records_vm vm u"
  by (auto simp: knownVm_def ok_simps split: if_splits dest!: wpD [OF ensureVm_records])

lemma unfinished_scope:
  assumes "\<not> arrived (phase (vm, fgpu))"
  shows "mscope (snd (settleVm E vm fgpu s)) = mscope s"
  using assms settleVm_refines [of E vm fgpu s] vm_action_phase(2) [of fgpu vm]
  by (cases "vm_action fgpu (o_VmState vm)") auto

lemma mready_after: "keeps (preserves mready) (ms_SetAddresses as)" "keeps (preserves mready) (ms_SetFailureDomain fd)"
  "keeps (preserves mready) (ms_SetReconciliationGeneration rc)"
  by (auto simp: keeps_def preserves_def mready_def ms_SetAddresses_def ms_SetFailureDomain_def ms_SetReconciliationGeneration_def run_simps
      upd_MStatus_def upd_OscMachine_def)

lemma vmRunning_ready: "mready (snd (vmRunning E vm s))"
proof -
  have "\<exists>k :: ('a, 'b, nat) MOp. vmRunning E vm s = andThen ms_SetReady k s \<and> keeps (preserves mready) k"
    unfolding vmRunning_def by (intro exI conjI, rule refl, unfold net_service_defs compute_service_defs, intro frame_rules obs_rules mready_after)
  then obtain k :: "('a, 'b, nat) MOp" where k: "vmRunning E vm s = andThen ms_SetReady k s" "keeps (preserves mready) k" by blast
  obtain u where u: "ms_SetReady s = (Ok (), u)" "mready u"
    by (auto simp: ms_SetReady_def run_simps mready_def upd_MStatus_def upd_OscMachine_def)
  obtain r t where t: "k u = (r, t)" by (cases "k u")
  show ?thesis using keepsD [OF k(2) t] u by (simp add: k(1) t run_simps preserves_def)
qed

text \<open>Operations that never panic.\<close>

definition calm :: "('s, 'a) M \<Rightarrow> bool" where
  "calm m \<longleftrightarrow> (\<forall>s. fst (m s) \<noteq> Panic)"

lemma calm_rules:
  "calm (ret x)" "calm (raise e)" "calm (gets f)" "calm (modify g)" "calm (sdk q t req)"
  "calm m \<Longrightarrow> (\<And>x. calm (k x)) \<Longrightarrow> calm (bind m k)" "calm m \<Longrightarrow> calm k' \<Longrightarrow> calm (andThen m k')"
  "calm m \<Longrightarrow> calm (wrap pre m)" "calm m' \<Longrightarrow> calm (whenM c m')"
  "calm n \<Longrightarrow> (\<And>y. calm (n' y)) \<Longrightarrow> calm (case z of None \<Rightarrow> n | Some y \<Rightarrow> n' y)"
  by (auto simp: calm_def whenM_def run_simps split: prod.splits sum.splits option.splits outcome.splits) (metis fst_conv)+

lemma vmRunning_calm: "calm (vmRunning E vm)"
  unfolding vmRunning_def linkControlPlane_def ms_SetReady_def ms_SetAddresses_def ms_SetFailureDomain_def ms_SetReconciliationGeneration_def
    Let_def net_service_defs compute_service_defs
  by (intro calm_rules)

text \<open>The machine can be finished: the VM runs and no GPU is awaited.\<close>

lemma arrived_phase:
  "arrived (phase (vm, fgpu)) \<longleftrightarrow> o_VmState vm = VmStateRunning \<and>
     (case fgpu of None \<Rightarrow> True | Some g \<Rightarrow> o_FlexibleGpuState g = FlexibleGpuStateAttached)"
  by (auto simp: arrived_def phase_def gpu_ready_def split: option.splits)

section \<open>Termination\<close>

text \<open>
  A history of runs: the n-th run starts in the world \<open>w n\<close>, reads \<open>p n\<close> and goes on in the world
  \<open>v n\<close>. Between two runs the cloud rests or takes a step. It is just: a step that stays possible in
  every run that reads the same phase is taken at some time.
\<close>

definition runs_of :: "'w Env \<Rightarrow> (nat \<Rightarrow> ('w, 'z) MWorld_scheme) \<Rightarrow> (nat \<Rightarrow> Sight) \<Rightarrow> (nat \<Rightarrow> ('w, 'z) MWorld_scheme) \<Rightarrow> bool" where
  "runs_of E w p v \<longleftrightarrow> (\<forall>n. knownVm E (w n) = (Ok (Some (p n)), v n))"

definition asked :: "'w Env \<Rightarrow> (nat \<Rightarrow> Sight) \<Rightarrow> (nat \<Rightarrow> ('w, 'z) MWorld_scheme) \<Rightarrow> nat \<Rightarrow> osc_request list" where
  "asked E p v n = issued (settleVm E (fst (p n)) (snd (p n))) (v n)"

definition cloud_follows :: "(nat \<Rightarrow> osc_request list) \<Rightarrow> (nat \<Rightarrow> Sight) \<Rightarrow> bool" where
  "cloud_follows reqs p \<longleftrightarrow> (\<forall>n. phase (p (Suc n)) = phase (p n) \<or> cloud_step (reqs n) (p n) (p (Suc n)))"

definition cloud_just :: "(nat \<Rightarrow> osc_request list) \<Rightarrow> (nat \<Rightarrow> Sight) \<Rightarrow> bool" where
  "cloud_just reqs p \<longleftrightarrow> (\<forall>n ph. (\<forall>m\<ge>n. phase (p m) = ph \<longrightarrow> (\<exists>q. cloud_step (reqs m) (p m) q)) \<longrightarrow> (\<exists>m\<ge>n. phase (p m) \<noteq> ph))"

lemma runs_terminate:
  assumes runs: "runs_of E w p v" and start: "on_its_way (phase (p 0))"
    and follows: "cloud_follows (asked E p v) p" and just: "cloud_just (asked E p v) p"
  shows "\<exists>n. arrived (phase (p n)) \<and> (\<forall>m<n. \<not> arrived (phase (p m))) \<and> card {m. m < n \<and> phase (p (Suc m)) \<noteq> phase (p m)} \<le> 5"
proof -
  have step: "phase (p (Suc n)) = phase (p n) \<or>
      on_its_way (phase (p (Suc n))) \<and> remaining (phase (p (Suc n))) < remaining (phase (p n))" if "on_its_way (phase (p n))" for n
    using follows that cloud_step_descends unfolding cloud_follows_def asked_def by blast
  have way: "on_its_way (phase (p n))" for n
  proof (induction n)
    case (Suc n)
    then show ?case using step by force
  qed (rule start)
  have down: "phase (p (Suc n)) = phase (p n) \<or> remaining (phase (p (Suc n))) < remaining (phase (p n))" for n
    using step way by blast
  have moves: "\<exists>m\<ge>n. phase (p m) \<noteq> phase (p n)" if "\<not> arrived (phase (p n))" for n
  proof -
    have "\<exists>q. cloud_step (asked E p v m) (p m) q" if "phase (p m) = phase (p n)" for m
      using cloud_enabled [of "fst (p m)" "snd (p m)"] way \<open>\<not> arrived (phase (p n))\<close> that by (simp add: asked_def)
    then show ?thesis using just unfolding cloud_just_def by blast
  qed
  obtain n where n: "arrived (phase (p n))"
    using descent_terminates [of "\<lambda>n. phase (p n)" remaining arrived 0, OF down moves] by blast
  define l where "l = (LEAST n. arrived (phase (p n)))"
  have "arrived (phase (p l))" "\<forall>m<l. \<not> arrived (phase (p m))"
    unfolding l_def by (rule LeastI [of "\<lambda>n. arrived (phase (p n))", OF n]) (use not_less_Least in blast)
  moreover have "card {m. m < l \<and> phase (p (Suc m)) \<noteq> phase (p m)} \<le> 5"
    using descent_changes [of "\<lambda>n. phase (p n)" remaining l, OF down] remaining_le [OF start] by linarith
  ultimately show ?thesis by blast
qed

section \<open>A sample history\<close>

text \<open>A cloud in which the VM is in a given state, and a VM that is stopped, then pending, then running.\<close>

definition vmClient :: "osc_Vm \<Rightarrow> unit Client" where
  "vmClient vm = sampleClient\<lparr>sdkVms := (\<lambda>_ w. (Inr [vm], w))\<rparr>"

definition sampleSight :: "nat \<Rightarrow> Sight" where
  "sampleSight n = (sampleVm\<lparr>o_VmState := (if n = 0 then VmStateStopped else if n = 1 then VmStatePending else VmStateRunning)\<rparr>, None)"

definition sampleStart :: "nat \<Rightarrow> unit MWorld" where
  "sampleStart n = machineWorld (vmClient (fst (sampleSight n))) sampleOscMachine"

definition sampleKnown :: "nat \<Rightarrow> unit MWorld" where
  "sampleKnown n = snd (knownVm sampleEnv (sampleStart n))"

lemma vmClient_found: "o_VmPublicIp vm = None \<Longrightarrow> \<exists>u. getVm (machineWorld (vmClient vm) sampleOscMachine) = (Ok vm, u)"
  by (simp add: getVm_def getVmOrId_def bind_run gets_run ret_run wrap_run svc_GetVmFromClientToken_def sdk_run vmClient_def first_of_def
     machine_sample_defs sampleOscMachine_def ms_GetVm_def ms_GetNode_def sampleVmSpec_def getResource_def ms_GetResources_def nmap_get_def
     foundVm_def andThen_run trackVm_def setVmId_def setVolumeIds_def modify_run)

lemma sample_runs: "runs_of sampleEnv sampleStart sampleSight sampleKnown"
proof -
  have "fst (knownVm sampleEnv (sampleStart n)) = Ok (Some (sampleSight n))" for n
  proof -
    obtain u where u: "getVm (sampleStart n) = (Ok (fst (sampleSight n)), u)" unfolding sampleStart_def
      using vmClient_found [of "fst (sampleSight n)"] by (auto simp: sampleSight_def sampleVm_def)
    have "vm_FGPU (ms_GetVm (mscope (sampleStart n))) = None"
      by (simp add: sampleStart_def machine_sample_defs sampleOscMachine_def ms_GetVm_def ms_GetNode_def sampleVmSpec_def)
    moreover have "ms_NeedReconciliation ReconcilerVm (sampleStart n) = (Ok True, sampleStart n)"
      unfolding sampleStart_def by (rule sample_need)
    moreover have "(fst (sampleSight n), None) = sampleSight n" by (simp add: sampleSight_def)
    ultimately show ?thesis
      by (simp add: knownVm_def ensureVm_def findExisting_def bind_run gets_run ret_run handle_run u andThen_run ms_SetVmState_def modify_run)
  qed
  then show ?thesis by (simp add: runs_of_def sampleKnown_def prod_eq_iff)
qed

lemma sample_asked: "asked sampleEnv sampleSight sampleKnown 0 = [StartVmsRequest [''i-1'']]"
  by (simp add: asked_def settle_requests sampleSight_def vm_action_def sampleVm_def)

lemma sample_follows: "cloud_follows (asked sampleEnv sampleSight sampleKnown) sampleSight"
proof -
  have "cloud_step (asked sampleEnv sampleSight sampleKnown 0) (sampleSight 0) (sampleSight (Suc 0))"
    by (rule cloud_step.started) (simp_all add: sample_asked sampleSight_def phase_def sampleVm_def)
  moreover have "cloud_step (asked sampleEnv sampleSight sampleKnown (Suc 0)) (sampleSight (Suc 0)) (sampleSight 2)"
    by (rule cloud_step.booted) (simp_all add: sampleSight_def phase_def gpu_ready_def)
  moreover have "sampleSight (Suc n) = sampleSight n" if "n \<noteq> 0" "n \<noteq> Suc 0" for n
    using that by (simp add: sampleSight_def)
  ultimately show ?thesis unfolding cloud_follows_def by (metis numeral_2_eq_2)
qed

lemma sample_just: "cloud_just (asked sampleEnv sampleSight sampleKnown) sampleSight"
  unfolding cloud_just_def
proof (intro allI impI)
  fix n ph
  assume *: "\<forall>m\<ge>n. phase (sampleSight m) = ph \<longrightarrow> (\<exists>q. cloud_step (asked sampleEnv sampleSight sampleKnown m) (sampleSight m) q)"
  have last: "phase (sampleSight (n + 2)) = (VmStateRunning, None)" by (simp add: sampleSight_def phase_def)
  then have stays: "\<not> cloud_step reqs (sampleSight (n + 2)) q" for reqs q by (auto elim!: cloud_step.cases)
  have "phase (sampleSight (n + 2)) \<noteq> ph" using * [rule_format, of "n + 2"] stays by auto
  then show "\<exists>m\<ge>n. phase (sampleSight m) \<noteq> ph" using le_add1 by blast
qed

end
