(* ===== verification/Pool_Allocation.thy ===== *)
theory Pool_Allocation
  imports Machine_Samples
begin

text \<open>
  Allocations from a pool of public IPs (\<^verbatim>\<open>controllers/publicip.go\<close>). Machines that share a pool may choose the same IP,
  because an IP is linked only when the VM that has it starts; the loser allocates again in a later run. What that needs of
  an allocation is shown here: whatever was recorded before, it gives an IP that is not linked, as long as there is one.
\<close>

definition free_ids :: "osc_PublicIp list \<Rightarrow> string set" where
  "free_ids pips = o_PublicIpId ` set (filter (\<lambda>p. o_LinkPublicIpId p = None) pips)"

text \<open>A client that lists the given IPs for the pool, and reads IPs by their id.\<close>

definition pool_answers :: "osc_PublicIp list \<Rightarrow> (string \<Rightarrow> osc_PublicIp list) \<Rightarrow> string \<Rightarrow> ('w, 'z) World_scheme \<Rightarrow> bool" where
  "pool_answers pips known pool s \<longleftrightarrow>
     (\<forall>w. \<exists>w'. sdkPublicIps (tn_Client (tenantOf s)) (ReadPublicIpsRequest None None (Some [PublicIPPoolTag]) (Some [pool])) w = (Inr pips, w')) \<and>
     (\<forall>rid w. \<exists>w'. sdkPublicIps (tn_Client (tenantOf s)) (ReadPublicIpsRequest (Some [rid]) None None None) w = (Inr (known rid), w'))"

text \<open>The recorded IP, as long as it exists and is not linked.\<close>

definition still_free :: "(string \<Rightarrow> osc_PublicIp list) \<Rightarrow> string option \<Rightarrow> (string \<times> string) option" where
  "still_free known was = (case was of
     None \<Rightarrow> None
   | Some rid \<Rightarrow> (case known rid of [] \<Rightarrow> None | pip # _ \<Rightarrow> if o_LinkPublicIpId pip = None then Some (rid, o_PublicIp pip) else None))"

context ip_store
begin

lemma allocateFromPool_store: "getPublicIP a (snd (allocateFromPool pool s)) = getPublicIP a s"
  by (auto simp: allocateFromPool_def svc_ListPublicIpsFromPool_def rand_IntN_def run_simps get_sdk get_drawn
      split: prod.splits sum.splits option.splits)

lemma allocateNewIP_pool:
  assumes "pool_answers pips known pool s" and "pool \<noteq> []" and "[] \<notin> o_PublicIpId ` set pips"
  shows "case allocateNewIP a key name pool s of
      (Ok (rid, ip), t) \<Rightarrow> rid \<in> free_ids pips \<and> getPublicIP a t key = Some rid
    | (Err e, t) \<Rightarrow> free_ids pips = {} \<and> e = Errorf ''allocate ip: '' ErrEmptyPool \<and> getPublicIP a t key = getPublicIP a s key
    | (Panic, t) \<Rightarrow> False"
proof -
  obtain w where "sdkPublicIps (tn_Client (tenantOf s)) (ReadPublicIpsRequest None None (Some [PublicIPPoolTag]) (Some [pool])) (cloud s) = (Inr pips, w)"
    using assms(1) unfolding pool_answers_def by blast
  note scan = pool_scan [OF this]
  show ?thesis using scan allocateFromPool_store [of pool s] assms(2,3)
    by (cases "allocateFromPool pool s") (auto simp: allocateNewIP_def run_simps free_ids_def get_set image_iff split: outcome.splits)
qed

lemma AllocateIP_pool:
  assumes answers: "pool_answers pips known pool s" and "pool \<noteq> []" and "[] \<notin> o_PublicIpId ` set pips"
  shows "case AllocateIP a key name pool s of
      (Ok (rid, ip), t) \<Rightarrow> getPublicIP a t key = Some rid \<and>
        (case still_free known (getPublicIP a s key) of Some r \<Rightarrow> (rid, ip) = r | None \<Rightarrow> rid \<in> free_ids pips)
    | (Err e, t) \<Rightarrow> still_free known (getPublicIP a s key) = None \<and> free_ids pips = {} \<and>
        e = Errorf ''allocate ip: '' ErrEmptyPool \<and> getPublicIP a t key = getPublicIP a s key
    | (Panic, t) \<Rightarrow> False"
proof (cases "getPublicIP a s key")
  case None
  then show ?thesis using allocateNewIP_pool [OF assms, of key name]
    by (auto simp: AllocateIP_def run_simps still_free_def split: prod.splits outcome.splits)
next
  case (Some rid)
  let ?read = "ReadPublicIpsRequest (Some [rid]) None None None"
  obtain w where w: "sdkPublicIps (tn_Client (tenantOf s)) ?read (cloud s) = (Inr (known rid), w)"
    using answers unfolding pool_answers_def by blast
  let ?t = "s\<lparr>cloud := w, calls := calls s @ [?read]\<rparr>"
  have get: "svc_GetPublicIp (tenantOf s) rid s = (Ok (first_of (known rid)), ?t)"
    using w by (simp add: svc_GetPublicIp_def run_simps)
  have "pool_answers pips known pool ?t" using answers by (simp add: pool_answers_def)
  note new = allocateNewIP_pool [OF this assms(2,3), of key name]
  show ?thesis
  proof (cases "still_free known (getPublicIP a s key)")
    case None
    then have "AllocateIP a key name pool s = allocateNewIP a key name pool ?t"
      using Some by (auto simp: AllocateIP_def get run_simps still_free_def first_of_def split: list.splits if_splits)
    then show ?thesis using new None by (auto simp: get_sdk split: prod.splits outcome.splits)
  next
    case (Some r)
    then have "AllocateIP a key name pool s = (Ok r, ?t)"
      using \<open>getPublicIP a s key = Some rid\<close> by (auto simp: AllocateIP_def get run_simps still_free_def first_of_def split: list.splits if_splits)
    then show ?thesis using Some \<open>getPublicIP a s key = Some rid\<close>
      by (auto simp: get_sdk still_free_def split: list.splits if_splits)
  qed
qed

end

section \<open>A sample pool\<close>

text \<open>A client that sees the given IPs in any pool, and a pool of two, the first of which may be linked.\<close>

definition pipsClient :: "osc_PublicIp list \<Rightarrow> unit Client" where
  "pipsClient pips = sampleClient\<lparr>sdkPublicIps := (\<lambda>req w. (Inr (case req of
     ReadPublicIpsRequest (Some rids) _ _ _ \<Rightarrow> filter (\<lambda>p. o_PublicIpId p \<in> set rids) pips | _ \<Rightarrow> pips), w))\<rparr>"

definition samplePool :: "string option \<Rightarrow> osc_PublicIp list" where
  "samplePool link = [samplePip\<lparr>o_LinkPublicIpId := link\<rparr>, samplePip\<lparr>o_PublicIpId := ''eipalloc-2''\<rparr>]"

text \<open>A machine that has recorded the first IP of the pool.\<close>

definition contestedWorld :: "unit MWorld" where
  "contestedWorld = m_setPublicIP defaultResource ''eipalloc-1''
     (machineWorld (pipsClient (samplePool (Some ''eipassoc-1''))) pooledMachine)"

lemma contestedWorld_answers:
  "pool_answers (samplePool (Some ''eipassoc-1'')) (\<lambda>rid. filter (\<lambda>p. o_PublicIpId p = rid) (samplePool (Some ''eipassoc-1''))) ''pool'' contestedWorld"
  by (simp add: pool_answers_def contestedWorld_def pipsClient_def m_setPublicIP_def upd_MResources_def upd_MStatus_def upd_OscMachine_def machine_sample_defs)

end
