(* ===== verification/Machine_Properties.thy ===== *)
theory Machine_Properties
  imports Vm_Progress Teardown Pool_Allocation
begin

text \<open>
  Properties of the machine controller (\<^verbatim>\<open>controllers/oscmachine_*.go\<close>, \<^verbatim>\<open>cloud/scope/machine.go\<close>,
  \<^verbatim>\<open>cloud/scope/providerid.go\<close>), each with a concrete instance where it has a hypothesis.
\<close>

section \<open>Reconciling and deleting a machine\<close>

text \<open>
  C11. A reconciliation of a machine deletes nothing and leaves the network alone: it reads, tags,
  creates a VM, a GPU or a public IP, starts or links them and links the load balancer.
\<close>

theorem machine_reconcile_effects:
  "\<exists>cs. calls (snd (m_reconcile E s)) = calls s @ cs \<and>
    effect_of ` set cs \<subseteq> {ERead, ETag, ECreate RGpu, ECreate RPublicIp, ECreate RVm, EChange RGpu, EChange RVm, EChange RLoadBalancer}"
  by (rule acts_calls_snd [OF acts_m_reconcile])

text \<open>
  C9. The deletion of a machine. When it succeeds, the VM has been looked up by reads; a VM that was found and is not terminated is taken out of
  the load balancer first, if the machine is a control plane and the load balancer lists it, and then deleted, by its id; after that
  the public IPs recorded for the machine are given back, unless they come from a pool, for which no request is made. Whatever the
  outcome, at most one VM is deleted, after the requests on the load balancer and before those on public IPs.
\<close>

theorem machine_deletion_ordered:
  "(case m_reconcileDelete E s of (Ok n, t) \<Rightarrow> n = 0 \<and> machine_deleted E s t | _ \<Rightarrow> True) \<and>
   (\<exists>before vms ips. calls (snd (m_reconcileDelete E s)) = calls s @ before @ vms @ ips \<and>
     effect_of ` set before \<subseteq> {ERead, EChange RLoadBalancer} \<and> (vms = [] \<or> (\<exists>i. vms = [DeleteVmsRequest [i]])) \<and>
     effect_of ` set ips \<subseteq> {ERead, EDelete RPublicIp})"
proof
  show "case m_reconcileDelete E s of (Ok n, t) \<Rightarrow> n = 0 \<and> machine_deleted E s t | _ \<Rightarrow> True"
    using machine_finalizer_last [where E = E and s = s] machine_deletion_contents [of E s]
    by (auto split: prod.splits outcome.splits)
qed (rule machine_deletion_order)

text \<open>
  The finalizer of a machine is given up last: only after the VM and the public IPs have been
  deleted without error, from the state these steps leave; otherwise the finalizers are the ones
  before the run.
\<close>

theorem machine_finalizer_removed_last:
  "case fst (m_reconcileDelete E s) of
     Ok n \<Rightarrow> n = 0 \<and> (\<exists>u v. reconcileDeleteVm s = (Ok 0, u) \<and> m_reconcileDeletePublicIp E u = (Ok 0, v) \<and>
       snd (m_reconcileDelete E s) = snd (m_removeFinalizer E v))
   | _ \<Rightarrow> Finalizers (machine_meta (snd (m_reconcileDelete E s))) = Finalizers (machine_meta s)"
  by (rule machine_finalizer_last)

text \<open>
  An IP of a pool is not deleted with the machine that used it: a machine with a pool is
  deleted by reads, the unlinking and the deletion of its VM.
\<close>

theorem pool_ip_survives:
  assumes "PublicIpPool (ms_GetVm (mscope s)) \<noteq> []"
  shows "\<exists>cs. calls (snd (m_reconcileDelete E s)) = calls s @ cs \<and> effect_of ` set cs \<subseteq> {ERead, EChange RLoadBalancer, EDelete RVm}"
  by (rule pool_machine_deletion [OF assms])

theorem pool_ip_survives_witness:
  "\<exists>cs. calls (snd (m_reconcileDelete sampleEnv (machineWorld sampleClient pooledMachine))) = [] @ cs \<and>
    effect_of ` set cs \<subseteq> {ERead, EChange RLoadBalancer, EDelete RVm}"
  using pool_ip_survives [of "machineWorld sampleClient pooledMachine" sampleEnv]
  by (simp add: machine_sample_defs pooledMachine_def onVm_def ms_GetVm_def ms_GetNode_def)

text \<open>
  C12. The life cycle of the VM refines its specification: with the VM and the GPU of a machine at hand,
  the controller waits without a request, links the GPU, starts the VM or finishes the machine, as
  \<open>vm_action\<close> says; it links a GPU only to a stopped VM, and never starts a VM before its GPU is
  attached. Unless it finishes, the machine is queued again after 30 seconds with its status unchanged.
\<close>

theorem vm_lifecycle_refined:
  "case vm_action fgpu (o_VmState vm) of
     Wait \<Rightarrow> settleVm E vm fgpu s = (Ok 30, s)
   | LinkGpu g \<Rightarrow> calls (snd (settleVm E vm fgpu s)) = calls s @ [LinkFlexibleGpuRequest g (o_VmId vm)] \<and>
       mscope (snd (settleVm E vm fgpu s)) = mscope s \<and> (case fst (settleVm E vm fgpu s) of Ok n \<Rightarrow> n = 30 | Err e \<Rightarrow> True | Panic \<Rightarrow> False)
   | StartVm \<Rightarrow> calls (snd (settleVm E vm fgpu s)) = calls s @ [StartVmsRequest [o_VmId vm]] \<and>
       mscope (snd (settleVm E vm fgpu s)) = mscope s \<and> (case fst (settleVm E vm fgpu s) of Ok n \<Rightarrow> n = 30 | Err e \<Rightarrow> True | Panic \<Rightarrow> False)
   | Finish \<Rightarrow> settleVm E vm fgpu s = vmRunning E vm s"
  by (rule settleVm_refines)

text \<open>
  C13. The runs on a machine come to an end. In a history of runs that each find or create the VM, a run that does not find it
  running asks for another run or reports an error, and does not panic. If the cloud attaches a GPU and starts a VM
  when a run has asked for it, ends what it has begun, and does not refuse for ever what every run asks for,
  then after at most five changes of the VM and its GPU there is a run that finds the VM running and completes the
  machine.
\<close>

theorem vm_runs_terminate:
  assumes "runs_of E w p v" and "on_its_way (phase (p 0))"
    and "cloud_follows (asked E p v) p" and "cloud_just (asked E p v) p"
  shows "\<exists>n. o_VmState (fst (p n)) = VmStateRunning \<and> reconcileVm E (w n) = vmRunning E (fst (p n)) (v n) \<and>
    (\<forall>m<n. case fst (reconcileVm E (w m)) of Ok k \<Rightarrow> k = 30 | Err e \<Rightarrow> True | Panic \<Rightarrow> False) \<and>
    card {m. m < n \<and> phase (p (Suc m)) \<noteq> phase (p m)} \<le> 5"
proof -
  have run: "reconcileVm E (w n) = settleVm E (fst (p n)) (snd (p n)) (v n)" for n
    using assms(1) by (intro reconcileVm_known) (simp add: runs_of_def)
  obtain n where n: "arrived (phase (p n))" "\<forall>m<n. \<not> arrived (phase (p m))"
      "card {m. m < n \<and> phase (p (Suc m)) \<noteq> phase (p m)} \<le> 5"
    using runs_terminate [OF assms] by blast
  have "reconcileVm E (w n) = vmRunning E (fst (p n)) (v n)" using finished_run [of "fst (p n)" "snd (p n)" E "v n"] n(1) by (simp add: run)
  moreover have "\<forall>m<n. case fst (reconcileVm E (w m)) of Ok k \<Rightarrow> k = 30 | Err e \<Rightarrow> True | Panic \<Rightarrow> False"
    using unfinished_run [of "fst (p _)" "snd (p _)" E "v _"] n(2) by (simp add: run)
  moreover have "o_VmState (fst (p n)) = VmStateRunning" using n(1) by (simp add: arrived_def phase_def)
  ultimately show ?thesis using n(3) by blast
qed

theorem vm_runs_terminate_witness:
  "\<exists>n. o_VmState (fst (sampleSight n)) = VmStateRunning \<and>
    reconcileVm sampleEnv (sampleStart n) = vmRunning sampleEnv (fst (sampleSight n)) (sampleKnown n) \<and>
    (\<forall>m<n. case fst (reconcileVm sampleEnv (sampleStart m)) of Ok k \<Rightarrow> k = 30 | Err e \<Rightarrow> True | Panic \<Rightarrow> False) \<and>
    card {m. m < n \<and> phase (sampleSight (Suc m)) \<noteq> phase (sampleSight m)} \<le> 5"
  by (rule vm_runs_terminate [OF sample_runs _ sample_follows sample_just])
    (simp add: sampleSight_def phase_def on_its_way_def gpu_ready_def)

text \<open>
  C14. When a machine becomes ready. A run that is not needed returns at once. A run that has found or created a VM, and that VM runs
  and no GPU is awaited, sets the machine ready; if it returns without error, its result is empty and the id, the state, the addresses and the
  subregion of the VM and the current generation are recorded. In every other case, also when the VM runs but its GPU is not
  attached yet, the run records the id and the state of the VM, leaves the readiness as it was, and fails or asks for another run
  in 30 seconds. A run that fails before it knows the VM leaves the readiness as it was too.
\<close>

theorem machine_ready_when_running:
  "case knownVm E s of
     (Ok None, u) \<Rightarrow> reconcileVm E s = (Ok 0, u) \<and> fst (ms_NeedReconciliation ReconcilerVm s) = Ok False
   | (Ok (Some (vm, fgpu)), u) \<Rightarrow> (case reconcileVm E s of (r, t) \<Rightarrow>
       if o_VmState vm = VmStateRunning \<and> (case fgpu of None \<Rightarrow> True | Some g \<Rightarrow> o_FlexibleGpuState g = FlexibleGpuStateAttached)
       then mready t \<and> (case r of Ok n \<Rightarrow> n = 0 \<and> records_vm vm t \<and> finished vm t | Err e \<Rightarrow> True | Panic \<Rightarrow> False)
       else records_vm vm t \<and> mready t = mready s \<and> (case r of Ok n \<Rightarrow> n = 30 | Err e \<Rightarrow> True | Panic \<Rightarrow> False))
   | (Err e, u) \<Rightarrow> reconcileVm E s = (Err e, u) \<and> mready u = mready s
   | (Panic, u) \<Rightarrow> reconcileVm E s = (Panic, u) \<and> mready u = mready s"
proof (cases "knownVm E s")
  case (Pair q u)
  have ready: "mready u = mready s" using keepsD [OF knownVm_ready Pair] by (simp add: preserves_def)
  show ?thesis
  proof (cases "\<exists>vm fgpu. q = Ok (Some (vm, fgpu))")
    case False
    then show ?thesis using Pair ready reconcileVm_unknown [of E s] by (auto split: outcome.splits option.splits)
  next
    case True
    then obtain vm fgpu where known: "knownVm E s = (Ok (Some (vm, fgpu)), u)" using Pair by blast
    note run = reconcileVm_known [OF known] and recorded = knownVm_records [OF known]
    show ?thesis
    proof (cases "arrived (phase (vm, fgpu))")
      case True
      then have "reconcileVm E s = vmRunning E vm u" "o_VmState vm = VmStateRunning" using run finished_run arrived_phase by simp_all
      moreover have "fst (vmRunning E vm u) \<noteq> Panic" using vmRunning_calm unfolding calm_def by blast
      ultimately show ?thesis using True wpD [OF vmRunning_finishes [OF recorded]] vmRunning_ready [of E vm u]
        unfolding known outcome.case option.case prod.case arrived_phase [symmetric]
        by (cases "vmRunning E vm u") (auto split: outcome.splits)
    next
      case False
      then show ?thesis using unfinished_scope [OF False, of E u] unfinished_run [OF False, of E u] recorded ready
        unfolding known outcome.case option.case prod.case arrived_phase [symmetric] run
        by (cases "settleVm E vm fgpu u") (simp add: records_vm_def mready_def)
    qed
  qed
qed

text \<open>
  C21. A created VM is not created again: the run that creates it records its id, state and provider
  id, and from then on the VM is identified by the recorded id without a request.
\<close>

theorem created_vm_found_again:
  "case createVm E fgpu s of
     (Ok (vm, g), t) \<Rightarrow> records_vm vm t \<and>
       ProviderID (ma_Spec (msOscMachine (mscope t))) = Some (''aws:///'' @ o_VmSubregionName vm @ ''/'' @ o_VmId vm) \<and>
       (if vm_ResourceId (ms_GetVm (mscope s)) = [] \<and> o_VmId vm \<noteq> [] then getVmOrId t = (Ok (None, o_VmId vm), t) else True)
   | _ \<Rightarrow> True"
proof (cases "createVm E fgpu s")
  case (Pair r t)
  then show ?thesis
  proof (cases r)
    case (Ok x)
    show ?thesis using wpD [OF created_then_found Pair [unfolded Ok]] unfolding Pair Ok
      by (cases x) (simp only: prod.case outcome.case simp_thms, blast)
  qed simp_all
qed

text \<open>
  A control plane machine never gets a GPU allocated, whatever its specification asks for.
\<close>

theorem control_plane_gets_no_gpu:
  assumes "IsControlPlaneMachine E (msMachine (mscope s))"
  shows "\<exists>cs. calls (snd (m_reconcile E s)) = calls s @ cs \<and>
    effect_of ` set cs \<subseteq> {ERead, ETag, ECreate RPublicIp, ECreate RVm, EChange RGpu, EChange RVm, EChange RLoadBalancer}"
  using macts_calls [OF macts_gpu, of E s] assms by (auto simp: machine_view_def)

theorem control_plane_gets_no_gpu_witness:
  "\<exists>cs. calls (snd (m_reconcile sampleEnv (withMachine sampleOscMachine controlPlane sampleWorld))) = [] @ cs \<and>
    effect_of ` set cs \<subseteq> {ERead, ETag, ECreate RPublicIp, ECreate RVm, EChange RGpu, EChange RVm, EChange RLoadBalancer}"
  using control_plane_gets_no_gpu [of sampleEnv "withMachine sampleOscMachine controlPlane sampleWorld"]
  by (simp add: machine_sample_defs sampleEnv_def controlPlane_def nmap_entries_def)

text \<open>
  Only control plane nodes are put behind the load balancer, and only when it is enabled: the
  reconciliation of any other machine changes no load balancer.
\<close>

theorem workers_stay_behind:
  assumes "GetRole (ms_GetVm (mscope s)) \<noteq> RoleControlPlane \<or> cs_IsLBDisabled (scope s)"
  shows "\<exists>cs. calls (snd (m_reconcile E s)) = calls s @ cs \<and>
    effect_of ` set cs \<subseteq> {ERead, ETag, ECreate RGpu, ECreate RPublicIp, ECreate RVm, EChange RGpu, EChange RVm}"
  using macts_calls [OF macts_balancer, of s E] assms by (auto simp: machine_view_def spec_view_def ms_GetVm_def cs_IsLBDisabled_def)

theorem workers_stay_behind_witness:
  "\<exists>cs. calls (snd (m_reconcile sampleEnv (machineWorld sampleClient sampleOscMachine))) = [] @ cs \<and>
    effect_of ` set cs \<subseteq> {ERead, ETag, ECreate RGpu, ECreate RPublicIp, ECreate RVm, EChange RGpu, EChange RVm}"
  using workers_stay_behind [of "machineWorld sampleClient sampleOscMachine" sampleEnv]
  by (simp add: machine_sample_defs sampleOscMachine_def sampleVmSpec_def ms_GetVm_def ms_GetNode_def GetRole_def)

text \<open>
  Every error of a machine is reported: when the reconciliation fails, its condition is false,
  with the message of the error it returns.
\<close>

theorem machine_errors_reported:
  "case fst (m_reconcile E s) of
     Err e \<Rightarrow> \<exists>before. ma_Conditions (ma_Status (msOscMachine (mscope (snd (m_reconcile E s))))) =
       MarkFalse E before VmReadyCondition VmNotReadyReason ConditionSeverityWarning (error_msg e)
   | _ \<Rightarrow> True"
  by (rule machine_reports)

text \<open>
  C18. A run of the entry point that is not admitted (an object or its owner missing, the cluster
  paused, no tenant or patch helper) issues no request and writes nothing back. An admitted one
  runs the deletion or the reconciliation, and writes the machine back exactly once, whatever the
  outcome, and never the cluster; an error of that write replaces a success only.
\<close>

theorem machine_entry_point:
  "case m_admitted K E req of
     None \<Rightarrow> untouched (snd (m_Reconcile K E req s)) = untouched s
   | Some (cluster, machine, oscMachine, oscCluster, tn) \<Rightarrow>
       (let run = (if DeletionTimestamp (ma_Meta oscMachine) \<noteq> None then m_reconcileDelete E else m_reconcile E)
              (s\<lparr>scope := \<lparr>csCluster = cluster, csOscCluster = oscCluster, csTenant = tn\<rparr>,
                 mscope := \<lparr>msCluster = cluster, msMachine = machine, msOscMachine = oscMachine\<rparr>\<rparr>)
        in case m_Reconcile K E req s of (r, t) \<Rightarrow>
          patched t = patched s \<and> calls t = calls (snd run) \<and> mscope t = mscope (snd run) \<and>
          (case k_MPatch K (msOscMachine (mscope t)) of
             None \<Rightarrow> r = fst run \<and> mpatched t = mpatched s @ [msOscMachine (mscope t)]
           | Some e \<Rightarrow> r = (case fst run of Ok _ \<Rightarrow> Err e | q \<Rightarrow> q) \<and> mpatched t = mpatched s))"
proof (cases "m_admitted K E req")
  case None
  then show ?thesis by (simp add: m_Reconcile_refused)
next
  case (Some a)
  obtain cluster machine oscMachine oscCluster tn where a: "a = (cluster, machine, oscMachine, oscCluster, tn)" by (cases a)
  have kept: "keeps (preserves machine_patches) (if DeletionTimestamp (ma_Meta oscMachine) \<noteq> None then m_reconcileDelete E else m_reconcile E)"
    by (simp add: m_patched_kept)
  let ?w = "s\<lparr>scope := \<lparr>csCluster = cluster, csOscCluster = oscCluster, csTenant = tn\<rparr>,
      mscope := \<lparr>msCluster = cluster, msMachine = machine, msOscMachine = oscMachine\<rparr>\<rparr>"
  have same: "patched ?w = patched s" "mpatched ?w = mpatched s" by simp_all
  show ?thesis
    unfolding Some a option.case prod.case m_Reconcile_admitted [OF Some [unfolded a]] Let_def
    by (rule m_deferClose_patches [OF kept, where K = K and s = ?w, unfolded same])
qed

section \<open>Machines that share a pool of public IPs\<close>

text \<open>
  C32. An allocation from a pool of public IPs, by the allocator of the machines. The IP recorded for the machine is kept exactly when it still exists and is
  not linked to a VM; otherwise the machine gets one of the pool that is not linked, and it is recorded, so that a machine
  whose IP another one has taken gets a free one in its next run. The allocation fails exactly when the recorded IP is
  not usable and no IP of the pool is free, with the error of an empty pool and the record as it was.
\<close>

theorem pool_allocation:
  assumes "pool_answers pips known pool s" and "pool \<noteq> []" and "[] \<notin> o_PublicIpId ` set pips"
  shows "case AllocateIP m_IPAllocator key name pool s of
     (Ok (rid, ip), t) \<Rightarrow> m_getPublicIP t key = Some rid \<and>
       (case still_free known (m_getPublicIP s key) of Some r \<Rightarrow> (rid, ip) = r | None \<Rightarrow> rid \<in> free_ids pips)
   | (Err e, t) \<Rightarrow> still_free known (m_getPublicIP s key) = None \<and> free_ids pips = {} \<and>
       e = Errorf ''allocate ip: '' ErrEmptyPool \<and> m_getPublicIP t key = m_getPublicIP s key
   | (Panic, t) \<Rightarrow> False"
  using m_ips.AllocateIP_pool [OF assms, of key name] unfolding m_IPAllocator_def IPAllocator.simps .

text \<open>The recorded IP has been linked to another VM; the other one of the pool is chosen.\<close>

theorem pool_allocation_witness:
  "\<exists>ip t. AllocateIP m_IPAllocator defaultResource ''m1'' ''pool'' contestedWorld = (Ok (''eipalloc-2'', ip), t) \<and>
     m_getPublicIP t defaultResource = Some ''eipalloc-2''"
proof -
  let ?known = "\<lambda>rid. filter (\<lambda>p. o_PublicIpId p = rid) (samplePool (Some ''eipassoc-1''))"
  have "still_free ?known (m_getPublicIP contestedWorld defaultResource) = None" by code_simp
  moreover have "free_ids (samplePool (Some ''eipassoc-1'')) = {''eipalloc-2''}" by (simp add: free_ids_def samplePool_def samplePip_def)
  moreover have "[] \<notin> o_PublicIpId ` set (samplePool (Some ''eipassoc-1''))" by (simp add: samplePool_def samplePip_def)
  ultimately show ?thesis
    using pool_allocation [OF contestedWorld_answers, of defaultResource "''m1''"] by (auto split: prod.splits outcome.splits)
qed

section \<open>Provider ids\<close>

text \<open>
  C23. The id of a VM survives the provider id: what is written for a VM in a subregion is parsed
  back to the id of that VM.
\<close>

theorem provider_id_roundtrip:
  assumes "vmId \<noteq> []" "CHR ''/'' \<notin> set vmId" "CHR 0x0A \<notin> set vmId" "CHR 0x0A \<notin> set subregion"
  shows "ms_GetInstanceID (mscope (snd (ms_SetProviderID subregion vmId s))) = vmId"
proof -
  have "NewProviderID (''aws'' @ ''://'' @ (''/'' @ subregion) @ ''/'' @ vmId) = Inr
      \<lparr>original = ''aws'' @ ''://'' @ (''/'' @ subregion) @ ''/'' @ vmId, cloudProvider = ''aws'', pid_id = vmId\<rparr>"
    using assms by (intro NewProviderID_parts) auto
  then show ?thesis
    by (simp add: ms_GetInstanceID_def ms_GetProviderID_def ms_SetProviderID_def modify_run upd_OscMachine_def)
qed

theorem provider_id_roundtrip_witness:
  "ms_GetInstanceID (mscope (snd (ms_SetProviderID ''eu-west-2a'' ''i-12345678'' (machineWorld sampleClient sampleOscMachine)))) = ''i-12345678''"
  by (rule provider_id_roundtrip) simp_all

text \<open>
  C24. A provider id is parsed exactly when it is a name without colon, a colon and two slashes, and a
  text that does not end with a slash (and has no newline before its last byte): the checks on the
  parts refuse nothing that the expression of the code accepts.
\<close>

theorem provider_id_language:
  "(\<exists>p. NewProviderID s = Inr p) \<longleftrightarrow>
     (\<exists>p r c. s = p @ ''://'' @ r @ [c] \<and> p \<noteq> [] \<and> CHR '':'' \<notin> set p \<and> CHR 0x0A \<notin> set r \<and> c \<noteq> CHR ''/'')"
  by (rule NewProviderID_language)

text \<open>
  The provider id is written only when the VM is created: when the VM is found, for instance by
  its client token after a creation whose tagging or whose patch failed, the run leaves it as it
  was, and a ready machine can be left without.
\<close>

theorem provider_id_lost:
  assumes "vm_FGPU (ms_GetVm (mscope s)) = None" and "ms_NeedReconciliation ReconcilerVm s = (Ok True, s1)" and "getVm s1 = (Ok vm, u)"
  shows "provider_id (snd (reconcileVm E s)) = provider_id s"
  by (rule found_vm_keeps_provider_id [OF assms])

theorem provider_id_lost_witness:
  "provider_id (snd (reconcileVm sampleEnv (machineWorld runningClient sampleOscMachine))) = None \<and>
   fst (reconcileVm sampleEnv (machineWorld runningClient sampleOscMachine)) = Ok 0 \<and>
   mready (snd (reconcileVm sampleEnv (machineWorld runningClient sampleOscMachine)))"
proof -
  obtain u where "getVm (machineWorld runningClient sampleOscMachine) = (Ok runningVm, u)" using sample_getVm by blast
  moreover have "vm_FGPU (ms_GetVm (mscope (machineWorld runningClient sampleOscMachine))) = None"
    by (simp add: machine_sample_defs sampleOscMachine_def ms_GetVm_def ms_GetNode_def sampleVmSpec_def)
  ultimately have "provider_id (snd (reconcileVm sampleEnv (machineWorld runningClient sampleOscMachine))) =
      provider_id (machineWorld runningClient sampleOscMachine)"
    by (intro provider_id_lost [OF _ sample_need])
  also have "\<dots> = None" by (simp add: provider_id_def machine_sample_defs sampleOscMachine_def)
  finally show ?thesis using sample_finishes unfolding sampleFound_run by simp
qed

section \<open>Subregions\<close>

text \<open>
  C22. A worker without subregion goes where its deployment has the fewest machines: after the
  allocation, no requested subregion holds fewer machines than the chosen one less the new machine.
  The order in which the code visits its map of counts does not matter.
\<close>

theorem least_loaded_subregion:
  assumes "allocateAZ m azlist s = (Ok az, t)" and "az_deployment m = Inr deploy"
    and "[] \<notin> set azlist" "azlist \<noteq> []" and "distinct (members (azAllocator s) deploy)" "int (length (members (azAllocator s) deploy)) < MaxInt"
    and "\<forall>name \<in> set (members (azAllocator s) deploy). snd name = om_Name (ma_Meta m) \<longrightarrow> azOf (azAllocator s) name = []"
  shows "\<forall>z \<in> set azlist. inAZ (azAllocator t) (members (azAllocator s) deploy) az
    \<le> inAZ (azAllocator t) (members (azAllocator s) deploy) z + 1"
  by (rule allocateAZ_least [OF assms])

theorem least_loaded_subregion_witness:
  "inAZ (azAllocator (snd (allocateAZ worker [''b'', ''c''] ((machineWorld sampleClient worker)\<lparr>azAllocator := twoWorkers ''b''\<rparr>))))
     [(''default'', ''m0''), (''default'', ''m1'')] ''c''
   \<le> inAZ (azAllocator (snd (allocateAZ worker [''b'', ''c''] ((machineWorld sampleClient worker)\<lparr>azAllocator := twoWorkers ''b''\<rparr>))))
     [(''default'', ''m0''), (''default'', ''m1'')] ''b'' + 1"
proof -
  let ?s = "(machineWorld sampleClient worker)\<lparr>azAllocator := twoWorkers ''b''\<rparr>"
  have run: "allocateAZ worker [''b'', ''c''] ?s = (Ok ''c'', snd (allocateAZ worker [''b'', ''c''] ?s))"
    by (rule prod_eqI) (simp_all add: sample_allocation)
  have deploy: "az_deployment worker = Inr (''default'', ''md'')"
    by (simp add: az_deployment_def worker_def sampleOscMachine_def nmap_get_def)
  have ms: "members (azAllocator ?s) (''default'', ''md'') = [(''default'', ''m0''), (''default'', ''m1'')]"
    by (simp add: members_def twoWorkers_def)
  have free: "\<forall>name \<in> set [(''default'', ''m0''), (''default'', ''m1'')]. snd name = om_Name (ma_Meta worker) \<longrightarrow> azOf (azAllocator ?s) name = []"
    by (simp add: twoWorkers_def azOf_def worker_def sampleOscMachine_def)
  have "''b'' \<in> set [''b'', ''c'']" by simp
  then show ?thesis
    using least_loaded_subregion [OF run deploy, unfolded ms, OF _ _ _ _ free] by (rule bspec [rotated]) simp_all
qed

text \<open>
  The requested subregions do not bound the choice: a deployment that still has a machine in a
  former subregion can get a new machine there, although it is not requested any more.
\<close>

theorem unrequested_subregion_chosen:
  "fst (allocateAZ worker [''b'', ''c''] ((machineWorld sampleClient worker)\<lparr>azAllocator := movedWorkers\<rparr>)) = Ok ''a''"
  by code_simp

end
