(* ===== verification/V1beta1_Types.thy ===== *)
theory V1beta1_Types
  imports Api_Methods
begin

text \<open>
  The API objects of \<^verbatim>\<open>api/v1beta1\<close>, the version that is served beside \<^verbatim>\<open>v1beta2\<close> and converted to
  it for storage. The names of its types carry the suffix \<open>V1\<close>. A struct that is identical in both
  versions (Go converts such values by a plain type conversion) is the same record; a struct that
  only has more fields extends the record of \<^verbatim>\<open>v1beta2\<close>; the others are records of their own. The
  objects of the templates, in both versions, are here too.
\<close>

section \<open>Structs that both versions share\<close>

type_synonym OscRoleV1 = OscRole
type_synonym OscDisableV1 = OscDisable
type_synonym OscNetAccessPointServiceV1 = OscNetAccessPointService
type_synonym ReconcilerV1 = Reconciler
type_synonym OscReconcilerGenerationV1 = OscReconcilerGeneration
type_synonym ReconciliationModeV1 = ReconciliationMode
type_synonym SubregionModeV1 = SubregionMode
type_synonym OscCredentialsV1 = OscCredentials
type_synonym OscReuseV1 = OscReuse
type_synonym OscLoadBalancerListenerV1 = OscLoadBalancerListener
type_synonym OscLoadBalancerHealthCheckV1 = OscLoadBalancerHealthCheck
type_synonym OscNetPeeringV1 = OscNetPeering
type_synonym OscSubnetV1 = OscSubnet
type_synonym OscRouteV1 = OscRoute
type_synonym OscSecurityGroupRuleV1 = OscSecurityGroupRule
type_synonym OscSecurityGroupV1 = OscSecurityGroup
type_synonym OscAdditionalSecurityRulesV1 = OscAdditionalSecurityRules
type_synonym OscPrivateIpElementV1 = OscPrivateIpElement
type_synonym OscSecurityGroupElementV1 = OscSecurityGroupElement
type_synonym OscClusterResourcesV1 = OscClusterResources
type_synonym OscReconciliationRuleV1 = OscReconciliationRule
type_synonym OscMachineResourcesV1 = OscMachineResources
type_synonym OscKeypairV1 = OscKeypair
type_synonym OscFGPUV1 = OscFGPU
type_synonym OscPlacementV1 = OscPlacement
type_synonym OscRootDiskV1 = OscRootDisk

section \<open>Cluster specification\<close>

record OscLoadBalancerV1 = OscLoadBalancer +
  lb1_ClusterName :: string

record OscNetV1 = OscNet +
  net1_ClusterName :: string

record OscInternetServiceV1 = OscInternetService +
  is1_ClusterName :: string
  is1_ResourceId :: string

record OscNatServiceV1 = OscNatService +
  nat1_PublicIpName :: string
  nat1_ClusterName :: string
  nat1_ResourceId :: string

record OscRouteTableV1 = OscRouteTable +
  rt1_ResourceId :: string

record OscPublicIpV1 =
  pip1_Name :: string
  pip1_ResourceId :: string
  pip1_ClusterName :: string

record OscImageV1 = OscImage +
  img1_ResourceId :: string

record OscBastionV1 = OscBastion +
  bn1_DeviceName :: string
  bn1_PublicIpName :: string
  bn1_SubregionName :: string
  bn1_ClusterName :: string

record OscNetworkV1 =
  v1_UseExisting :: OscReuseV1
  v1_Disable :: "OscDisableV1 list"
  v1_LoadBalancer :: OscLoadBalancerV1
  v1_Net :: OscNetV1
  v1_NetPeering :: OscNetPeeringV1
  v1_NetAccessPoints :: "OscNetAccessPointServiceV1 list"
  v1_ControlPlaneSubnets :: "string list"
  v1_Subnets :: "OscSubnetV1 list"
  v1_InternetService :: OscInternetServiceV1
  v1_NatService :: OscNatServiceV1
  v1_NatServices :: "OscNatServiceV1 list"
  v1_NatPublicIpPool :: string
  v1_RouteTables :: "OscRouteTableV1 list"
  v1_SecurityGroups :: "OscSecurityGroupV1 list"
  v1_AdditionalSecurityRules :: "OscAdditionalSecurityRulesV1 list"
  v1_PublicIps :: "OscPublicIpV1 option list"
  v1_ClusterName :: string
  v1_Image :: OscImageV1
  v1_Bastion :: OscBastionV1
  v1_SubregionName :: string
  v1_Subregions :: "string list"
  v1_ExtraSecurityGroupRule :: bool
  v1_AllowFromIPRanges :: "string list"
  v1_AllowToIPRanges :: "string list"
  v1_ReconciliationRules :: "OscReconciliationRuleV1 list"

record OscClusterSpecV1 =
  v1_Credentials :: OscCredentialsV1
  v1_Network :: OscNetworkV1
  v1_ControlPlaneEndpoint :: APIEndpoint

section \<open>Machine specification\<close>

record OscVolumeV1 = OscVolume +
  vol1_SubregionName :: string
  vol1_ResourceId :: string

record OscVmV1 = OscVm +
  vm1_VolumeName :: string
  vm1_VolumeDeviceName :: string
  vm1_DeviceName :: string
  vm1_LoadBalancerName :: string
  vm1_PublicIpName :: string
  vm1_ClusterName :: string
  vm1_Replica :: int

record OscNodeV1 =
  v1_Vm :: OscVmV1
  v1_NodeImage :: OscImageV1
  v1_Volumes :: "OscVolumeV1 list"
  v1_KeyPair :: OscKeypairV1
  v1_NodeClusterName :: string
  v1_ReconciliationRule :: "OscReconciliationRuleV1 option"

record OscMachineSpecV1 =
  v1_ProviderID :: "string option"
  v1_Node :: OscNodeV1

section \<open>Objects and their status\<close>

text \<open>\<^verbatim>\<open>OscResourceReference\<close> holds one map.\<close>

record OscResourceReferenceV1 =
  ResourceMap :: nmap

record OscNetworkResourceV1 =
  LoadbalancerRef :: OscResourceReferenceV1
  NetRef :: OscResourceReferenceV1
  SubnetRef :: OscResourceReferenceV1
  InternetServiceRef :: OscResourceReferenceV1
  RouteTablesRef :: OscResourceReferenceV1
  LinkRouteTableRef :: "(string \<times> string list) list option"
  RouteRef :: OscResourceReferenceV1
  SecurityGroupsRef :: OscResourceReferenceV1
  SecurityGroupRuleRef :: OscResourceReferenceV1
  PublicIpRef :: OscResourceReferenceV1
  NatServiceRef :: OscResourceReferenceV1
  BastionRef :: OscResourceReferenceV1
  LinkPublicIpRef :: OscResourceReferenceV1

record OscNodeResourceV1 =
  VolumeRef :: OscResourceReferenceV1
  ImageRef :: OscResourceReferenceV1
  KeypairRef :: OscResourceReferenceV1
  VmRef :: OscResourceReferenceV1
  node_LinkPublicIpRef :: OscResourceReferenceV1
  PublicIpIdRef :: OscResourceReferenceV1

record OscClusterStatusV1 = OscClusterStatus +
  v1_StatusNetwork :: OscNetworkResourceV1

record OscClusterV1 =
  v1_ClMeta :: ObjectMeta
  v1_ClSpec :: OscClusterSpecV1
  v1_ClStatus :: OscClusterStatusV1

record OscMachineStatusV1 = OscMachineStatus +
  v1_StatusNode :: OscNodeResourceV1

record OscMachineV1 =
  v1_MaMeta :: ObjectMeta
  v1_MaSpec :: OscMachineSpecV1
  v1_MaStatus :: OscMachineStatusV1

section \<open>Templates\<close>

text \<open>
  \<^verbatim>\<open>clusterv1.ObjectMeta\<close>, the metadata a template gives to its objects. \<^verbatim>\<open>corev1.ResourceList\<close>
  maps the name of a resource to a quantity, a value of \<^verbatim>\<open>k8s.io/apimachinery\<close> that is only stored
  here: its type is a parameter.
\<close>

record TemplateMeta =
  tm_Labels :: nmap
  tm_Annotations :: nmap

type_synonym 'q ResourceList = "(string \<times> 'q) list option"

record OscClusterTemplateResource =
  ctr_ObjectMeta :: TemplateMeta
  ctr_Spec :: OscClusterSpec

record OscClusterTemplate =
  ct_Meta :: ObjectMeta
  ct_Template :: OscClusterTemplateResource

record OscMachineTemplateResource =
  mtr_ObjectMeta :: TemplateMeta
  mtr_Spec :: OscMachineSpec

record 'q OscMachineTemplateStatus =
  mt_Capacity :: "'q ResourceList"
  mt_Conditions :: "Condition list"

record 'q OscMachineTemplate =
  mt_Meta :: ObjectMeta
  mt_Template :: OscMachineTemplateResource
  mt_Status :: "'q OscMachineTemplateStatus"

record OscClusterTemplateResourceV1 =
  v1_ctr_ObjectMeta :: TemplateMeta
  v1_ctr_Spec :: OscClusterSpecV1

record OscClusterTemplateV1 =
  v1_ct_Meta :: ObjectMeta
  v1_ct_Template :: OscClusterTemplateResourceV1

record OscMachineTemplateResourceV1 =
  v1_mtr_ObjectMeta :: TemplateMeta
  v1_mtr_Spec :: OscMachineSpecV1

type_synonym 'q OscMachineTemplateStatusV1 = "'q OscMachineTemplateStatus"

record 'q OscMachineTemplateV1 =
  v1_mt_Meta :: ObjectMeta
  v1_mt_Template :: OscMachineTemplateResourceV1
  v1_mt_Status :: "'q OscMachineTemplateStatusV1"

section \<open>Zero values\<close>

definition zero_OscCredentials :: OscCredentials where
  "zero_OscCredentials = \<lparr>FromSecret = [], FromFile = [], Profile = []\<rparr>"

definition zero_OscLoadBalancerV1 :: OscLoadBalancerV1 where
  "zero_OscLoadBalancerV1 =
     \<lparr>LoadBalancerName = [], LoadBalancerType = [], lb_SubnetName = [], SecurityGroupName = [],
      Listener = \<lparr>BackendPort = 0, BackendProtocol = [], LoadBalancerPort = 0, LoadBalancerProtocol = []\<rparr>,
      HealthCheck = \<lparr>CheckInterval = 0, HealthyThreshold = 0, hc_Port = 0, hc_Protocol = [], hc_Timeout = 0,
        UnhealthyThreshold = 0\<rparr>, lb1_ClusterName = []\<rparr>"

definition zero_OscNetV1 :: OscNetV1 where
  "zero_OscNetV1 = \<lparr>net_Name = [], net_IpRange = [], net_ResourceId = [], net1_ClusterName = []\<rparr>"

definition zero_OscImageV1 :: OscImageV1 where
  "zero_OscImageV1 = \<lparr>img_Name = [], AccountId = [], OutscaleOpenSource = False, img1_ResourceId = []\<rparr>"

definition zero_OscKeypair :: OscKeypair where
  "zero_OscKeypair = \<lparr>kp_Name = [], PublicKey = [], kp_ResourceId = [], kp_ClusterName = [], DeleteKeypair = False\<rparr>"

definition zero_TemplateMeta :: TemplateMeta where
  "zero_TemplateMeta = \<lparr>tm_Labels = None, tm_Annotations = None\<rparr>"

definition zero_ref :: OscResourceReferenceV1 where
  "zero_ref = \<lparr>ResourceMap = None\<rparr>"

definition zero_OscNetworkResourceV1 :: OscNetworkResourceV1 where
  "zero_OscNetworkResourceV1 =
     \<lparr>LoadbalancerRef = zero_ref, NetRef = zero_ref, SubnetRef = zero_ref, InternetServiceRef = zero_ref,
      RouteTablesRef = zero_ref, LinkRouteTableRef = None, RouteRef = zero_ref, SecurityGroupsRef = zero_ref,
      SecurityGroupRuleRef = zero_ref, PublicIpRef = zero_ref, NatServiceRef = zero_ref, BastionRef = zero_ref,
      LinkPublicIpRef = zero_ref\<rparr>"

definition zero_OscNodeResourceV1 :: OscNodeResourceV1 where
  "zero_OscNodeResourceV1 =
     \<lparr>VolumeRef = zero_ref, ImageRef = zero_ref, KeypairRef = zero_ref, VmRef = zero_ref,
      node_LinkPublicIpRef = zero_ref, PublicIpIdRef = zero_ref\<rparr>"

section \<open>Methods\<close>

text \<open>The methods of the structs that both versions share are those of \<^verbatim>\<open>v1beta2\<close>.\<close>

definition OscNetV1_IsZero :: "OscNetV1 \<Rightarrow> bool" where
  "OscNetV1_IsZero net \<longleftrightarrow> net_IpRange net = [] \<and> net_ResourceId net = []"

definition OscVmV1_GetRole :: "OscVmV1 \<Rightarrow> OscRoleV1" where
  "OscVmV1_GetRole vm = (if vm_Role vm \<noteq> [] then vm_Role vm else RoleWorker)"

definition OscVmV1_GetSubregions :: "OscVmV1 \<Rightarrow> string list" where
  "OscVmV1_GetSubregions vm = (if SubregionNames vm \<noteq> [] then SubregionNames vm else [vm_SubregionName vm])"

definition OscVmV1_SetDefaultValue :: "OscVmV1 \<Rightarrow> OscVmV1" where
  "OscVmV1_SetDefaultValue vm =
     (let disk0 = vm_RootDisk vm;
          disk1 = disk0\<lparr>RootDiskType := default_str DefaultRootDiskType (RootDiskType disk0)\<rparr>;
          disk2 = (if RootDiskIops disk1 = 0 \<and> RootDiskType disk1 = ''io1''
                   then disk1\<lparr>RootDiskIops := DefaultRootDiskIops\<rparr> else disk1);
          disk3 = disk2\<lparr>RootDiskSize := default_int DefaultRootDiskSize (RootDiskSize disk2)\<rparr>
      in vm\<lparr>vm_VmType := default_str DefaultVmType (vm_VmType vm), vm_RootDisk := disk3\<rparr>)"

definition OscBastionV1_SetDefaultValue :: "OscBastionV1 \<Rightarrow> OscBastionV1" where
  "OscBastionV1_SetDefaultValue bastion =
     (if bn_Enable bastion
      then bastion\<lparr>bn_VmType := default_str DefaultVmBastionType (bn_VmType bastion),
             bn_RootDisk := (bn_RootDisk bastion)
               \<lparr>RootDiskType := default_str DefaultRootDiskBastionType (RootDiskType (bn_RootDisk bastion)),
                RootDiskSize := default_int DefaultRootDiskBastionSize (RootDiskSize (bn_RootDisk bastion))\<rparr>\<rparr>
      else bastion)"

definition OscLoadBalancerV1_SetDefaultValue :: "OscLoadBalancerV1 \<Rightarrow> OscLoadBalancerV1" where
  "OscLoadBalancerV1_SetDefaultValue lb =
     lb\<lparr>LoadBalancerType := default_str DefaultLoadBalancerType (LoadBalancerType lb),
        Listener := (Listener lb)
          \<lparr>BackendPort := default_int APIPort (BackendPort (Listener lb)),
           BackendProtocol := default_str DefaultLoadBalancerProtocol (BackendProtocol (Listener lb)),
           LoadBalancerPort := default_int APIPort (LoadBalancerPort (Listener lb)),
           LoadBalancerProtocol := default_str DefaultLoadBalancerProtocol (LoadBalancerProtocol (Listener lb))\<rparr>,
        HealthCheck := (HealthCheck lb)
          \<lparr>CheckInterval := default_int DefaultCheckInterval (CheckInterval (HealthCheck lb)),
           HealthyThreshold := default_int DefaultHealthyThreshold (HealthyThreshold (HealthCheck lb)),
           UnhealthyThreshold := default_int DefaultUnhealthyThreshold (UnhealthyThreshold (HealthCheck lb)),
           hc_Timeout := default_int DefaultTimeout (hc_Timeout (HealthCheck lb)),
           hc_Protocol := default_str DefaultLoadBalancerProtocol (hc_Protocol (HealthCheck lb)),
           hc_Port := default_int APIPort (hc_Port (HealthCheck lb))\<rparr>\<rparr>"

end
