(* ===== verification/V1beta1_Conversion.thy ===== *)
theory V1beta1_Conversion
  imports V1beta1_Types
begin

text \<open>
  The conversions between the versions of the API (\<^verbatim>\<open>api/v1beta1/*_conversion.go\<close>): \<^verbatim>\<open>v1beta2\<close> is the hub and
  the storage version, \<open>ConvertTo\<close> goes from \<^verbatim>\<open>v1beta1\<close> to it and \<open>ConvertFrom\<close> back. A conversion never
  returns an error. The functions given to \<^verbatim>\<open>lo.Map\<close> are definitions of their own; where the code
  converts a struct field by field, so do they, and a field that the code does not name has its
  zero value. \<^verbatim>\<open>lo.MapEntries\<close> allocates its result.
\<close>

section \<open>Generations\<close>

definition MapEntries :: "OscReconcilerGeneration \<Rightarrow> OscReconcilerGeneration" where
  "MapEntries g = Some (case g of None \<Rightarrow> [] | Some al \<Rightarrow> map (\<lambda>(k, v). (k, v)) al)"

section \<open>From v1beta1 to v1beta2\<close>

definition subnet_to :: "OscSubnetV1 \<Rightarrow> OscSubnet" where
  "subnet_to src =
     \<lparr>sn_Name = sn_Name src, sn_Roles = map (\<lambda>r. r) (sn_Roles src), IpSubnetRange = IpSubnetRange src,
      sn_SubregionName = sn_SubregionName src, sn_ResourceId = []\<rparr>"

definition nat_to :: "OscNatServiceV1 \<Rightarrow> OscNatService" where
  "nat_to src =
     \<lparr>nat_Name = nat_Name src, nat_SubnetName = nat_SubnetName src, nat_SubregionName = nat_SubregionName src\<rparr>"

definition routetable_to :: "OscRouteTableV1 \<Rightarrow> OscRouteTable" where
  "routetable_to src =
     \<lparr>rt_Name = rt_Name src, rt_Subnets = rt_Subnets src, rt_Role = rt_Role src,
      rt_SubregionName = rt_SubregionName src, rt_Routes = map (\<lambda>r. r) (rt_Routes src)\<rparr>"

definition securitygroup_to :: "OscSecurityGroupV1 \<Rightarrow> OscSecurityGroup" where
  "securitygroup_to src =
     \<lparr>sg_Name = sg_Name src, Description = Description src,
      SecurityGroupRules = map (\<lambda>r. r) (SecurityGroupRules src),
      sg_ResourceId = [], Tag = [], sg_Roles = [], Authoritative = False\<rparr>"

definition additional_to :: "OscAdditionalSecurityRulesV1 \<Rightarrow> OscAdditionalSecurityRules" where
  "additional_to src = \<lparr>ar_Roles = map (\<lambda>r. r) (ar_Roles src), Rules = map (\<lambda>r. r) (Rules src)\<rparr>"

definition bastion_to :: "OscBastionV1 \<Rightarrow> OscBastion" where
  "bastion_to src =
     \<lparr>bn_Name = bn_Name src, bn_ImageId = bn_ImageId src, ImageName = ImageName src,
      ImageAccountId = ImageAccountId src, bn_KeypairName = bn_KeypairName src, bn_VmType = bn_VmType src,
      bn_SubnetName = bn_SubnetName src, bn_RootDisk = bn_RootDisk src, PublicIpId = PublicIpId src,
      bn_PrivateIps = [], bn_SecurityGroupNames = map (\<lambda>e. e) (bn_SecurityGroupNames src),
      bn_ResourceId = [], bn_Enable = bn_Enable src\<rparr>"

definition rule_to :: "OscReconciliationRuleV1 \<Rightarrow> OscReconciliationRule" where
  "rule_to src = \<lparr>AppliesTo = map (\<lambda>r. r) (AppliesTo src), Mode = Mode src, ReconciliationChance = ReconciliationChance src\<rparr>"

definition loadbalancer_to :: "OscLoadBalancerV1 \<Rightarrow> OscLoadBalancer" where
  "loadbalancer_to src =
     \<lparr>LoadBalancerName = LoadBalancerName src, LoadBalancerType = LoadBalancerType src,
      lb_SubnetName = lb_SubnetName src, SecurityGroupName = SecurityGroupName src, Listener = Listener src,
      HealthCheck = HealthCheck src\<rparr>"

definition net_to :: "OscNetV1 \<Rightarrow> OscNet" where
  "net_to src = \<lparr>net_Name = net_Name src, net_IpRange = net_IpRange src, net_ResourceId = []\<rparr>"

definition netpeering_to :: "OscNetPeeringV1 \<Rightarrow> OscNetPeering" where
  "netpeering_to src =
     \<lparr>np_Enable = np_Enable src, ManagementCredentials = ManagementCredentials src,
      ManagementAccountID = ManagementAccountID src, ManagementNetID = ManagementNetID src,
      ManagementSubnetID = ManagementSubnetID src\<rparr>"

definition OscClusterSpec_ConvertTo :: "OscClusterSpecV1 \<Rightarrow> OscClusterSpec" where
  "OscClusterSpec_ConvertTo src =
     (let srcNet = v1_Network src in
      \<lparr>Credentials = v1_Credentials src,
       Network =
         \<lparr>UseExisting = v1_UseExisting srcNet,
          Disable = map (\<lambda>d. d) (v1_Disable srcNet),
          LoadBalancer = loadbalancer_to (v1_LoadBalancer srcNet),
          Net = net_to (v1_Net srcNet),
          NetPeering = netpeering_to (v1_NetPeering srcNet),
          NetAccessPoints = map (\<lambda>s. s) (v1_NetAccessPoints srcNet),
          ControlPlaneSubnets = v1_ControlPlaneSubnets srcNet,
          Subnets = map subnet_to (v1_Subnets srcNet),
          InternetService = \<lparr>is_Name = is_Name (v1_InternetService srcNet)\<rparr>,
          NatService = nat_to (v1_NatService srcNet),
          NatServices = map nat_to (v1_NatServices srcNet),
          NatPublicIpPool = v1_NatPublicIpPool srcNet,
          RouteTables = map routetable_to (v1_RouteTables srcNet),
          SecurityGroups = map securitygroup_to (v1_SecurityGroups srcNet),
          AdditionalSecurityRules = map additional_to (v1_AdditionalSecurityRules srcNet),
          Bastion = bastion_to (v1_Bastion srcNet),
          nw_SubregionName = v1_SubregionName srcNet,
          Subregions = v1_Subregions srcNet,
          AllowFromIPRanges = v1_AllowFromIPRanges srcNet,
          AllowToIPRanges = v1_AllowToIPRanges srcNet,
          ReconciliationRules = map rule_to (v1_ReconciliationRules srcNet)\<rparr>,
       ControlPlaneEndpoint = v1_ControlPlaneEndpoint src\<rparr>)"

definition OscCluster_ConvertTo :: "OscClusterV1 \<Rightarrow> OscCluster" where
  "OscCluster_ConvertTo src =
     (let st = v1_ClStatus src in
      \<lparr>cl_Meta = v1_ClMeta src,
       cl_Spec = OscClusterSpec_ConvertTo (v1_ClSpec src),
       cl_Status =
         \<lparr>cl_Ready = cl_Ready st, cl_Resources = cl_Resources st,
          cl_ReconcilerGeneration = MapEntries (cl_ReconcilerGeneration st),
          FailureDomains = FailureDomains st, cl_Conditions = cl_Conditions st, cl_VmState = cl_VmState st\<rparr>\<rparr>)"

definition volume_to :: "OscVolumeV1 \<Rightarrow> OscVolume" where
  "volume_to src =
     \<lparr>vol_Name = vol_Name src, Device = Device src, Iops = Iops src, Size = Size src,
      vol_VolumeType = vol_VolumeType src, FromSnapshot = FromSnapshot src\<rparr>"

definition OscMachineSpec_ConvertTo :: "OscMachineSpecV1 \<Rightarrow> OscMachineSpec" where
  "OscMachineSpec_ConvertTo src =
     (let srcNode = v1_Node src; srcVm = v1_Vm srcNode in
      \<lparr>ProviderID = v1_ProviderID src,
       Node =
         \<lparr>Vm =
            \<lparr>vm_Name = vm_Name srcVm, vm_ImageId = vm_ImageId srcVm, vm_KeypairName = vm_KeypairName srcVm,
             vm_VmType = vm_VmType srcVm, vm_SubnetName = vm_SubnetName srcVm, vm_RootDisk = vm_RootDisk srcVm,
             vm_PublicIp = vm_PublicIp srcVm, PublicIpPool = [],
             vm_FGPU = (case vm_FGPU srcVm of None \<Rightarrow> None | Some g \<Rightarrow> Some g),
             vm_SubregionName = vm_SubregionName srcVm, vm_SubregionMode = vm_SubregionMode srcVm,
             SubregionNames = SubregionNames srcVm, vm_PrivateIps = [],
             vm_SecurityGroupNames = map (\<lambda>e. e) (vm_SecurityGroupNames srcVm),
             vm_ResourceId = [], vm_Role = vm_Role srcVm, vm_Tags = vm_Tags srcVm, Placement = Placement srcVm\<rparr>,
          Image =
            \<lparr>img_Name = img_Name (v1_NodeImage srcNode), AccountId = AccountId (v1_NodeImage srcNode),
             OutscaleOpenSource = OutscaleOpenSource (v1_NodeImage srcNode)\<rparr>,
          Volumes = map volume_to (v1_Volumes srcNode),
          KeyPair = zero_OscKeypair,
          ReconciliationRule = map_option rule_to (v1_ReconciliationRule srcNode)\<rparr>\<rparr>)"

definition OscMachine_ConvertTo :: "OscMachineV1 \<Rightarrow> OscMachine" where
  "OscMachine_ConvertTo src =
     (let st = v1_MaStatus src in
      \<lparr>ma_Meta = v1_MaMeta src,
       ma_Spec = OscMachineSpec_ConvertTo (v1_MaSpec src),
       ma_Status =
         \<lparr>ma_Ready = ma_Ready st, Addresses = Addresses st, ma_FailureDomain = ma_FailureDomain st,
          FailureReason = FailureReason st, FailureMessage = FailureMessage st, ma_VmState = ma_VmState st,
          ma_Resources = ma_Resources st,
          ma_ReconcilerGeneration = MapEntries (ma_ReconcilerGeneration st),
          ma_Conditions = ma_Conditions st\<rparr>\<rparr>)"

text \<open>The template keeps the metadata the destination has, which is empty in a new object.\<close>

definition OscClusterTemplate_ConvertTo :: "OscClusterTemplateV1 \<Rightarrow> OscClusterTemplate \<Rightarrow> OscClusterTemplate" where
  "OscClusterTemplate_ConvertTo src dst =
     dst\<lparr>ct_Meta := v1_ct_Meta src,
         ct_Template := (ct_Template dst)\<lparr>ctr_Spec := OscClusterSpec_ConvertTo (v1_ctr_Spec (v1_ct_Template src))\<rparr>\<rparr>"

definition OscMachineTemplate_ConvertTo :: "'q OscMachineTemplateV1 \<Rightarrow> 'q OscMachineTemplate \<Rightarrow> 'q OscMachineTemplate" where
  "OscMachineTemplate_ConvertTo src dst =
     dst\<lparr>mt_Meta := v1_mt_Meta src, mt_Status := v1_mt_Status src,
         mt_Template := (mt_Template dst)\<lparr>mtr_Spec := OscMachineSpec_ConvertTo (v1_mtr_Spec (v1_mt_Template src))\<rparr>\<rparr>"

section \<open>From v1beta2 to v1beta1\<close>

definition nat_from :: "OscNatService \<Rightarrow> OscNatServiceV1" where
  "nat_from src =
     \<lparr>nat_Name = nat_Name src, nat_SubnetName = nat_SubnetName src, nat_SubregionName = nat_SubregionName src,
      nat1_PublicIpName = [], nat1_ClusterName = [], nat1_ResourceId = []\<rparr>"

definition routetable_from :: "OscRouteTable \<Rightarrow> OscRouteTableV1" where
  "routetable_from src =
     \<lparr>rt_Name = rt_Name src, rt_Subnets = rt_Subnets src, rt_Role = rt_Role src,
      rt_SubregionName = rt_SubregionName src, rt_Routes = map (\<lambda>r. r) (rt_Routes src), rt1_ResourceId = []\<rparr>"

definition subnet_from :: "OscSubnet \<Rightarrow> OscSubnetV1" where
  "subnet_from src =
     \<lparr>sn_Name = sn_Name src, sn_Roles = map (\<lambda>r. r) (sn_Roles src), IpSubnetRange = IpSubnetRange src,
      sn_SubregionName = sn_SubregionName src, sn_ResourceId = []\<rparr>"

definition securitygroup_from :: "OscSecurityGroup \<Rightarrow> OscSecurityGroupV1" where
  "securitygroup_from src =
     \<lparr>sg_Name = sg_Name src, Description = Description src,
      SecurityGroupRules = map (\<lambda>r. r) (SecurityGroupRules src),
      sg_ResourceId = [], Tag = [], sg_Roles = [], Authoritative = False\<rparr>"

definition additional_from :: "OscAdditionalSecurityRules \<Rightarrow> OscAdditionalSecurityRulesV1" where
  "additional_from src = \<lparr>ar_Roles = map (\<lambda>r. r) (ar_Roles src), Rules = map (\<lambda>r. r) (Rules src)\<rparr>"

definition bastion_from :: "OscBastion \<Rightarrow> OscBastionV1" where
  "bastion_from src =
     \<lparr>bn_Name = bn_Name src, bn_ImageId = bn_ImageId src, ImageName = ImageName src,
      ImageAccountId = ImageAccountId src, bn_KeypairName = bn_KeypairName src, bn_VmType = bn_VmType src,
      bn_SubnetName = bn_SubnetName src, bn_RootDisk = bn_RootDisk src, PublicIpId = PublicIpId src,
      bn_PrivateIps = [], bn_SecurityGroupNames = map (\<lambda>e. e) (bn_SecurityGroupNames src),
      bn_ResourceId = [], bn_Enable = bn_Enable src,
      bn1_DeviceName = [], bn1_PublicIpName = [], bn1_SubregionName = [], bn1_ClusterName = []\<rparr>"

definition rule_from :: "OscReconciliationRule \<Rightarrow> OscReconciliationRuleV1" where
  "rule_from src = \<lparr>AppliesTo = map (\<lambda>r. r) (AppliesTo src), Mode = Mode src, ReconciliationChance = ReconciliationChance src\<rparr>"

definition loadbalancer_from :: "OscLoadBalancer \<Rightarrow> OscLoadBalancerV1" where
  "loadbalancer_from src =
     \<lparr>LoadBalancerName = LoadBalancerName src, LoadBalancerType = LoadBalancerType src,
      lb_SubnetName = lb_SubnetName src, SecurityGroupName = SecurityGroupName src, Listener = Listener src,
      HealthCheck = HealthCheck src, lb1_ClusterName = []\<rparr>"

definition net_from :: "OscNet \<Rightarrow> OscNetV1" where
  "net_from src = \<lparr>net_Name = net_Name src, net_IpRange = net_IpRange src, net_ResourceId = [], net1_ClusterName = []\<rparr>"

definition netpeering_from :: "OscNetPeering \<Rightarrow> OscNetPeeringV1" where
  "netpeering_from src =
     \<lparr>np_Enable = np_Enable src, ManagementCredentials = ManagementCredentials src,
      ManagementAccountID = ManagementAccountID src, ManagementNetID = ManagementNetID src,
      ManagementSubnetID = ManagementSubnetID src\<rparr>"

definition OscClusterSpec_ConvertFrom :: "OscClusterSpec \<Rightarrow> OscClusterSpecV1" where
  "OscClusterSpec_ConvertFrom src =
     (let srcNet = Network src in
      \<lparr>v1_Credentials = Credentials src,
       v1_Network =
         \<lparr>v1_UseExisting = UseExisting srcNet,
          v1_Disable = map (\<lambda>d. d) (Disable srcNet),
          v1_LoadBalancer = loadbalancer_from (LoadBalancer srcNet),
          v1_Net = net_from (Net srcNet),
          v1_NetPeering = netpeering_from (NetPeering srcNet),
          v1_NetAccessPoints = map (\<lambda>s. s) (NetAccessPoints srcNet),
          v1_ControlPlaneSubnets = ControlPlaneSubnets srcNet,
          v1_Subnets = map subnet_from (Subnets srcNet),
          v1_InternetService = \<lparr>is_Name = is_Name (InternetService srcNet), is1_ClusterName = [], is1_ResourceId = []\<rparr>,
          v1_NatService = nat_from (NatService srcNet),
          v1_NatServices = map nat_from (NatServices srcNet),
          v1_NatPublicIpPool = NatPublicIpPool srcNet,
          v1_RouteTables = map routetable_from (RouteTables srcNet),
          v1_SecurityGroups = map securitygroup_from (SecurityGroups srcNet),
          v1_AdditionalSecurityRules = map additional_from (AdditionalSecurityRules srcNet),
          v1_PublicIps = [], v1_ClusterName = [], v1_Image = zero_OscImageV1,
          v1_Bastion = bastion_from (Bastion srcNet),
          v1_SubregionName = nw_SubregionName srcNet,
          v1_Subregions = Subregions srcNet,
          v1_ExtraSecurityGroupRule = False,
          v1_AllowFromIPRanges = AllowFromIPRanges srcNet,
          v1_AllowToIPRanges = AllowToIPRanges srcNet,
          v1_ReconciliationRules = map rule_from (ReconciliationRules srcNet)\<rparr>,
       v1_ControlPlaneEndpoint = ControlPlaneEndpoint src\<rparr>)"

definition OscCluster_ConvertFrom :: "OscCluster \<Rightarrow> OscClusterV1" where
  "OscCluster_ConvertFrom src =
     (let st = cl_Status src in
      \<lparr>v1_ClMeta = cl_Meta src,
       v1_ClSpec = OscClusterSpec_ConvertFrom (cl_Spec src),
       v1_ClStatus =
         \<lparr>cl_Ready = cl_Ready st, cl_Resources = cl_Resources st,
          cl_ReconcilerGeneration = MapEntries (cl_ReconcilerGeneration st),
          FailureDomains = FailureDomains st, cl_Conditions = cl_Conditions st, cl_VmState = cl_VmState st,
          v1_StatusNetwork = zero_OscNetworkResourceV1\<rparr>\<rparr>)"

definition volume_from :: "OscVolume \<Rightarrow> OscVolumeV1" where
  "volume_from src =
     \<lparr>vol_Name = vol_Name src, Device = Device src, Iops = Iops src, Size = Size src,
      vol_VolumeType = vol_VolumeType src, FromSnapshot = FromSnapshot src,
      vol1_SubregionName = [], vol1_ResourceId = []\<rparr>"

definition OscMachineSpec_ConvertFrom :: "OscMachineSpec \<Rightarrow> OscMachineSpecV1" where
  "OscMachineSpec_ConvertFrom src =
     (let srcNode = Node src; srcVm = Vm srcNode in
      \<lparr>v1_ProviderID = ProviderID src,
       v1_Node =
         \<lparr>v1_Vm =
            \<lparr>vm_Name = vm_Name srcVm, vm_ImageId = vm_ImageId srcVm, vm_KeypairName = vm_KeypairName srcVm,
             vm_VmType = vm_VmType srcVm, vm_SubnetName = vm_SubnetName srcVm, vm_RootDisk = vm_RootDisk srcVm,
             vm_PublicIp = vm_PublicIp srcVm, PublicIpPool = [],
             vm_FGPU = (case vm_FGPU srcVm of None \<Rightarrow> None | Some g \<Rightarrow> Some g),
             vm_SubregionName = vm_SubregionName srcVm, vm_SubregionMode = vm_SubregionMode srcVm,
             SubregionNames = SubregionNames srcVm, vm_PrivateIps = [],
             vm_SecurityGroupNames = map (\<lambda>e. e) (vm_SecurityGroupNames srcVm),
             vm_ResourceId = [], vm_Role = vm_Role srcVm, vm_Tags = vm_Tags srcVm, Placement = Placement srcVm,
             vm1_VolumeName = [], vm1_VolumeDeviceName = [], vm1_DeviceName = [], vm1_LoadBalancerName = [],
             vm1_PublicIpName = [], vm1_ClusterName = [], vm1_Replica = 0\<rparr>,
          v1_NodeImage =
            \<lparr>img_Name = img_Name (Image srcNode), AccountId = AccountId (Image srcNode),
             OutscaleOpenSource = OutscaleOpenSource (Image srcNode), img1_ResourceId = []\<rparr>,
          v1_Volumes = map volume_from (Volumes srcNode),
          v1_KeyPair = zero_OscKeypair,
          v1_NodeClusterName = [],
          v1_ReconciliationRule = map_option rule_from (ReconciliationRule srcNode)\<rparr>\<rparr>)"

definition OscMachine_ConvertFrom :: "OscMachine \<Rightarrow> OscMachineV1" where
  "OscMachine_ConvertFrom src =
     (let st = ma_Status src in
      \<lparr>v1_MaMeta = ma_Meta src,
       v1_MaSpec = OscMachineSpec_ConvertFrom (ma_Spec src),
       v1_MaStatus =
         \<lparr>ma_Ready = ma_Ready st, Addresses = Addresses st, ma_FailureDomain = ma_FailureDomain st,
          FailureReason = FailureReason st, FailureMessage = FailureMessage st, ma_VmState = ma_VmState st,
          ma_Resources = ma_Resources st,
          ma_ReconcilerGeneration = MapEntries (ma_ReconcilerGeneration st),
          ma_Conditions = ma_Conditions st, v1_StatusNode = zero_OscNodeResourceV1\<rparr>\<rparr>)"

definition OscClusterTemplate_ConvertFrom :: "OscClusterTemplate \<Rightarrow> OscClusterTemplateV1 \<Rightarrow> OscClusterTemplateV1" where
  "OscClusterTemplate_ConvertFrom src dst =
     dst\<lparr>v1_ct_Meta := ct_Meta src,
         v1_ct_Template := (v1_ct_Template dst)\<lparr>v1_ctr_Spec := OscClusterSpec_ConvertFrom (ctr_Spec (ct_Template src))\<rparr>\<rparr>"

definition OscMachineTemplate_ConvertFrom :: "'q OscMachineTemplate \<Rightarrow> 'q OscMachineTemplateV1 \<Rightarrow> 'q OscMachineTemplateV1" where
  "OscMachineTemplate_ConvertFrom src dst =
     dst\<lparr>v1_mt_Meta := mt_Meta src, v1_mt_Status := mt_Status src,
         v1_mt_Template := (v1_mt_Template dst)\<lparr>v1_mtr_Spec := OscMachineSpec_ConvertFrom (mtr_Spec (mt_Template src))\<rparr>\<rparr>"

end
