(* ===== verification/Api_Versions.thy ===== *)
theory Api_Versions
  imports V1beta1_Conversion
begin

text \<open>
  What survives a conversion. \<open>hub_spoke\<close> is the contract between a storage version and a
  version that is served beside it: one way and back again changes nothing more. The
  interpretations discharge it for the four kinds of objects; \<open>keeps_cluster\<close> and \<open>keeps_machine\<close> say
  exactly which stored objects come back as they were when a client of \<^verbatim>\<open>v1beta1\<close> reads and writes them, up to a
  missing map of generations, which comes back empty.
\<close>

section \<open>The contract\<close>

locale hub_spoke =
  fixes to_hub :: "'s \<Rightarrow> 'h" and to_spoke :: "'h \<Rightarrow> 's"
  assumes to_hub_stable: "to_hub (to_spoke (to_hub s)) = to_hub s"
    and to_spoke_stable: "to_spoke (to_hub (to_spoke h)) = to_spoke h"
begin

text \<open>However often an object is read and written through the spoke, it is the first time that counts.\<close>

lemma iterated: "((\<lambda>h. to_hub (to_spoke h)) ^^ Suc n) h = to_hub (to_spoke h)"
  by (induction n) (simp_all add: to_hub_stable)

lemma unchanged_iff: "to_hub (to_spoke h) = h \<longleftrightarrow> h \<in> range to_hub"
  by (metis to_hub_stable rangeI imageE)

lemma versions_agree: "bij_betw to_spoke (range to_hub) (range to_spoke)"
  by (rule bij_betw_byWitness [where f' = to_hub]) (auto simp: to_hub_stable to_spoke_stable)

end

section \<open>The parts of a specification\<close>

lemma MapEntries_idem [simp]: "MapEntries (MapEntries g) = MapEntries g"
  by (simp add: MapEntries_def split: option.split)

lemma parts_there_and_back [simp]:
  "nat_to (nat_from n) = n" "routetable_to (routetable_from t) = t" "additional_to (additional_from a) = a"
  "rule_to (rule_from u) = u" "loadbalancer_to (loadbalancer_from lb) = lb" "netpeering_to (netpeering_from np) = np"
  "volume_to (volume_from v) = v"
  by (simp_all add: nat_to_def nat_from_def routetable_to_def routetable_from_def additional_to_def additional_from_def
      rule_to_def rule_from_def loadbalancer_to_def loadbalancer_from_def netpeering_to_def netpeering_from_def
      volume_to_def volume_from_def)

lemma lossy_parts [simp]:
  "net_to (net_from x) = x\<lparr>net_ResourceId := []\<rparr>"
  "subnet_to (subnet_from s) = s\<lparr>sn_ResourceId := []\<rparr>"
  "securitygroup_to (securitygroup_from g) = g\<lparr>sg_ResourceId := [], Tag := [], sg_Roles := [], Authoritative := False\<rparr>"
  "bastion_to (bastion_from b) = b\<lparr>bn_PrivateIps := [], bn_ResourceId := []\<rparr>"
  by (simp_all add: net_to_def net_from_def subnet_to_def subnet_from_def securitygroup_to_def securitygroup_from_def
      bastion_to_def bastion_from_def)

text \<open>What a stored cluster is after a client of \<^verbatim>\<open>v1beta1\<close> wrote it.\<close>

definition cluster_through_v1 :: "OscCluster \<Rightarrow> OscCluster" where
  "cluster_through_v1 c =
     (let nw = Network (cl_Spec c); st = cl_Status c in
      c\<lparr>cl_Spec := (cl_Spec c)\<lparr>Network := nw
          \<lparr>Net := (Net nw)\<lparr>net_ResourceId := []\<rparr>,
           Subnets := map (\<lambda>s. s\<lparr>sn_ResourceId := []\<rparr>) (Subnets nw),
           SecurityGroups := map (\<lambda>g. g\<lparr>sg_ResourceId := [], Tag := [], sg_Roles := [], Authoritative := False\<rparr>) (SecurityGroups nw),
           Bastion := (Bastion nw)\<lparr>bn_PrivateIps := [], bn_ResourceId := []\<rparr>\<rparr>\<rparr>,
        cl_Status := st\<lparr>cl_ReconcilerGeneration := MapEntries (cl_ReconcilerGeneration st)\<rparr>\<rparr>)"

lemma spec_there_and_back:
  "OscClusterSpec_ConvertTo (OscClusterSpec_ConvertFrom sp) =
     sp\<lparr>Network := (Network sp)
          \<lparr>Net := (Net (Network sp))\<lparr>net_ResourceId := []\<rparr>,
           Subnets := map (\<lambda>s. s\<lparr>sn_ResourceId := []\<rparr>) (Subnets (Network sp)),
           SecurityGroups := map (\<lambda>g. g\<lparr>sg_ResourceId := [], Tag := [], sg_Roles := [], Authoritative := False\<rparr>) (SecurityGroups (Network sp)),
           Bastion := (Bastion (Network sp))\<lparr>bn_PrivateIps := [], bn_ResourceId := []\<rparr>\<rparr>\<rparr>"
  by (simp add: OscClusterSpec_ConvertTo_def OscClusterSpec_ConvertFrom_def Let_def comp_def)

lemma cluster_there_and_back: "OscCluster_ConvertTo (OscCluster_ConvertFrom c) = cluster_through_v1 c"
  by (simp add: OscCluster_ConvertTo_def OscCluster_ConvertFrom_def Let_def spec_there_and_back cluster_through_v1_def)

definition machine_through_v1 :: "OscMachine \<Rightarrow> OscMachine" where
  "machine_through_v1 m =
     (let node = Node (ma_Spec m); st = ma_Status m in
      m\<lparr>ma_Spec := (ma_Spec m)\<lparr>Node := node
          \<lparr>Vm := (Vm node)\<lparr>PublicIpPool := [], vm_PrivateIps := [], vm_ResourceId := []\<rparr>, KeyPair := zero_OscKeypair\<rparr>\<rparr>,
        ma_Status := st\<lparr>ma_ReconcilerGeneration := MapEntries (ma_ReconcilerGeneration st)\<rparr>\<rparr>)"

lemma machine_spec_there_and_back:
  "OscMachineSpec_ConvertTo (OscMachineSpec_ConvertFrom sp) =
     sp\<lparr>Node := (Node sp)
          \<lparr>Vm := (Vm (Node sp))\<lparr>PublicIpPool := [], vm_PrivateIps := [], vm_ResourceId := []\<rparr>, KeyPair := zero_OscKeypair\<rparr>\<rparr>"
  by (simp add: OscMachineSpec_ConvertTo_def OscMachineSpec_ConvertFrom_def Let_def comp_def option.map_comp
      option.map_ident split: option.split)

lemma machine_there_and_back: "OscMachine_ConvertTo (OscMachine_ConvertFrom m) = machine_through_v1 m"
  by (simp add: OscMachine_ConvertTo_def OscMachine_ConvertFrom_def Let_def machine_spec_there_and_back machine_through_v1_def)

section \<open>Interpretations\<close>

lemma cluster_spec_stable:
  "OscClusterSpec_ConvertTo (OscClusterSpec_ConvertFrom (OscClusterSpec_ConvertTo s)) = OscClusterSpec_ConvertTo s"
  "OscClusterSpec_ConvertFrom (OscClusterSpec_ConvertTo (OscClusterSpec_ConvertFrom h)) = OscClusterSpec_ConvertFrom h"
proof -
  show "OscClusterSpec_ConvertTo (OscClusterSpec_ConvertFrom (OscClusterSpec_ConvertTo s)) = OscClusterSpec_ConvertTo s"
    by (simp add: spec_there_and_back) (simp add: OscClusterSpec_ConvertTo_def Let_def net_to_def subnet_to_def
        securitygroup_to_def bastion_to_def comp_def)
  show "OscClusterSpec_ConvertFrom (OscClusterSpec_ConvertTo (OscClusterSpec_ConvertFrom h)) = OscClusterSpec_ConvertFrom h"
    by (simp add: spec_there_and_back) (simp add: OscClusterSpec_ConvertFrom_def Let_def net_from_def subnet_from_def
        securitygroup_from_def bastion_from_def comp_def)
qed

interpretation clusters: hub_spoke OscCluster_ConvertTo OscCluster_ConvertFrom
proof
  show "OscCluster_ConvertTo (OscCluster_ConvertFrom (OscCluster_ConvertTo s)) = OscCluster_ConvertTo s" for s
    by (simp add: OscCluster_ConvertTo_def OscCluster_ConvertFrom_def Let_def cluster_spec_stable)
  show "OscCluster_ConvertFrom (OscCluster_ConvertTo (OscCluster_ConvertFrom h)) = OscCluster_ConvertFrom h" for h
    by (simp add: OscCluster_ConvertTo_def OscCluster_ConvertFrom_def Let_def cluster_spec_stable)
qed

lemma machine_spec_stable:
  "OscMachineSpec_ConvertTo (OscMachineSpec_ConvertFrom (OscMachineSpec_ConvertTo s)) = OscMachineSpec_ConvertTo s"
  "OscMachineSpec_ConvertFrom (OscMachineSpec_ConvertTo (OscMachineSpec_ConvertFrom h)) = OscMachineSpec_ConvertFrom h"
proof -
  show "OscMachineSpec_ConvertTo (OscMachineSpec_ConvertFrom (OscMachineSpec_ConvertTo s)) = OscMachineSpec_ConvertTo s"
    by (simp add: machine_spec_there_and_back) (simp add: OscMachineSpec_ConvertTo_def Let_def)
  show "OscMachineSpec_ConvertFrom (OscMachineSpec_ConvertTo (OscMachineSpec_ConvertFrom h)) = OscMachineSpec_ConvertFrom h"
    by (simp add: machine_spec_there_and_back) (simp add: OscMachineSpec_ConvertFrom_def Let_def)
qed

interpretation machines: hub_spoke OscMachine_ConvertTo OscMachine_ConvertFrom
proof
  show "OscMachine_ConvertTo (OscMachine_ConvertFrom (OscMachine_ConvertTo s)) = OscMachine_ConvertTo s" for s
    by (simp add: OscMachine_ConvertTo_def OscMachine_ConvertFrom_def Let_def machine_spec_stable)
  show "OscMachine_ConvertFrom (OscMachine_ConvertTo (OscMachine_ConvertFrom h)) = OscMachine_ConvertFrom h" for h
    by (simp add: OscMachine_ConvertTo_def OscMachine_ConvertFrom_def Let_def machine_spec_stable)
qed

text \<open>
  Templates are converted into a new object: \<open>fresh\<close> ones of both versions are given, with empty
  metadata in the template.
\<close>

interpretation cluster_templates: hub_spoke
  "\<lambda>s. OscClusterTemplate_ConvertTo s fresh" "\<lambda>h. OscClusterTemplate_ConvertFrom h fresh1"
  for fresh :: OscClusterTemplate and fresh1 :: OscClusterTemplateV1
  by unfold_locales (simp_all add: OscClusterTemplate_ConvertTo_def OscClusterTemplate_ConvertFrom_def cluster_spec_stable)

interpretation machine_templates: hub_spoke
  "\<lambda>s. OscMachineTemplate_ConvertTo s fresh" "\<lambda>h. OscMachineTemplate_ConvertFrom h fresh1"
  for fresh :: "'q OscMachineTemplate" and fresh1 :: "'q OscMachineTemplateV1"
  by unfold_locales (simp_all add: OscMachineTemplate_ConvertTo_def OscMachineTemplate_ConvertFrom_def machine_spec_stable)

section \<open>Objects that come back unchanged\<close>

definition keeps_cluster :: "OscCluster \<Rightarrow> bool" where
  "keeps_cluster c \<longleftrightarrow>
     (let nw = Network (cl_Spec c) in
      net_ResourceId (Net nw) = [] \<and> list_all (\<lambda>s. sn_ResourceId s = []) (Subnets nw) \<and>
      list_all (\<lambda>g. sg_ResourceId g = [] \<and> Tag g = [] \<and> sg_Roles g = [] \<and> \<not> Authoritative g) (SecurityGroups nw) \<and>
      bn_PrivateIps (Bastion nw) = [] \<and> bn_ResourceId (Bastion nw) = [])"

definition keeps_machine :: "OscMachine \<Rightarrow> bool" where
  "keeps_machine m \<longleftrightarrow>
     (let vm = Vm (Node (ma_Spec m)) in
      PublicIpPool vm = [] \<and> vm_PrivateIps vm = [] \<and> vm_ResourceId vm = [] \<and>
      KeyPair (Node (ma_Spec m)) = zero_OscKeypair)"

text \<open>The same object, with an empty map of generations where there was none.\<close>

definition with_generations :: "OscCluster \<Rightarrow> OscCluster" where
  "with_generations c = (let st = cl_Status c in c\<lparr>cl_Status := st\<lparr>cl_ReconcilerGeneration :=
     (case cl_ReconcilerGeneration st of None \<Rightarrow> Some [] | Some g \<Rightarrow> Some g)\<rparr>\<rparr>)"

definition with_mgenerations :: "OscMachine \<Rightarrow> OscMachine" where
  "with_mgenerations m = (let st = ma_Status m in m\<lparr>ma_Status := st\<lparr>ma_ReconcilerGeneration :=
     (case ma_ReconcilerGeneration st of None \<Rightarrow> Some [] | Some g \<Rightarrow> Some g)\<rparr>\<rparr>)"

lemma MapEntries_cases: "MapEntries g = (case g of None \<Rightarrow> Some [] | Some al \<Rightarrow> Some al)"
  by (cases g) (simp_all add: MapEntries_def)

lemma map_same: "map f xs = xs \<longleftrightarrow> list_all (\<lambda>x. f x = x) xs"
  by (induction xs) auto

lemma same_parts:
  "(x :: OscNet)\<lparr>net_ResourceId := []\<rparr> = x \<longleftrightarrow> net_ResourceId x = []"
  "(s :: OscSubnet)\<lparr>sn_ResourceId := []\<rparr> = s \<longleftrightarrow> sn_ResourceId s = []"
  "(g :: OscSecurityGroup)\<lparr>sg_ResourceId := [], Tag := [], sg_Roles := [], Authoritative := False\<rparr> = g \<longleftrightarrow>
     sg_ResourceId g = [] \<and> Tag g = [] \<and> sg_Roles g = [] \<and> \<not> Authoritative g"
  "(b :: OscBastion)\<lparr>bn_PrivateIps := [], bn_ResourceId := []\<rparr> = b \<longleftrightarrow> bn_PrivateIps b = [] \<and> bn_ResourceId b = []"
  "(v :: OscVm)\<lparr>PublicIpPool := [], vm_PrivateIps := [], vm_ResourceId := []\<rparr> = v \<longleftrightarrow>
     PublicIpPool v = [] \<and> vm_PrivateIps v = [] \<and> vm_ResourceId v = []"
  by ((cases x; auto), (cases s; auto), (cases g; auto), (cases b; auto), (cases v; auto))

lemma cluster_unchanged: "cluster_through_v1 c = with_generations c \<longleftrightarrow> keeps_cluster c"
proof -
  obtain meta sp st where c: "c = \<lparr>cl_Meta = meta, cl_Spec = sp, cl_Status = st\<rparr>" by (cases c)
  obtain cr nw ep where sp: "sp = \<lparr>Credentials = cr, Network = nw, ControlPlaneEndpoint = ep\<rparr>" by (cases sp)
  have "nw\<lparr>Net := n, Subnets := ss, SecurityGroups := gs, Bastion := b\<rparr> = nw \<longleftrightarrow>
      n = Net nw \<and> ss = Subnets nw \<and> gs = SecurityGroups nw \<and> b = Bastion nw" for n ss gs b
    by (cases nw) auto
  then show ?thesis
    by (simp add: c sp cluster_through_v1_def with_generations_def keeps_cluster_def Let_def map_same same_parts MapEntries_cases)
qed

lemma machine_unchanged: "machine_through_v1 m = with_mgenerations m \<longleftrightarrow> keeps_machine m"
proof -
  obtain meta sp st where m: "m = \<lparr>ma_Meta = meta, ma_Spec = sp, ma_Status = st\<rparr>" by (cases m)
  obtain pid node where sp: "sp = \<lparr>ProviderID = pid, Node = node\<rparr>" by (cases sp)
  have "node\<lparr>Vm := v, KeyPair := k\<rparr> = node \<longleftrightarrow> v = Vm node \<and> k = KeyPair node" for v k
    by (cases node) auto
  then show ?thesis
    by (auto simp: m sp machine_through_v1_def with_mgenerations_def keeps_machine_def Let_def same_parts MapEntries_cases)
qed

end
