(* ===== verification/Go_Regexp.thy ===== *)
theory Go_Regexp
  imports Ip_Net
begin

text \<open>
  What the provider uses of Go's package \<^verbatim>\<open>regexp\<close>: matching a pattern against a string and
  reading its groups. A pattern is a datatype; \<open>results\<close> lists its matches at the start of a
  string in the order a backtracking search tries them, which is how the package chooses among
  several matches (leftmost first, repetitions greedy). Strings are byte sequences, and the dot
  consumes a whole UTF-8 sequence. \<open>accepts\<close> gives every construct its meaning as an equation
  on continuations, so that the language of a pattern is computed by rewriting.
\<close>

named_theorems accepts_simps \<open>meaning of the constructs of a pattern\<close>

section \<open>Patterns\<close>

type_synonym char_class = "(char \<times> char) list"

datatype regex =
    Eps
  | Lit string
  | Dot
  | Rep char_class nat "nat option"
  | Seq regex regex
  | Alt regex regex
  | Group regex

definition in_class :: "char_class \<Rightarrow> char \<Rightarrow> bool" where
  "in_class cs c = list_ex (\<lambda>(a, b). (of_char a :: nat) \<le> of_char c \<and> (of_char c :: nat) \<le> of_char b) cs"

abbreviation Cls :: "char_class \<Rightarrow> regex" where "Cls cs \<equiv> Rep cs (Suc 0) (Some (Suc 0))"
abbreviation Plus :: "char_class \<Rightarrow> regex" where "Plus cs \<equiv> Rep cs (Suc 0) None"
abbreviation Star :: "char_class \<Rightarrow> regex" where "Star cs \<equiv> Rep cs 0 None"
abbreviation Opt :: "regex \<Rightarrow> regex" where "Opt r \<equiv> Alt r Eps"

definition seqs :: "regex list \<Rightarrow> regex" where
  "seqs rs = foldr Seq rs Eps"

fun alts :: "string list \<Rightarrow> regex" where
  "alts [] = Plus []"
| "alts [w] = Lit w"
| "alts (w # ws) = Alt (Lit w) (alts ws)"

section \<open>Matching\<close>

text \<open>
  The number of bytes of the rune at the start of a string (\<^verbatim>\<open>utf8.DecodeRuneInString\<close>): a byte
  that does not start a well-formed sequence counts as one rune.
\<close>

definition continuation :: "nat \<Rightarrow> bool" where
  "continuation n \<longleftrightarrow> 128 \<le> n \<and> n \<le> 191"

fun rune_width :: "nat list \<Rightarrow> nat" where
  "rune_width [] = 0"
| "rune_width (a # s) =
     (if 194 \<le> a \<and> a \<le> 223 then
        (case s of b # _ \<Rightarrow> if continuation b then 2 else 1 | _ \<Rightarrow> 1)
      else if 224 \<le> a \<and> a \<le> 239 then
        (case s of b # c # _ \<Rightarrow>
           if continuation b \<and> continuation c \<and> (a = 224 \<longrightarrow> 160 \<le> b) \<and> (a = 237 \<longrightarrow> b \<le> 159) then 3 else 1
         | _ \<Rightarrow> 1)
      else if 240 \<le> a \<and> a \<le> 244 then
        (case s of b # c # d # _ \<Rightarrow>
           if continuation b \<and> continuation c \<and> continuation d \<and> (a = 240 \<longrightarrow> 144 \<le> b) \<and> (a = 244 \<longrightarrow> b \<le> 143)
           then 4 else 1
         | _ \<Rightarrow> 1)
      else 1)"

definition first_rune :: "string \<Rightarrow> nat" where
  "first_rune s = rune_width (map of_char s)"

definition rep_counts :: "char_class \<Rightarrow> nat \<Rightarrow> nat option \<Rightarrow> string \<Rightarrow> nat list" where
  "rep_counts cs lo hi s =
     (let n = length (takeWhile (in_class cs) s);
          m = (case hi of None \<Rightarrow> n | Some h \<Rightarrow> min n h)
      in rev [lo..<Suc m])"

text \<open>Every match at the start of the string: its groups and the rest of the string.\<close>

primrec results :: "regex \<Rightarrow> string \<Rightarrow> (string list \<times> string) list" where
  "results Eps s = [([], s)]"
| "results (Lit w) s = (if take (length w) s = w then [([], drop (length w) s)] else [])"
| "results Dot s = (if s = [] \<or> hd s = CHR 0x0A then [] else [([], drop (first_rune s) s)])"
| "results (Rep cs lo hi) s = map (\<lambda>k. ([], drop k s)) (rep_counts cs lo hi s)"
| "results (Seq a b) s = concat (map (\<lambda>(g, t). map (\<lambda>(h, u). (g @ h, u)) (results b t)) (results a s))"
| "results (Alt a b) s = results a s @ results b s"
| "results (Group r) s = map (\<lambda>(g, t). (take (length s - length t) s # g, t)) (results r s)"

text \<open>
  \<^verbatim>\<open>MatchString\<close> of a pattern \<^verbatim>\<open>^r$\<close> and of an unanchored one, and \<^verbatim>\<open>FindStringSubmatch\<close> without the
  whole match (\<^verbatim>\<open>matches[1:]\<close>).
\<close>

definition match_whole :: "regex \<Rightarrow> string \<Rightarrow> bool" where
  "match_whole r s = list_ex (\<lambda>(g, t). t = []) (results r s)"

fun match_somewhere :: "regex \<Rightarrow> string \<Rightarrow> bool" where
  "match_somewhere r [] = (results r [] \<noteq> [])"
| "match_somewhere r (c # s) = (results r (c # s) \<noteq> [] \<or> match_somewhere r s)"

fun FindStringSubmatch :: "regex \<Rightarrow> string \<Rightarrow> string list option" where
  "FindStringSubmatch r [] = (case results r [] of [] \<Rightarrow> None | (g, _) # _ \<Rightarrow> Some g)"
| "FindStringSubmatch r (c # s) =
     (case results r (c # s) of [] \<Rightarrow> FindStringSubmatch r s | (g, _) # _ \<Rightarrow> Some g)"

section \<open>Meaning of the constructs\<close>

definition accepts :: "regex \<Rightarrow> (string \<Rightarrow> bool) \<Rightarrow> string \<Rightarrow> bool" where
  "accepts r k s \<longleftrightarrow> (\<exists>(g, t) \<in> set (results r s). k t)"

lemma match_whole_accepts: "match_whole r s \<longleftrightarrow> accepts r (\<lambda>t. t = []) s"
  by (simp add: match_whole_def accepts_def list_ex_iff)

lemma take_eq_prefix: "take (length w) s = w \<longleftrightarrow> (\<exists>t. s = w @ t)"
  by (metis append_eq_conv_conj append_take_drop_id)

lemma accepts_Eps [accepts_simps]: "accepts Eps k s \<longleftrightarrow> k s"
  by (simp add: accepts_def)

lemma accepts_Lit [accepts_simps]: "accepts (Lit w) k s \<longleftrightarrow> (\<exists>t. s = w @ t \<and> k t)"
  by (auto simp: accepts_def take_eq_prefix)

lemma accepts_Dot [accepts_simps]:
  "accepts Dot k s \<longleftrightarrow> s \<noteq> [] \<and> hd s \<noteq> CHR 0x0A \<and> k (drop (first_rune s) s)"
  by (simp add: accepts_def)

lemma accepts_Seq [accepts_simps]: "accepts (Seq a b) k s \<longleftrightarrow> accepts a (accepts b k) s"
  by (fastforce simp: accepts_def)

lemma accepts_Alt [accepts_simps]: "accepts (Alt a b) k s \<longleftrightarrow> accepts a k s \<or> accepts b k s"
  by (auto simp: accepts_def)

lemma accepts_Group [accepts_simps]: "accepts (Group r) k s \<longleftrightarrow> accepts r k s"
  by (simp add: accepts_def split_beta)

lemma le_length_takeWhile: "k \<le> length (takeWhile P s) \<longleftrightarrow> k \<le> length s \<and> list_all P (take k s)"
proof (induction s arbitrary: k)
  case (Cons c s)
  then show ?case by (cases k) auto
qed simp

lemma rep_counts_iff:
  "k \<in> set (rep_counts cs lo hi s) \<longleftrightarrow>
     lo \<le> k \<and> k \<le> length s \<and> list_all (in_class cs) (take k s) \<and> (case hi of None \<Rightarrow> True | Some h \<Rightarrow> k \<le> h)"
proof -
  have "k \<in> set (rep_counts cs lo hi s) \<longleftrightarrow>
      lo \<le> k \<and> k \<le> length (takeWhile (in_class cs) s) \<and> (case hi of None \<Rightarrow> True | Some h \<Rightarrow> k \<le> h)"
    by (cases hi) (simp_all add: rep_counts_def Let_def less_Suc_eq_le del: upt_Suc)
  then show ?thesis by (simp add: le_length_takeWhile)
qed

lemma accepts_Rep [accepts_simps]:
  "accepts (Rep cs lo hi) k s \<longleftrightarrow>
     (\<exists>w t. s = w @ t \<and> list_all (in_class cs) w \<and> lo \<le> length w \<and>
        (case hi of None \<Rightarrow> True | Some h \<Rightarrow> length w \<le> h) \<and> k t)"
proof -
  have "accepts (Rep cs lo hi) k s \<longleftrightarrow> (\<exists>n \<in> set (rep_counts cs lo hi s). k (drop n s))"
    by (simp add: accepts_def)
  also have "\<dots> \<longleftrightarrow> (\<exists>w t. s = w @ t \<and> list_all (in_class cs) w \<and> lo \<le> length w \<and>
        (case hi of None \<Rightarrow> True | Some h \<Rightarrow> length w \<le> h) \<and> k t)"
  proof
    assume "\<exists>n \<in> set (rep_counts cs lo hi s). k (drop n s)"
    then obtain n where n: "n \<in> set (rep_counts cs lo hi s)" "k (drop n s)" by blast
    then have "s = take n s @ drop n s \<and> list_all (in_class cs) (take n s) \<and> lo \<le> length (take n s) \<and>
        (case hi of None \<Rightarrow> True | Some h \<Rightarrow> length (take n s) \<le> h) \<and> k (drop n s)"
      by (simp add: rep_counts_iff split: option.splits)
    then show "\<exists>w t. s = w @ t \<and> list_all (in_class cs) w \<and> lo \<le> length w \<and>
        (case hi of None \<Rightarrow> True | Some h \<Rightarrow> length w \<le> h) \<and> k t" by blast
  next
    assume "\<exists>w t. s = w @ t \<and> list_all (in_class cs) w \<and> lo \<le> length w \<and>
        (case hi of None \<Rightarrow> True | Some h \<Rightarrow> length w \<le> h) \<and> k t"
    then obtain w t where w: "s = w @ t" "list_all (in_class cs) w" "lo \<le> length w"
      "case hi of None \<Rightarrow> True | Some h \<Rightarrow> length w \<le> h" "k t" by blast
    then have "length w \<in> set (rep_counts cs lo hi s) \<and> k (drop (length w) s)"
      by (simp add: rep_counts_iff)
    then show "\<exists>n \<in> set (rep_counts cs lo hi s). k (drop n s)" by blast
  qed
  finally show ?thesis .
qed

lemma accepts_seqs [accepts_simps]:
  "accepts (seqs []) k = k" "accepts (seqs (r # rs)) k = accepts r (accepts (seqs rs) k)"
  by (simp_all add: seqs_def fun_eq_iff accepts_simps)

lemma accepts_alts [accepts_simps]: "accepts (alts ws) k s \<longleftrightarrow> (\<exists>w \<in> set ws. \<exists>t. s = w @ t \<and> k t)"
  by (induction ws rule: alts.induct) (auto simp: accepts_simps list_all_iff in_class_def)

lemma results_nonempty: "results r s \<noteq> [] \<longleftrightarrow> accepts r (\<lambda>_. True) s"
  by (cases "results r s") (auto simp: accepts_def)

lemma match_somewhere_accepts: "match_somewhere r s \<longleftrightarrow> (\<exists>a b. s = a @ b \<and> accepts r (\<lambda>_. True) b)"
proof (induction s)
  case Nil
  then show ?case by (simp add: results_nonempty)
next
  case (Cons c s)
  have "(\<exists>a b. c # s = a @ b \<and> P b) \<longleftrightarrow> P (c # s) \<or> (\<exists>a b. s = a @ b \<and> P b)" for P
    by (metis append_Cons append_Nil list.exhaust list.inject)
  then show ?case using Cons.IH by (simp add: results_nonempty)
qed

section \<open>The first match\<close>

text \<open>
  \<open>first r s g t\<close>: the match the search finds first at the start of \<open>s\<close> has the groups \<open>g\<close> and leaves
  \<open>t\<close>.
\<close>

definition first :: "regex \<Rightarrow> string \<Rightarrow> string list \<Rightarrow> string \<Rightarrow> bool" where
  "first r s g t \<longleftrightarrow> (\<exists>more. results r s = (g, t) # more)"

lemma first_Eps: "first Eps s [] s"
  by (simp add: first_def)

lemma first_Lit: "first (Lit w) (w @ t) [] t"
  by (simp add: first_def)

lemma first_Seq: "first a s g t \<Longrightarrow> first b t h u \<Longrightarrow> first (Seq a b) s (g @ h) u"
  by (auto simp: first_def)

lemma first_Group: "first r (w @ t) g t \<Longrightarrow> first (Group r) (w @ t) (w # g) t"
  by (auto simp: first_def)

lemma first_Plus:
  assumes "list_all (in_class cs) w" and "w \<noteq> []" and "t = [] \<or> \<not> in_class cs (hd t)"
  shows "first (Plus cs) (w @ t) [] t"
proof -
  have "takeWhile (in_class cs) t = []" using assms(3) by (cases t) auto
  then have "takeWhile (in_class cs) (w @ t) = w" using assms(1) by (simp add: list_all_iff)
  moreover have "rev [Suc 0..<Suc (length w)] = length w # rev [Suc 0..<length w]" using assms(2) by (cases w) simp_all
  ultimately show ?thesis by (simp add: first_def rep_counts_def Let_def)
qed

lemma FindStringSubmatch_first: "first r s g t \<Longrightarrow> FindStringSubmatch r s = Some g"
  by (cases s) (auto simp: first_def)

end
