(* ===== verification/Net_Prefix.thy ===== *)
theory Net_Prefix
  imports Ip_Net
begin

text \<open>
  The prefixes of Go's package \<^verbatim>\<open>net/netip\<close> that the validation of a cluster uses:
  \<^verbatim>\<open>ParsePrefix\<close>, \<^verbatim>\<open>Prefix.Overlaps\<close> and \<^verbatim>\<open>Prefix.String\<close>. Unlike a block of package \<^verbatim>\<open>net\<close>, a
  prefix keeps the bits of its address after the prefix length.
\<close>

record Prefix =
  p_Addr :: "byte list"
  p_Bits :: nat

section \<open>Parsing and printing\<close>

text \<open>\<^verbatim>\<open>strconv.Atoi\<close> behind the test that refuses a sign and a leading zero.\<close>

definition parse_bits :: "string \<Rightarrow> nat option" where
  "parse_bits s =
     (if s = [] \<or> \<not> list_all is_digit s \<or> (length s > 1 \<and> hd s = CHR ''0'') then None
      else Some (decimal_val 0 s))"

text \<open>The last slash separates the address from the length.\<close>

definition ParsePrefix :: "string \<Rightarrow> Prefix option" where
  "ParsePrefix s =
     (case dropWhile (\<lambda>c. c \<noteq> CHR ''/'') (rev s) of
        [] \<Rightarrow> None
      | _ # addr \<Rightarrow>
          (case ParseAddr (rev addr) of
             None \<Rightarrow> None
           | Some ip \<Rightarrow>
               (case parse_bits (rev (takeWhile (\<lambda>c. c \<noteq> CHR ''/'') (rev s))) of
                  None \<Rightarrow> None
                | Some n \<Rightarrow> if n > 8 * length ip then None else Some \<lparr>p_Addr = ip, p_Bits = n\<rparr>)))"

text \<open>\<^verbatim>\<open>Addr.String\<close> marks an IPv4 address in IPv6 form.\<close>

definition Addr_String :: "byte list \<Rightarrow> string" where
  "Addr_String ip =
     (if length ip = 4 then ipv4_str ip
      else if take 12 ip = v4InV6Prefix then ''::ffff:'' @ ipv4_str (drop 12 ip)
      else ipv6_str ip)"

definition Prefix_String :: "Prefix \<Rightarrow> string" where
  "Prefix_String p = Addr_String (p_Addr p) @ ''/'' @ nat_str (p_Bits p)"

section \<open>Overlapping prefixes\<close>

definition masked :: "nat \<Rightarrow> byte list \<Rightarrow> byte list" where
  "masked n ip = map2 (AND) ip (CIDRMask n (length ip))"

definition Overlaps :: "Prefix \<Rightarrow> Prefix \<Rightarrow> bool" where
  "Overlaps p q =
     (if p = q then True
      else if length (p_Addr p) \<noteq> length (p_Addr q) then False
      else let minBits = min (p_Bits p) (p_Bits q)
           in if minBits = 0 then True else masked minBits (p_Addr p) = masked minBits (p_Addr q))"

text \<open>The addresses of a prefix (\<^verbatim>\<open>Prefix.Contains\<close>).\<close>

definition prefix_contains :: "Prefix \<Rightarrow> byte list \<Rightarrow> bool" where
  "prefix_contains p a \<longleftrightarrow> length a = length (p_Addr p) \<and> masked (p_Bits p) a = masked (p_Bits p) (p_Addr p)"

lemma bit_mask_byte: "bit (mask_byte n) i \<longleftrightarrow> i < 8 \<and> 8 \<le> i + n"
proof (cases "8 \<le> n")
  case True
  then have "mask_byte n = - 1" by (simp add: mask_byte_def)
  then show ?thesis using True by simp
next
  case False
  then show ?thesis by (auto simp: mask_byte_def bit_push_bit_iff bit_mask_iff)
qed

lemma mask_byte_and: "m \<le> n \<Longrightarrow> mask_byte n AND mask_byte m = mask_byte m"
  by (rule bit_word_eqI) (auto simp: bit_and_iff bit_mask_byte)

lemma length_masked [simp]: "length (masked n ip) = length ip"
proof -
  have "length (CIDRMask n k) = k" for k by (induction k arbitrary: n) simp_all
  then show ?thesis by (simp add: masked_def)
qed

lemma masked_Cons: "masked n (b # ip) = (b AND mask_byte n) # masked (n - 8) ip"
  by (simp add: masked_def)

lemma masked_Nil [simp]: "masked n [] = []"
  by (simp add: masked_def)

text \<open>A shorter mask forgets what a longer one forgets.\<close>

lemma masked_masked: "m \<le> n \<Longrightarrow> masked m (masked n ip) = masked m ip"
proof (induction ip arbitrary: m n)
  case (Cons b ip)
  have "(b AND mask_byte n) AND mask_byte m = b AND mask_byte m"
    using mask_byte_and [OF Cons.prems] by (simp add: and.assoc)
  moreover have "m - 8 \<le> n - 8" using Cons.prems by simp
  ultimately show ?case using Cons.IH by (simp add: masked_Cons)
qed simp

lemma masked_mono: "masked n a = masked n b \<Longrightarrow> m \<le> n \<Longrightarrow> masked m a = masked m b"
  by (metis masked_masked)

lemma masked_0: "masked 0 ip = replicate (length ip) 0"
  by (induction ip) (simp_all add: masked_Cons mask_byte_def)

lemma Overlaps_masked:
  "Overlaps p q \<longleftrightarrow> length (p_Addr p) = length (p_Addr q) \<and>
     masked (min (p_Bits p) (p_Bits q)) (p_Addr p) = masked (min (p_Bits p) (p_Bits q)) (p_Addr q)"
  by (auto simp: Overlaps_def Let_def masked_0)

lemma Overlaps_sym: "Overlaps p q \<longleftrightarrow> Overlaps q p"
  by (auto simp: Overlaps_masked min.commute)

text \<open>Two prefixes overlap exactly when they share an address.\<close>

lemma Overlaps_shares_address: "Overlaps p q \<longleftrightarrow> (\<exists>a. prefix_contains p a \<and> prefix_contains q a)"
proof
  assume o: "Overlaps p q"
  show "\<exists>a. prefix_contains p a \<and> prefix_contains q a"
  proof (cases "p_Bits p \<le> p_Bits q")
    case True
    then have "prefix_contains p (p_Addr q)" using o by (simp add: Overlaps_masked prefix_contains_def min_def)
    then show ?thesis by (metis prefix_contains_def)
  next
    case False
    then have "prefix_contains q (p_Addr p)" using o by (simp add: Overlaps_masked prefix_contains_def min_def)
    then show ?thesis by (metis prefix_contains_def)
  qed
next
  assume "\<exists>a. prefix_contains p a \<and> prefix_contains q a"
  then obtain a where a: "prefix_contains p a" "prefix_contains q a" by blast
  then have p: "masked (p_Bits p) (p_Addr p) = masked (p_Bits p) a" "length (p_Addr p) = length a"
    and q: "masked (p_Bits q) (p_Addr q) = masked (p_Bits q) a" "length (p_Addr q) = length a"
    unfolding prefix_contains_def by metis+
  show "Overlaps p q"
    unfolding Overlaps_masked p(2) q(2) masked_mono [OF p(1) min.cobounded1] masked_mono [OF q(1) min.cobounded2]
    by (rule conjI) (rule refl)+
qed

end
