(* ===== verification/V1beta1_Validation.thy ===== *)
theory V1beta1_Validation
  imports V1beta1_Types Go_Regexp Net_Prefix
begin

text \<open>
  The validation of \<^verbatim>\<open>api/v1beta1\<close> (\<^verbatim>\<open>validation.go\<close>, \<^verbatim>\<open>osccluster_validation.go\<close>,
  \<^verbatim>\<open>oscmachine_validation.go\<close>) and \<^verbatim>\<open>CheckDuplicates\<close> of \<^verbatim>\<open>cloud/utils/validate.go\<close>. A validator returns
  the errors it finds (\<^verbatim>\<open>*field.Error\<close> is an option, \<^verbatim>\<open>field.ErrorList\<close> a list); an object is
  valid when the list is empty.
\<close>

named_theorems valid_iffs \<open>what a validator accepts\<close>

section \<open>Errors on fields\<close>

text \<open>
  \<^verbatim>\<open>field.Error\<close> with its kind, path, the value it shows and its message. A path is the list of
  its elements.
\<close>

datatype field_value = NoValue | StringValue string | IntValue int

datatype error_type = ErrorTypeRequired | ErrorTypeInvalid | ErrorTypeForbidden

record field_error =
  fe_Type :: error_type
  fe_Field :: "string list"
  fe_BadValue :: field_value
  fe_Detail :: string

definition field_Required :: "string list \<Rightarrow> string \<Rightarrow> field_error" where
  "field_Required p detail = \<lparr>fe_Type = ErrorTypeRequired, fe_Field = p, fe_BadValue = StringValue [], fe_Detail = detail\<rparr>"

definition field_Invalid :: "string list \<Rightarrow> field_value \<Rightarrow> string \<Rightarrow> field_error" where
  "field_Invalid p v detail = \<lparr>fe_Type = ErrorTypeInvalid, fe_Field = p, fe_BadValue = v, fe_Detail = detail\<rparr>"

definition field_Forbidden :: "string list \<Rightarrow> string \<Rightarrow> field_error" where
  "field_Forbidden p detail = \<lparr>fe_Type = ErrorTypeForbidden, fe_Field = p, fe_BadValue = StringValue [], fe_Detail = detail\<rparr>"

section \<open>Generic validators\<close>

text \<open>\<^verbatim>\<open>validation.go\<close>.\<close>

fun AppendValidation :: "field_error list \<Rightarrow> field_error option list \<Rightarrow> field_error list" where
  "AppendValidation erl [] = erl"
| "AppendValidation erl (err # errs) =
     (case err of None \<Rightarrow> AppendValidation erl errs | Some e \<Rightarrow> AppendValidation (erl @ [e]) errs)"

definition MergeValidation :: "field_error option list \<Rightarrow> field_error list" where
  "MergeValidation errs = AppendValidation [] errs"

definition ValidateEmpty :: "string list \<Rightarrow> string \<Rightarrow> string \<Rightarrow> field_error option" where
  "ValidateEmpty p v condition = (if v \<noteq> [] then Some (field_Forbidden p condition) else None)"

definition ValidateEmptySlice :: "string list \<Rightarrow> 'e list \<Rightarrow> string \<Rightarrow> field_error option" where
  "ValidateEmptySlice p v condition = (if length v > 0 then Some (field_Forbidden p condition) else None)"

definition ValidateRequired :: "string list \<Rightarrow> string \<Rightarrow> string \<Rightarrow> field_error option" where
  "ValidateRequired p v condition = (if v = [] then Some (field_Required p condition) else None)"

definition ValidateRequiredSlice :: "string list \<Rightarrow> 'e list \<Rightarrow> string \<Rightarrow> field_error option" where
  "ValidateRequiredSlice p v condition = (if length v = 0 then Some (field_Required p condition) else None)"

definition ValidateOr :: "field_error option list \<Rightarrow> field_error option" where
  "ValidateOr errs = (if errs = [] then None else if list_ex (\<lambda>e. e = None) errs then None else hd errs)"

definition ValidateOptional :: "field_error option \<Rightarrow> field_error option" where
  "ValidateOptional err =
     (case err of None \<Rightarrow> None | Some e \<Rightarrow> if fe_Type e = ErrorTypeRequired then None else Some e)"

text \<open>
  \<^verbatim>\<open>(cloudgouv-)?(eu|us|ap)-(north|east|south|west|northeast|northwest|southeast|southwest)-[1-2][a-c]\<close>
\<close>

definition subregion_regex :: regex where
  "subregion_regex = seqs
     [Opt (Lit ''cloudgouv-''), alts [''eu'', ''us'', ''ap''], Lit ''-'',
      alts [''north'', ''east'', ''south'', ''west'', ''northeast'', ''northwest'', ''southeast'', ''southwest''],
      Lit ''-'', Cls [(CHR ''1'', CHR ''2'')], Cls [(CHR ''a'', CHR ''c'')]]"

definition ValidateSubregion :: "string list \<Rightarrow> string \<Rightarrow> field_error option" where
  "ValidateSubregion p v =
     (if v = [] then None
      else if match_somewhere subregion_regex v then None
      else Some (field_Invalid p (StringValue v) ''invalid subregion''))"

section \<open>Clusters\<close>

text \<open>\<^verbatim>\<open>osccluster_validation.go\<close>.\<close>

abbreviation minPort :: int where "minPort \<equiv> 1"
abbreviation maxPort :: int where "maxPort \<equiv> 65535"
abbreviation minInterval :: int where "minInterval \<equiv> 5"
abbreviation maxInterval :: int where "maxInterval \<equiv> 600"
abbreviation minThreshold :: int where "minThreshold \<equiv> 1"
abbreviation maxThreshold :: int where "maxThreshold \<equiv> 10"
abbreviation minTimeout :: int where "minTimeout \<equiv> 2"
abbreviation maxTimeout :: int where "maxTimeout \<equiv> 60"

definition ValidateCidr :: "string list \<Rightarrow> string \<Rightarrow> field_error option" where
  "ValidateCidr p cidr =
     (if cidr = [] then Some (field_Required p ''a CIDR is required'')
      else case ParsePrefix cidr of
        None \<Rightarrow> Some (field_Invalid p (StringValue cidr) ''invalid CIDR address'')
      | Some _ \<Rightarrow> None)"

text \<open>The first loop: the errors and the parsed prefixes.\<close>

fun parse_subnets :: "string list \<Rightarrow> OscSubnetV1 list \<Rightarrow> field_error list \<times> Prefix list" where
  "parse_subnets p [] = ([], [])"
| "parse_subnets p (spec # specs) =
     (let (erl, subnets) = parse_subnets p specs in
      if IpSubnetRange spec = [] then (erl, subnets)
      else case ParsePrefix (IpSubnetRange spec) of
        None \<Rightarrow> (field_Invalid p (StringValue (IpSubnetRange spec)) ''invalid CIDR address'' # erl, subnets)
      | Some subn \<Rightarrow> (erl, subn # subnets))"

text \<open>The second loop compares each prefix with the net and with the prefixes after it.\<close>

fun check_subnets :: "string list \<Rightarrow> Prefix \<Rightarrow> Prefix list \<Rightarrow> field_error list" where
  "check_subnets p n [] = []"
| "check_subnets p n (suba # subnets) =
     (if Overlaps suba n then []
      else [field_Invalid p (StringValue (Prefix_String suba)) ''subnet must be contained in net'']) @
     concat (map (\<lambda>subb. if Overlaps suba subb
       then [field_Invalid p (StringValue (Prefix_String suba)) (''subnet overlaps '' @ Prefix_String subb)] else []) subnets) @
     check_subnets p n subnets"

definition ValidateSubnetCidr :: "OscSubnetV1 list \<Rightarrow> OscNetV1 \<Rightarrow> field_error list" where
  "ValidateSubnetCidr specs net =
     (let p = [''network'', ''subnets'', ''ipSubnetRange''];
          (erl, subnets) = parse_subnets p specs
      in case ParsePrefix (net_IpRange net) of
           None \<Rightarrow> erl
         | Some n \<Rightarrow> erl @ check_subnets p n subnets)"

definition ValidateIpProtocol :: "string list \<Rightarrow> string \<Rightarrow> field_error option" where
  "ValidateIpProtocol p protocol =
     (if protocol = [] then Some (field_Required p ''protocol is required'')
      else if protocol \<in> {''tcp'', ''udp'', ''icmp'', ''-1''} then None
      else Some (field_Invalid p (StringValue protocol) ''only tcp, udp, icmp or -1 are allowed''))"

definition ValidateFlow :: "string list \<Rightarrow> string \<Rightarrow> field_error option" where
  "ValidateFlow p flow =
     (if flow = [] then Some (field_Required p ''flow is required'')
      else if flow \<in> {''Inbound'', ''Outbound''} then None
      else Some (field_Invalid p (StringValue flow) ''only Inbound or Outbound are allowed''))"

text \<open>\<^verbatim>\<open>^[\x20-\x7E]{0,255}$\<close>\<close>

definition ValidateDescription :: "string \<Rightarrow> gerror option" where
  "ValidateDescription description =
     (if match_whole (Rep [(CHR '' '', CHR ''~'')] 0 (Some 255)) description then None
      else Some (ErrorsNew ''invalid description''))"

text \<open>\<^verbatim>\<open>fmt.Sprintf("must be between %d and %d", min, max)\<close>\<close>

definition int_str :: "int \<Rightarrow> string" where
  "int_str n = (if n < 0 then ''-'' @ nat_str (nat (- n)) else nat_str (nat n))"

definition between :: "string \<Rightarrow> int \<Rightarrow> int \<Rightarrow> string" where
  "between what lo hi = what @ ''must be between '' @ int_str lo @ '' and '' @ int_str hi"

definition ValidateRange :: "string list \<Rightarrow> int \<Rightarrow> int \<Rightarrow> int \<Rightarrow> field_error option" where
  "ValidateRange p val lo hi =
     (if val = 0 then Some (field_Required p ''required'')
      else if val \<ge> lo \<and> val \<le> hi then None
      else Some (field_Invalid p (IntValue val) (between [] lo hi)))"

definition ValidatePortRange :: "string list \<Rightarrow> int \<Rightarrow> int \<Rightarrow> string \<Rightarrow> field_error option" where
  "ValidatePortRange p from to msg = (if to \<ge> from then None else Some (field_Invalid p (IntValue to) msg))"

definition ValidateEmptyLoadBalancer :: "string list \<Rightarrow> OscLoadBalancerV1 \<Rightarrow> field_error option" where
  "ValidateEmptyLoadBalancer p spec =
     (if spec \<noteq> zero_OscLoadBalancerV1 then Some (field_Forbidden p ''loadBalancer must be empty when disabled'') else None)"

text \<open>\<^verbatim>\<open>\s\<close> is a tab, a newline, a form feed, a carriage return or a space.\<close>

definition space_class :: char_class where
  "space_class = [(CHR 0x09, CHR 0x0A), (CHR 0x0C, CHR 0x0D), (CHR '' '', CHR '' '')]"

definition alnum_class :: char_class where
  "alnum_class = [(CHR ''0'', CHR ''9''), (CHR ''A'', CHR ''Z''), (CHR ''a'', CHR ''z'')]"

text \<open>\<^verbatim>\<open>^[0-9A-Za-z\s\-]{0,32}$\<close>\<close>

definition ValidateLoadBalancerName :: "string list \<Rightarrow> string \<Rightarrow> field_error option" where
  "ValidateLoadBalancerName p loadBalancerName =
     (if loadBalancerName = [] then Some (field_Required p ''loadBalancer name is required'')
      else if match_whole (Rep (alnum_class @ space_class @ [(CHR ''-'', CHR ''-'')]) 0 (Some 32)) loadBalancerName
      then None
      else Some (field_Invalid p (StringValue loadBalancerName) ''invalid loadBalancer name''))"

definition ValidateLoadBalancerType :: "string list \<Rightarrow> string \<Rightarrow> field_error option" where
  "ValidateLoadBalancerType p loadBalancerType =
     (if loadBalancerType \<in> {''internet-facing'', ''internal'', []} then None
      else Some (field_Invalid p (StringValue loadBalancerType) ''only internet-facing or internal are allowed''))"

definition ValidateProtocol :: "string list \<Rightarrow> string \<Rightarrow> field_error option" where
  "ValidateProtocol p protocol =
     (if protocol = [] then Some (field_Required p ''protocol is required'')
      else if protocol \<in> {''HTTP'', ''TCP''} then None
      else if protocol \<in> {''SSL'', ''HTTPS''} then Some (field_Invalid p (StringValue protocol) ''SSL certificate is required'')
      else Some (field_Invalid p (StringValue protocol) ''only HTTP and TCP are supported''))"

definition ValidateAllowFromIPs :: "string list \<Rightarrow> field_error list" where
  "ValidateAllowFromIPs ips =
     foldl (\<lambda>erl ip. AppendValidation erl [ValidateCidr [''allowFromIPRanges''] ip]) [] ips"

definition ValidateNet :: "OscNetV1 \<Rightarrow> OscReuseV1 \<Rightarrow> field_error list" where
  "ValidateNet spec reuse =
     (if spec = zero_OscNetV1 then []
      else if reuse_Net reuse then MergeValidation
        [ValidateRequired [''network'', ''net'', ''resourceId''] (net_ResourceId spec) ''must be set when reusing a network'',
         ValidateRequired [''network'', ''net'', ''ipRange''] (net_IpRange spec) ''must be set when reusing a network'',
         ValidateCidr [''network'', ''net'', ''ipRange''] (net_IpRange spec)]
      else MergeValidation
        [ValidateRequired [''network'', ''net'', ''ipRange''] (net_IpRange spec) ''must be set when not reusing a network'',
         ValidateCidr [''network'', ''net'', ''ipRange''] (net_IpRange spec)])"

definition ValidateSubnets :: "OscSubnetV1 list \<Rightarrow> OscNetV1 \<Rightarrow> OscReuseV1 \<Rightarrow> field_error list" where
  "ValidateSubnets specs net reuse =
     (let erl = foldl (\<lambda>erl spec.
        let erl = (if reuse_Net reuse then AppendValidation erl
              [ValidateRequired [''network'', ''subnets'', ''resourceId''] (sn_ResourceId spec) ''must be set when reusing a network'',
               ValidateRequiredSlice [''network'', ''subnets'', ''roles''] (sn_Roles spec) ''must be set when reusing a network'']
            else erl)
        in AppendValidation erl
             [ValidateRequired [''network'', ''subnets'', ''ipSubnetRange''] (IpSubnetRange spec) ''must be set when not reusing a network'',
              ValidateSubregion [''network'', ''subnets'', ''subregionName''] (sn_SubregionName spec)]) [] specs
      in AppendValidation erl (map Some (ValidateSubnetCidr specs net)))"

definition ValidateNatServices ::
  "OscNatServiceV1 list \<Rightarrow> OscSubnetV1 list \<Rightarrow> OscNetV1 \<Rightarrow> OscReuseV1 \<Rightarrow> field_error list" where
  "ValidateNatServices specs subnets net reuse =
     (if reuse_Net reuse then AppendValidation []
        [ValidateEmptySlice [''network'', ''natServices''] specs ''no nat services must be defined when reusing a network'']
      else foldl (\<lambda>erl spec. AppendValidation erl
        [ValidateSubregion [''network'', ''natServices'', ''subregionName''] (nat_SubregionName spec)]) [] specs)"

abbreviation rulePath :: "string \<Rightarrow> string list" where
  "rulePath field \<equiv> [''network'', ''securityGroups'', ''securityGroupRules'', field]"

definition ValidateSecurityGroupRules :: "OscSecurityGroupRuleV1 list \<Rightarrow> field_error list" where
  "ValidateSecurityGroupRules specs =
     foldl (\<lambda>erl spec.
       let erl = AppendValidation erl
             [ValidateFlow (rulePath ''flow'') (Flow spec),
              ValidateIpProtocol (rulePath ''ipProtocol'') (rule_IpProtocol spec),
              ValidateOr
                [ValidateRequired (rulePath ''ipRange'') (rule_IpRange spec) ''ipRange or ipRanges must be set'',
                 ValidateRequiredSlice (rulePath ''ipRanges'') (rule_IpRanges spec) ''ipRange or ipRanges must be set''],
              ValidateRange (rulePath ''fromPortRange'') (rule_FromPortRange spec) minPort maxPort,
              ValidateRange (rulePath ''toPortRange'') (rule_ToPortRange spec) minPort maxPort,
              ValidatePortRange (rulePath ''toPortRange'') (rule_FromPortRange spec) (rule_ToPortRange spec)
                ''toPortRange must be >= fromPortRange''];
           erl = (if rule_IpRange spec \<noteq> [] then AppendValidation erl
               [ValidateCidr (rulePath ''ipRange'') (rule_IpRange spec),
                ValidateEmptySlice (rulePath ''ipRanges'') (rule_IpRanges spec) ''ipRanges must not be set if ipRange is set'']
             else erl)
       in foldl (\<lambda>erl ipRange. AppendValidation erl [ValidateCidr (rulePath ''ipRanges'') ipRange]) erl (rule_IpRanges spec))
     [] specs"

definition ValidateSecurityGroups :: "OscSecurityGroupV1 list \<Rightarrow> OscNetV1 \<Rightarrow> OscReuseV1 \<Rightarrow> field_error list" where
  "ValidateSecurityGroups specs net reuse =
     foldl (\<lambda>erl spec.
       if reuse_SecurityGroups reuse then AppendValidation erl
         [ValidateRequired [''network'', ''securityGroups'', ''resourceId''] (sg_ResourceId spec) ''must be set when reusing a network'',
          ValidateRequiredSlice [''network'', ''securityGroups'', ''roles''] (sg_Roles spec) ''must be set when reusing a network'',
          ValidateEmptySlice [''network'', ''securityGroups'', ''securityGroupRules''] (SecurityGroupRules spec) ''must not be set when reusing a network'']
       else
         let erl = AppendValidation erl
           [ValidateOr
              [ValidateRequired [''network'', ''securityGroups'', ''name''] (sg_Name spec) ''name or roles must be set'',
               ValidateRequiredSlice [''network'', ''securityGroups'', ''roles''] (sg_Roles spec) ''name or roles must be set'']]
         in AppendValidation erl (map Some (ValidateSecurityGroupRules (SecurityGroupRules spec))))
     [] specs"

abbreviation lbPath :: "string list \<Rightarrow> string list" where
  "lbPath f \<equiv> [''network'', ''loadBalancer''] @ f"

definition ValidateLoadbalancer :: "OscLoadBalancerV1 \<Rightarrow> bool \<Rightarrow> field_error list" where
  "ValidateLoadbalancer spec lbDisabled =
     (if lbDisabled then AppendValidation [] [ValidateEmptyLoadBalancer [''network'', ''loadBalancer''] spec]
      else AppendValidation []
        [ValidateLoadBalancerName (lbPath [''loadbalancername'']) (LoadBalancerName spec),
         ValidateOptional (ValidateLoadBalancerType (lbPath [''loadbalancertype'']) (LoadBalancerType spec)),
         ValidateOptional (ValidateRange (lbPath [''listener'', ''loadbalancerport'']) (LoadBalancerPort (Listener spec)) minPort maxPort),
         ValidateOptional (ValidateProtocol (lbPath [''listener'', ''loadbalancerprotocol'']) (LoadBalancerProtocol (Listener spec))),
         ValidateOptional (ValidateRange (lbPath [''listener'', ''backendport'']) (BackendPort (Listener spec)) minPort maxPort),
         ValidateOptional (ValidateProtocol (lbPath [''listener'', ''backendprotocol'']) (BackendProtocol (Listener spec))),
         ValidateOptional (ValidateRange (lbPath [''healthCheck'', ''checkinterval'']) (CheckInterval (HealthCheck spec)) minInterval maxInterval),
         ValidateOptional (ValidateRange (lbPath [''healthCheck'', ''port'']) (hc_Port (HealthCheck spec)) minPort maxPort),
         ValidateOptional (ValidateProtocol (lbPath [''healthCheck'', ''protocol'']) (hc_Protocol (HealthCheck spec))),
         ValidateOptional (ValidateRange (lbPath [''healthCheck'', ''timeout'']) (hc_Timeout (HealthCheck spec)) minTimeout maxTimeout),
         ValidateOptional (ValidateRange (lbPath [''healthCheck'', ''healthythreshold'']) (HealthyThreshold (HealthCheck spec)) minThreshold maxThreshold),
         ValidateOptional (ValidateRange (lbPath [''healthCheck'', ''unhealthythreshold'']) (UnhealthyThreshold (HealthCheck spec)) minThreshold maxThreshold)])"

definition ValidateOscClusterSpec :: "OscClusterSpecV1 \<Rightarrow> field_error list" where
  "ValidateOscClusterSpec spec =
     (let nw = v1_Network spec; lbDisabled = (DisableLB \<in> set (v1_Disable nw)) in
      ValidateLoadbalancer (v1_LoadBalancer nw) lbDisabled @
      ValidateNet (v1_Net nw) (v1_UseExisting nw) @
      ValidateSubnets (v1_Subnets nw) (v1_Net nw) (v1_UseExisting nw) @
      ValidateNatServices (v1_NatServices nw) (v1_Subnets nw) (v1_Net nw) (v1_UseExisting nw) @
      ValidateSecurityGroups (v1_SecurityGroups nw) (v1_Net nw) (v1_UseExisting nw) @
      ValidateAllowFromIPs (v1_AllowFromIPRanges nw))"

section \<open>Machines\<close>

text \<open>\<^verbatim>\<open>oscmachine_validation.go\<close>.\<close>

abbreviation minIops :: int where "minIops \<equiv> 0"
abbreviation maxIops :: int where "maxIops \<equiv> 13000"
abbreviation minSize :: int where "minSize \<equiv> 1"
abbreviation maxSize :: int where "maxSize \<equiv> 14900"

definition ValidateImageId :: "string \<Rightarrow> gerror option" where
  "ValidateImageId imageId = (if str_has_prefix imageId ''ami'' then None else Some (ErrorsNew ''invalid image id''))"

text \<open>\<^verbatim>\<open>^[0-9A-Za-z\-_\s\.\(\)\\]{0,255}$\<close>\<close>

definition image_name_regex :: regex where
  "image_name_regex = Rep (alnum_class @ space_class @
     map (\<lambda>c. (c, c)) [CHR ''-'', CHR ''_'', CHR ''.'', CHR ''('', CHR '')'', CHR 0x5C]) 0 (Some 255)"

definition ValidateImageName :: "string \<Rightarrow> gerror option" where
  "ValidateImageName imageName =
     (if match_whole image_name_regex imageName then None else Some (ErrorsNew ''invalid image name''))"

text \<open>The division of two positive \<^verbatim>\<open>int32\<close> values.\<close>

definition ValidateIops :: "string list \<Rightarrow> int \<Rightarrow> int \<Rightarrow> field_error option" where
  "ValidateIops p iops sz =
     (if iops = 0 then None
      else if iops > maxIops \<or> iops < minIops then Some (field_Invalid p (IntValue iops) (between ''iops '' minIops maxIops))
      else if sz > 0 \<and> iops div sz > 300 then Some (field_Invalid p (IntValue iops) ''iops/size should be lower than 300'')
      else None)"

definition ValidateSize :: "string list \<Rightarrow> int \<Rightarrow> field_error option" where
  "ValidateSize p sz =
     (if sz = 0 then None
      else if sz > maxSize \<or> sz < minSize then Some (field_Invalid p (IntValue sz) (between ''size '' minSize maxSize))
      else None)"

text \<open>\<open>values\<close> is \<^verbatim>\<open>osc.VolumeType.Values()\<close> of the SDK.\<close>

definition ValidateVolumeType :: "string list \<Rightarrow> string list \<Rightarrow> VolumeType \<Rightarrow> field_error option" where
  "ValidateVolumeType values p volumeType =
     (if volumeType = [] then None
      else if volumeType \<in> set values then None
      else Some (field_Invalid p (StringValue volumeType) ''invalid volume type (allowed: standard, gp2, io1)''))"

text \<open>\<^verbatim>\<open>^(\/dev\/sda1|\/dev\/sd[a-z]{1}|\/dev\/xvd[a-z]{1})$\<close>\<close>

definition device_regex :: regex where
  "device_regex = Group (Alt (Lit ''/dev/sda1'')
     (Alt (Seq (Lit ''/dev/sd'') (Cls [(CHR ''a'', CHR ''z'')])) (Seq (Lit ''/dev/xvd'') (Cls [(CHR ''a'', CHR ''z'')]))))"

definition ValidateDeviceName :: "string list \<Rightarrow> string \<Rightarrow> field_error option" where
  "ValidateDeviceName p deviceName =
     (if deviceName = [] then Some (field_Required p ''device name is required'')
      else if match_whole device_regex deviceName then None
      else Some (field_Invalid p (StringValue deviceName) ''device must use the /dev/(s|xv)d[a-z] format''))"

abbreviation digits :: char_class where "digits \<equiv> [(CHR ''0'', CHR ''9'')]"
abbreviation digits1 :: char_class where "digits1 \<equiv> [(CHR ''1'', CHR ''9'')]"

text \<open>\<^verbatim>\<open>^tinav([3-9]|[1-9][0-9]).c[1-9][0-9]*r[1-9][0-9]*p[1-3]$\<close>\<close>

definition tina_regex :: regex where
  "tina_regex = seqs
     [Lit ''tinav'', Group (Alt (Cls [(CHR ''3'', CHR ''9'')]) (Seq (Cls digits1) (Cls digits))), Dot, Lit ''c'',
      Cls digits1, Star digits, Lit ''r'', Cls digits1, Star digits, Lit ''p'', Cls [(CHR ''1'', CHR ''3'')]]"

text \<open>
  \<^verbatim>\<open>^inference7-(?:l40\.(?:medium|large)|h100\.(?:medium|large|xlarge|2xlarge)|
  h200\.(?:2xsmall|2xmedium|2xlarge|4xlarge|4xlargeA))$\<close>
\<close>

definition inference_regex :: regex where
  "inference_regex = Seq (Lit ''inference7-'')
     (Alt (Seq (Lit ''l40.'') (alts [''medium'', ''large'']))
     (Alt (Seq (Lit ''h100.'') (alts [''medium'', ''large'', ''xlarge'', ''2xlarge'']))
          (Seq (Lit ''h200.'') (alts [''2xsmall'', ''2xmedium'', ''2xlarge'', ''4xlarge'', ''4xlargeA'']))))"

definition ValidateVmType :: "string list \<Rightarrow> string \<Rightarrow> field_error option" where
  "ValidateVmType p vmType =
     (if vmType = [] then Some (field_Required p ''vmType is required'')
      else if match_whole tina_regex vmType then None
      else if match_whole inference_regex vmType then None
      else Some (field_Invalid p (StringValue vmType)
        ''vmType must use either the tinavX.cXrXpX or inferenceX-{gpu}.{size} format''))"

definition ValidateVolume :: "string list \<Rightarrow> string list \<Rightarrow> OscVolumeV1 \<Rightarrow> field_error list" where
  "ValidateVolume values p spec = AppendValidation []
     [ValidateDeviceName (p @ [''device'']) (Device spec),
      ValidateIops (p @ [''iops'']) (Iops spec) (Size spec),
      ValidateSize (p @ [''size'']) (Size spec),
      ValidateVolumeType values (p @ [''volumeType'']) (vol_VolumeType spec)]"

definition ValidateOscMachineSpec :: "string list \<Rightarrow> OscMachineSpecV1 \<Rightarrow> field_error list" where
  "ValidateOscMachineSpec values spec =
     (let node = v1_Node spec; vm = v1_Vm node; disk = vm_RootDisk vm;
          e1 = AppendValidation [] [ValidateRequired [''node'', ''vm'', ''keypairName''] (vm_KeypairName vm) ''keypairName is required''];
          e2 = AppendValidation e1 [ValidateVmType [''node'', ''vm'', ''vmType''] (vm_VmType vm)];
          e3 = AppendValidation e2 [ValidateSubregion [''node'', ''vm'', ''subregionName''] (vm_SubregionName vm)];
          e4 = foldl (\<lambda>e sr. AppendValidation e [ValidateSubregion [''node'', ''vm'', ''subregionNames''] sr]) e3 (SubregionNames vm);
          e5 = foldl (\<lambda>e vol. AppendValidation e (map Some (ValidateVolume values [''node'', ''vm'', ''volumes''] vol))) e4 (v1_Volumes node);
          e6 = AppendValidation e5 [ValidateIops [''node'', ''vm'', ''rootDisk'', ''rootDiskIops''] (RootDiskIops disk) (RootDiskSize disk)];
          e7 = AppendValidation e6 [ValidateSize [''node'', ''vm'', ''rootDisk'', ''rootDiskSize''] (RootDiskSize disk)]
      in AppendValidation e7 [ValidateVolumeType values [''node'', ''vm'', ''rootDisk'', ''rootDiskType''] (RootDiskType disk)])"

section \<open>Duplicates\<close>

text \<open>\<^verbatim>\<open>cloud/utils/validate.go\<close>: the first item that appears before.\<close>

fun check_from :: "string list \<Rightarrow> string list \<Rightarrow> gerror option" where
  "check_from seen [] = None"
| "check_from seen (x # xs) =
     (if x \<in> set seen then Some (ErrorsNew (x @ '' appears multiple times'')) else check_from (seen @ [x]) xs)"

definition CheckDuplicates :: "'t list \<Rightarrow> ('t \<Rightarrow> string) \<Rightarrow> gerror option" where
  "CheckDuplicates arr fn = check_from [] (map fn arr)"

section \<open>What the validators accept\<close>

lemma AppendValidation_Nil [valid_iffs]:
  "AppendValidation erl errs = [] \<longleftrightarrow> erl = [] \<and> list_all (\<lambda>e. e = None) errs"
proof (induction errs arbitrary: erl)
  case (Cons err errs)
  then show ?case by (cases err) auto
qed simp

declare AppendValidation.simps [simp del]

lemma foldl_AppendValidation [valid_iffs]:
  "foldl (\<lambda>erl x. AppendValidation erl (f x)) erl xs = [] \<longleftrightarrow> erl = [] \<and> list_all (\<lambda>x. list_all (\<lambda>e. e = None) (f x)) xs"
  by (induction xs arbitrary: erl) (auto simp: AppendValidation_Nil)

text \<open>A loop over a body that keeps the errors found before.\<close>

lemma foldl_errors:
  assumes "\<And>erl x. f erl x = [] \<longleftrightarrow> erl = [] \<and> P x"
  shows "foldl f erl xs = [] \<longleftrightarrow> erl = [] \<and> list_all P xs"
  by (induction xs arbitrary: erl) (auto simp: assms)

lemma list_all_map_Some [valid_iffs]: "list_all (\<lambda>e. e = None) (map Some xs) \<longleftrightarrow> xs = []"
  by (cases xs) simp_all

lemma generic_valid [valid_iffs]:
  "ValidateEmpty p v c = None \<longleftrightarrow> v = []"
  "ValidateRequired p v c = None \<longleftrightarrow> v \<noteq> []"
  "ValidateOr [] = None"
  by (simp_all add: ValidateEmpty_def ValidateRequired_def ValidateOr_def)

lemma slice_valid [valid_iffs]:
  "ValidateEmptySlice p v c = None \<longleftrightarrow> v = []" "ValidateRequiredSlice p v c = None \<longleftrightarrow> v \<noteq> []"
  by (simp_all add: ValidateEmptySlice_def ValidateRequiredSlice_def)

lemma ValidateOr_valid [valid_iffs]: "ValidateOr [a, b] = None \<longleftrightarrow> a = None \<or> b = None"
  by (auto simp: ValidateOr_def)

lemma MergeValidation_Nil [valid_iffs]: "MergeValidation errs = [] \<longleftrightarrow> list_all (\<lambda>e. e = None) errs"
  by (simp add: MergeValidation_def AppendValidation_Nil)

lemma optional_valid [valid_iffs]:
  "ValidateOptional (ValidateRange p v lo hi) = None \<longleftrightarrow> v = 0 \<or> lo \<le> v \<and> v \<le> hi"
  "ValidateOptional (ValidateProtocol q w) = None \<longleftrightarrow> w \<in> {[], ''HTTP'', ''TCP''}"
  "ValidateOptional (ValidateLoadBalancerType q w) = None \<longleftrightarrow> w \<in> {[], ''internet-facing'', ''internal''}"
  by (auto simp: ValidateOptional_def ValidateRange_def ValidateProtocol_def ValidateLoadBalancerType_def
      field_Required_def field_Invalid_def)

lemma field_valid [valid_iffs]:
  "ValidateRange p v lo hi = None \<longleftrightarrow> v \<noteq> 0 \<and> lo \<le> v \<and> v \<le> hi"
  "ValidatePortRange p from to msg = None \<longleftrightarrow> from \<le> to"
  "ValidateFlow p w = None \<longleftrightarrow> w \<in> {''Inbound'', ''Outbound''}"
  "ValidateIpProtocol p w = None \<longleftrightarrow> w \<in> {''tcp'', ''udp'', ''icmp'', ''-1''}"
  by (auto simp: ValidateRange_def ValidatePortRange_def ValidateFlow_def ValidateIpProtocol_def)

lemma ParsePrefix_Nil [simp]: "ParsePrefix [] = None"
  by (simp add: ParsePrefix_def)

lemma ValidateCidr_valid [valid_iffs]: "ValidateCidr p w = None \<longleftrightarrow> ParsePrefix w \<noteq> None"
  by (auto simp: ValidateCidr_def split: option.splits)

lemma disk_valid [valid_iffs]:
  "ValidateIops p iops sz = None \<longleftrightarrow> 0 \<le> iops \<and> iops \<le> 13000 \<and> (sz \<le> 0 \<or> iops < 301 * sz)"
  "ValidateSize p sz = None \<longleftrightarrow> sz = 0 \<or> 1 \<le> sz \<and> sz \<le> 14900"
proof -
  have "300 < iops div sz \<longleftrightarrow> 301 * sz \<le> iops" if "0 < sz"
  proof
    assume "300 < iops div sz"
    then have "301 * sz \<le> (iops div sz) * sz" using that by (simp add: mult_right_mono)
    also have "\<dots> \<le> iops" using div_mult_mod_eq [of iops sz] pos_mod_sign [OF that, of iops] by linarith
    finally show "301 * sz \<le> iops" .
  next
    assume "301 * sz \<le> iops"
    from zdiv_mono1 [OF this that] that show "300 < iops div sz" by simp
  qed
  then show "ValidateIops p iops sz = None \<longleftrightarrow> 0 \<le> iops \<and> iops \<le> 13000 \<and> (sz \<le> 0 \<or> iops < 301 * sz)"
    by (auto simp: ValidateIops_def)
  show "ValidateSize p sz = None \<longleftrightarrow> sz = 0 \<or> 1 \<le> sz \<and> sz \<le> 14900"
    by (auto simp: ValidateSize_def)
qed

end
