(* ===== verification/V1beta1_Accepted.thy ===== *)
theory V1beta1_Accepted
  imports V1beta1_Validation
begin

text \<open>
  What the validation of \<^verbatim>\<open>v1beta1\<close> accepts, as predicates on the specifications: the languages
  of its patterns, the shape of an accepted rule, load balancer, net, list of subnets and machine.
\<close>

section \<open>Languages\<close>

definition is_posint :: "string \<Rightarrow> bool" where
  "is_posint w \<longleftrightarrow> w \<noteq> [] \<and> list_all is_digit w \<and> hd w \<noteq> CHR ''0''"

lemma in_digits: "in_class digits c \<longleftrightarrow> is_digit c"
  by (simp add: in_class_def is_digit_def)

lemma in_digits1: "in_class digits1 c \<longleftrightarrow> is_digit c \<and> c \<noteq> CHR ''0''"
proof -
  have "c = CHR ''0'' \<longleftrightarrow> (of_char c :: nat) = 48"
    using of_char_eq_iff [of c "CHR ''0''", where 'a = nat] by simp
  then show ?thesis by (auto simp: in_class_def is_digit_def)
qed

lemma accepts_Cls: "accepts (Cls cs) k s \<longleftrightarrow> (\<exists>c t. s = c # t \<and> in_class cs c \<and> k t)"
proof -
  have "(\<exists>w t. s = w @ t \<and> list_all (in_class cs) w \<and> Suc 0 \<le> length w \<and> length w \<le> Suc 0 \<and> k t) \<longleftrightarrow>
      (\<exists>c t. s = c # t \<and> in_class cs c \<and> k t)"
  proof
    assume "\<exists>w t. s = w @ t \<and> list_all (in_class cs) w \<and> Suc 0 \<le> length w \<and> length w \<le> Suc 0 \<and> k t"
    then obtain w t where w: "s = w @ t" "list_all (in_class cs) w" "length w = Suc 0" "k t" by fastforce
    then obtain c where "w = [c]" by (auto simp: length_Suc_conv)
    with w show "\<exists>c t. s = c # t \<and> in_class cs c \<and> k t" by auto
  next
    assume "\<exists>c t. s = c # t \<and> in_class cs c \<and> k t"
    then obtain c t where "s = [c] @ t" "in_class cs c" "k t" by auto
    then show "\<exists>w t. s = w @ t \<and> list_all (in_class cs) w \<and> Suc 0 \<le> length w \<and> length w \<le> Suc 0 \<and> k t"
      by (intro exI [of _ "[c]"] exI [of _ t]) simp
  qed
  then show ?thesis by (simp add: accepts_Rep)
qed

text \<open>A number without leading zeros: \<^verbatim>\<open>[1-9][0-9]*\<close>.\<close>

lemma accepts_posint:
  "accepts (Cls digits1) (accepts (Star digits) k) s \<longleftrightarrow> (\<exists>w t. s = w @ t \<and> is_posint w \<and> k t)"
proof
  assume "accepts (Cls digits1) (accepts (Star digits) k) s"
  then obtain c w t where w: "s = c # w @ t" "in_class digits1 c" "list_all (in_class digits) w" "k t"
    by (auto simp: accepts_Cls accepts_Rep [of digits])
  then have "is_posint (c # w)" by (simp add: is_posint_def in_digits1 in_digits [abs_def] list_all_iff)
  with w show "\<exists>w t. s = w @ t \<and> is_posint w \<and> k t" by (intro exI [of _ "c # w"] exI [of _ t]) simp
next
  assume "\<exists>w t. s = w @ t \<and> is_posint w \<and> k t"
  then obtain w t where w: "s = w @ t" "is_posint w" "k t" by blast
  then obtain c v where v: "w = c # v" by (cases w) (auto simp: is_posint_def)
  then have "in_class digits1 c" "list_all (in_class digits) v"
    using w by (simp_all add: is_posint_def in_digits1 in_digits list_all_iff)
  then show "accepts (Cls digits1) (accepts (Star digits) k) s"
    using w v by (auto simp: accepts_Cls accepts_Rep [of digits])
qed


text \<open>One rune, and the runes that the dot may stand for before an ASCII character.\<close>

definition is_rune :: "string \<Rightarrow> bool" where
  "is_rune x \<longleftrightarrow> x \<noteq> [] \<and> first_rune x = length x"

lemma rune_width_le: "rune_width x \<le> 4"
  by (cases x) (auto split: list.splits)

lemma rune_width_app:
  assumes "x \<noteq> []" and "\<not> continuation c"
  shows "rune_width (x @ c # t) = length x \<longleftrightarrow> rune_width x = length x"
proof -
  consider "length x = Suc 0" | "length x = Suc (Suc 0)" | "length x = Suc (Suc (Suc 0))"
    | "length x = Suc (Suc (Suc (Suc 0)))" | "length x > 4"
    using assms(1) length_0_conv [of x] by linarith
  then show ?thesis
  proof cases
    case 1
    then obtain a where "x = [a]" by (auto simp: length_Suc_conv)
    then show ?thesis using assms(2) by (simp split: list.split)
  next
    case 2
    then obtain a b where "x = [a, b]" by (auto simp: length_Suc_conv)
    then show ?thesis using assms(2) by (simp split: list.split)
  next
    case 3
    then obtain a b d where "x = [a, b, d]" by (auto simp: length_Suc_conv)
    then show ?thesis using assms(2) by (simp split: list.split)
  next
    case 4
    then obtain a b d e where "x = [a, b, d, e]" by (auto simp: length_Suc_conv)
    then show ?thesis using assms(2) by (simp split: list.split)
  next
    case 5
    then show ?thesis using rune_width_le [of x] rune_width_le [of "x @ c # t"] by simp
  qed
qed

lemma accepts_Dot_Lit:
  assumes "(of_char c :: nat) < 128"
  shows "accepts Dot (accepts (Lit [c]) k) s \<longleftrightarrow>
     (\<exists>x t. s = x @ c # t \<and> is_rune x \<and> hd x \<noteq> CHR 0x0A \<and> k t)"
proof -
  have nc: "\<not> continuation (of_char c)" using assms by (simp add: continuation_def)
  have rune: "first_rune (x @ c # t) = length x \<longleftrightarrow> first_rune x = length x" if "x \<noteq> []" for x t
    using rune_width_app [of "map of_char x", OF _ nc] that by (simp add: first_rune_def)
  show ?thesis
  proof
    assume "accepts Dot (accepts (Lit [c]) k) s"
    then obtain t where t: "s \<noteq> []" "hd s \<noteq> CHR 0x0A" "drop (first_rune s) s = c # t" "k t"
      by (auto simp: accepts_simps)
    define x where "x = take (first_rune s) s"
    have s: "s = x @ c # t" using t(3) by (metis append_take_drop_id x_def)
    have "first_rune s \<noteq> 0" using t(1) by (cases s) (auto simp: first_rune_def split: list.splits)
    then have x: "x \<noteq> []" using t(1) by (simp add: x_def)
    have "length x = first_rune s" using t(3) by (simp add: x_def) (metis drop_eq_Nil list.discI nat_le_linear min.absorb2)
    then have "is_rune x" unfolding is_rune_def using rune [OF x, of t] s x by metis
    moreover have "hd x \<noteq> CHR 0x0A" using t(2) s x by simp
    ultimately show "\<exists>x t. s = x @ c # t \<and> is_rune x \<and> hd x \<noteq> CHR 0x0A \<and> k t" using s t(4) by blast
  next
    assume "\<exists>x t. s = x @ c # t \<and> is_rune x \<and> hd x \<noteq> CHR 0x0A \<and> k t"
    then obtain x t where x: "s = x @ c # t" "is_rune x" "hd x \<noteq> CHR 0x0A" "k t" by blast
    then have "first_rune s = length x" using rune by (simp add: is_rune_def)
    then show "accepts Dot (accepts (Lit [c]) k) s" using x by (simp add: accepts_simps is_rune_def)
  qed
qed

text \<open>The types of virtual machines.\<close>

definition tina_generation :: "string \<Rightarrow> bool" where
  "tina_generation g \<longleftrightarrow> is_posint g \<and> (length g = 1 \<and> 3 \<le> digit_val (hd g) \<or> length g = 2)"

definition tina_type :: "string \<Rightarrow> string \<Rightarrow> string \<Rightarrow> string \<Rightarrow> string \<Rightarrow> string" where
  "tina_type g x c r p = ''tinav'' @ g @ x @ ''c'' @ c @ ''r'' @ r @ ''p'' @ p"

lemma accepts_generation:
  "accepts (Group (Alt (Cls [(CHR ''3'', CHR ''9'')]) (Seq (Cls digits1) (Cls digits)))) k s \<longleftrightarrow>
     (\<exists>g t. s = g @ t \<and> tina_generation g \<and> k t)"
proof -
  have c0: "(of_char c :: nat) = 48 \<longleftrightarrow> c = CHR ''0''" for c
    using of_char_eq_iff [of c "CHR ''0''", where 'a = nat] by simp
  have one: "in_class [(CHR ''3'', CHR ''9'')] c \<longleftrightarrow> tina_generation [c]" for c
    by (auto simp: in_class_def tina_generation_def is_posint_def is_digit_def digit_val_def simp flip: c0)
  have two: "in_class digits1 c \<and> in_class digits d \<longleftrightarrow> tina_generation [c, d]" for c d
    by (auto simp: in_digits1 in_digits tina_generation_def is_posint_def)
  have one': "accepts (Cls [(CHR ''3'', CHR ''9'')]) k s \<longleftrightarrow> (\<exists>c t. s = [c] @ t \<and> tina_generation [c] \<and> k t)"
    unfolding accepts_Cls one by simp
  have "accepts (Seq (Cls digits1) (Cls digits)) k s \<longleftrightarrow>
      (\<exists>c d t. s = [c, d] @ t \<and> (in_class digits1 c \<and> in_class digits d) \<and> k t)"
    unfolding accepts_Seq accepts_Cls by auto
  then have two': "accepts (Seq (Cls digits1) (Cls digits)) k s \<longleftrightarrow>
      (\<exists>c d t. s = [c, d] @ t \<and> tina_generation [c, d] \<and> k t)"
    unfolding two .
  have "accepts (Group (Alt (Cls [(CHR ''3'', CHR ''9'')]) (Seq (Cls digits1) (Cls digits)))) k s \<longleftrightarrow>
      (\<exists>c t. s = [c] @ t \<and> tina_generation [c] \<and> k t) \<or> (\<exists>c d t. s = [c, d] @ t \<and> tina_generation [c, d] \<and> k t)"
    unfolding accepts_Group accepts_Alt one' two' ..
  also have "\<dots> \<longleftrightarrow> (\<exists>g t. s = g @ t \<and> tina_generation g \<and> k t)"
  proof
    assume "\<exists>g t. s = g @ t \<and> tina_generation g \<and> k t"
    then obtain g t where g: "s = g @ t" "tina_generation g" "k t" by blast
    from g(2) have "(\<exists>c. g = [c]) \<or> (\<exists>c d. g = [c, d])" unfolding tina_generation_def by (auto simp: length_Suc_conv numeral_2_eq_2)
    then show "(\<exists>c t. s = [c] @ t \<and> tina_generation [c] \<and> k t) \<or> (\<exists>c d t. s = [c, d] @ t \<and> tina_generation [c, d] \<and> k t)"
      using g by (elim disjE exE) (hypsubst, blast)+
  qed blast
  finally show ?thesis .
qed

lemma tina_language:
  "match_whole tina_regex s \<longleftrightarrow>
     (\<exists>g x c r p. s = tina_type g x c r p \<and> tina_generation g \<and> is_rune x \<and> hd x \<noteq> CHR 0x0A \<and>
        is_posint c \<and> is_posint r \<and> p \<in> {''1'', ''2'', ''3''})"
proof -
  have p: "accepts (Cls [(CHR ''1'', CHR ''3'')]) (\<lambda>t. t = []) s \<longleftrightarrow> s \<in> {''1'', ''2'', ''3''}" for s
  proof -
    have "in_class [(CHR ''1'', CHR ''3'')] c \<longleftrightarrow> c = CHR ''1'' \<or> c = CHR ''2'' \<or> c = CHR ''3''" for c
    proof -
      have "(of_char c :: nat) = 49 \<longleftrightarrow> c = CHR ''1''" "(of_char c :: nat) = 50 \<longleftrightarrow> c = CHR ''2''"
        "(of_char c :: nat) = 51 \<longleftrightarrow> c = CHR ''3''"
        using of_char_eq_iff [of c "CHR ''1''", where 'a = nat] of_char_eq_iff [of c "CHR ''2''", where 'a = nat]
          of_char_eq_iff [of c "CHR ''3''", where 'a = nat] by simp_all
      then show ?thesis by (auto simp: in_class_def)
    qed
    then show ?thesis by (auto simp: accepts_Cls)
  qed
  have "match_whole tina_regex s \<longleftrightarrow>
      (\<exists>t. s = ''tinav'' @ t \<and> (\<exists>g u. t = g @ u \<and> tina_generation g \<and>
        (\<exists>x v. u = x @ CHR ''c'' # v \<and> is_rune x \<and> hd x \<noteq> CHR 0x0A \<and>
        (\<exists>c w. v = c @ w \<and> is_posint c \<and> (\<exists>y. w = ''r'' @ y \<and>
        (\<exists>r z. y = r @ z \<and> is_posint r \<and> (\<exists>p. z = ''p'' @ p \<and> p \<in> {''1'', ''2'', ''3''})))))))"
    unfolding match_whole_accepts tina_regex_def accepts_seqs accepts_generation accepts_posint
      accepts_Dot_Lit [of "CHR ''c''", simplified] p
    unfolding accepts_Lit p ..
  also have "\<dots> \<longleftrightarrow> (\<exists>g x c r p. s = tina_type g x c r p \<and> tina_generation g \<and> is_rune x \<and> hd x \<noteq> CHR 0x0A \<and>
        is_posint c \<and> is_posint r \<and> p \<in> {''1'', ''2'', ''3''})" (is "?L \<longleftrightarrow> ?R")
  proof
    assume ?L
    then obtain t g u x v c w y r z p where "s = ''tinav'' @ t" "t = g @ u" "u = x @ CHR ''c'' # v" "v = c @ w"
      "w = ''r'' @ y" "y = r @ z" "z = ''p'' @ p" and h: "tina_generation g" "is_rune x" "hd x \<noteq> CHR 0x0A"
        "is_posint c" "is_posint r" "p \<in> {''1'', ''2'', ''3''}"
      by (elim exE conjE) (rule that)
    then have "s = tina_type g x c r p" by (simp add: tina_type_def)
    then show ?R using h by blast
  next
    assume ?R
    then obtain g x c r p where s: "s = tina_type g x c r p" and h: "tina_generation g" "is_rune x" "hd x \<noteq> CHR 0x0A"
      "is_posint c" "is_posint r" "p \<in> {''1'', ''2'', ''3''}" by (elim exE conjE) (rule that)
    have "s = ''tinav'' @ g @ x @ CHR ''c'' # c @ ''r'' @ r @ ''p'' @ p" using s by (simp add: tina_type_def)
    then show ?L using h by (intro exI conjI) (assumption | rule refl)+
  qed
  finally show ?thesis .
qed

lemma ValidateVmType_valid [valid_iffs]:
  "ValidateVmType p w = None \<longleftrightarrow> match_whole tina_regex w \<or> match_whole inference_regex w"
proof -
  have "\<not> match_whole tina_regex []" by (simp add: tina_language tina_type_def)
  moreover have "\<not> match_whole inference_regex []"
    by (simp add: match_whole_accepts inference_regex_def accepts_Seq accepts_Lit)
  ultimately show ?thesis by (auto simp: ValidateVmType_def)
qed

text \<open>
  A subregion is accepted when a valid name occurs anywhere in it: the pattern is not
  anchored.
\<close>

definition valid_subregion :: "string \<Rightarrow> bool" where
  "valid_subregion w \<longleftrightarrow> w = [] \<or> match_somewhere subregion_regex w"

lemma ValidateSubregion_valid [valid_iffs]: "ValidateSubregion p w = None \<longleftrightarrow> valid_subregion w"
  by (simp add: ValidateSubregion_def valid_subregion_def)

section \<open>Clusters\<close>

definition valid_rule :: "OscSecurityGroupRule \<Rightarrow> bool" where
  "valid_rule r \<longleftrightarrow>
     Flow r \<in> {''Inbound'', ''Outbound''} \<and> rule_IpProtocol r \<in> {''tcp'', ''udp'', ''icmp'', ''-1''} \<and>
     (rule_IpRange r = [] \<longleftrightarrow> rule_IpRanges r \<noteq> []) \<and>
     list_all (\<lambda>w. ParsePrefix w \<noteq> None) (GetIpRanges r) \<and>
     1 \<le> rule_FromPortRange r \<and> rule_FromPortRange r \<le> rule_ToPortRange r \<and> rule_ToPortRange r \<le> 65535"

lemma ValidateSecurityGroupRules_valid [valid_iffs]: "ValidateSecurityGroupRules rs = [] \<longleftrightarrow> list_all valid_rule rs"
  unfolding ValidateSecurityGroupRules_def
  by (subst foldl_errors [where P = valid_rule])
     (auto simp: valid_iffs valid_rule_def GetIpRanges_def Let_def)

definition valid_group :: "bool \<Rightarrow> OscSecurityGroup \<Rightarrow> bool" where
  "valid_group reused g \<longleftrightarrow>
     (if reused then sg_ResourceId g \<noteq> [] \<and> sg_Roles g \<noteq> [] \<and> SecurityGroupRules g = []
      else (sg_Name g \<noteq> [] \<or> sg_Roles g \<noteq> []) \<and> list_all valid_rule (SecurityGroupRules g))"

lemma ValidateSecurityGroups_valid [valid_iffs]:
  "ValidateSecurityGroups gs net reuse = [] \<longleftrightarrow> list_all (valid_group (reuse_SecurityGroups reuse)) gs"
  unfolding ValidateSecurityGroups_def
  by (subst foldl_errors [where P = "valid_group (reuse_SecurityGroups reuse)"])
     (auto simp: valid_iffs valid_group_def Let_def)

lemma parse_subnets_errors:
  "fst (parse_subnets p specs) = [] \<longleftrightarrow> list_all (\<lambda>s. IpSubnetRange s = [] \<or> ParsePrefix (IpSubnetRange s) \<noteq> None) specs"
  by (induction specs) (auto simp: Let_def split_beta split: option.splits)

lemma parse_subnets_prefixes:
  "snd (parse_subnets p specs) = List.map_filter (\<lambda>s. ParsePrefix (IpSubnetRange s)) specs"
  by (induction specs) (auto simp: map_filter_simps Let_def split_beta split: option.splits)

lemma check_subnets_valid:
  "check_subnets p n ps = [] \<longleftrightarrow> list_all (\<lambda>q. Overlaps q n) ps \<and> sorted_wrt (\<lambda>q r. \<not> Overlaps q r) ps"
  by (induction ps) (auto simp: list_all_iff)

text \<open>The prefixes of the subnets that have one.\<close>

definition subnet_prefixes :: "OscSubnet list \<Rightarrow> Prefix list" where
  "subnet_prefixes specs = List.map_filter (\<lambda>s. ParsePrefix (IpSubnetRange s)) specs"

lemma subnet_prefixes_map:
  "list_all (\<lambda>s. ParsePrefix (IpSubnetRange s) \<noteq> None) specs \<Longrightarrow>
     subnet_prefixes specs = map (\<lambda>s. the (ParsePrefix (IpSubnetRange s))) specs"
  by (induction specs) (auto simp: subnet_prefixes_def map_filter_simps)

definition shares_address :: "Prefix \<Rightarrow> Prefix \<Rightarrow> bool" where
  "shares_address p q \<longleftrightarrow> (\<exists>a. prefix_contains p a \<and> prefix_contains q a)"

lemma ValidateSubnetCidr_valid [valid_iffs]:
  "ValidateSubnetCidr specs net = [] \<longleftrightarrow>
     list_all (\<lambda>s. IpSubnetRange s = [] \<or> ParsePrefix (IpSubnetRange s) \<noteq> None) specs \<and>
     (case ParsePrefix (net_IpRange net) of
        None \<Rightarrow> True
      | Some n \<Rightarrow> list_all (\<lambda>q. shares_address q n) (subnet_prefixes specs) \<and>
          sorted_wrt (\<lambda>q r. \<not> shares_address q r) (subnet_prefixes specs))"
  by (simp add: ValidateSubnetCidr_def Let_def split_beta parse_subnets_errors parse_subnets_prefixes
      check_subnets_valid subnet_prefixes_def shares_address_def Overlaps_shares_address [symmetric] split: option.split)

definition valid_subnet :: "bool \<Rightarrow> OscSubnet \<Rightarrow> bool" where
  "valid_subnet reused s \<longleftrightarrow>
     (if reused then sn_ResourceId s \<noteq> [] \<and> sn_Roles s \<noteq> [] else True) \<and>
     ParsePrefix (IpSubnetRange s) \<noteq> None \<and> valid_subregion (sn_SubregionName s)"

definition valid_subnets :: "OscSubnet list \<Rightarrow> string \<Rightarrow> bool \<Rightarrow> bool" where
  "valid_subnets specs cidr reused \<longleftrightarrow> list_all (valid_subnet reused) specs \<and>
     (case ParsePrefix cidr of
        None \<Rightarrow> True
      | Some n \<Rightarrow> list_all (\<lambda>q. shares_address q n) (subnet_prefixes specs) \<and>
          sorted_wrt (\<lambda>q r. \<not> shares_address q r) (subnet_prefixes specs))"

lemma ValidateSubnets_valid [valid_iffs]:
  "ValidateSubnets specs net reuse = [] \<longleftrightarrow> valid_subnets specs (net_IpRange net) (reuse_Net reuse)"
proof -
  let ?P = "\<lambda>s. (if reuse_Net reuse then sn_ResourceId s \<noteq> [] \<and> sn_Roles s \<noteq> [] else True) \<and>
    IpSubnetRange s \<noteq> [] \<and> valid_subregion (sn_SubregionName s)"
  have "ValidateSubnets specs net reuse = [] \<longleftrightarrow> list_all ?P specs \<and> ValidateSubnetCidr specs net = []"
    unfolding ValidateSubnets_def Let_def AppendValidation_Nil list_all_map_Some
    by (subst foldl_errors [where P = ?P]) (auto simp: valid_iffs)
  also have "\<dots> \<longleftrightarrow> valid_subnets specs (net_IpRange net) (reuse_Net reuse)"
    unfolding ValidateSubnetCidr_valid valid_subnets_def valid_subnet_def list_all_iff by fastforce
  finally show ?thesis .
qed

definition valid_net :: "OscNetV1 \<Rightarrow> bool \<Rightarrow> bool" where
  "valid_net net reused \<longleftrightarrow> net = zero_OscNetV1 \<or>
     ParsePrefix (net_IpRange net) \<noteq> None \<and> (if reused then net_ResourceId net \<noteq> [] else True)"

lemma ValidateNet_valid [valid_iffs]: "ValidateNet net reuse = [] \<longleftrightarrow> valid_net net (reuse_Net reuse)"
  by (cases "net_IpRange net = []") (auto simp: ValidateNet_def valid_iffs valid_net_def)

definition valid_loadbalancer :: "OscLoadBalancerV1 \<Rightarrow> bool" where
  "valid_loadbalancer lb \<longleftrightarrow>
     LoadBalancerName lb \<noteq> [] \<and> length (LoadBalancerName lb) \<le> 32 \<and>
     list_all (in_class (alnum_class @ space_class @ [(CHR ''-'', CHR ''-'')])) (LoadBalancerName lb) \<and>
     LoadBalancerType lb \<in> {[], ''internet-facing'', ''internal''} \<and>
     list_all (\<lambda>w. w \<in> {[], ''HTTP'', ''TCP''})
       [LoadBalancerProtocol (Listener lb), BackendProtocol (Listener lb), hc_Protocol (HealthCheck lb)] \<and>
     list_all (\<lambda>(v, lo, hi). v = 0 \<or> lo \<le> v \<and> v \<le> hi)
       [(LoadBalancerPort (Listener lb), 1, 65535), (BackendPort (Listener lb), 1, 65535),
        (hc_Port (HealthCheck lb), 1, 65535), (CheckInterval (HealthCheck lb), 5, 600),
        (hc_Timeout (HealthCheck lb), 2, 60), (HealthyThreshold (HealthCheck lb), 1, 10),
        (UnhealthyThreshold (HealthCheck lb), 1, 10)]"

lemma ValidateLoadBalancerName_valid [valid_iffs]:
  "ValidateLoadBalancerName p w = None \<longleftrightarrow> w \<noteq> [] \<and> length w \<le> 32 \<and>
     list_all (in_class (alnum_class @ space_class @ [(CHR ''-'', CHR ''-'')])) w"
  by (auto simp: ValidateLoadBalancerName_def match_whole_accepts accepts_Rep)

lemma ValidateLoadbalancer_valid [valid_iffs]:
  "ValidateLoadbalancer lb disabled = [] \<longleftrightarrow> (if disabled then lb = zero_OscLoadBalancerV1 else valid_loadbalancer lb)"
proof (cases disabled)
  case True
  then show ?thesis by (simp add: ValidateLoadbalancer_def valid_iffs ValidateEmptyLoadBalancer_def)
next
  case False
  have "ValidateLoadbalancer lb False = [] \<longleftrightarrow> valid_loadbalancer lb"
    unfolding ValidateLoadbalancer_def valid_loadbalancer_def if_False AppendValidation_Nil list.pred_inject
      optional_valid ValidateLoadBalancerName_valid prod.case
    by (simp only: list.pred_inject simp_thms) argo
  then show ?thesis using False by simp
qed

definition valid_cluster :: "OscNetworkV1 \<Rightarrow> bool" where
  "valid_cluster nw \<longleftrightarrow>
     (if DisableLB \<in> set (v1_Disable nw) then v1_LoadBalancer nw = zero_OscLoadBalancerV1
      else valid_loadbalancer (v1_LoadBalancer nw)) \<and>
     valid_net (v1_Net nw) (reuse_Net (v1_UseExisting nw)) \<and>
     valid_subnets (v1_Subnets nw) (net_IpRange (v1_Net nw)) (reuse_Net (v1_UseExisting nw)) \<and>
     (if reuse_Net (v1_UseExisting nw) then v1_NatServices nw = []
      else list_all (\<lambda>n. valid_subregion (nat_SubregionName n)) (v1_NatServices nw)) \<and>
     list_all (valid_group (reuse_SecurityGroups (v1_UseExisting nw))) (v1_SecurityGroups nw) \<and>
     list_all (\<lambda>w. ParsePrefix w \<noteq> None) (v1_AllowFromIPRanges nw)"

lemma ValidateNatServices_valid [valid_iffs]:
  "ValidateNatServices ns sn net reuse = [] \<longleftrightarrow>
     (if reuse_Net reuse then ns = [] else list_all (\<lambda>n. valid_subregion (nat_SubregionName n)) ns)"
  by (simp add: ValidateNatServices_def valid_iffs)

lemma ValidateAllowFromIPs_valid [valid_iffs]:
  "ValidateAllowFromIPs ips = [] \<longleftrightarrow> list_all (\<lambda>w. ParsePrefix w \<noteq> None) ips"
  by (simp add: ValidateAllowFromIPs_def valid_iffs)

lemma ValidateOscClusterSpec_valid: "ValidateOscClusterSpec spec = [] \<longleftrightarrow> valid_cluster (v1_Network spec)"
  unfolding ValidateOscClusterSpec_def Let_def append_is_Nil_conv valid_iffs valid_cluster_def by (rule refl)

section \<open>Machines\<close>

definition valid_device :: "string \<Rightarrow> bool" where
  "valid_device d \<longleftrightarrow> d = ''/dev/sda1'' \<or>
     (\<exists>c. in_class [(CHR ''a'', CHR ''z'')] c \<and> (d = ''/dev/sd'' @ [c] \<or> d = ''/dev/xvd'' @ [c]))"

lemma ValidateDeviceName_valid [valid_iffs]: "ValidateDeviceName p d = None \<longleftrightarrow> valid_device d"
proof -
  have "match_whole device_regex d \<longleftrightarrow> valid_device d"
    unfolding match_whole_accepts device_regex_def accepts_Group accepts_Alt accepts_Seq accepts_Lit accepts_Cls
      valid_device_def by auto
  moreover have "\<not> valid_device []" by (simp add: valid_device_def)
  ultimately show ?thesis by (auto simp: ValidateDeviceName_def)
qed

definition valid_disk :: "string list \<Rightarrow> int \<Rightarrow> int \<Rightarrow> string \<Rightarrow> bool" where
  "valid_disk values iops sz vt \<longleftrightarrow>
     0 \<le> iops \<and> iops \<le> 13000 \<and> 0 \<le> sz \<and> sz \<le> 14900 \<and> (sz = 0 \<or> iops < 301 * sz) \<and> (vt = [] \<or> vt \<in> set values)"

lemma disk_checks:
  "ValidateIops p iops sz = None \<and> ValidateSize q sz = None \<and> ValidateVolumeType values r vt = None \<longleftrightarrow>
     valid_disk values iops sz vt"
  by (auto simp: disk_valid valid_disk_def ValidateVolumeType_def)

definition valid_machine :: "string list \<Rightarrow> OscNodeV1 \<Rightarrow> bool" where
  "valid_machine values node \<longleftrightarrow>
     vm_KeypairName (v1_Vm node) \<noteq> [] \<and>
     (match_whole tina_regex (vm_VmType (v1_Vm node)) \<or> match_whole inference_regex (vm_VmType (v1_Vm node))) \<and>
     valid_subregion (vm_SubregionName (v1_Vm node)) \<and> list_all valid_subregion (SubregionNames (v1_Vm node)) \<and>
     list_all (\<lambda>v. valid_device (Device v) \<and> valid_disk values (Iops v) (Size v) (vol_VolumeType v)) (v1_Volumes node) \<and>
     valid_disk values (RootDiskIops (vm_RootDisk (v1_Vm node))) (RootDiskSize (vm_RootDisk (v1_Vm node)))
       (RootDiskType (vm_RootDisk (v1_Vm node)))"

lemma ValidateVolume_valid [valid_iffs]:
  "ValidateVolume values p v = [] \<longleftrightarrow> valid_device (Device v) \<and> valid_disk values (Iops v) (Size v) (vol_VolumeType v)"
  by (simp add: ValidateVolume_def AppendValidation_Nil ValidateDeviceName_valid disk_checks)

lemma ValidateOscMachineSpec_valid: "ValidateOscMachineSpec values spec = [] \<longleftrightarrow> valid_machine values (v1_Node spec)"
  unfolding ValidateOscMachineSpec_def Let_def AppendValidation_Nil foldl_AppendValidation valid_machine_def
  by (simp add: disk_checks generic_valid ValidateVmType_valid ValidateSubregion_valid
      list_all_map_Some ValidateVolume_valid)

section \<open>Duplicates\<close>

lemma check_from_None: "check_from seen xs = None \<longleftrightarrow> distinct xs \<and> set seen \<inter> set xs = {}"
  by (induction xs arbitrary: seen) auto

lemma CheckDuplicates_None: "CheckDuplicates arr fn = None \<longleftrightarrow> distinct (map fn arr)"
  by (simp add: CheckDuplicates_def check_from_None)

end
