(* ===== verification/Api_Webhooks.thy ===== *)
theory Api_Webhooks
  imports V1beta1_Accepted V1beta1_Conversion
begin

text \<open>
  The admission webhooks of both versions (\<^verbatim>\<open>api/v1beta1/*_webhook.go\<close>, \<^verbatim>\<open>api/v1beta2/*_webhook.go\<close>).
  A webhook gets a \<^verbatim>\<open>runtime.Object\<close>; it refuses one of another kind, and the old object of an
  update is asserted to be of the kind, so that another one panics. \<^verbatim>\<open>controller-runtime\<close> calls
  \<^verbatim>\<open>ValidateUpdate(ctx, oldObj, newObj)\<close>: \<open>on_update\<close> below is that call.
\<close>

section \<open>Objects and verdicts\<close>

datatype 'q RuntimeObject =
    ClusterV1 OscClusterV1
  | MachineV1 OscMachineV1
  | ClusterTemplateV1 OscClusterTemplateV1
  | MachineTemplateV1 "'q OscMachineTemplateV1"
  | Cluster OscCluster
  | Machine OscMachine
  | ClusterTemplate OscClusterTemplate
  | MachineTemplate "'q OscMachineTemplate"

text \<open>
  \<^verbatim>\<open>apierrors.NewInvalid\<close> carries the kind, the name and the errors. The value that a refused
  template shows is the whole object, which is not kept here.
\<close>

datatype verdict =
    Allowed
  | WrongObject string
  | NewInvalid string string "field_error list"
  | Panics

text \<open>\<^verbatim>\<open>if len(allErrs) == 0 { return nil, nil }; return nil, apierrors.NewInvalid(...)\<close>\<close>

definition invalid :: "string \<Rightarrow> ObjectMeta \<Rightarrow> field_error list \<Rightarrow> verdict" where
  "invalid kind meta allErrs = (if length allErrs > 0 then NewInvalid kind (om_Name meta) allErrs else Allowed)"

definition check_field :: "bool \<Rightarrow> field_error \<Rightarrow> field_error list" where
  "check_field changed e = (if changed then [e] else [])"

section \<open>Clusters, v1beta1\<close>

definition ClusterWebhookV1_Default :: "'q RuntimeObject \<Rightarrow> verdict" where
  "ClusterWebhookV1_Default obj = Allowed"

definition ClusterWebhookV1_ValidateCreate :: "'q RuntimeObject \<Rightarrow> verdict" where
  "ClusterWebhookV1_ValidateCreate obj =
     (case obj of
        ClusterV1 r \<Rightarrow> invalid ''OscCluster'' (v1_ClMeta r) (ValidateOscClusterSpec (v1_ClSpec r))
      | _ \<Rightarrow> WrongObject ''expected an OscCluster object but got *v1beta1.OscCluster'')"

definition ClusterWebhookV1_ValidateUpdate :: "'q RuntimeObject \<Rightarrow> 'q RuntimeObject \<Rightarrow> verdict" where
  "ClusterWebhookV1_ValidateUpdate obj oldRaw =
     (case obj of
        ClusterV1 r \<Rightarrow>
          (case oldRaw of
             ClusterV1 old \<Rightarrow>
               (let nw = v1_Network (v1_ClSpec r); lb = v1_LoadBalancer nw;
                    oldlb = v1_LoadBalancer (v1_Network (v1_ClSpec old))
                in invalid ''OscCluster'' (v1_ClMeta r)
                  (if DisableLB \<notin> set (v1_Disable nw) then
                     check_field (LoadBalancerName lb \<noteq> LoadBalancerName oldlb)
                       (field_Invalid [''network'', ''loadBalancer'', ''loadbalancername''] (StringValue (LoadBalancerName lb)) ''field is immutable'') @
                     check_field (LoadBalancerType lb \<noteq> LoadBalancerType oldlb)
                       (field_Invalid [''network'', ''loadBalancer'', ''loadbalancertype''] (StringValue (LoadBalancerType lb)) ''field is immutable'')
                   else []))
           | _ \<Rightarrow> Panics)
      | _ \<Rightarrow> WrongObject ''expected an OscCluster object but got *v1beta1.OscCluster'')"

definition ClusterWebhookV1_ValidateDelete :: "'q RuntimeObject \<Rightarrow> verdict" where
  "ClusterWebhookV1_ValidateDelete obj = Allowed"

section \<open>Machines, v1beta1\<close>

definition MachineWebhookV1_Default :: "'q RuntimeObject \<Rightarrow> verdict" where
  "MachineWebhookV1_Default obj = Allowed"

definition MachineWebhookV1_ValidateCreate :: "string list \<Rightarrow> 'q RuntimeObject \<Rightarrow> verdict" where
  "MachineWebhookV1_ValidateCreate values obj =
     (case obj of
        MachineV1 r \<Rightarrow> invalid ''OscMachine'' (v1_MaMeta r) (ValidateOscMachineSpec values (v1_MaSpec r))
      | _ \<Rightarrow> WrongObject ''expected an OscMachine object but got *v1beta1.OscMachine'')"

text \<open>\<^verbatim>\<open>maps.Equal\<close>, on maps that have every key once.\<close>

definition maps_Equal :: "nmap \<Rightarrow> nmap \<Rightarrow> bool" where
  "maps_Equal m1 m2 \<longleftrightarrow> length (nmap_entries m1) = length (nmap_entries m2) \<and>
     list_all (\<lambda>(k, v). map_of (nmap_entries m2) k = Some v) (nmap_entries m1)"

definition MachineWebhookV1_ValidateUpdate :: "'q RuntimeObject \<Rightarrow> 'q RuntimeObject \<Rightarrow> verdict" where
  "MachineWebhookV1_ValidateUpdate obj oldRaw =
     (case obj of
        MachineV1 r \<Rightarrow>
          (case oldRaw of
             MachineV1 old \<Rightarrow>
               (let vm = v1_Vm (v1_Node (v1_MaSpec r)); oldvm = v1_Vm (v1_Node (v1_MaSpec old));
                    disk = vm_RootDisk vm; olddisk = vm_RootDisk oldvm
                in invalid ''OscMachine'' (v1_MaMeta r)
                  (check_field (vm_VmType vm \<noteq> vm_VmType oldvm)
                     (field_Invalid [''node'', ''vm'', ''vmType''] (StringValue (vm_VmType vm)) ''field is immutable'') @
                   check_field (vm_KeypairName vm \<noteq> vm_KeypairName oldvm)
                     (field_Invalid [''node'', ''vm'', ''keyPairName''] (StringValue (vm_KeypairName vm)) ''field is immutable'') @
                   check_field (vm_SubregionName oldvm \<noteq> [] \<and> vm_SubregionName vm \<noteq> vm_SubregionName oldvm)
                     (field_Invalid [''node'', ''vm'', ''subregionName''] (StringValue (vm_SubregionName vm)) ''field is immutable'') @
                   check_field (length (nmap_entries (vm_Tags oldvm)) > 0 \<and> \<not> maps_Equal (vm_Tags vm) (vm_Tags oldvm))
                     (field_Invalid [''node'', ''vm'', ''tags''] NoValue ''field is immutable'') @
                   check_field (vm_SubnetName oldvm \<noteq> [] \<and> vm_SubnetName vm \<noteq> vm_SubnetName oldvm)
                     (field_Invalid [''node'', ''vm'', ''subnetName''] (StringValue (vm_SubnetName vm)) ''field is immutable'') @
                   check_field (RootDiskSize disk \<noteq> RootDiskSize olddisk)
                     (field_Invalid [''node'', ''vm'', ''rootDisk'', ''rootDiskSize''] (IntValue (RootDiskSize disk)) ''field is immutable'') @
                   check_field (RootDiskIops disk \<noteq> RootDiskIops olddisk)
                     (field_Invalid [''node'', ''vm'', ''rootDisk'', ''rootDiskIops''] (IntValue (RootDiskIops disk)) ''field is immutable'') @
                   check_field (RootDiskType disk \<noteq> RootDiskType olddisk)
                     (field_Invalid [''node'', ''vm'', ''rootDisk'', ''rootDiskType''] (StringValue (RootDiskType disk)) ''field is immutable'')))
           | _ \<Rightarrow> Panics)
      | _ \<Rightarrow> WrongObject ''expected an OscMachine object but got *v1beta1.OscMachine'')"

definition MachineWebhookV1_ValidateDelete :: "'q RuntimeObject \<Rightarrow> verdict" where
  "MachineWebhookV1_ValidateDelete obj = Allowed"

section \<open>Templates, v1beta1\<close>

text \<open>
  \<^verbatim>\<open>reflect.DeepEqual\<close> on two specifications is equality here. It also tells a nil slice from an
  empty one, which are one value of this model: an update between the two, the same specification in
  JSON once written with \<^verbatim>\<open>omitempty\<close>, is the case where the code may refuse and the model does not.
\<close>

definition ClusterTemplateWebhookV1_ValidateCreate :: "'q RuntimeObject \<Rightarrow> verdict" where
  "ClusterTemplateWebhookV1_ValidateCreate obj =
     (case obj of
        ClusterTemplateV1 r \<Rightarrow> invalid ''OscClusterTemplate'' (v1_ct_Meta r) (ValidateOscClusterSpec (v1_ctr_Spec (v1_ct_Template r)))
      | _ \<Rightarrow> WrongObject ''expected an OscClusterTemplate object but got *v1beta1.OscClusterTemplate'')"

definition ClusterTemplateWebhookV1_ValidateUpdate :: "'q RuntimeObject \<Rightarrow> 'q RuntimeObject \<Rightarrow> verdict" where
  "ClusterTemplateWebhookV1_ValidateUpdate obj oldRaw =
     (case obj of
        ClusterTemplateV1 r \<Rightarrow>
          (case oldRaw of
             ClusterTemplateV1 old \<Rightarrow> invalid ''OscClusterTemmplate'' (v1_ct_Meta r)
               (check_field (v1_ctr_Spec (v1_ct_Template r) \<noteq> v1_ctr_Spec (v1_ct_Template old))
                 (field_Invalid [''template'', ''spec''] NoValue ''spec is immutable.''))
           | _ \<Rightarrow> Panics)
      | _ \<Rightarrow> WrongObject ''expected an OscClusterTemplate object but got *v1beta1.OscClusterTemplate'')"

definition MachineTemplateWebhookV1_ValidateCreate :: "string list \<Rightarrow> 'q RuntimeObject \<Rightarrow> verdict" where
  "MachineTemplateWebhookV1_ValidateCreate values obj =
     (case obj of
        MachineTemplateV1 r \<Rightarrow> invalid ''OscMachineTemplate'' (v1_mt_Meta r) (ValidateOscMachineSpec values (v1_mtr_Spec (v1_mt_Template r)))
      | _ \<Rightarrow> WrongObject ''expected an OscMachineTemplate object but got *v1beta1.OscMachineTemplate'')"

definition MachineTemplateWebhookV1_ValidateUpdate :: "'q RuntimeObject \<Rightarrow> 'q RuntimeObject \<Rightarrow> verdict" where
  "MachineTemplateWebhookV1_ValidateUpdate obj oldRaw =
     (case obj of
        MachineTemplateV1 r \<Rightarrow>
          (case oldRaw of
             MachineTemplateV1 old \<Rightarrow> invalid ''OscMachineTemplate'' (v1_mt_Meta r)
               (check_field (v1_mtr_Spec (v1_mt_Template r) \<noteq> v1_mtr_Spec (v1_mt_Template old))
                 (field_Invalid [''template'', ''spec''] NoValue ''spec is immutable''))
           | _ \<Rightarrow> Panics)
      | _ \<Rightarrow> WrongObject ''expected an OscMachineTemplate object but got *v1beta1.OscMachineTemplate'')"

definition TemplateWebhookV1_Default :: "'q RuntimeObject \<Rightarrow> verdict" where
  "TemplateWebhookV1_Default obj = Allowed"

definition TemplateWebhookV1_ValidateDelete :: "'q RuntimeObject \<Rightarrow> verdict" where
  "TemplateWebhookV1_ValidateDelete obj = Allowed"

section \<open>The webhooks of v1beta2\<close>

text \<open>
  \<^verbatim>\<open>Default\<close>, \<^verbatim>\<open>ValidateCreate\<close>, \<^verbatim>\<open>ValidateUpdate\<close> (on its first object) and \<^verbatim>\<open>ValidateDelete\<close> test the
  kind of the object and nothing else.
\<close>

definition ClusterWebhook_Validate :: "'q RuntimeObject \<Rightarrow> verdict" where
  "ClusterWebhook_Validate obj =
     (case obj of Cluster _ \<Rightarrow> Allowed
      | _ \<Rightarrow> WrongObject ''expected an OscCluster object but got *v1beta2.OscCluster'')"

definition MachineWebhook_Validate :: "'q RuntimeObject \<Rightarrow> verdict" where
  "MachineWebhook_Validate obj =
     (case obj of Machine _ \<Rightarrow> Allowed
      | _ \<Rightarrow> WrongObject ''expected an OscMachine object but got *v1beta2.OscMachine'')"

definition ClusterTemplateWebhook_Validate :: "'q RuntimeObject \<Rightarrow> verdict" where
  "ClusterTemplateWebhook_Validate obj =
     (case obj of ClusterTemplate _ \<Rightarrow> Allowed
      | _ \<Rightarrow> WrongObject ''expected an OscClusterTemplate object but got *v1beta2.OscClusterTemplate'')"

definition MachineTemplateWebhook_Validate :: "'q RuntimeObject \<Rightarrow> verdict" where
  "MachineTemplateWebhook_Validate obj =
     (case obj of MachineTemplate _ \<Rightarrow> Allowed
      | _ \<Rightarrow> WrongObject ''expected an OscMachineTemplate object but got *v1beta2.OscMachineTemplate'')"

section \<open>The calls of controller-runtime\<close>

definition on_update :: "('q RuntimeObject \<Rightarrow> 'q RuntimeObject \<Rightarrow> verdict) \<Rightarrow> 'q RuntimeObject \<Rightarrow> 'q RuntimeObject \<Rightarrow> verdict" where
  "on_update validateUpdate oldObj newObj = validateUpdate oldObj newObj"

lemma invalid_Allowed [valid_iffs]: "invalid kind meta errs = Allowed \<longleftrightarrow> errs = []"
  by (simp add: invalid_def)

lemma check_field_Nil [valid_iffs]: "check_field changed e = [] \<longleftrightarrow> \<not> changed"
  by (simp add: check_field_def)

lemma create_cluster_allowed:
  "ClusterWebhookV1_ValidateCreate obj = Allowed \<longleftrightarrow> (\<exists>r. obj = ClusterV1 r \<and> valid_cluster (v1_Network (v1_ClSpec r)))"
  by (cases obj) (simp_all add: ClusterWebhookV1_ValidateCreate_def valid_iffs ValidateOscClusterSpec_valid)

lemma create_machine_allowed:
  "MachineWebhookV1_ValidateCreate values obj = Allowed \<longleftrightarrow> (\<exists>r. obj = MachineV1 r \<and> valid_machine values (v1_Node (v1_MaSpec r)))"
  by (cases obj) (simp_all add: MachineWebhookV1_ValidateCreate_def valid_iffs ValidateOscMachineSpec_valid)

end
