(* ===== verification/Machine_Template.thy ===== *)
theory Machine_Template
  imports Api_Webhooks
begin

text \<open>
  The controller of the machine templates: \<^verbatim>\<open>cloud/scope/machinetemplate.go\<close>,
  \<^verbatim>\<open>controllers/oscmachinetemplate_capacity.go\<close> and \<^verbatim>\<open>controllers/oscmachinetemplate_controller.go\<close>. It computes the
  capacity an autoscaler expects of a machine from the type of its VM. Quantities are values of
  \<^verbatim>\<open>k8s.io/apimachinery\<close>: parsing them is a field of \<open>TKube\<close>, with what the run uses of the Kubernetes API.
\<close>

section \<open>State and environment\<close>

record 'q TWorld =
  t_OscMachineTemplate :: "'q OscMachineTemplate"
  t_patched :: "'q OscMachineTemplate list"

record 'q TKube =
  tk_HasClient :: bool
  tk_GetTemplate :: "string \<Rightarrow> gerror + 'q OscMachineTemplate"
  tk_IsNotFound :: "gerror \<Rightarrow> bool"
  tk_NewHelper :: "'q OscMachineTemplate \<Rightarrow> gerror option"
  tk_Patch :: "'q OscMachineTemplate \<Rightarrow> gerror option"
  tk_RemoveFinalizer :: "string list \<Rightarrow> string \<Rightarrow> string list"
  tk_ParseQuantity :: "string \<Rightarrow> gerror + 'q"

type_synonym ('q, 'a) TOp = "('q TWorld, 'a) M"

section \<open>Scope\<close>

text \<open>A new scope refers to the object that was read.\<close>

definition NewMachineTemplateScope :: "'q TKube \<Rightarrow> 'q OscMachineTemplate \<Rightarrow> ('q, unit) TOp" where
  "NewMachineTemplateScope K t =
     (if \<not> tk_HasClient K then raise (ErrorsNew ''Client is required when creating a MachineTemplateScope'')
      else case tk_NewHelper K t of
        Some e \<Rightarrow> raise (Errorf ''failed to init patch helper: '' e)
      | None \<Rightarrow> modify (\<lambda>w. w\<lparr>t_OscMachineTemplate := t\<rparr>))"

definition ts_Close :: "'q TKube \<Rightarrow> ('q, unit) TOp" where
  "ts_Close K = bind (gets t_OscMachineTemplate) (\<lambda>t.
     case tk_Patch K t of Some e \<Rightarrow> raise e | None \<Rightarrow> modify (\<lambda>w. w\<lparr>t_patched := t_patched w @ [t]\<rparr>))"

definition ts_GetName :: "'q TWorld \<Rightarrow> string" where
  "ts_GetName w = om_Name (mt_Meta (t_OscMachineTemplate w))"

definition ts_GetNamespace :: "'q TWorld \<Rightarrow> string" where
  "ts_GetNamespace w = om_Namespace (mt_Meta (t_OscMachineTemplate w))"

definition ts_GetVmType :: "'q TWorld \<Rightarrow> string" where
  "ts_GetVmType w = vm_VmType (Vm (Node (mtr_Spec (mt_Template (t_OscMachineTemplate w)))))"

definition ts_GetRole :: "'q TWorld \<Rightarrow> OscRole" where
  "ts_GetRole w =
     (let role = vm_Role (Vm (Node (mtr_Spec (mt_Template (t_OscMachineTemplate w)))))
      in if role \<noteq> [] then role else RoleWorker)"

definition ts_GetCapacity :: "'q TWorld \<Rightarrow> 'q ResourceList" where
  "ts_GetCapacity w = mt_Capacity (mt_Status (t_OscMachineTemplate w))"

definition ts_SetCapacity :: "'q ResourceList \<Rightarrow> ('q, unit) TOp" where
  "ts_SetCapacity capacity = modify (\<lambda>w. w\<lparr>t_OscMachineTemplate := (t_OscMachineTemplate w)
     \<lparr>mt_Status := (mt_Status (t_OscMachineTemplate w))\<lparr>mt_Capacity := capacity\<rparr>\<rparr>\<rparr>)"

section \<open>Capacity\<close>

text \<open>\<^verbatim>\<open>tinav[0-9]+.c([0-9]+)r([0-9]+)p[0-9]+\<close>\<close>

definition reVmType :: regex where
  "reVmType = seqs
     [Lit ''tinav'', Plus digits, Dot, Lit ''c'', Group (Plus digits), Lit ''r'', Group (Plus digits), Lit ''p'', Plus digits]"

abbreviation ResourceCPU :: string where "ResourceCPU \<equiv> ''cpu''"
abbreviation ResourceMemory :: string where "ResourceMemory \<equiv> ''memory''"

definition reconcileCapacity :: "'q TKube \<Rightarrow> ('q, nat) TOp" where
  "reconcileCapacity K = bind (gets ts_GetVmType) (\<lambda>vmType.
     if vmType = [] then ret 0
     else case FindStringSubmatch reVmType vmType of
       None \<Rightarrow> ret 0
     | Some matches \<Rightarrow>
         (case tk_ParseQuantity K (matches ! 0) of
            Inl _ \<Rightarrow> ret 0
          | Inr cpu \<Rightarrow>
              (case tk_ParseQuantity K (matches ! 1 @ ''Gi'') of
                 Inl _ \<Rightarrow> ret 0
               | Inr mem \<Rightarrow> andThen (ts_SetCapacity (Some [(ResourceCPU, cpu), (ResourceMemory, mem)])) (ret 0))))"

section \<open>Controller\<close>

definition t_reconcile :: "'q TKube \<Rightarrow> ('q, nat) TOp" where
  "t_reconcile K = reconcileCapacity K"

definition t_reconcileDelete :: "'q TKube \<Rightarrow> ('q, nat) TOp" where
  "t_reconcileDelete K = andThen (modify (\<lambda>w. w\<lparr>t_OscMachineTemplate := (t_OscMachineTemplate w)
     \<lparr>mt_Meta := (mt_Meta (t_OscMachineTemplate w))
       \<lparr>Finalizers := tk_RemoveFinalizer K (Finalizers (mt_Meta (t_OscMachineTemplate w)))
          ''oscmachine.infrastructure.cluster.x-k8s.io''\<rparr>\<rparr>\<rparr>)) (ret 0)"

definition t_deferClose :: "'q TKube \<Rightarrow> ('q, 'a) TOp \<Rightarrow> ('q, 'a) TOp" where
  "t_deferClose K m = (\<lambda>s. case m s of (r, t) \<Rightarrow>
     (case ts_Close K t of
        (Err e, u) \<Rightarrow> ((case r of Ok _ \<Rightarrow> Err e | _ \<Rightarrow> r), u)
      | (_, u) \<Rightarrow> (r, u)))"

text \<open>The number is the delay in seconds after which the request comes back, 0 for none.\<close>

definition t_Reconcile :: "'q TKube \<Rightarrow> string \<Rightarrow> ('q, nat) TOp" where
  "t_Reconcile K req =
     (case tk_GetTemplate K req of
        Inl e \<Rightarrow> if tk_IsNotFound K e then ret 0 else raise e
      | Inr t \<Rightarrow>
          handle (NewMachineTemplateScope K t) (\<lambda>r. case r of
             Inl _ \<Rightarrow> ret 30
           | Inr _ \<Rightarrow> t_deferClose K
               (if DeletionTimestamp (mt_Meta t) \<noteq> None then t_reconcileDelete K else t_reconcile K)))"

section \<open>What a run writes\<close>

text \<open>The capacity a type of VM gives, and the object that a run writes back.\<close>

definition type_capacity :: "'q TKube \<Rightarrow> string \<Rightarrow> 'q ResourceList option" where
  "type_capacity K vmType =
     (case FindStringSubmatch reVmType vmType of
        None \<Rightarrow> None
      | Some matches \<Rightarrow>
          (case (tk_ParseQuantity K (matches ! 0), tk_ParseQuantity K (matches ! 1 @ ''Gi'')) of
             (Inr cpu, Inr mem) \<Rightarrow> Some (Some [(ResourceCPU, cpu), (ResourceMemory, mem)])
           | _ \<Rightarrow> None))"

definition template_target :: "'q TKube \<Rightarrow> 'q OscMachineTemplate \<Rightarrow> 'q OscMachineTemplate" where
  "template_target K t =
     (if DeletionTimestamp (mt_Meta t) \<noteq> None
      then t\<lparr>mt_Meta := (mt_Meta t)\<lparr>Finalizers := tk_RemoveFinalizer K (Finalizers (mt_Meta t))
             ''oscmachine.infrastructure.cluster.x-k8s.io''\<rparr>\<rparr>
      else case type_capacity K (vm_VmType (Vm (Node (mtr_Spec (mt_Template t))))) of
        None \<Rightarrow> t
      | Some c \<Rightarrow> t\<lparr>mt_Status := (mt_Status t)\<lparr>mt_Capacity := c\<rparr>\<rparr>)"

lemma results_reVmType_Nil [simp]: "results reVmType [] = []"
  by (simp add: reVmType_def seqs_def)

lemma type_capacity_Nil [simp]: "type_capacity K [] = None"
  by (simp add: type_capacity_def)

lemma reconcileCapacity_run:
  "reconcileCapacity K w = (Ok 0,
     (case type_capacity K (ts_GetVmType w) of
        None \<Rightarrow> w
      | Some c \<Rightarrow> w\<lparr>t_OscMachineTemplate := (t_OscMachineTemplate w)
          \<lparr>mt_Status := (mt_Status (t_OscMachineTemplate w))\<lparr>mt_Capacity := c\<rparr>\<rparr>\<rparr>))"
proof (cases "ts_GetVmType w = []")
  case True
  then show ?thesis by (simp add: reconcileCapacity_def run_simps)
next
  case False
  show ?thesis
  proof (cases "FindStringSubmatch reVmType (ts_GetVmType w)")
    case None
    then show ?thesis using False by (simp add: reconcileCapacity_def type_capacity_def run_simps)
  next
    case (Some matches)
    then show ?thesis using False
      by (simp add: reconcileCapacity_def type_capacity_def run_simps ts_SetCapacity_def split: sum.split)
  qed
qed

lemma t_body_run:
  assumes "t_OscMachineTemplate w = t"
  shows "(if DeletionTimestamp (mt_Meta t) \<noteq> None then t_reconcileDelete K else t_reconcile K) w =
     (Ok 0, w\<lparr>t_OscMachineTemplate := template_target K t\<rparr>)"
proof (cases "DeletionTimestamp (mt_Meta t)")
  case None
  have "w\<lparr>t_OscMachineTemplate := t\<rparr> = w" using assms by simp
  then show ?thesis using None assms
    by (simp add: t_reconcile_def reconcileCapacity_run template_target_def ts_GetVmType_def split: option.split)
next
  case (Some ts)
  then show ?thesis using assms by (simp add: t_reconcileDelete_def run_simps template_target_def)
qed

lemma t_Reconcile_run:
  "t_Reconcile K req w =
     (case tk_GetTemplate K req of
        Inl e \<Rightarrow> (if tk_IsNotFound K e then Ok 0 else Err e, w)
      | Inr t \<Rightarrow>
          if tk_HasClient K \<and> tk_NewHelper K t = None
          then let target = template_target K t; w' = w\<lparr>t_OscMachineTemplate := target\<rparr>
               in case tk_Patch K target of
                    Some e \<Rightarrow> (Err e, w')
                  | None \<Rightarrow> (Ok 0, w'\<lparr>t_patched := t_patched w @ [target]\<rparr>)
          else (Ok 30, w))"
proof (cases "tk_GetTemplate K req")
  case (Inl e)
  then show ?thesis by (simp add: t_Reconcile_def run_simps)
next
  case (Inr t)
  show ?thesis
  proof (cases "tk_HasClient K \<and> tk_NewHelper K t = None")
    case False
    then show ?thesis using Inr
      by (auto simp: t_Reconcile_def NewMachineTemplateScope_def run_simps split: option.split)
  next
    case True
    let ?w = "w\<lparr>t_OscMachineTemplate := t\<rparr>"
    have body: "(if DeletionTimestamp (mt_Meta t) \<noteq> None then t_reconcileDelete K else t_reconcile K) ?w =
        (Ok 0, ?w\<lparr>t_OscMachineTemplate := template_target K t\<rparr>)" by (rule t_body_run) simp
    have "t_Reconcile K req w = t_deferClose K
        (if DeletionTimestamp (mt_Meta t) \<noteq> None then t_reconcileDelete K else t_reconcile K) ?w"
      using Inr True by (simp add: t_Reconcile_def NewMachineTemplateScope_def run_simps)
    also have "\<dots> = (case tk_Patch K (template_target K t) of
           Some e \<Rightarrow> (Err e, w\<lparr>t_OscMachineTemplate := template_target K t\<rparr>)
         | None \<Rightarrow> (Ok 0, w\<lparr>t_OscMachineTemplate := template_target K t, t_patched := t_patched w @ [template_target K t]\<rparr>))"
      unfolding t_deferClose_def body by (simp add: ts_Close_def run_simps split: option.split)
    finally show ?thesis using Inr True by (simp add: Let_def)
  qed
qed

section \<open>Types with a capacity\<close>

text \<open>A type in the documented form gives the numbers it names.\<close>

lemma capacity_groups:
  assumes "list_all is_digit g" "list_all is_digit c" "list_all is_digit r" "list_all is_digit p"
    and "g \<noteq> []" "c \<noteq> []" "r \<noteq> []" "p \<noteq> []"
  shows "FindStringSubmatch reVmType (tina_type g ''.'' c r p) = Some [c, r]"
proof -
  have d: "list_all (in_class digits) w" if "list_all is_digit w" for w
    using that by (simp add: list_all_iff in_digits)
  have plus: "first (Plus digits) (w @ t) [] t" if "list_all is_digit w" "w \<noteq> []" "t = [] \<or> \<not> is_digit (hd t)" for w t
    by (rule first_Plus) (use that d in \<open>auto simp: in_digits\<close>)
  have dot: "first Dot (''.'' @ t) [] t" for t by (simp add: first_def first_rune_def)
  have nd: "\<not> is_digit (hd (''.'' @ t))" "\<not> is_digit (hd (''c'' @ t))" "\<not> is_digit (hd (''r'' @ t))" "\<not> is_digit (hd (''p'' @ t))" for t
    by (simp_all add: is_digit_def)
  have "first reVmType (tina_type g ''.'' c r p) ([] @ [] @ [] @ [] @ [c] @ [] @ [r] @ [] @ [] @ []) []"
    unfolding reVmType_def seqs_def foldr.simps comp_def id_def tina_type_def
    apply (intro first_Seq)
    apply (rule first_Lit)
    apply (rule plus [OF assms(1,5)], simp add: is_digit_def)
    apply (rule dot)
    apply (rule first_Lit)
    apply (rule first_Group, rule plus [OF assms(2,6)], simp add: is_digit_def)
    apply (rule first_Lit)
    apply (rule first_Group, rule plus [OF assms(3,7)], simp add: is_digit_def)
    apply (rule first_Lit)
    apply (rule plus [where t = "[]", simplified, OF assms(4,8)])
    apply (rule first_Eps)
    done
  then show ?thesis using FindStringSubmatch_first by fastforce
qed

text \<open>Every tina type that the validation accepts has a capacity, and no inference type has one.\<close>

lemma accepts_Plus_digits:
  "list_all is_digit w \<Longrightarrow> w \<noteq> [] \<Longrightarrow> k t \<Longrightarrow> accepts (Plus digits) k (w @ t)"
proof -
  assume w: "list_all is_digit w" "w \<noteq> []" "k t"
  then have "list_all (in_class digits) w" by (simp add: list_all_iff in_digits)
  moreover have "Suc 0 \<le> length w" using w(2) by (cases w) simp_all
  ultimately show "accepts (Plus digits) k (w @ t)" unfolding accepts_Rep using w(3) by auto
qed

lemma tina_has_match:
  assumes "match_whole tina_regex s" shows "accepts reVmType (\<lambda>_. True) s"
proof -
  obtain g x c r p where s: "s = tina_type g x c r p" and h: "tina_generation g" "is_rune x" "hd x \<noteq> CHR 0x0A"
      "is_posint c" "is_posint r" "p \<in> {''1'', ''2'', ''3''}"
    using assms unfolding tina_language by blast
  have d: "list_all is_digit w \<and> w \<noteq> []" if "is_posint w" for w using that by (simp add: is_posint_def)
  have p: "list_all is_digit p \<and> p \<noteq> []" using h(6) by (auto simp: is_digit_def)
  have "accepts (Plus digits) (\<lambda>_. True) (p @ [])" using p by (intro accepts_Plus_digits) simp_all
  then have "accepts (Lit ''p'') (accepts (Plus digits) (\<lambda>_. True)) (''p'' @ p)" by (simp add: accepts_Lit)
  then have "accepts (Plus digits) (accepts (Lit ''p'') (accepts (Plus digits) (\<lambda>_. True))) (r @ ''p'' @ p)"
    using d [OF h(5)] by (intro accepts_Plus_digits) simp_all
  then have "accepts (Lit ''r'') (accepts (Plus digits) (accepts (Lit ''p'') (accepts (Plus digits) (\<lambda>_. True)))) (''r'' @ r @ ''p'' @ p)"
    unfolding accepts_Lit [of "''r''"] by blast
  then have "accepts (Plus digits) (accepts (Lit ''r'') (accepts (Plus digits) (accepts (Lit ''p'') (accepts (Plus digits) (\<lambda>_. True)))))
      (c @ ''r'' @ r @ ''p'' @ p)"
    using d [OF h(4)] by (intro accepts_Plus_digits) simp_all
  then have "accepts Dot (accepts (Lit ''c'') (accepts (Plus digits) (accepts (Lit ''r'') (accepts (Plus digits)
      (accepts (Lit ''p'') (accepts (Plus digits) (\<lambda>_. True))))))) (x @ ''c'' @ c @ ''r'' @ r @ ''p'' @ p)"
    unfolding accepts_Dot_Lit [of "CHR ''c''", simplified] using h(2,3) by force
  then have "accepts (Plus digits) (accepts Dot (accepts (Lit ''c'') (accepts (Plus digits) (accepts (Lit ''r'') (accepts (Plus digits)
      (accepts (Lit ''p'') (accepts (Plus digits) (\<lambda>_. True)))))))) (g @ x @ ''c'' @ c @ ''r'' @ r @ ''p'' @ p)"
    using h(1) by (intro accepts_Plus_digits) (simp_all add: tina_generation_def is_posint_def)
  then show ?thesis
    unfolding reVmType_def accepts_seqs accepts_Group s tina_type_def accepts_Lit [of "''tinav''"] by blast
qed

lemma FindStringSubmatch_None: "FindStringSubmatch r s = None \<longleftrightarrow> \<not> match_somewhere r s"
  by (induction s) (auto split: list.split)

lemma tina_submatch: "match_whole tina_regex s \<Longrightarrow> FindStringSubmatch reVmType s \<noteq> None"
  unfolding FindStringSubmatch_None match_somewhere_accepts by (metis tina_has_match append_Nil)

end
