(* ===== verification/Api_Properties.thy ===== *)
theory Api_Properties
  imports Api_Versions Machine_Template Samples
begin

text \<open>
  The properties of the API: what the validation of \<^verbatim>\<open>v1beta1\<close> accepts, what the conversion between the
  versions keeps and forgets, what an update may change, and the capacity of the machine templates.
  Sample objects for the witnesses come first.
\<close>

section \<open>Sample objects\<close>

text \<open>A cluster of \<^verbatim>\<open>v1beta1\<close> that is valid, and variants of its network.\<close>

definition sampleClusterV1 :: "(OscNetworkV1 \<Rightarrow> OscNetworkV1) \<Rightarrow> OscClusterV1" where
  "sampleClusterV1 f =
     (let c = OscCluster_ConvertFrom (withNetwork (\<lambda>nw. nw\<lparr>LoadBalancer := loadbalancer_to zero_OscLoadBalancerV1
            \<lparr>LoadBalancerName := ''c1-k8s''\<rparr>, Disable := [], Net := zero_OscNet, Subnets := [], NatServices := [],
            SecurityGroups := [], AllowFromIPRanges := []\<rparr>) sampleCluster)
      in c\<lparr>v1_ClSpec := (v1_ClSpec c)\<lparr>v1_Network := f (v1_Network (v1_ClSpec c))\<rparr>\<rparr>)"

definition reusedNetV1 :: "OscNetworkV1 \<Rightarrow> OscNetworkV1" where
  "reusedNetV1 nw = nw\<lparr>v1_UseExisting := \<lparr>reuse_Net = True, reuse_SecurityGroups = False\<rparr>,
     v1_Net := \<lparr>net_Name = [], net_IpRange = ''10.0.0.0/16'', net_ResourceId = ''vpc-ext'', net1_ClusterName = []\<rparr>\<rparr>"

definition twoSubnetsV1 :: "OscNetworkV1 \<Rightarrow> OscNetworkV1" where
  "twoSubnetsV1 nw = nw
     \<lparr>v1_Net := \<lparr>net_Name = [], net_IpRange = ''10.0.0.0/16'', net_ResourceId = [], net1_ClusterName = []\<rparr>,
      v1_Subnets := map (\<lambda>w. \<lparr>sn_Name = [], sn_Roles = [], IpSubnetRange = w, sn_SubregionName = [], sn_ResourceId = []\<rparr>)
        [''10.0.1.0/24'', ''10.0.2.0/24'']\<rparr>"

section \<open>Validation\<close>

text \<open>
  C25. The webhook of v1beta1 admits a new cluster exactly when its network is well formed: load
  balancer fields in their ranges, a net with a CIDR block (and an id when it is reused), subnets
  whose blocks share no address with one another and an address with the net, security rules with
  one source of ranges and ordered ports. Any other object is refused with an error.
\<close>

theorem accepted_clusters:
  "ClusterWebhookV1_ValidateCreate obj = Allowed \<longleftrightarrow> (case obj of ClusterV1 r \<Rightarrow> valid_cluster (v1_Network (v1_ClSpec r)) | _ \<Rightarrow> False)"
  by (cases obj) (simp_all add: create_cluster_allowed)

text \<open>
  C26. The webhook of v1beta1 admits a new machine exactly when its key pair is set, its subregions and
  devices are valid, its disks are within the limits of size, throughput and their quotient, and its VM
  type is one of the inference types or a tina type: a generation, one arbitrary character
  (the pattern does not quote its dot), a number of cores and of gibibytes without leading zero, and a
  performance from 1 to 3.
\<close>

theorem accepted_machines:
  "MachineWebhookV1_ValidateCreate values (MachineV1 r) = Allowed \<longleftrightarrow>
     (let vm = v1_Vm (v1_Node (v1_MaSpec r)) in
      valid_machine values (v1_Node (v1_MaSpec r)) \<and>
      (match_whole inference_regex (vm_VmType vm) \<or>
       (\<exists>g x c m p. vm_VmType vm = ''tinav'' @ g @ x @ ''c'' @ c @ ''r'' @ m @ ''p'' @ p \<and> tina_generation g \<and>
          is_rune x \<and> is_posint c \<and> is_posint m \<and> p \<in> {''1'', ''2'', ''3''})))"
proof -
  have "valid_machine values node \<Longrightarrow> match_whole inference_regex (vm_VmType (v1_Vm node)) \<or>
      (\<exists>g x c m p. vm_VmType (v1_Vm node) = ''tinav'' @ g @ x @ ''c'' @ c @ ''r'' @ m @ ''p'' @ p \<and> tina_generation g \<and>
        is_rune x \<and> is_posint c \<and> is_posint m \<and> p \<in> {''1'', ''2'', ''3''})" for node
    unfolding valid_machine_def tina_language tina_type_def by blast
  then show ?thesis by (auto simp: create_machine_allowed Let_def)
qed

text \<open>The load balancer as the controller uses it.\<close>

definition served_loadbalancer :: "OscLoadBalancer \<Rightarrow> bool" where
  "served_loadbalancer lb \<longleftrightarrow>
     LoadBalancerName lb \<noteq> [] \<and> LoadBalancerType lb \<in> {''internet-facing'', ''internal''} \<and>
     list_all (\<lambda>w. w \<in> {''HTTP'', ''TCP''})
       [LoadBalancerProtocol (Listener lb), BackendProtocol (Listener lb), hc_Protocol (HealthCheck lb)] \<and>
     list_all (\<lambda>(v, lo, hi). lo \<le> v \<and> v \<le> hi)
       [(LoadBalancerPort (Listener lb), 1, 65535), (BackendPort (Listener lb), 1, 65535),
        (hc_Port (HealthCheck lb), 1, 65535), (CheckInterval (HealthCheck lb), 5, 600),
        (hc_Timeout (HealthCheck lb), 2, 60), (HealthyThreshold (HealthCheck lb), 1, 10),
        (UnhealthyThreshold (HealthCheck lb), 1, 10)]"

lemma defaults_in_range:
  assumes "v = 0 \<or> lo \<le> v \<and> v \<le> hi" and "lo \<le> d" and "d \<le> hi"
  shows "lo \<le> default_int d v \<and> default_int d v \<le> hi"
  using assms by (auto simp: default_int_def)

lemma default_in_set: "w \<in> insert [] A \<Longrightarrow> d \<in> A \<Longrightarrow> default_str d w \<in> A"
  by (auto simp: default_str_def)

lemma valid_served:
  assumes "valid_loadbalancer lb"
  shows "served_loadbalancer (OscLoadBalancer_SetDefaultValue (loadbalancer_to lb))"
proof -
  let ?lb = "OscLoadBalancer_SetDefaultValue (loadbalancer_to lb)"
  note defs = OscLoadBalancer_SetDefaultValue_def loadbalancer_to_def
  from assms have r:
      "LoadBalancerName lb \<noteq> []" "LoadBalancerType lb \<in> {[], ''internet-facing'', ''internal''}"
      "LoadBalancerProtocol (Listener lb) \<in> {[], ''HTTP'', ''TCP''}" "BackendProtocol (Listener lb) \<in> {[], ''HTTP'', ''TCP''}"
      "hc_Protocol (HealthCheck lb) \<in> {[], ''HTTP'', ''TCP''}"
      "LoadBalancerPort (Listener lb) = 0 \<or> 1 \<le> LoadBalancerPort (Listener lb) \<and> LoadBalancerPort (Listener lb) \<le> 65535"
      "BackendPort (Listener lb) = 0 \<or> 1 \<le> BackendPort (Listener lb) \<and> BackendPort (Listener lb) \<le> 65535"
      "hc_Port (HealthCheck lb) = 0 \<or> 1 \<le> hc_Port (HealthCheck lb) \<and> hc_Port (HealthCheck lb) \<le> 65535"
      "CheckInterval (HealthCheck lb) = 0 \<or> 5 \<le> CheckInterval (HealthCheck lb) \<and> CheckInterval (HealthCheck lb) \<le> 600"
      "hc_Timeout (HealthCheck lb) = 0 \<or> 2 \<le> hc_Timeout (HealthCheck lb) \<and> hc_Timeout (HealthCheck lb) \<le> 60"
      "HealthyThreshold (HealthCheck lb) = 0 \<or> 1 \<le> HealthyThreshold (HealthCheck lb) \<and> HealthyThreshold (HealthCheck lb) \<le> 10"
      "UnhealthyThreshold (HealthCheck lb) = 0 \<or> 1 \<le> UnhealthyThreshold (HealthCheck lb) \<and> UnhealthyThreshold (HealthCheck lb) \<le> 10"
    unfolding valid_loadbalancer_def list.pred_inject prod.case by iprover+
  have "LoadBalancerName ?lb \<noteq> []" using r(1) by (simp add: defs)
  moreover have "LoadBalancerType ?lb \<in> {''internet-facing'', ''internal''}"
    using default_in_set [OF r(2), of DefaultLoadBalancerType] by (simp add: defs)
  moreover have "LoadBalancerProtocol (Listener ?lb) \<in> {''HTTP'', ''TCP''}" "BackendProtocol (Listener ?lb) \<in> {''HTTP'', ''TCP''}"
      "hc_Protocol (HealthCheck ?lb) \<in> {''HTTP'', ''TCP''}"
    using default_in_set [OF r(3), of DefaultLoadBalancerProtocol] default_in_set [OF r(4), of DefaultLoadBalancerProtocol]
      default_in_set [OF r(5), of DefaultLoadBalancerProtocol] by (simp_all add: defs)
  moreover have "1 \<le> LoadBalancerPort (Listener ?lb) \<and> LoadBalancerPort (Listener ?lb) \<le> 65535"
      "1 \<le> BackendPort (Listener ?lb) \<and> BackendPort (Listener ?lb) \<le> 65535"
      "1 \<le> hc_Port (HealthCheck ?lb) \<and> hc_Port (HealthCheck ?lb) \<le> 65535"
    using defaults_in_range [OF r(6), of APIPort] defaults_in_range [OF r(7), of APIPort] defaults_in_range [OF r(8), of APIPort]
    by (simp_all add: defs)
  moreover have "5 \<le> CheckInterval (HealthCheck ?lb) \<and> CheckInterval (HealthCheck ?lb) \<le> 600"
      "2 \<le> hc_Timeout (HealthCheck ?lb) \<and> hc_Timeout (HealthCheck ?lb) \<le> 60"
      "1 \<le> HealthyThreshold (HealthCheck ?lb) \<and> HealthyThreshold (HealthCheck ?lb) \<le> 10"
      "1 \<le> UnhealthyThreshold (HealthCheck ?lb) \<and> UnhealthyThreshold (HealthCheck ?lb) \<le> 10"
    using defaults_in_range [OF r(9), of DefaultCheckInterval] defaults_in_range [OF r(10), of DefaultTimeout]
      defaults_in_range [OF r(11), of DefaultHealthyThreshold] defaults_in_range [OF r(12), of DefaultUnhealthyThreshold]
    by (simp_all add: defs)
  ultimately show ?thesis unfolding served_loadbalancer_def by (simp only: list.pred_inject prod.case simp_thms)
qed

text \<open>
  C27. A cluster admitted as v1beta1 whose load balancer is not disabled reaches the controller, after
  conversion and defaults, with a load balancer whose name, type and protocols are set and whose ports,
  interval, timeout and thresholds are in the ranges of the service.
\<close>

theorem accepted_loadbalancer_served:
  assumes "ClusterWebhookV1_ValidateCreate (ClusterV1 r) = Allowed"
    and "DisableLB \<notin> set (v1_Disable (v1_Network (v1_ClSpec r)))"
    and "csOscCluster cs = OscCluster_ConvertTo r"
  shows "served_loadbalancer (cs_GetLoadBalancer cs)"
proof -
  let ?lb = "v1_LoadBalancer (v1_Network (v1_ClSpec r))"
  have valid: "valid_loadbalancer ?lb" using assms(1,2) by (simp add: create_cluster_allowed valid_cluster_def)
  have "LoadBalancer (cs_GetNetwork cs) = loadbalancer_to ?lb"
    using assms(3) by (simp add: cs_GetNetwork_def OscCluster_ConvertTo_def OscClusterSpec_ConvertTo_def Let_def)
  moreover have "LoadBalancerName (loadbalancer_to ?lb) \<noteq> []"
    using valid by (simp add: valid_loadbalancer_def loadbalancer_to_def)
  ultimately show ?thesis using valid_served [OF valid] by (simp add: cs_GetLoadBalancer_def Let_def)
qed

theorem accepted_loadbalancer_served_witness:
  "served_loadbalancer (cs_GetLoadBalancer (scope (worldOf sampleClient (OscCluster_ConvertTo (sampleClusterV1 id)))))"
proof -
  have "ClusterWebhookV1_ValidateCreate (ClusterV1 (sampleClusterV1 id) :: unit RuntimeObject) = Allowed" by code_simp
  moreover have "DisableLB \<notin> set (v1_Disable (v1_Network (v1_ClSpec (sampleClusterV1 id))))" by code_simp
  ultimately show ?thesis by (rule accepted_loadbalancer_served) (simp add: worldOf_def)
qed

text \<open>
  No subnet of an admitted cluster shares an address with another, and each shares one with the
  net, whenever the net has a block.
\<close>

theorem accepted_subnets_disjoint:
  assumes "ClusterWebhookV1_ValidateCreate (ClusterV1 r) = Allowed"
    and "ParsePrefix (net_IpRange (v1_Net (v1_Network (v1_ClSpec r)))) = Some n"
    and "ParsePrefix (IpSubnetRange (v1_Subnets (v1_Network (v1_ClSpec r)) ! i)) = Some p"
    and "ParsePrefix (IpSubnetRange (v1_Subnets (v1_Network (v1_ClSpec r)) ! j)) = Some q"
    and "i < j" and "j < length (v1_Subnets (v1_Network (v1_ClSpec r)))"
  shows "\<not> (\<exists>a. prefix_contains p a \<and> prefix_contains q a) \<and> (\<exists>a. prefix_contains p a \<and> prefix_contains n a)"
proof -
  let ?sn = "v1_Subnets (v1_Network (v1_ClSpec r))"
  have v: "valid_subnets ?sn (net_IpRange (v1_Net (v1_Network (v1_ClSpec r)))) (reuse_Net (v1_UseExisting (v1_Network (v1_ClSpec r))))"
    using assms(1) by (simp add: create_cluster_allowed valid_cluster_def)
  have parsed: "list_all (\<lambda>s. ParsePrefix (IpSubnetRange s) \<noteq> None) ?sn"
    using v by (auto simp: valid_subnets_def valid_subnet_def list_all_iff)
  have all: "subnet_prefixes ?sn = map (\<lambda>s. the (ParsePrefix (IpSubnetRange s))) ?sn"
    by (rule subnet_prefixes_map [OF parsed])
  have "list_all (\<lambda>q. shares_address q n) (subnet_prefixes ?sn)" "sorted_wrt (\<lambda>q r. \<not> shares_address q r) (subnet_prefixes ?sn)"
    using v assms(2) by (simp_all add: valid_subnets_def)
  moreover have "subnet_prefixes ?sn ! i = p" "subnet_prefixes ?sn ! j = q" using assms(3-6) all by simp_all
  moreover have "length (subnet_prefixes ?sn) = length ?sn" using all by simp
  ultimately have "shares_address p n" "\<not> shares_address p q"
    using assms(5,6) by (metis list_all_length order.strict_trans, metis sorted_wrt_iff_nth_less)
  then show ?thesis by (simp add: shares_address_def)
qed

theorem accepted_subnets_disjoint_witness:
  "\<not> (\<exists>a. prefix_contains \<lparr>p_Addr = [10, 0, 1, 0], p_Bits = 24\<rparr> a \<and> prefix_contains \<lparr>p_Addr = [10, 0, 2, 0], p_Bits = 24\<rparr> a)"
proof -
  let ?r = "sampleClusterV1 twoSubnetsV1"
  have a: "ClusterWebhookV1_ValidateCreate (ClusterV1 ?r :: unit RuntimeObject) = Allowed" by code_simp
  have b: "ParsePrefix (net_IpRange (v1_Net (v1_Network (v1_ClSpec ?r)))) = Some \<lparr>p_Addr = [10, 0, 0, 0], p_Bits = 16\<rparr>"
    by code_simp
  have c: "ParsePrefix (IpSubnetRange (v1_Subnets (v1_Network (v1_ClSpec ?r)) ! 0)) = Some \<lparr>p_Addr = [10, 0, 1, 0], p_Bits = 24\<rparr>"
    by code_simp
  have d: "ParsePrefix (IpSubnetRange (v1_Subnets (v1_Network (v1_ClSpec ?r)) ! 1)) = Some \<lparr>p_Addr = [10, 0, 2, 0], p_Bits = 24\<rparr>"
    by code_simp
  have e: "1 < length (v1_Subnets (v1_Network (v1_ClSpec ?r)))" by code_simp
  show ?thesis by (rule conjunct1 [OF accepted_subnets_disjoint [OF a b c d _ e]]) simp
qed

text \<open>
  C39. The conversion to the stored version forgets which net a cluster reuses: the webhook demands the
  id of a reused net, but the converted cluster has none, so that of the net the controller only knows the id recorded
  in the status, and otherwise has to look for it by its tags.
\<close>

theorem reused_net_forgotten:
  assumes "ClusterWebhookV1_ValidateCreate (ClusterV1 r) = Allowed"
    and "reuse_Net (v1_UseExisting (v1_Network (v1_ClSpec r)))"
    and "v1_Net (v1_Network (v1_ClSpec r)) \<noteq> zero_OscNetV1"
    and "csOscCluster (scope s) = OscCluster_ConvertTo r"
  shows "net_ResourceId (v1_Net (v1_Network (v1_ClSpec r))) \<noteq> [] \<and> net_ResourceId (cs_GetNet (scope s)) = [] \<and>
    tracked_Net s = getResource defaultResource (rsrc_Net (cl_Resources (v1_ClStatus r)))"
proof -
  have "net_ResourceId (v1_Net (v1_Network (v1_ClSpec r))) \<noteq> []"
    using assms(1-3) by (simp add: create_cluster_allowed valid_cluster_def valid_net_def)
  moreover have "net_ResourceId (cs_GetNet (scope s)) = []"
    using assms(4) by (simp add: cs_GetNet_def cs_GetNetwork_def OscCluster_ConvertTo_def OscClusterSpec_ConvertTo_def Let_def
        net_to_def DefaultNet_def zero_OscNet_def)
  moreover have "cs_GetResources (scope s) = cl_Resources (v1_ClStatus r)"
    using assms(4) by (simp add: cs_GetResources_def OscCluster_ConvertTo_def Let_def)
  ultimately show ?thesis by (simp add: tracked_Net_def)
qed

theorem reused_net_forgotten_witness:
  "tracked_Net (worldOf sampleClient (OscCluster_ConvertTo (sampleClusterV1 reusedNetV1))) = []"
proof -
  have "ClusterWebhookV1_ValidateCreate (ClusterV1 (sampleClusterV1 reusedNetV1) :: unit RuntimeObject) = Allowed" by code_simp
  moreover have "reuse_Net (v1_UseExisting (v1_Network (v1_ClSpec (sampleClusterV1 reusedNetV1))))" by code_simp
  moreover have "v1_Net (v1_Network (v1_ClSpec (sampleClusterV1 reusedNetV1))) \<noteq> zero_OscNetV1" by code_simp
  moreover have "csOscCluster (scope (worldOf sampleClient (OscCluster_ConvertTo (sampleClusterV1 reusedNetV1)))) =
      OscCluster_ConvertTo (sampleClusterV1 reusedNetV1)" by (simp add: worldOf_def)
  moreover have "getResource defaultResource (rsrc_Net (cl_Resources (v1_ClStatus (sampleClusterV1 reusedNetV1)))) = []" by code_simp
  ultimately show ?thesis using reused_net_forgotten by metis
qed

section \<open>Conversion\<close>

text \<open>
  C28. What a client of v1beta1 that reads a stored object and writes it back leaves of it. The object comes back as it was exactly when the
  fields the conversion does not carry are empty: for a cluster the ids of the net, the subnets, the security groups and the
  bastion, the roles, the tag and the authority of the groups and the private addresses of the bastion; for a machine
  the pool of public IPs, the private addresses, the id of the VM and the key pair. As it was means up to the map of
  generations in the status, which the conversion allocates: where there was none, an empty one comes back.
\<close>

theorem stored_objects_roundtrip:
  "(OscCluster_ConvertTo (OscCluster_ConvertFrom c) = with_generations c \<longleftrightarrow> keeps_cluster c) \<and>
   (OscMachine_ConvertTo (OscMachine_ConvertFrom m) = with_mgenerations m \<longleftrightarrow> keeps_machine m)"
  by (simp add: cluster_there_and_back machine_there_and_back cluster_unchanged machine_unchanged)

text \<open>
  However often an object travels between the versions, only the first journey changes it, for
  clusters, machines and both kinds of templates.
\<close>

theorem conversions_settle:
  "((\<lambda>c. OscCluster_ConvertTo (OscCluster_ConvertFrom c)) ^^ Suc n) c = OscCluster_ConvertTo (OscCluster_ConvertFrom c) \<and>
   ((\<lambda>m. OscMachine_ConvertTo (OscMachine_ConvertFrom m)) ^^ Suc n) m = OscMachine_ConvertTo (OscMachine_ConvertFrom m) \<and>
   ((\<lambda>t. OscClusterTemplate_ConvertTo (OscClusterTemplate_ConvertFrom t f1) f) ^^ Suc n) t =
     OscClusterTemplate_ConvertTo (OscClusterTemplate_ConvertFrom t f1) f \<and>
   ((\<lambda>u. OscMachineTemplate_ConvertTo (OscMachineTemplate_ConvertFrom u g1) g) ^^ Suc n) u =
     OscMachineTemplate_ConvertTo (OscMachineTemplate_ConvertFrom u g1) g"
  by (intro conjI clusters.iterated machines.iterated cluster_templates.iterated machine_templates.iterated)

text \<open>
  The conversion to the stored version drops the roles, ids and authority of every security group,
  the ids of the subnets and the pool of public IPs of a machine: a group then has only the roles its name
  implies.
\<close>

theorem conversion_forgets:
  "list_all (\<lambda>g. sg_Roles g = [] \<and> sg_ResourceId g = [] \<and> \<not> Authoritative g)
     (SecurityGroups (Network (OscClusterSpec_ConvertTo c))) \<and>
   list_all (\<lambda>s. sn_ResourceId s = []) (Subnets (Network (OscClusterSpec_ConvertTo c))) \<and>
   PublicIpPool (Vm (Node (OscMachineSpec_ConvertTo m))) = [] \<and>
   (HasRole (securitygroup_to g) role \<longleftrightarrow>
      (if str_contains (sg_Name g) ''kcp'' then role = RoleControlPlane
       else if str_contains (sg_Name g) ''kw'' then role = RoleWorker
       else str_contains (sg_Name g) ''node'' \<and> (role = RoleControlPlane \<or> role = RoleWorker)))"
  by (simp add: OscClusterSpec_ConvertTo_def OscMachineSpec_ConvertTo_def Let_def list_all_iff securitygroup_to_def
      subnet_to_def HasRole_def)

text \<open>
  Defaults and conversion commute: a load balancer, a bastion and a VM get the same default values
  whether they are filled in before or after the conversion.
\<close>

theorem defaults_commute:
  "loadbalancer_to (OscLoadBalancerV1_SetDefaultValue lb) = OscLoadBalancer_SetDefaultValue (loadbalancer_to lb) \<and>
   bastion_to (OscBastionV1_SetDefaultValue b) = OscBastion_SetDefaultValue (bastion_to b) \<and>
   OscMachineSpec_ConvertTo (sp\<lparr>v1_Node := (v1_Node sp)\<lparr>v1_Vm := OscVmV1_SetDefaultValue (v1_Vm (v1_Node sp))\<rparr>\<rparr>) =
     (let sp2 = OscMachineSpec_ConvertTo sp in sp2\<lparr>Node := (Node sp2)\<lparr>Vm := OscVm_SetDefaultValue (Vm (Node sp2))\<rparr>\<rparr>)"
  by (simp add: loadbalancer_to_def bastion_to_def OscLoadBalancerV1_SetDefaultValue_def OscLoadBalancer_SetDefaultValue_def
      OscBastionV1_SetDefaultValue_def OscBastion_SetDefaultValue_def OscMachineSpec_ConvertTo_def
      OscVmV1_SetDefaultValue_def OscVm_SetDefaultValue_def Let_def)

section \<open>Updates\<close>

text \<open>
  C29. The webhook of v1beta1 takes the stored machine for the new one, because controller-runtime passes
  the old object first. It admits an update exactly when type, key pair and root disk stay and the new
  machine has no subregion, tags or subnet name, or the old ones: they may be removed, but not be set
  later.
\<close>

theorem machine_updates:
  "on_update MachineWebhookV1_ValidateUpdate (MachineV1 old) (MachineV1 new) = Allowed \<longleftrightarrow>
     (let v = v1_Vm (v1_Node (v1_MaSpec old)); n = v1_Vm (v1_Node (v1_MaSpec new)) in
      vm_VmType n = vm_VmType v \<and> vm_KeypairName n = vm_KeypairName v \<and> vm_RootDisk n = vm_RootDisk v \<and>
      (vm_SubregionName n = [] \<or> vm_SubregionName n = vm_SubregionName v) \<and>
      (nmap_entries (vm_Tags n) = [] \<or> maps_Equal (vm_Tags v) (vm_Tags n)) \<and>
      (vm_SubnetName n = [] \<or> vm_SubnetName n = vm_SubnetName v))"
  by (auto simp: on_update_def MachineWebhookV1_ValidateUpdate_def valid_iffs Let_def)

text \<open>
  An update of a cluster of v1beta1 keeps the name and the type of the load balancer, unless the stored
  cluster has its load balancer disabled; the specification of a template never changes.
\<close>

theorem cluster_and_template_updates:
  "(on_update ClusterWebhookV1_ValidateUpdate (ClusterV1 oldc) (ClusterV1 newc) = Allowed \<longleftrightarrow>
      DisableLB \<in> set (v1_Disable (v1_Network (v1_ClSpec oldc))) \<or>
      LoadBalancerName (v1_LoadBalancer (v1_Network (v1_ClSpec newc))) = LoadBalancerName (v1_LoadBalancer (v1_Network (v1_ClSpec oldc))) \<and>
      LoadBalancerType (v1_LoadBalancer (v1_Network (v1_ClSpec newc))) = LoadBalancerType (v1_LoadBalancer (v1_Network (v1_ClSpec oldc)))) \<and>
   (on_update ClusterTemplateWebhookV1_ValidateUpdate (ClusterTemplateV1 oldt) (ClusterTemplateV1 newt) = Allowed \<longleftrightarrow>
      v1_ctr_Spec (v1_ct_Template newt) = v1_ctr_Spec (v1_ct_Template oldt)) \<and>
   (on_update MachineTemplateWebhookV1_ValidateUpdate (MachineTemplateV1 oldm) (MachineTemplateV1 newm) = Allowed \<longleftrightarrow>
      v1_mtr_Spec (v1_mt_Template newm) = v1_mtr_Spec (v1_mt_Template oldm))"
  by (auto simp: on_update_def ClusterWebhookV1_ValidateUpdate_def ClusterTemplateWebhookV1_ValidateUpdate_def
      MachineTemplateWebhookV1_ValidateUpdate_def valid_iffs Let_def)

section \<open>Machine templates\<close>

text \<open>
  C35. A run of the machine template controller reads the template, computes the object to write (the
  capacity of its VM type, or the former finalizer removed when it is being deleted) and patches it
  once. It comes back after 30 seconds when no scope could be made, fails with the error of a read or of
  the patch, and does nothing for a template that is gone.
\<close>

theorem template_run:
  "t_Reconcile K req w =
     (case tk_GetTemplate K req of
        Inl e \<Rightarrow> (if tk_IsNotFound K e then Ok 0 else Err e, w)
      | Inr t \<Rightarrow>
          if tk_HasClient K \<and> tk_NewHelper K t = None
          then let target = template_target K t; w' = w\<lparr>t_OscMachineTemplate := target\<rparr>
               in case tk_Patch K target of
                    Some e \<Rightarrow> (Err e, w')
                  | None \<Rightarrow> (Ok 0, w'\<lparr>t_patched := t_patched w @ [target]\<rparr>)
          else (Ok 30, w))"
  by (rule t_Reconcile_run)

text \<open>
  A tina type of VM in its documented form gives a template the number of cores and the
  gibibytes of memory that the type names, when both are quantities.
\<close>

theorem capacity_of_type:
  assumes "tina_generation g" and "is_posint c" and "is_posint r" and "p \<in> {''1'', ''2'', ''3''}"
    and "tk_ParseQuantity K c = Inr cpu" and "tk_ParseQuantity K (r @ ''Gi'') = Inr mem"
    and "ts_GetVmType w = ''tinav'' @ g @ ''.c'' @ c @ ''r'' @ r @ ''p'' @ p"
  shows "\<exists>w'. reconcileCapacity K w = (Ok 0, w') \<and> ts_GetCapacity w' = Some [(ResourceCPU, cpu), (ResourceMemory, mem)]"
proof -
  have "ts_GetVmType w = tina_type g ''.'' c r p" using assms(7) by (simp add: tina_type_def)
  moreover have "FindStringSubmatch reVmType (tina_type g ''.'' c r p) = Some [c, r]"
    using assms(1-4) by (intro capacity_groups) (auto simp: tina_generation_def is_posint_def is_digit_def)
  ultimately show ?thesis using assms(5,6) by (simp add: reconcileCapacity_run type_capacity_def ts_GetCapacity_def)
qed

text \<open>Quantities as texts, for a template with the type \<^verbatim>\<open>tinav7.c4r8p1\<close>.\<close>

definition textKube :: "string TKube" where
  "textKube = \<lparr>tk_HasClient = True, tk_GetTemplate = (\<lambda>_. Inl (ErrorsNew ''not found'')), tk_IsNotFound = (\<lambda>_. True),
     tk_NewHelper = (\<lambda>_. None), tk_Patch = (\<lambda>_. None), tk_RemoveFinalizer = (\<lambda>fs f. filter (\<lambda>x. x \<noteq> f) fs),
     tk_ParseQuantity = (\<lambda>w. if w = [] then Inl (ErrorsNew ''quantities must match the regular expression'') else Inr w)\<rparr>"

definition typedTemplate :: "string \<Rightarrow> string TWorld" where
  "typedTemplate vmType = \<lparr>t_OscMachineTemplate =
     \<lparr>mt_Meta = cl_Meta sampleCluster,
      mt_Template = \<lparr>mtr_ObjectMeta = zero_TemplateMeta, mtr_Spec = (ma_Spec sampleOscMachine)
        \<lparr>Node := (Node (ma_Spec sampleOscMachine))\<lparr>Vm := (Vm (Node (ma_Spec sampleOscMachine)))\<lparr>vm_VmType := vmType\<rparr>\<rparr>\<rparr>\<rparr>,
      mt_Status = \<lparr>mt_Capacity = None, mt_Conditions = []\<rparr>\<rparr>, t_patched = []\<rparr>"

theorem capacity_of_type_witness:
  "\<exists>w. reconcileCapacity textKube (typedTemplate ''tinav7.c4r8p1'') = (Ok 0, w) \<and>
     ts_GetCapacity w = Some [(ResourceCPU, ''4''), (ResourceMemory, ''8Gi'')]"
proof (rule capacity_of_type)
  show "tina_generation ''7''" "is_posint ''4''" "is_posint ''8''" by code_simp+
  show "''1'' \<in> {''1'', ''2'', ''3''}" by simp
  show "tk_ParseQuantity textKube ''4'' = Inr ''4''" "tk_ParseQuantity textKube (''8'' @ ''Gi'') = Inr ''8Gi''"
    by (simp_all add: textKube_def)
  show "ts_GetVmType (typedTemplate ''tinav7.c4r8p1'') = ''tinav'' @ ''7'' @ ''.c'' @ ''4'' @ ''r'' @ ''8'' @ ''p'' @ ''1''"
    by (simp add: ts_GetVmType_def typedTemplate_def)
qed

section \<open>Where the validation is too lax\<close>

definition oversizedV1 :: "OscNetworkV1 \<Rightarrow> OscNetworkV1" where
  "oversizedV1 nw = nw
     \<lparr>v1_Net := \<lparr>net_Name = [], net_IpRange = ''10.0.0.0/24'', net_ResourceId = [], net1_ClusterName = []\<rparr>,
      v1_Subnets := [\<lparr>sn_Name = [], sn_Roles = [], IpSubnetRange = ''10.0.0.0/16'', sn_SubregionName = ''my-eu-west-2abc'', sn_ResourceId = []\<rparr>]\<rparr>"

text \<open>
  The webhook admits a cluster whose subnet is larger than its net, although its error message asks
  for a subnet contained in the net: the test is that they overlap. The name of the subregion need
  only contain a valid one, and the dot of a VM type may be any character.
\<close>

theorem lax_validation:
  "ClusterWebhookV1_ValidateCreate (ClusterV1 (sampleClusterV1 oversizedV1) :: unit RuntimeObject) = Allowed \<and>
   prefix_contains \<lparr>p_Addr = [10, 0, 0, 0], p_Bits = 16\<rparr> [10, 0, 9, 9] \<and>
   \<not> prefix_contains \<lparr>p_Addr = [10, 0, 0, 0], p_Bits = 24\<rparr> [10, 0, 9, 9] \<and>
   ValidateVmType [] ''tinav7xc4r8p1'' = None"
  by code_simp

end
