(* ===== verification/Process_Start.thy ===== *)
theory Process_Start
  imports Cluster_Peering
begin

text \<open>
  What happens before and around a reconciliation: the sequence of steps of \<^verbatim>\<open>main.go\<close>, the metadata
  of the VM the process runs on (\<^verbatim>\<open>cloud/services/metadata.go\<close>), the tenants (\<^verbatim>\<open>cloud/tenant\<close>,
  \<^verbatim>\<open>cloud/services/cloud.go\<close>) and the small helpers (\<^verbatim>\<open>cloud/utils/version.go\<close>, \<^verbatim>\<open>util/reconciler\<close>). The
  metadata server, the profiles of the SDK and the manager are parameters.
\<close>

section \<open>Version\<close>

text \<open>\<open>version\<close> is set by the linker.\<close>

definition GetVersion :: "string \<Rightarrow> string" where
  "GetVersion version = (if \<not> str_has_prefix version ''v'' then ''dev'' else version)"

definition userAgent :: "string \<Rightarrow> string" where
  "userAgent version = ''cluster-api-provider-outscale/'' @ GetVersion version"

text \<open>Durations in nanoseconds.\<close>

definition DefaultLoopTimeout :: int where
  "DefaultLoopTimeout = 90 * 60 * 1000000000"

definition DefaultedLoopTimeout :: "int \<Rightarrow> int" where
  "DefaultedLoopTimeout timeout = (if timeout \<le> 0 then DefaultLoopTimeout else timeout)"

section \<open>Metadata\<close>

record Metadata =
  meta_Region :: string
  meta_AccountID :: string
  meta_NetID :: string

definition zero_Metadata :: Metadata where
  "zero_Metadata = \<lparr>meta_Region = [], meta_AccountID = [], meta_NetID = []\<rparr>"

text \<open>The AWS SDK: the session, whether the server answers, and the value at a path.\<close>

record MetaServer =
  ms_NewSession :: "gerror option"
  ms_Available :: bool
  ms_GetMetadata :: "string \<Rightarrow> gerror + string"

text \<open>\<^verbatim>\<open>v, err := svc.GetMetadata(path); if err != nil || bad(v) { return errors.New(msg) }\<close>\<close>

definition metaValue :: "MetaServer \<Rightarrow> string \<Rightarrow> (string \<Rightarrow> bool) \<Rightarrow> string \<Rightarrow> gerror + string" where
  "metaValue S path bad msg =
     (case ms_GetMetadata S path of
        Inl _ \<Rightarrow> Inl (ErrorsNew msg)
      | Inr v \<Rightarrow> if bad v then Inl (ErrorsNew msg) else Inr v)"

definition FetchMetadata :: "MetaServer \<Rightarrow> gerror + Metadata" where
  "FetchMetadata S =
     (case ms_NewSession S of
        Some e \<Rightarrow> Inl (Errorf ''unable to fetch metadata: '' e)
      | None \<Rightarrow>
     if \<not> ms_Available S then Inl (ErrorsNew ''EC2 instance metadata is not available'')
     else case metaValue S ''mac'' (\<lambda>v. v = []) ''could not get primary MAC from metadata'' of
        Inl e \<Rightarrow> Inl e
      | Inr mac \<Rightarrow>
     (case metaValue S (''network/interfaces/macs/'' @ mac @ ''/vpc-id'') (\<lambda>v. v = []) ''could not get net id'' of
        Inl e \<Rightarrow> Inl e
      | Inr netID \<Rightarrow>
     (case metaValue S (''network/interfaces/macs/'' @ mac @ ''/owner-id'') (\<lambda>v. v = []) ''could not get account id'' of
        Inl e \<Rightarrow> Inl e
      | Inr accountID \<Rightarrow>
     (case metaValue S ''placement/availability-zone'' (\<lambda>v. length v < 2) ''could not get valid VM availability zone'' of
        Inl e \<Rightarrow> Inl e
      | Inr az \<Rightarrow> Inr \<lparr>meta_Region = take (length az - 1) az, meta_AccountID = accountID, meta_NetID = netID\<rparr>))))"

section \<open>Logs of the metadata client\<close>

text \<open>
  Runes are code points. \<^verbatim>\<open>unicode.IsSpace\<close> is the property White_Space; \<^verbatim>\<open>unicode.IsPunct\<close>, category P,
  is an argument.
\<close>

definition IsSpace :: "nat \<Rightarrow> bool" where
  "IsSpace r \<longleftrightarrow> r \<in> set ([9..<14] @ [32, 133, 160, 5760] @ [8192..<8203] @ [8232, 8233, 8239, 8287, 12288])"

primrec clean_from :: "(nat \<Rightarrow> bool) \<Rightarrow> nat \<Rightarrow> nat list \<Rightarrow> nat list" where
  "clean_from IsPunct prev [] = []"
| "clean_from IsPunct prev (r # rs) =
     (if IsSpace r \<and> (IsPunct prev \<or> IsSpace prev) then clean_from IsPunct r rs
      else if IsSpace r then 32 # clean_from IsPunct r rs
      else if r = 34 then clean_from IsPunct r rs
      else r # clean_from IsPunct r rs)"

definition cleanAws :: "(nat \<Rightarrow> bool) \<Rightarrow> nat list \<Rightarrow> nat list" where
  "cleanAws IsPunct s = clean_from IsPunct 0 s"

text \<open>
  The handlers of the metadata client. Values are given as \<^verbatim>\<open>fmt\<close> prints them; \<open>v3\<close> and \<open>v5\<close> tell whether these levels of
  verbosity are enabled. Errors are logged at every level.
\<close>

record AwsRequest =
  aws_ServiceName :: string
  aws_Operation :: "string option"
  aws_Params :: "nat list"
  aws_Data :: "nat list"
  aws_Error :: "gerror option"
  aws_HTTPResponse :: "(int \<times> string) option"

datatype aws_log =
    AwsInfo string "nat list" string "string option"
  | AwsError gerror string string

definition awsServiceAndName :: "AwsRequest \<Rightarrow> string \<times> string" where
  "awsServiceAndName req = (aws_ServiceName req, case aws_Operation req of None \<Rightarrow> ''?'' | Some name \<Rightarrow> name)"

definition awsSendHandlerLogger :: "(nat \<Rightarrow> bool) \<Rightarrow> bool \<Rightarrow> AwsRequest \<Rightarrow> aws_log option" where
  "awsSendHandlerLogger IsPunct v5 req =
     (if v5 then Some (AwsInfo ''LBU request: '' (cleanAws IsPunct (aws_Params req)) (snd (awsServiceAndName req)) None) else None)"

definition awsValidateResponseHandlerLogger :: "(nat \<Rightarrow> bool) \<Rightarrow> bool \<Rightarrow> bool \<Rightarrow> AwsRequest \<Rightarrow> aws_log option" where
  "awsValidateResponseHandlerLogger IsPunct v3 v5 req =
     (let call = snd (awsServiceAndName req) in
      case aws_HTTPResponse req of
        None \<Rightarrow> (case aws_Error req of Some e \<Rightarrow> Some (AwsError e ''LBU error'' call) | None \<Rightarrow> None)
      | Some (code, status) \<Rightarrow>
          if code > 299 then
            (if v3 then Some (AwsInfo ''LBU error response: '' (cleanAws IsPunct (aws_Data req)) call (Some status)) else None)
          else if v5 then Some (AwsInfo ''LBU response: '' (cleanAws IsPunct (aws_Data req)) call None)
          else None)"

text \<open>The lists of handlers, by name and function.\<close>

datatype aws_handler = AddToUserAgent string string | SendLogger | ValidateResponseLogger | OtherHandler string

record AwsHandlers =
  h_Build :: "(string \<times> aws_handler) list"
  h_Send :: "(string \<times> aws_handler) list"
  h_ValidateResponse :: "(string \<times> aws_handler) list"

definition addHandlers :: "string \<Rightarrow> AwsHandlers \<Rightarrow> AwsHandlers" where
  "addHandlers version h = h
     \<lparr>h_Build := (''cluster-api-provider-outscale/user-agent'', AddToUserAgent ''cluster-api-provider-outscale'' (GetVersion version)) # h_Build h,
      h_Send := h_Send h @ [(''k8s/api-request'', SendLogger)],
      h_ValidateResponse := (''k8s/api-validate-response'', ValidateResponseLogger) # h_ValidateResponse h\<rparr>"

text \<open>The endpoint and the signing region, whatever the service and the region.\<close>

definition MetadataResolver :: "string \<Rightarrow> string \<Rightarrow> string \<times> string" where
  "MetadataResolver service region = (''http://169.254.169.254/latest'', ''custom-signing-region'')"

section \<open>Tenants\<close>

record Profile =
  AccessKey :: string
  SecretKey :: string
  prof_Region :: string

definition newSDKClient :: "(Profile \<Rightarrow> gerror + 'w Client) \<Rightarrow> Profile \<Rightarrow> gerror + 'w Client" where
  "newSDKClient NewClient prof =
     (if AccessKey prof = [] \<or> SecretKey prof = [] then Inl (ErrorsNew ''OSC_ACCESS_KEY/OSC_SECRET_KEY are required'')
      else case NewClient prof of
        Inl e \<Rightarrow> Inl (Errorf ''unable to initialize OAPI client: '' e)
      | Inr c \<Rightarrow> Inr c)"

definition FromProfile :: "(Profile \<Rightarrow> gerror + 'w Client) \<Rightarrow> Profile \<Rightarrow> gerror + 'w Tenant" where
  "FromProfile NewClient prof =
     (case newSDKClient NewClient prof of
        Inl e \<Rightarrow> Inl e
      | Inr c \<Rightarrow> Inr \<lparr>tn_Region = prof_Region prof, tn_Client = c\<rparr>)"

definition tenant_Default :: "(Profile \<Rightarrow> gerror + 'w Client) \<Rightarrow> gerror + Profile \<Rightarrow> gerror + 'w Tenant" where
  "tenant_Default NewClient profileNew =
     (case profileNew of
        Inl e \<Rightarrow> Inl (Errorf ''tenant from env: '' e)
      | Inr prof \<Rightarrow> FromProfile NewClient prof)"

definition tenant_FromFile ::
  "(Profile \<Rightarrow> gerror + 'w Client) \<Rightarrow> (string \<Rightarrow> string \<Rightarrow> gerror + Profile) \<Rightarrow> string \<Rightarrow> string \<Rightarrow> gerror + 'w Tenant" where
  "tenant_FromFile NewClient profileFromFile path profileName =
     (let profileName = (if profileName = [] then ''default'' else profileName) in
      case profileFromFile profileName path of
        Inl e \<Rightarrow> Inl (Errorf ''from file: '' e)
      | Inr prof \<Rightarrow> FromProfile NewClient prof)"

text \<open>
  \<^verbatim>\<open>Services.DefaultTenant\<close> under its mutex: the tenant is made by the first call that succeeds. The
  argument is what \<^verbatim>\<open>tenant.Default\<close> would answer now.
\<close>

definition DefaultTenant :: "gerror + 'w Tenant \<Rightarrow> 'w Tenant option \<Rightarrow> (gerror + 'w Tenant) \<times> 'w Tenant option" where
  "DefaultTenant answer defaultTenant =
     (case defaultTenant of
        Some t \<Rightarrow> (Inr t, Some t)
      | None \<Rightarrow>
          (case answer of
             Inl e \<Rightarrow> (Inl (Errorf ''default tenant: '' e), None)
           | Inr t \<Rightarrow> (Inr t, Some t)))"

primrec default_tenants :: "'w Tenant option \<Rightarrow> (gerror + 'w Tenant) list \<Rightarrow> (gerror + 'w Tenant) list" where
  "default_tenants cached [] = []"
| "default_tenants cached (a # as) = (let (r, c) = DefaultTenant a cached in r # default_tenants c as)"

section \<open>Flags and options\<close>

text \<open>
  The variables \<^verbatim>\<open>main\<close> binds to flags, with their defaults; durations are in nanoseconds. Parsing the command line
  is the flag library's.
\<close>

record Flags =
  fl_metricsAddr :: string
  fl_enableLeaderElection :: bool
  fl_probeAddr :: string
  fl_watchNamespace :: string
  fl_watchFilterValue :: string
  fl_syncPeriod :: int
  fl_skipMetadata :: bool
  fl_leaseDuration :: int
  fl_renewDeadline :: int
  fl_retryPeriod :: int
  fl_clusterConcurrency :: int
  fl_machineConcurrency :: int
  fl_reconcileTimeout :: int

abbreviation Second :: int where "Second \<equiv> 1000000000"
abbreviation Minute :: int where "Minute \<equiv> 60 * Second"

definition default_Flags :: Flags where
  "default_Flags =
     \<lparr>fl_metricsAddr = '':8080'', fl_enableLeaderElection = True, fl_probeAddr = '':8081'',
      fl_watchNamespace = [], fl_watchFilterValue = [], fl_syncPeriod = 5 * Minute, fl_skipMetadata = False,
      fl_leaseDuration = 15 * Second, fl_renewDeadline = 10 * Second, fl_retryPeriod = 2 * Second,
      fl_clusterConcurrency = 2, fl_machineConcurrency = 2, fl_reconcileTimeout = DefaultLoopTimeout\<rparr>"

text \<open>
  The options of the manager but the scheme; the filter of the metrics is given by its name. No namespaces to watch, a
  nil map, stands for all of them.
\<close>

record ManagerOptions =
  mo_BindAddress :: string
  mo_FilterProvider :: string
  mo_HealthProbeBindAddress :: string
  mo_LeaderElection :: bool
  mo_LeaderElectionID :: string
  mo_LeaseDuration :: int
  mo_RenewDeadline :: int
  mo_RetryPeriod :: int
  mo_DefaultNamespaces :: "string list option"
  mo_SyncPeriod :: int

definition managerOptions :: "Flags \<Rightarrow> ManagerOptions" where
  "managerOptions fl =
     \<lparr>mo_BindAddress = fl_metricsAddr fl, mo_FilterProvider = ''WithAuthenticationAndAuthorization'', mo_HealthProbeBindAddress = fl_probeAddr fl,
      mo_LeaderElection = fl_enableLeaderElection fl, mo_LeaderElectionID = ''controller-leader-election-capo'',
      mo_LeaseDuration = fl_leaseDuration fl, mo_RenewDeadline = fl_renewDeadline fl, mo_RetryPeriod = fl_retryPeriod fl,
      mo_DefaultNamespaces = (if fl_watchNamespace fl \<noteq> [] then Some [fl_watchNamespace fl] else None),
      mo_SyncPeriod = fl_syncPeriod fl\<rparr>"

text \<open>
  The controllers: the source of their events, the timeout of a run, the label to filter by, and the
  number of concurrent runs, where 0 leaves the choice to the controller runtime.
\<close>

record ControllerSetup =
  set_Recorder :: string
  set_ReconcileTimeout :: int
  set_WatchFilterValue :: string
  set_MaxConcurrentReconciles :: int

definition controllerSetups :: "Flags \<Rightarrow> ControllerSetup list" where
  "controllerSetups fl = map (\<lambda>(recorder, n).
     \<lparr>set_Recorder = recorder, set_ReconcileTimeout = fl_reconcileTimeout fl, set_WatchFilterValue = fl_watchFilterValue fl,
      set_MaxConcurrentReconciles = n\<rparr>)
     [(''osccluster-controller'', fl_clusterConcurrency fl), (''oscmachine-controller'', fl_machineConcurrency fl),
      (''oscmachinetemplate-controller'', 0)]"

text \<open>The timeout of a run is positive, whatever the flag says.\<close>

lemma run_timeout_positive: "st \<in> set (controllerSetups fl) \<Longrightarrow> 0 < DefaultedLoopTimeout (set_ReconcileTimeout st)"
  by (simp add: DefaultedLoopTimeout_def DefaultLoopTimeout_def)

text \<open>
  The conditions of client-go on the durations of a leader election (the renewal ends before the lease, and a
  retry, lengthened by the jitter of 1.2, before the renewal) hold for the defaults.
\<close>

definition lease_valid :: "ManagerOptions \<Rightarrow> bool" where
  "lease_valid mo \<longleftrightarrow> mo_RenewDeadline mo < mo_LeaseDuration mo \<and> 12 * mo_RetryPeriod mo < 10 * mo_RenewDeadline mo \<and> 0 < mo_RetryPeriod mo"

lemma default_lease: "lease_valid (managerOptions default_Flags)"
  by (simp add: lease_valid_def managerOptions_def default_Flags_def)

section \<open>The main function\<close>

datatype main_step =
    ValidateAndApply
  | NewManager
  | NewServices
  | FetchMetadataStep
  | SetupOscCluster
  | SetupOscMachine
  | SetupOscMachineTemplate
  | SetupWebhook string string
  | AddHealthzCheck
  | AddReadyzCheck
  | StartManager

definition main_steps :: "bool \<Rightarrow> main_step list" where
  "main_steps skipMetadata =
     [ValidateAndApply, NewManager, NewServices] @
     (if \<not> skipMetadata then [FetchMetadataStep] else []) @
     [SetupOscCluster, SetupOscMachine, SetupOscMachineTemplate,
      SetupWebhook ''OscMachine'' ''v1beta1'', SetupWebhook ''OscMachineTemplate'' ''v1beta1'',
      SetupWebhook ''OscClusterTemplate'' ''v1beta1'', SetupWebhook ''OscCluster'' ''v1beta1'',
      SetupWebhook ''OscMachine'' ''v1beta2'', SetupWebhook ''OscMachineTemplate'' ''v1beta2'',
      SetupWebhook ''OscClusterTemplate'' ''v1beta2'', SetupWebhook ''OscCluster'' ''v1beta2'',
      AddHealthzCheck, AddReadyzCheck, StartManager]"

text \<open>
  The steps that ran and the exit code: an error ends the process with code 1, except that of the
  metadata, which is logged.
\<close>

primrec run_steps :: "(main_step \<Rightarrow> gerror option) \<Rightarrow> main_step list \<Rightarrow> main_step list \<times> nat" where
  "run_steps fails [] = ([], 0)"
| "run_steps fails (st # sts) =
     (if fails st \<noteq> None \<and> st \<noteq> FetchMetadataStep then ([st], 1)
      else let (ran, code) = run_steps fails sts in (st # ran, code))"

definition main_run :: "(main_step \<Rightarrow> gerror option) \<Rightarrow> bool \<Rightarrow> main_step list \<times> nat" where
  "main_run fails skipMetadata = run_steps fails (main_steps skipMetadata)"

text \<open>The metadata the cluster controller gets.\<close>

definition main_metadata :: "MetaServer \<Rightarrow> bool \<Rightarrow> Metadata" where
  "main_metadata S skipMetadata =
     (if skipMetadata then zero_Metadata
      else case FetchMetadata S of Inl _ \<Rightarrow> zero_Metadata | Inr m \<Rightarrow> m)"

section \<open>Lemmas\<close>

lemma run_steps_prefix: "\<exists>rest. sts = fst (run_steps fails sts) @ rest"
  by (induction sts) (auto simp: split_beta Let_def)

lemma run_steps_code:
  "snd (run_steps fails sts) = (if list_all (\<lambda>st. fails st = None \<or> st = FetchMetadataStep) sts then 0 else 1)"
  by (induction sts) (auto simp: split_beta Let_def)

lemma run_steps_complete: "snd (run_steps fails sts) = 0 \<Longrightarrow> fst (run_steps fails sts) = sts"
  by (induction sts) (auto simp: split_beta Let_def split: if_splits)

lemma run_steps_failed: "snd (run_steps fails sts) \<noteq> 0 \<Longrightarrow>
  \<exists>ran st. fst (run_steps fails sts) = ran @ [st] \<and> fails st \<noteq> None \<and> list_all (\<lambda>x. fails x = None \<or> x = FetchMetadataStep) ran"
proof (induction sts)
  case (Cons st sts)
  show ?case
  proof (cases "fails st \<noteq> None \<and> st \<noteq> FetchMetadataStep")
    case True
    then show ?thesis by (intro exI [of _ "[]"] exI [of _ st]) simp
  next
    case False
    then have "snd (run_steps fails sts) \<noteq> 0" using Cons.prems by (auto simp: split_beta Let_def)
    then obtain ran x where x: "fst (run_steps fails sts) = ran @ [x]" "fails x \<noteq> None"
        "list_all (\<lambda>x. fails x = None \<or> x = FetchMetadataStep) ran"
      using Cons.IH by blast
    have "fst (run_steps fails (st # sts)) = (st # ran) @ [x]" using False x(1) by (auto simp: split_beta Let_def)
    moreover have "list_all (\<lambda>x. fails x = None \<or> x = FetchMetadataStep) (st # ran)" using False x(3) by auto
    ultimately show ?thesis using x(2) by blast
  qed
qed simp

lemma default_tenants_cached: "default_tenants (Some t) answers = replicate (length answers) (Inr t)"
  by (induction answers) (simp_all add: DefaultTenant_def)

lemma default_tenants_fixed:
  "default_tenants None answers =
     map (\<lambda>a. Inl (Errorf ''default tenant: '' (projl a))) (takeWhile isl answers) @
     (case dropWhile isl answers of [] \<Rightarrow> [] | a # as \<Rightarrow> replicate (Suc (length as)) a)"
proof (induction answers)
  case (Cons a answers)
  then show ?case by (cases a) (simp_all add: DefaultTenant_def default_tenants_cached)
qed simp

text \<open>Cleaning keeps no quotation mark, no space but the ASCII one, and no space after a space.\<close>

lemma IsSpace_32 [simp]: "IsSpace 32" and IsSpace_34 [simp]: "\<not> IsSpace 34" and IsSpace_0 [simp]: "\<not> IsSpace 0"
  by (simp_all add: IsSpace_def)

lemma clean_from_runes: "r \<in> set (clean_from P prev rs) \<Longrightarrow> r \<noteq> 34 \<and> (IsSpace r \<longrightarrow> r = 32)"
  by (induction rs arbitrary: prev) (auto split: if_splits)

text \<open>No text of a log has a quotation mark or a space other than the ASCII one.\<close>

lemma logged_runes:
  assumes "awsSendHandlerLogger IsPunct v5 req = Some (AwsInfo pre text call status) \<or>
      awsValidateResponseHandlerLogger IsPunct v3 v5 req = Some (AwsInfo pre text call status)" and "r \<in> set text"
  shows "r \<noteq> 34 \<and> (IsSpace r \<longrightarrow> r = 32)"
  using assms
  by (auto simp: awsSendHandlerLogger_def awsValidateResponseHandlerLogger_def Let_def cleanAws_def dest: clean_from_runes
      split: if_splits option.splits prod.splits)

fun no_double_space :: "nat list \<Rightarrow> bool" where
  "no_double_space (a # b # rs) = (\<not> (IsSpace a \<and> IsSpace b) \<and> no_double_space (b # rs))"
| "no_double_space _ = True"

text \<open>After a rune that hides spaces, the cleaned text does not start with one.\<close>

lemma clean_from_head:
  assumes "P 34" and "P prev \<or> IsSpace prev" and "clean_from P prev rs = r # out"
  shows "\<not> IsSpace r"
  using assms(2,3)
proof (induction rs arbitrary: prev)
  case (Cons x rs)
  show ?case
  proof (cases "IsSpace x \<or> x = 34")
    case True
    then have "clean_from P x rs = r # out" using Cons.prems by (auto split: if_splits)
    moreover have "P x \<or> IsSpace x" using True assms(1) by auto
    ultimately show ?thesis using Cons.IH by blast
  next
    case False
    then show ?thesis using Cons.prems(2) by auto
  qed
qed simp

lemma clean_from_spaces:
  assumes "P 34" shows "no_double_space (clean_from P prev rs)"
proof (induction rs arbitrary: prev)
  case (Cons x rs)
  have IH: "no_double_space (clean_from P x rs)" by (rule Cons.IH)
  have step: "no_double_space (y # clean_from P x rs)" if y: "IsSpace y \<longrightarrow> P x \<or> IsSpace x" for y
  proof (cases "clean_from P x rs")
    case (Cons r out)
    then have "IsSpace y \<longrightarrow> \<not> IsSpace r" using clean_from_head [of P x rs r out] assms y by blast
    moreover have "no_double_space (r # out)" using IH Cons by simp
    ultimately show ?thesis using Cons by simp
  qed simp
  show ?case using step IH by auto
qed simp

text \<open>Cleaning twice changes nothing more.\<close>

lemma clean_from_idem:
  assumes "P 34" and "P q \<or> IsSpace q \<longrightarrow> P p \<or> IsSpace p"
  shows "clean_from P q (clean_from P p rs) = clean_from P p rs"
  using assms(2)
proof (induction rs arbitrary: q p)
  case (Cons x rs)
  have "clean_from P q (clean_from P x rs) = clean_from P x rs" if "P x \<or> IsSpace x" using that Cons.IH by blast
  moreover have "clean_from P y (clean_from P x rs) = clean_from P x rs" if "y = x \<or> IsSpace x" for y
    using that Cons.IH by blast
  ultimately show ?case using Cons.prems assms(1) by auto
qed simp

text \<open>The last step runs exactly when no step before it ended the process.\<close>

lemma run_steps_last:
  "st \<notin> set sts \<Longrightarrow> st \<in> set (fst (run_steps fails (sts @ [st]))) \<longleftrightarrow>
     list_all (\<lambda>x. fails x = None \<or> x = FetchMetadataStep) sts"
  by (induction sts) (auto simp: split_beta Let_def)

section \<open>The environment of the controllers\<close>

text \<open>
  The helper packages of the controllers, with the tenants and the metadata of this theory. The
  default tenant is the one \<open>DefaultTenant\<close> returns.
\<close>

definition processEnv ::
  "(Profile \<Rightarrow> gerror + 'w Client) \<Rightarrow> (string \<Rightarrow> string \<Rightarrow> gerror + Profile) \<Rightarrow> gerror + Profile \<Rightarrow> 'w Tenant option \<Rightarrow>
   Metadata \<Rightarrow> 'w Env \<Rightarrow> 'w Env" where
  "processEnv NewClient profileFromFile profileNew cached meta E =
     E\<lparr>tenantFromFile := tenant_FromFile NewClient profileFromFile,
       tenantFromProfile := (\<lambda>ak sk region. FromProfile NewClient \<lparr>AccessKey = ak, SecretKey = sk, prof_Region = region\<rparr>),
       tenantDefault := fst (DefaultTenant (tenant_Default NewClient profileNew) cached),
       md_AccountID := meta_AccountID meta, md_NetID := meta_NetID meta\<rparr>"

text \<open>A tenant made from a profile that has both keys.\<close>

definition made_with_keys :: "(Profile \<Rightarrow> gerror + 'w Client) \<Rightarrow> 'w Tenant \<Rightarrow> bool" where
  "made_with_keys NewClient t \<longleftrightarrow>
     (\<exists>prof. AccessKey prof \<noteq> [] \<and> SecretKey prof \<noteq> [] \<and> NewClient prof = Inr (tn_Client t) \<and> tn_Region t = prof_Region prof)"

lemma FromProfile_keys: "FromProfile NewClient prof = Inr t \<Longrightarrow> made_with_keys NewClient t"
  by (auto simp: FromProfile_def newSDKClient_def made_with_keys_def split: if_splits sum.splits)

lemma tenant_keys:
  "tenant_Default NewClient profileNew = Inr t \<Longrightarrow> made_with_keys NewClient t"
  "tenant_FromFile NewClient profileFromFile path name = Inr t \<Longrightarrow> made_with_keys NewClient t"
  by (auto simp: tenant_Default_def tenant_FromFile_def Let_def dest: FromProfile_keys split: sum.splits)

lemma DefaultTenant_keys:
  assumes "fst (DefaultTenant (tenant_Default NewClient profileNew) cached) = Inr t"
    and "case cached of None \<Rightarrow> True | Some c \<Rightarrow> made_with_keys NewClient c"
  shows "made_with_keys NewClient t"
  using assms by (auto simp: DefaultTenant_def dest: tenant_keys split: option.splits sum.splits)

lemma tenantFor_keys:
  assumes "case cached of None \<Rightarrow> True | Some c \<Rightarrow> made_with_keys NewClient c"
    and "tenantFor (processEnv NewClient profileFromFile profileNew cached meta E) creds ns = Inr t"
  shows "made_with_keys NewClient t"
  using assms
  by (auto simp: tenantFor_def processEnv_def getTenantFromSecret_def dest: tenant_keys FromProfile_keys DefaultTenant_keys
      split: if_splits sum.splits)

end
