(* ===== verification/Process_Properties.thy ===== *)
theory Process_Properties
  imports Process_Start Samples
begin

text \<open>The properties of the start of the process, of its tenants and of its metadata.\<close>

text \<open>
  The manager starts exactly when every step before it has succeeded, where the metadata may fail;
  the process then ends with code 0 exactly when the manager itself ends without error. A step
  that fails is the last one to run.
\<close>

theorem manager_started_last:
  "(StartManager \<in> set (fst (main_run fails skip)) \<longleftrightarrow>
      list_all (\<lambda>st. fails st = None \<or> st = FetchMetadataStep) (butlast (main_steps skip))) \<and>
   (snd (main_run fails skip) = 0 \<longleftrightarrow> StartManager \<in> set (fst (main_run fails skip)) \<and> fails StartManager = None) \<and>
   (\<exists>rest. main_steps skip = fst (main_run fails skip) @ rest)"
proof -
  have steps: "main_steps skip = butlast (main_steps skip) @ [StartManager]" by (simp add: main_steps_def)
  have "StartManager \<notin> set (butlast (main_steps skip))" by (simp add: main_steps_def)
  then have started: "StartManager \<in> set (fst (main_run fails skip)) \<longleftrightarrow>
      list_all (\<lambda>st. fails st = None \<or> st = FetchMetadataStep) (butlast (main_steps skip))"
    unfolding main_run_def using run_steps_last [of StartManager "butlast (main_steps skip)" fails] steps by simp
  have "list_all P (main_steps skip) \<longleftrightarrow> list_all P (butlast (main_steps skip)) \<and> P StartManager" for P
    by (subst steps) (simp only: list_all_append list.pred_inject simp_thms)
  then have "snd (main_run fails skip) = 0 \<longleftrightarrow> StartManager \<in> set (fst (main_run fails skip)) \<and> fails StartManager = None"
    unfolding started by (simp add: main_run_def run_steps_code)
  then show ?thesis using started run_steps_prefix [of "main_steps skip" fails] unfolding main_run_def by blast
qed

text \<open>
  Whatever the credentials of a cluster name (a file, a secret or the environment of the process), the
  tenants it and its management cluster get are made from a profile with both keys: a secret or
  a profile without one gives an error.
\<close>

theorem tenants_have_keys:
  assumes "case cached of None \<Rightarrow> True | Some c \<Rightarrow> made_with_keys NewClient c"
    and "getTenant (processEnv NewClient profileFromFile profileNew cached meta E) cluster = Inr t \<or>
         getMgmtTenant (processEnv NewClient profileFromFile profileNew cached meta E) cluster = Inr t"
  shows "made_with_keys NewClient t"
  using assms tenantFor_keys unfolding getTenant_def getMgmtTenant_def by blast

definition envProfile :: Profile where
  "envProfile = \<lparr>AccessKey = ''ak'', SecretKey = ''sk'', prof_Region = ''eu-west-2''\<rparr>"

theorem tenants_have_keys_witness:
  "made_with_keys (\<lambda>_. Inr sampleClient) \<lparr>tn_Region = ''eu-west-2'', tn_Client = sampleClient\<rparr>"
proof (rule tenants_have_keys)
  show "case None of None \<Rightarrow> True | Some c \<Rightarrow> made_with_keys (\<lambda>_. Inr sampleClient) c" by simp
  show "getTenant (processEnv (\<lambda>_. Inr sampleClient) (\<lambda>_ _. Inl (ErrorsNew ''no file'')) (Inr envProfile) None zero_Metadata sampleEnv)
      sampleCluster = Inr \<lparr>tn_Region = ''eu-west-2'', tn_Client = sampleClient\<rparr> \<or> 
    getMgmtTenant (processEnv (\<lambda>_. Inr sampleClient) (\<lambda>_ _. Inl (ErrorsNew ''no file'')) (Inr envProfile) None zero_Metadata sampleEnv)
      sampleCluster = Inr \<lparr>tn_Region = ''eu-west-2'', tn_Client = sampleClient\<rparr>"
    by (simp add: getTenant_def getMgmtTenant_def tenantFor_def processEnv_def sample_defs DefaultTenant_def tenant_Default_def
        FromProfile_def newSDKClient_def envProfile_def)
qed

text \<open>
  The default tenant is the first one that could be made: calls before it fail with their own
  errors, later ones return it, whatever they could make.
\<close>

theorem default_tenant_fixed:
  "default_tenants None answers =
     map (\<lambda>a. Inl (Errorf ''default tenant: '' (projl a))) (takeWhile isl answers) @
     (case dropWhile isl answers of [] \<Rightarrow> [] | a # as \<Rightarrow> replicate (Suc (length as)) a)"
  by (rule default_tenants_fixed)

text \<open>
  A text cleaned for the log has no quotation mark, no white space but single ASCII spaces, and stays the
  same when it is cleaned again.
\<close>

theorem logs_cleaned:
  assumes "IsPunct 34"
  shows "34 \<notin> set (cleanAws IsPunct s) \<and> no_double_space (cleanAws IsPunct s) \<and>
    cleanAws IsPunct (cleanAws IsPunct s) = cleanAws IsPunct s"
  using clean_from_runes [of 34 IsPunct 0 s] clean_from_spaces [of IsPunct, OF assms]
    clean_from_idem [of IsPunct, OF assms] unfolding cleanAws_def by blast

text \<open>
  Metadata that could be fetched are complete: an account, a net and the region the subregion belongs to.
\<close>

theorem metadata_complete:
  assumes "FetchMetadata S = Inr m"
  shows "meta_AccountID m \<noteq> [] \<and> meta_NetID m \<noteq> [] \<and> meta_Region m \<noteq> [] \<and>
    (\<exists>c. ms_GetMetadata S ''placement/availability-zone'' = Inr (meta_Region m @ [c]))"
proof -
  from assms obtain acc net az where "acc \<noteq> []" "net \<noteq> []" "\<not> length az < 2"
      "ms_GetMetadata S ''placement/availability-zone'' = Inr az"
      "m = \<lparr>meta_Region = take (length az - 1) az, meta_AccountID = acc, meta_NetID = net\<rparr>"
    unfolding FetchMetadata_def metaValue_def by (auto split: option.splits sum.splits if_splits)
  moreover from this(3) have "take (length az - 1) az @ [last az] = az" "take (length az - 1) az \<noteq> []"
    by (cases az rule: rev_cases; simp; fastforce)+
  ultimately show ?thesis by simp metis
qed

end
