(* ===== verification/Lifecycle.thy ===== *)
theory Lifecycle
  imports Teardown Samples
begin

text \<open>
  Sequences of runs. An object of the Kubernetes API lives through runs of its controller, changes by
  users and other controllers, a request to delete it, and changes of the cloud; the API server
  drops it when deletion is asked for and no finalizer is left. The interface \<open>managed\<close> states what a single
  run does to the object and to the log of requests, and what follows for every sequence of steps; it is
  interpreted on the entry points of the cluster and of the machine controller. The runs on one object do not
  overlap: the controller runtime handles a key once at a time.
\<close>

section \<open>Life of an object\<close>

text \<open>
  A controller: its finalizer, how an object shows finalizers and a pending deletion, the log of its
  requests, and a run, which gives the object it writes back, if any, and the state it leaves. A run has
  a parameter, the answers of everything outside.
\<close>

record ('k, 'o, 's) Controller =
  ct_finalizer :: string
  ct_finalizers :: "'o \<Rightarrow> string list"
  ct_deleting :: "'o \<Rightarrow> bool"
  ct_log :: "'s \<Rightarrow> osc_request list"
  ct_run :: "'k \<Rightarrow> 'o \<Rightarrow> 's \<Rightarrow> 'o option \<times> 's"

definition holds_finalizer :: "('k, 'o, 's) Controller \<Rightarrow> 'o \<Rightarrow> bool" where
  "holds_finalizer C c \<longleftrightarrow> ct_finalizer C \<in> set (ct_finalizers C c)"

text \<open>What the API server stores: nothing when deletion is pending and no finalizer is left.\<close>

definition kept_object :: "('k, 'o, 's) Controller \<Rightarrow> 'o \<Rightarrow> 'o option" where
  "kept_object C c = (if ct_deleting C c \<and> ct_finalizers C c = [] then None else Some c)"

inductive life_step :: "('k, 'o, 's) Controller \<Rightarrow> ('k \<Rightarrow> bool) \<Rightarrow> 'o option \<times> 's \<Rightarrow> 'o option \<times> 's \<Rightarrow> bool"
  for C :: "('k, 'o, 's) Controller" and ok :: "'k \<Rightarrow> bool" where
  run: "ok k \<Longrightarrow> ct_run C k c s = (wr, t) \<Longrightarrow>
    life_step C ok (Some c, s) (case wr of None \<Rightarrow> Some c | Some c' \<Rightarrow> kept_object C c', t)"
| edit: "ct_deleting C c' = ct_deleting C c \<Longrightarrow> holds_finalizer C c' = holds_finalizer C c \<Longrightarrow>
    life_step C ok (Some c, s) (kept_object C c', s)"
| ask: "ct_deleting C c' \<Longrightarrow> ct_finalizers C c' = ct_finalizers C c \<Longrightarrow>
    life_step C ok (Some c, s) (kept_object C c', s)"
| drift: "ct_log C t = ct_log C s \<Longrightarrow> life_step C ok (x, s) (x, t)"

inductive_cases life_stepE: "life_step C ok l (x, s)"

abbreviation life :: "('k, 'o, 's) Controller \<Rightarrow> ('k \<Rightarrow> bool) \<Rightarrow> 'o option \<times> 's \<Rightarrow> 'o option \<times> 's \<Rightarrow> bool" where
  "life C ok \<equiv> (life_step C ok)\<^sup>*\<^sup>*"

definition no_creation :: "osc_request list \<Rightarrow> bool" where
  "no_creation cs \<longleftrightarrow> effect_of ` set cs \<inter> range ECreate = {}"

text \<open>
  The same lives with what happened in them: each run, as its parameter, the object it was given and the states before and
  after it. The steps between the runs are those of a life in which no run is allowed.
\<close>

type_synonym ('k, 'o, 's) history = "('k \<times> 'o \<times> 's \<times> 's) list"

inductive lived :: "('k, 'o, 's) Controller \<Rightarrow> ('k \<Rightarrow> bool) \<Rightarrow> 'o option \<times> 's \<Rightarrow> ('k, 'o, 's) history \<Rightarrow> 'o option \<times> 's \<Rightarrow> bool"
  for C :: "('k, 'o, 's) Controller" and ok :: "'k \<Rightarrow> bool" and l0 :: "'o option \<times> 's" where
  born: "lived C ok l0 [] l0"
| ran: "lived C ok l0 h (Some c, s) \<Longrightarrow> ok k \<Longrightarrow> ct_run C k c s = (wr, t) \<Longrightarrow>
    lived C ok l0 (h @ [(k, c, s, t)]) (case wr of None \<Rightarrow> Some c | Some c' \<Rightarrow> kept_object C c', t)"
| went: "lived C ok l0 h l \<Longrightarrow> life_step C (\<lambda>_. False) l l' \<Longrightarrow> lived C ok l0 h l'"

text \<open>
  No creation is left unanswered after a history: in one of its runs, on an object that was being deleted, the teardown was
  completed, and no creation was requested since; or the object did not hold the finalizer at the start, and no creation was requested
  in the whole history.
\<close>

definition settled :: "('k, 'o, 's) Controller \<Rightarrow> ('k \<Rightarrow> 'o \<Rightarrow> 's \<Rightarrow> 's \<Rightarrow> bool) \<Rightarrow> 'o \<Rightarrow> 's \<Rightarrow> ('k, 'o, 's) history \<Rightarrow> 's \<Rightarrow> bool" where
  "settled C torn c0 s0 h s \<longleftrightarrow>
     (\<exists>(k, c, u, t) \<in> set h. ct_deleting C c \<and> torn k c u t \<and> (\<exists>cs. ct_log C s = ct_log C t @ cs \<and> no_creation cs)) \<or>
     (\<not> holds_finalizer C c0 \<and> (\<exists>cs. ct_log C s = ct_log C s0 @ cs \<and> no_creation cs))"

lemma no_creation_append [simp]: "no_creation (cs @ ds) \<longleftrightarrow> no_creation cs \<and> no_creation ds"
  by (auto simp: no_creation_def image_Un)

lemma no_creation_Nil [simp]: "no_creation []"
  by (simp add: no_creation_def)

lemma history_of_life: "life C ok l0 l \<longleftrightarrow> (\<exists>h. lived C ok l0 h l)"
proof
  assume "life C ok l0 l"
  then show "\<exists>h. lived C ok l0 h l"
  proof induction
    case (step l l')
    from step.hyps(2) show ?case
      by cases (use step.IH in \<open>blast intro: lived.ran lived.went life_step.intros\<close>)+
  qed (blast intro: lived.born)
next
  assume "\<exists>h. lived C ok l0 h l"
  then obtain h where "lived C ok l0 h l" ..
  then show "life C ok l0 l"
  proof induction
    case (went h l l')
    from went.hyps(2) have "life_step C ok l l'" by cases (auto intro: life_step.intros)
    then show ?case using went.IH by (rule rtranclp.rtrancl_into_rtrancl [rotated])
  qed (auto intro: rtranclp.rtrancl_into_rtrancl life_step.run)
qed

lemma lived_one:
  assumes "ok k" and "ct_run C k c s = (wr, t)" and "(case wr of None \<Rightarrow> Some c | Some c' \<Rightarrow> kept_object C c') = x"
  shows "lived C ok (Some c, s) [(k, c, s, t)] (x, t)"
  using lived.ran [of C ok "(Some c, s)" "[]", OF lived.born assms(1,2)] assms(3) by simp

lemma settled_extend:
  assumes "settled C torn c0 s0 h s" and "ct_log C t = ct_log C s @ ds" and "no_creation ds" and "set h \<subseteq> set h'"
  shows "settled C torn c0 s0 h' t"
proof -
  have longer: "\<exists>cs. ct_log C t = l @ cs \<and> no_creation cs" if "\<exists>cs. ct_log C s = l @ cs \<and> no_creation cs" for l
    using that assms(2,3) by (metis append_assoc no_creation_append)
  show ?thesis using assms(1,4) longer unfolding settled_def by blast
qed

lemma settled_same: "settled C torn c0 s0 h s \<Longrightarrow> ct_log C t = ct_log C s \<Longrightarrow> set h \<subseteq> set h' \<Longrightarrow> settled C torn c0 s0 h' t"
  using settled_extend [of C torn c0 s0 h s t "[]" h'] by simp

section \<open>What a controller promises\<close>

locale managed =
  fixes C :: "('k, 'o, 's) Controller" and building :: "effect set" and lawful :: "'k \<Rightarrow> bool"
    and torn :: "'k \<Rightarrow> 'o \<Rightarrow> 's \<Rightarrow> 's \<Rightarrow> bool"
  assumes builds: "\<not> ct_deleting C c \<Longrightarrow> ct_run C k c s = (wr, t) \<Longrightarrow>
      \<exists>cs. ct_log C t = ct_log C s @ cs \<and> effect_of ` set cs \<subseteq> building"
    and deletes: "ct_deleting C c \<Longrightarrow> ct_run C k c s = (wr, t) \<Longrightarrow> \<exists>cs. ct_log C t = ct_log C s @ cs \<and> no_creation cs"
    and deletion_kept: "ct_run C k c s = (Some c', t) \<Longrightarrow> ct_deleting C c' = ct_deleting C c"
    and unwritten: "lawful k \<Longrightarrow> ct_run C k c s = (None, t) \<Longrightarrow> ct_log C t = ct_log C s"
    and marked: "lawful k \<Longrightarrow> \<not> ct_deleting C c \<Longrightarrow> ct_run C k c s = (Some c', t) \<Longrightarrow>
      holds_finalizer C c' \<or> ct_log C t = ct_log C s \<and> holds_finalizer C c' = holds_finalizer C c"
    and released: "lawful k \<Longrightarrow> ct_deleting C c \<Longrightarrow> ct_run C k c s = (Some c', t) \<Longrightarrow>
      torn k c s t \<or> holds_finalizer C c' = holds_finalizer C c"
begin

text \<open>Before deletion is asked for, only building requests are issued.\<close>

lemma life_builds:
  assumes "life C ok (x0, s0) (x, s)" and "x = Some c" and "\<not> ct_deleting C c"
  shows "\<exists>cs. ct_log C s = ct_log C s0 @ cs \<and> effect_of ` set cs \<subseteq> building"
  using assms
proof (induction arbitrary: c rule: rtranclp_induct2)
  case (step x s x' s')
  from step.hyps(2) show ?case
  proof (cases rule: life_step.cases)
    case (run k c1 wr)
    have now: "\<not> ct_deleting C c1"
      using run(2,4) step.prems deletion_kept by (auto simp: kept_object_def split: option.splits if_splits)
    obtain cs where "ct_log C s = ct_log C s0 @ cs" "effect_of ` set cs \<subseteq> building"
      using step.IH [OF run(1) now] by blast
    moreover obtain ds where "ct_log C s' = ct_log C s @ ds" "effect_of ` set ds \<subseteq> building"
      using builds [OF now] run by metis
    ultimately show ?thesis by (intro exI [of _ "cs @ ds"]) auto
  qed (use step.IH step.prems in \<open>auto simp: kept_object_def split: if_splits\<close>)
qed auto

text \<open>
  The finalizer guards the resources: an object that is gone, or that does not hold the finalizer,
  leaves no creation unanswered.
\<close>

lemma run_settles:
  assumes run: "lawful k" "ct_run C k c u = (wr, s)"
    and before: "\<not> holds_finalizer C c \<Longrightarrow> settled C torn c0 s0 h u"
    and lost: "\<not> holds_finalizer C (case wr of None \<Rightarrow> c | Some c' \<Rightarrow> c')"
  shows "settled C torn c0 s0 (h @ [(k, c, u, s)]) s"
proof (cases wr)
  case None
  then have "ct_log C s = ct_log C u" using unwritten run by blast
  then show ?thesis using None lost by (intro settled_same [OF before]) auto
next
  case (Some c')
  show ?thesis
  proof (cases "ct_deleting C c")
    case False
    then have "ct_log C s = ct_log C u" "\<not> holds_finalizer C c" using marked [OF run(1) False] run(2) lost Some by auto
    then show ?thesis by (intro settled_same [OF before]) auto
  next
    case True
    consider "torn k c u s" | "\<not> holds_finalizer C c" using released [OF run(1) True] run(2) lost Some by auto
    then show ?thesis
    proof cases
      case 1
      then show ?thesis using True by (auto simp: settled_def)
    next
      case 2
      obtain cs where "ct_log C s = ct_log C u @ cs" "no_creation cs" using deletes [OF True run(2)] by blast
      then show ?thesis by (rule settled_extend [OF before [OF 2]]) auto
    qed
  qed
qed

lemma lived_settles:
  assumes "lived C lawful (Some c0, s0) h (x, s)" and "case x of None \<Rightarrow> True | Some c \<Rightarrow> \<not> holds_finalizer C c"
  shows "settled C torn c0 s0 h s"
  using assms
proof (induction h "(x, s)" arbitrary: x s rule: lived.induct)
  case born
  then show ?case by (auto simp: settled_def)
next
  case (ran h c u k wr s)
  have "\<not> holds_finalizer C (case wr of None \<Rightarrow> c | Some c' \<Rightarrow> c')"
    using ran.prems by (auto simp: kept_object_def holds_finalizer_def split: if_splits option.splits)
  then show ?case using run_settles [OF ran.hyps(3,4)] ran.hyps(2) by simp
next
  case (went h l)
  obtain y u where l: "l = (y, u)" by (cases l)
  have IH: "settled C torn c0 s0 h u" if "case y of None \<Rightarrow> True | Some c \<Rightarrow> \<not> holds_finalizer C c"
    using went.hyps(2) [OF l] that by simp
  from went.hyps(3) show ?case unfolding l
  proof (cases rule: life_step.cases)
    case drift
    then show ?thesis using settled_same [OF IH] went.prems by simp
  qed (use went.prems IH in \<open>auto simp: kept_object_def holds_finalizer_def split: if_splits\<close>)
qed

end

section \<open>Clusters\<close>

text \<open>
  A run of the entry point of the cluster controller on the stored object: the API answers with that
  object, or with an error.
\<close>

definition with_cluster :: "Kube \<Rightarrow> OscCluster \<Rightarrow> Kube" where
  "with_cluster K c = K\<lparr>k_GetOscCluster := (\<lambda>r. map_sum id (\<lambda>_. c) (k_GetOscCluster K r))\<rparr>"

definition cluster_run :: "Kube \<times> 'w Env \<times> string \<Rightarrow> OscCluster \<Rightarrow> ('w, 'z) World_scheme \<Rightarrow> OscCluster option \<times> ('w, 'z) World_scheme" where
  "cluster_run k c s = (case k of (K, E, req) \<Rightarrow>
     let t = snd (Reconcile (with_cluster K c) E req s)
     in (if patched t = patched s then None else Some (last (patched t)), t))"

definition cluster_life :: "(Kube \<times> 'w Env \<times> string, OscCluster, ('w, 'z) World_scheme) Controller" where
  "cluster_life = \<lparr>ct_finalizer = OscClusterFinalizer, ct_finalizers = (\<lambda>c. Finalizers (cl_Meta c)),
     ct_deleting = (\<lambda>c. DeletionTimestamp (cl_Meta c) \<noteq> None), ct_log = calls, ct_run = cluster_run\<rparr>"

text \<open>The API writes what it is given, and \<^verbatim>\<open>controllerutil.AddFinalizer\<close> adds the finalizer.\<close>

definition cluster_lawful :: "Kube \<times> 'w Env \<times> string \<Rightarrow> bool" where
  "cluster_lawful k \<longleftrightarrow> (case k of (K, E, req) \<Rightarrow>
     (\<forall>c. k_Patch K c = None) \<and> (\<forall>fs f. set (AddFinalizer E fs f) = insert f (set fs)))"

text \<open>The state in which the steps of a run start.\<close>

definition in_scope :: "CapiCluster \<Rightarrow> OscCluster \<Rightarrow> 'w Tenant \<Rightarrow> ('w, 'z) World_scheme \<Rightarrow> ('w, 'z) World_scheme" where
  "in_scope cluster c tn s = s\<lparr>scope := \<lparr>csCluster = cluster, csOscCluster = c, csTenant = tn\<rparr>\<rparr>"

text \<open>A completed teardown: no machine is left, every deletion step has succeeded, and the log holds their requests.\<close>

definition cluster_torn :: "Kube \<times> 'w Env \<times> string \<Rightarrow> OscCluster \<Rightarrow> ('w, 'z) World_scheme \<Rightarrow> ('w, 'z) World_scheme \<Rightarrow> bool" where
  "cluster_torn k c s t \<longleftrightarrow> (case k of (K, E, req) \<Rightarrow>
     \<exists>cluster tn u. k_GetOwnerCluster K (cl_Meta c) = Inr (Some cluster) \<and> getTenant E c = Inr tn \<and>
       cs_ListMachines E (scope (in_scope cluster c tn s)) = Inr [] \<and>
       deleteResources E (in_scope cluster c tn s) = (Ok (), u) \<and> calls t = calls u \<and>
       cluster_deleted E (in_scope cluster c tn s) t)"

lemma cluster_deleted_log: "calls t = calls u \<Longrightarrow> cluster_deleted E s u \<Longrightarrow> cluster_deleted E s t"
  by (simp only: cluster_deleted_def network_deleted_def carried_out_def ips_back_def given_back_def)

lemma cluster_run_admitted:
  assumes "admitted (with_cluster K c) E req = Some (cluster, c, tn)"
    and m: "(if DeletionTimestamp (cl_Meta c) \<noteq> None then reconcileDelete E else reconcile E) (in_scope cluster c tn s) = (r, u)"
  shows "fst (cluster_run (K, E, req) c s) =
      (if k_Patch K (csOscCluster (scope u)) = None then Some (csOscCluster (scope u)) else None)"
    and "calls (snd (cluster_run (K, E, req) c s)) = calls u"
proof -
  let ?m = "if DeletionTimestamp (cl_Meta c) \<noteq> None then reconcileDelete E else reconcile E"
  have kept: "keeps (preserves patched) ?m" by (simp add: patched_kept)
  have same: "patched u = patched s" using keepsD [OF kept m] by (simp add: preserves_def in_scope_def)
  have "Reconcile (with_cluster K c) E req s = deferClose (with_cluster K c) ?m (in_scope cluster c tn s)"
    unfolding in_scope_def by (rule Reconcile_admitted [OF assms(1)])
  also have "\<dots> = (case k_Patch K (csOscCluster (scope u)) of
      None \<Rightarrow> (r, u\<lparr>patched := patched s @ [csOscCluster (scope u)]\<rparr>)
    | Some e \<Rightarrow> ((case r of Ok _ \<Rightarrow> Err e | _ \<Rightarrow> r), u))"
    unfolding deferClose_patches [OF kept] m by (simp add: in_scope_def with_cluster_def split: option.split)
  finally show "fst (cluster_run (K, E, req) c s) =
      (if k_Patch K (csOscCluster (scope u)) = None then Some (csOscCluster (scope u)) else None)"
    "calls (snd (cluster_run (K, E, req) c s)) = calls u"
    using same by (simp_all add: cluster_run_def Let_def split: option.split)
qed

lemma cluster_run_cases:
  assumes "cluster_run (K, E, req) c s = (wr, t)"
  obtains "wr = None" "t = s"
    | cluster tn r u where "k_GetOwnerCluster K (cl_Meta c) = Inr (Some cluster) \<and> getTenant E c = Inr tn" "calls t = calls u"
        "(if DeletionTimestamp (cl_Meta c) \<noteq> None then reconcileDelete E else reconcile E) (in_scope cluster c tn s) = (r, u)"
        "wr = (if k_Patch K (csOscCluster (scope u)) = None then Some (csOscCluster (scope u)) else None)"
proof (cases "admitted (with_cluster K c) E req")
  case None
  have "t = s" "wr = None" using assms Reconcile_refused [OF None, of s] by (auto simp: cluster_run_def Let_def)
  then show ?thesis using that(1) by blast
next
  case (Some a)
  obtain cluster c' tn where a: "a = (cluster, c', tn)" by (cases a)
  have c': "c' = c" and owner: "k_GetOwnerCluster K (cl_Meta c) = Inr (Some cluster) \<and> getTenant E c = Inr tn"
    using Some a by (auto simp: admitted_def with_cluster_def map_sum_def split: sum.splits option.splits if_splits)
  let ?m = "if DeletionTimestamp (cl_Meta c) \<noteq> None then reconcileDelete E else reconcile E"
  obtain r u where m: "?m (in_scope cluster c tn s) = (r, u)" by (cases "?m (in_scope cluster c tn s)")
  note run = cluster_run_admitted [OF Some [unfolded a c'] m]
  have "calls t = calls u" "wr = (if k_Patch K (csOscCluster (scope u)) = None then Some (csOscCluster (scope u)) else None)"
    using run assms by simp_all
  then show ?thesis using that(2) [OF owner _ m] by blast
qed

text \<open>Finalizers and pending deletion of the object in scope, through the steps of a run.\<close>

definition scope_finalizers :: "('w, 'z) World_scheme \<Rightarrow> string list" where
  "scope_finalizers s = Finalizers (cl_Meta (csOscCluster (scope s)))"

definition scope_deletion :: "('w, 'z) World_scheme \<Rightarrow> int option" where
  "scope_deletion s = DeletionTimestamp (cl_Meta (csOscCluster (scope s)))"

text \<open>An observation that depends neither on the status nor on the label of the UID.\<close>

locale meta_observer = observer f
  for f :: "('w, 'z) World_scheme \<Rightarrow> 'b" +
  assumes obs_status: "f (upd_Status g s) = f s"
    and obs_uid: "f (snd (cs_EnsureExplicitUID s)) = f s"
begin

lemma obs_status_ops [obs_rules]:
  "keeps (preserves f) cs_EnsureExplicitUID" "keeps (preserves f) cs_SetReady"
  "keeps (preserves f) (markTrue E cond)" "keeps (preserves f) (markFalse E cond reason e)"
  by (simp_all add: keeps_def preserves_def cs_SetReady_def markTrue_def markFalse_def run_simps obs_status obs_uid)

lemma obs_steps [obs_rules]:
  assumes "keeps (preserves f) m"
  shows "keeps (preserves f) (step E cond reason pre m)" "keeps (preserves f) (stepT E cond reason pre m)"
    "keeps (preserves f) (whenScope c m)"
  unfolding step_def stepT_def whenScope_def by (intro frame_rules obs_rules assms)+

lemma obs_parts [obs_rules]:
  "keeps (preserves f) (reconcileInternet E)" "keeps (preserves f) (reconcilePeering E)"
  unfolding reconcileInternet_def reconcilePeering_def by (intro frame_rules obs_rules)+

text \<open>A reconciliation observes what adding the finalizer leaves.\<close>

lemma obs_reconcile: "f (snd (reconcile E s)) = f (snd (addFinalizer E s))"
proof -
  have "\<exists>k :: ('w, 'z, nat) Op. reconcile E = andThen (addFinalizer E) k \<and> keeps (preserves f) k"
    unfolding reconcile_def by (intro exI conjI, rule refl, intro frame_rules obs_rules)
  then obtain k :: "('w, 'z, nat) Op" where k: "reconcile E = andThen (addFinalizer E) k" "keeps (preserves f) k" by blast
  obtain u where u: "addFinalizer E s = (Ok (), u)" by (simp add: addFinalizer_def run_simps)
  obtain r t where t: "k u = (r, t)" by (cases "k u")
  show ?thesis using keepsD [OF k(2) t] by (simp add: k(1) u t run_simps preserves_def)
qed

end

interpretation fin_obs: meta_observer scope_finalizers
  by unfold_locales (simp_all add: scope_finalizers_def scope_setters run_simps cs_EnsureExplicitUID_def Let_def)

interpretation del_obs: meta_observer scope_deletion
  by unfold_locales (simp_all add: scope_deletion_def scope_setters run_simps cs_EnsureExplicitUID_def Let_def)

lemma reconcile_marks:
  assumes "reconcile E s = (r, t)"
  shows "scope_finalizers t = AddFinalizer E (scope_finalizers s) OscClusterFinalizer" "scope_deletion t = scope_deletion s"
  using fin_obs.obs_reconcile [of E s] del_obs.obs_reconcile [of E s] assms
  by (simp_all add: addFinalizer_def run_simps scope_finalizers_def scope_deletion_def upd_OscCluster_def)

lemma reconcileDelete_deletion: "keeps (preserves scope_deletion) (reconcileDelete E)"
proof -
  have "keeps (preserves scope_deletion) (removeFinalizer E)"
    by (simp add: keeps_def preserves_def removeFinalizer_def run_simps scope_deletion_def upd_OscCluster_def)
  then show ?thesis unfolding reconcileDelete_def by (intro frame_rules obs_rules)
qed

abbreviation clusterBuilding :: "effect set" where
  "clusterBuilding \<equiv> {ERead, ETag} \<union> networkCreations \<union> groupCreations"

lemmas life_simps = cluster_life_def holds_finalizer_def in_scope_def scope_finalizers_def scope_deletion_def

lemma reconcileDelete_log:
  assumes "reconcileDelete E s = (r, t)"
  shows "\<exists>cs. calls t = calls s @ cs \<and> no_creation cs"
  using acts_calls [OF acts_reconcileDelete assms] by (fastforce simp: no_creation_def)

text \<open>The finalizer leaves the object only by a completed teardown.\<close>

lemma reconcileDelete_releases:
  assumes "reconcileDelete E s = (r, t)"
  shows "cs_ListMachines E (scope s) = Inr [] \<and> (\<exists>u. deleteResources E s = (Ok (), u) \<and> calls t = calls u) \<or>
    scope_finalizers t = scope_finalizers s"
  using finalizer_guard [OF assms]
  by (auto simp: scope_finalizers_def removeFinalizer_def run_simps upd_OscCluster_def split: outcome.splits if_splits)

lemma cluster_run_builds:
  assumes "cluster_run (K, E, req) c s = (wr, t)" and del: "DeletionTimestamp (cl_Meta c) = None"
  shows "(\<exists>cs. calls t = calls s @ cs \<and> effect_of ` set cs \<subseteq> clusterBuilding) \<and>
    (\<forall>c'. wr = Some c' \<longrightarrow> DeletionTimestamp (cl_Meta c') = None \<and>
       Finalizers (cl_Meta c') = AddFinalizer E (Finalizers (cl_Meta c)) OscClusterFinalizer)"
  using assms(1)
proof (cases rule: cluster_run_cases)
  case (2 cluster tn r u)
  then have run: "reconcile E (in_scope cluster c tn s) = (r, u)" using del by simp
  show ?thesis using acts_calls [OF acts_reconcile run] reconcile_marks [OF run] 2(2,4) del
    by (simp add: life_simps split: if_splits)
qed simp

lemma cluster_run_deletes:
  assumes "cluster_run (K, E, req) c s = (wr, t)" and del: "DeletionTimestamp (cl_Meta c) \<noteq> None"
  shows "(\<exists>cs. calls t = calls s @ cs \<and> no_creation cs) \<and>
    (\<forall>c'. wr = Some c' \<longrightarrow> DeletionTimestamp (cl_Meta c') = DeletionTimestamp (cl_Meta c) \<and>
       (cluster_torn (K, E, req) c s t \<or> Finalizers (cl_Meta c') = Finalizers (cl_Meta c)))"
  using assms(1)
proof (cases rule: cluster_run_cases)
  case (2 cluster tn r u)
  then have run: "reconcileDelete E (in_scope cluster c tn s) = (r, u)" using del by simp
  have "scope_deletion u = DeletionTimestamp (cl_Meta c)"
    using keepsD [OF reconcileDelete_deletion run] by (simp add: preserves_def life_simps)
  moreover have "cluster_torn (K, E, req) c s t \<or> scope_finalizers u = Finalizers (cl_Meta c)"
    using reconcileDelete_releases [OF run] 2(1,2) cluster_deleted_log [OF _ deletion_contents]
    unfolding cluster_torn_def prod.case by (fastforce simp: life_simps)
  moreover have "\<exists>cs. calls t = calls s @ cs \<and> no_creation cs"
    using reconcileDelete_log [OF run] 2(2) by (simp add: in_scope_def)
  ultimately show ?thesis using 2(4) by (auto simp: scope_finalizers_def scope_deletion_def split: if_splits)
qed simp

lemma cluster_run_unwritten:
  assumes "cluster_run (K, E, req) c s = (None, t)" and "\<forall>c. k_Patch K c = None"
  shows "calls t = calls s"
  using assms(1) by (cases rule: cluster_run_cases) (simp_all add: assms(2))

lemma cluster_life_simps [simp]:
  "ct_deleting cluster_life c \<longleftrightarrow> DeletionTimestamp (cl_Meta c) \<noteq> None" "ct_log cluster_life = calls" "ct_run cluster_life = cluster_run"
  "ct_finalizers cluster_life c = Finalizers (cl_Meta c)" "ct_finalizer cluster_life = OscClusterFinalizer"
  by (simp_all add: cluster_life_def)

interpretation clusters_life: managed cluster_life clusterBuilding cluster_lawful cluster_torn
proof (unfold_locales, goal_cases)
  case (1 c k s wr t)
  then show ?case using cluster_run_builds [of "fst k" "fst (snd k)" "snd (snd k)" c s wr t] by simp
next
  case (2 c k s wr t)
  then show ?case using cluster_run_deletes [of "fst k" "fst (snd k)" "snd (snd k)" c s wr t] by simp
next
  case (3 k c s c' t)
  then show ?case using cluster_run_builds [of "fst k" "fst (snd k)" "snd (snd k)" c s "Some c'" t]
      cluster_run_deletes [of "fst k" "fst (snd k)" "snd (snd k)" c s "Some c'" t]
    by (cases "DeletionTimestamp (cl_Meta c)") simp_all
next
  case (4 k c s t)
  then show ?case using cluster_run_unwritten [of "fst k" "fst (snd k)" "snd (snd k)" c s t] by (simp add: cluster_lawful_def split_beta)
next
  case (5 k c s c' t)
  then show ?case using cluster_run_builds [of "fst k" "fst (snd k)" "snd (snd k)" c s "Some c'" t]
    by (simp add: cluster_lawful_def holds_finalizer_def split_beta)
next
  case (6 k c s c' t)
  then show ?case using cluster_run_deletes [of "fst k" "fst (snd k)" "snd (snd k)" c s "Some c'" t] by (auto simp: holds_finalizer_def)
qed

text \<open>A completed teardown of an object that holds no other finalizer is its end.\<close>

lemma reconcileDelete_completes:
  assumes "cs_ListMachines E (scope s) = Inr []" and del: "deleteResources E s = (Ok (), u)"
    and alone: "RemoveFinalizer E (scope_finalizers s) OscClusterFinalizer = []"
  shows "\<exists>t. reconcileDelete E s = (Ok 0, t) \<and> scope_finalizers t = [] \<and> scope_deletion t = scope_deletion s \<and> calls t = calls u"
proof -
  let ?t = "snd (removeFinalizer E u)"
  have run: "reconcileDelete E s = (Ok 0, ?t)"
    using assms(1) del by (simp add: reconcileDelete_def removeFinalizer_def run_simps lift_def)
  have "scope_finalizers u = scope_finalizers s"
    using keepsD [OF fin_obs.obs_deleteResources del] by (simp add: preserves_def)
  then have "scope_finalizers ?t = []" "calls ?t = calls u"
    using alone by (simp_all add: removeFinalizer_def run_simps scope_finalizers_def upd_OscCluster_def)
  moreover have "scope_deletion ?t = scope_deletion s" using keepsD [OF reconcileDelete_deletion run] by (simp add: preserves_def)
  ultimately show ?thesis using run by blast
qed

lemma cluster_deletion_step:
  assumes lawful: "cluster_lawful (K, E, req)" and adm: "admitted (with_cluster K c) E req = Some (cluster, c, tn)"
    and deleting: "DeletionTimestamp (cl_Meta c) \<noteq> None"
    and none: "cs_ListMachines E (scope (in_scope cluster c tn s)) = Inr []"
    and del: "deleteResources E (in_scope cluster c tn s) = (Ok (), u)"
    and alone: "RemoveFinalizer E (Finalizers (cl_Meta c)) OscClusterFinalizer = []"
  shows "\<exists>t. life_step cluster_life cluster_lawful (Some c, s) (None, t) \<and> calls t = calls u"
proof -
  obtain t where t: "reconcileDelete E (in_scope cluster c tn s) = (Ok 0, t)" "scope_finalizers t = []"
      "scope_deletion t = DeletionTimestamp (cl_Meta c)" "calls t = calls u"
    using reconcileDelete_completes [OF none del] alone by (auto simp: life_simps)
  note run = cluster_run_admitted [OF adm, of s "Ok 0" t]
  have "fst (cluster_run (K, E, req) c s) = Some (csOscCluster (scope t))" "calls (snd (cluster_run (K, E, req) c s)) = calls u"
    using run t deleting lawful by (simp_all add: cluster_lawful_def)
  then have "life_step cluster_life cluster_lawful (Some c, s) (None, snd (cluster_run (K, E, req) c s))"
    using life_step.run [of cluster_lawful "(K, E, req)" cluster_life c s, OF lawful prod.collapse [symmetric]] t(2,3) deleting
    by (simp add: kept_object_def scope_finalizers_def scope_deletion_def)
  then show ?thesis using \<open>calls (snd (cluster_run (K, E, req) c s)) = calls u\<close> by blast
qed

section \<open>Machines\<close>

definition with_machine :: "MKube \<Rightarrow> OscMachine \<Rightarrow> MKube" where
  "with_machine K m = K\<lparr>k_GetOscMachine := (\<lambda>r. map_sum id (\<lambda>_. m) (k_GetOscMachine K r))\<rparr>"

definition machine_run ::
  "MKube \<times> 'w Env \<times> string \<Rightarrow> OscMachine \<Rightarrow> ('w, 'z) MWorld_scheme \<Rightarrow> OscMachine option \<times> ('w, 'z) MWorld_scheme" where
  "machine_run k m s = (case k of (K, E, req) \<Rightarrow>
     let t = snd (m_Reconcile (with_machine K m) E req s)
     in (if mpatched t = mpatched s then None else Some (last (mpatched t)), t))"

definition machine_life :: "(MKube \<times> 'w Env \<times> string, OscMachine, ('w, 'z) MWorld_scheme) Controller" where
  "machine_life = \<lparr>ct_finalizer = OscMachineFinalizer, ct_finalizers = (\<lambda>m. Finalizers (ma_Meta m)),
     ct_deleting = (\<lambda>m. DeletionTimestamp (ma_Meta m) \<noteq> None), ct_log = calls, ct_run = machine_run\<rparr>"

definition machine_lawful :: "MKube \<times> 'w Env \<times> string \<Rightarrow> bool" where
  "machine_lawful k \<longleftrightarrow> (case k of (K, E, req) \<Rightarrow>
     (\<forall>m. k_MPatch K m = None) \<and> (\<forall>fs f. set (AddFinalizer E fs f) = insert f (set fs)))"

definition in_mscope ::
  "CapiCluster \<times> CapiMachine \<times> OscMachine \<times> OscCluster \<times> 'w Tenant \<Rightarrow> ('w, 'z) MWorld_scheme \<Rightarrow> ('w, 'z) MWorld_scheme" where
  "in_mscope a s = (case a of (cluster, machine, m, c, tn) \<Rightarrow>
     s\<lparr>scope := \<lparr>csCluster = cluster, csOscCluster = c, csTenant = tn\<rparr>,
       mscope := \<lparr>msCluster = cluster, msMachine = machine, msOscMachine = m\<rparr>\<rparr>)"

text \<open>A completed teardown: both deletion steps have succeeded, and the log holds their requests.\<close>

definition machine_torn :: "MKube \<times> 'w Env \<times> string \<Rightarrow> OscMachine \<Rightarrow> ('w, 'z) MWorld_scheme \<Rightarrow> ('w, 'z) MWorld_scheme \<Rightarrow> bool" where
  "machine_torn k m s t \<longleftrightarrow> (case k of (K, E, req) \<Rightarrow>
     \<exists>a u v. m_admitted (with_machine K m) E req = Some a \<and> reconcileDeleteVm (in_mscope a s) = (Ok 0, u) \<and>
       m_reconcileDeletePublicIp E u = (Ok 0, v) \<and> calls t = calls v \<and> machine_deleted E (in_mscope a s) t)"

lemma machine_deleted_log: "calls t = calls u \<Longrightarrow> machine_deleted E s u \<Longrightarrow> machine_deleted E s t"
  by (simp only: machine_deleted_def given_back_def)

lemma machine_run_cases:
  fixes s :: "('a, 'b) MWorld_scheme"
  assumes "machine_run (K, E, req) m s = (wr, t)"
  obtains "wr = None" "calls t = calls s"
    | a r u where "m_admitted (with_machine K m) E req = Some a" "machine_meta (in_mscope a s) = ma_Meta m" "calls t = calls u"
        "(if DeletionTimestamp (ma_Meta m) \<noteq> None then m_reconcileDelete E else m_reconcile E) (in_mscope a s) = (r, u)"
        "wr = (if k_MPatch K (msOscMachine (mscope u)) = None then Some (msOscMachine (mscope u)) else None)"
proof -
  let ?K = "with_machine K m"
  have run: "t = snd (m_Reconcile ?K E req s)" "wr = (if mpatched t = mpatched s then None else Some (last (mpatched t)))"
    using assms by (auto simp: machine_run_def Let_def)
  show ?thesis
  proof (cases "m_admitted ?K E req")
    case None
    have "untouched t = untouched s" using run(1) m_Reconcile_refused [OF None, of s] by simp
    then show ?thesis using that(1) run(2) by (simp add: untouched_def)
  next
    case (Some a)
    obtain cluster machine m' c tn where a: "a = (cluster, machine, m', c, tn)" by (cases a)
    have m': "m' = m"
      using Some a by (auto simp: m_admitted_def with_machine_def map_sum_def split: sum.splits option.splits if_splits)
    define b :: "('a, 'b, nat) MOp" where "b = (if DeletionTimestamp (ma_Meta m) \<noteq> None then m_reconcileDelete E else m_reconcile E)"
    obtain r u where body: "b (in_mscope a s) = (r, u)" by (cases "b (in_mscope a s)")
    have kept: "keeps (preserves machine_patches) b" by (simp add: b_def m_patched_kept)
    have "m_Reconcile ?K E req s = m_deferClose ?K b (in_mscope a s)"
      unfolding in_mscope_def a m' prod.case b_def by (rule m_Reconcile_admitted [OF Some [unfolded a m']])
    then have t: "t = snd (m_deferClose ?K b (in_mscope a s))" using run(1) by simp
    have same: "mpatched (in_mscope a s) = mpatched s" "k_MPatch ?K = k_MPatch K" "machine_meta (in_mscope a s) = ma_Meta m"
      by (simp_all add: in_mscope_def a m' with_machine_def machine_meta_def)
    have "calls t = calls u \<and> wr = (if k_MPatch K (msOscMachine (mscope u)) = None then Some (msOscMachine (mscope u)) else None)"
      using m_deferClose_patches [OF kept, where K = ?K and s = "in_mscope a s"] run(2)
      by (auto simp: t body same split_beta split: option.splits)
    then show ?thesis using that(2) [OF Some same(3) _ body [unfolded b_def]] by blast
  qed
qed

lemma m_reconcile_marks:
  fixes s :: "('a, 'b) MWorld_scheme"
  assumes "m_reconcile E s = (r, t)"
  shows "t = s \<or> machine_meta t = (machine_meta s)\<lparr>Finalizers := AddFinalizer E (Finalizers (machine_meta s)) OscMachineFinalizer\<rparr>"
proof (cases "FailureReason (ma_Status (msOscMachine (mscope s))) \<noteq> None \<or> FailureMessage (ma_Status (msOscMachine (mscope s))) \<noteq> None")
  case True
  then show ?thesis using assms by (auto simp: m_reconcile_def run_simps)
next
  case False
  have "\<exists>k :: ('a, 'b, nat) MOp. m_reconcile E s = andThen (m_addFinalizer E) k s \<and> keeps (preserves machine_meta) k"
    unfolding m_reconcile_def bind_run gets_run outcome.case prod.case if_not_P [OF False]
    by (intro exI conjI, rule refl, intro frame_rules obs_rules)
  then obtain k :: "('a, 'b, nat) MOp" where k: "m_reconcile E s = andThen (m_addFinalizer E) k s" "keeps (preserves machine_meta) k" by blast
  obtain u where u: "m_addFinalizer E s = (Ok (), u)" by (simp add: m_addFinalizer_def run_simps)
  have meta: "machine_meta u = (machine_meta s)\<lparr>Finalizers := AddFinalizer E (Finalizers (machine_meta s)) OscMachineFinalizer\<rparr>"
    using u by (auto simp: m_addFinalizer_def run_simps machine_meta_def upd_OscMachine_def)
  have "k u = (r, t)" using assms by (simp add: k(1) u andThen_run)
  then show ?thesis using keepsD [OF k(2)] meta by (simp add: preserves_def)
qed

lemma m_reconcileDelete_log: "\<exists>cs. calls (snd (m_reconcileDelete E s)) = calls s @ cs \<and> no_creation cs"
proof -
  obtain before vms ips where "calls (snd (m_reconcileDelete E s)) = calls s @ before @ vms @ ips"
    "effect_of ` set before \<subseteq> {ERead, EChange RLoadBalancer}" "vms = [] \<or> (\<exists>i. vms = [DeleteVmsRequest [i]])"
    "effect_of ` set ips \<subseteq> {ERead, EDelete RPublicIp}"
    using machine_deletion_order [where E = E and s = s] by (elim exE conjE) (rule that)
  then show ?thesis by (intro exI [of _ "before @ vms @ ips"]) (auto simp: no_creation_def)
qed

lemma keeps_view: "keeps (preserves f) m \<Longrightarrow> keeps (preserves (\<lambda>s. g (f s))) m"
  by (simp add: keeps_def preserves_def)

lemma m_reconcileDelete_deletion: "keeps (preserves (\<lambda>s. DeletionTimestamp (machine_meta s))) (m_reconcileDelete E)"
proof -
  have "keeps (preserves (\<lambda>s. DeletionTimestamp (machine_meta s))) (m_removeFinalizer E)"
    by (simp add: keeps_def preserves_def m_removeFinalizer_def run_simps machine_meta_def upd_OscMachine_def)
  then show ?thesis unfolding m_reconcileDelete_def
    by (intro frame_rules keeps_view [OF mm.obs_vm_steps(6)] keeps_view [OF mm.obs_vm_steps(7)])
qed

lemma machine_run_builds:
  assumes "machine_run (K, E, req) m s = (wr, t)" and del: "DeletionTimestamp (ma_Meta m) = None"
  shows "(\<exists>cs. calls t = calls s @ cs \<and> effect_of ` set cs \<subseteq> machineEffects) \<and>
    (\<forall>m'. wr = Some m' \<longrightarrow> DeletionTimestamp (ma_Meta m') = None \<and>
       (calls t = calls s \<and> Finalizers (ma_Meta m') = Finalizers (ma_Meta m) \<or>
        Finalizers (ma_Meta m') = AddFinalizer E (Finalizers (ma_Meta m)) OscMachineFinalizer))"
  using assms(1)
proof (cases rule: machine_run_cases)
  case (2 a r u)
  then have run: "m_reconcile E (in_mscope a s) = (r, u)" using del by simp
  have log: "calls (in_mscope a s) = calls s" by (simp add: in_mscope_def split_beta)
  have meta: "u = in_mscope a s \<or> machine_meta u = (ma_Meta m)\<lparr>Finalizers := AddFinalizer E (Finalizers (ma_Meta m)) OscMachineFinalizer\<rparr>"
    using m_reconcile_marks [OF run] 2(2) by simp
  have "\<exists>cs. calls t = calls s @ cs \<and> effect_of ` set cs \<subseteq> machineEffects"
    using acts_calls [OF acts_m_reconcile run, of always] 2(3) log by simp
  moreover have "DeletionTimestamp (machine_meta u) = None \<and>
      (calls t = calls s \<and> Finalizers (machine_meta u) = Finalizers (ma_Meta m) \<or>
       Finalizers (machine_meta u) = AddFinalizer E (Finalizers (ma_Meta m)) OscMachineFinalizer)"
    using meta 2(2,3) log del by auto
  ultimately show ?thesis using 2(5) by (simp add: machine_meta_def split: if_splits)
qed simp

lemma machine_run_deletes:
  assumes "machine_run (K, E, req) m s = (wr, t)" and del: "DeletionTimestamp (ma_Meta m) \<noteq> None"
  shows "(\<exists>cs. calls t = calls s @ cs \<and> no_creation cs) \<and>
    (\<forall>m'. wr = Some m' \<longrightarrow> DeletionTimestamp (ma_Meta m') = DeletionTimestamp (ma_Meta m) \<and>
       (machine_torn (K, E, req) m s t \<or> Finalizers (ma_Meta m') = Finalizers (ma_Meta m)))"
  using assms(1)
proof (cases rule: machine_run_cases)
  case (2 a r u)
  then have run: "m_reconcileDelete E (in_mscope a s) = (r, u)" using del by simp
  have "\<exists>cs. calls t = calls s @ cs \<and> no_creation cs"
    using m_reconcileDelete_log [where E = E and s = "in_mscope a s"] run 2(3) by (simp add: in_mscope_def split_beta)
  moreover have "DeletionTimestamp (machine_meta u) = DeletionTimestamp (ma_Meta m)"
    using keepsD [OF m_reconcileDelete_deletion run] 2(2) by (simp add: preserves_def)
  moreover have "machine_torn (K, E, req) m s t \<or> Finalizers (machine_meta u) = Finalizers (ma_Meta m)"
  proof (cases r)
    case (Ok n)
    then obtain v w where "reconcileDeleteVm (in_mscope a s) = (Ok 0, v)" "m_reconcileDeletePublicIp E v = (Ok 0, w)" "u = snd (m_removeFinalizer E w)"
      using machine_finalizer_last [where E = E and s = "in_mscope a s"] run by auto
    moreover from this have "calls t = calls w" using 2(3) by (simp add: m_removeFinalizer_def run_simps upd_OscMachine_def)
    moreover have "machine_deleted E (in_mscope a s) t" using run Ok by (intro machine_deleted_log [OF 2(3)] machine_deletion_contents) simp
    ultimately show ?thesis using 2(1) unfolding machine_torn_def prod.case by blast
  qed (use machine_finalizer_last [where E = E and s = "in_mscope a s"] run 2(2) in simp_all)
  ultimately show ?thesis using 2(5) by (auto simp: machine_meta_def split: if_splits)
qed simp

lemma machine_run_unwritten:
  assumes "machine_run (K, E, req) m s = (None, t)" and "\<forall>m. k_MPatch K m = None"
  shows "calls t = calls s"
  using assms(1) by (cases rule: machine_run_cases) (simp_all add: assms(2))

lemma machine_life_simps [simp]:
  "ct_deleting machine_life m \<longleftrightarrow> DeletionTimestamp (ma_Meta m) \<noteq> None" "ct_log machine_life = calls" "ct_run machine_life = machine_run"
  "ct_finalizers machine_life m = Finalizers (ma_Meta m)" "ct_finalizer machine_life = OscMachineFinalizer"
  by (simp_all add: machine_life_def)

interpretation machines_life: managed machine_life machineEffects machine_lawful machine_torn
proof (unfold_locales, goal_cases)
  case (1 m k s wr t)
  then show ?case using machine_run_builds [of "fst k" "fst (snd k)" "snd (snd k)" m s wr t] by simp
next
  case (2 m k s wr t)
  then show ?case using machine_run_deletes [of "fst k" "fst (snd k)" "snd (snd k)" m s wr t] by simp
next
  case (3 k m s m' t)
  then show ?case using machine_run_builds [of "fst k" "fst (snd k)" "snd (snd k)" m s "Some m'" t]
      machine_run_deletes [of "fst k" "fst (snd k)" "snd (snd k)" m s "Some m'" t]
    by (cases "DeletionTimestamp (ma_Meta m)") simp_all
next
  case (4 k m s t)
  then show ?case using machine_run_unwritten [of "fst k" "fst (snd k)" "snd (snd k)" m s t] by (simp add: machine_lawful_def split_beta)
next
  case (5 k m s m' t)
  then show ?case using machine_run_builds [of "fst k" "fst (snd k)" "snd (snd k)" m s "Some m'" t]
    by (auto simp: machine_lawful_def holds_finalizer_def split_beta)
next
  case (6 k m s m' t)
  then show ?case using machine_run_deletes [of "fst k" "fst (snd k)" "snd (snd k)" m s "Some m'" t] by (auto simp: holds_finalizer_def)
qed

end
