(* ===== verification/Lifecycle_Properties.thy ===== *)
theory Lifecycle_Properties
  imports Lifecycle Machine_Samples
begin

text \<open>
  The properties of whole lives of clusters and machines: before deletion is asked for nothing is
  deleted, an object disappears only after its resources, and what happens when the write that
  stores the finalizer fails.
\<close>

section \<open>Samples\<close>

text \<open>An API whose writes succeed or fail, and a cluster on an external network that is being deleted.\<close>

definition lifeKube :: "gerror option \<Rightarrow> Kube" where
  "lifeKube patchError = \<lparr>k_GetOscCluster = (\<lambda>_. Inr sampleCluster), k_IsNotFound = (\<lambda>_. True),
     k_GetOwnerCluster = (\<lambda>_. Inr (Some (csCluster (scope sampleWorld)))), k_IsPaused = (\<lambda>_ _. False), k_NewHelper = (\<lambda>_. None),
     k_Patch = (\<lambda>_. patchError)\<rparr>"

definition externalCluster :: OscCluster where
  "externalCluster = (withNetwork (\<lambda>nw. (reusing nw)\<lparr>Disable := [DisableInternet, DisableLB]\<rparr>) sampleCluster)
     \<lparr>cl_Meta := (cl_Meta sampleCluster)\<lparr>DeletionTimestamp := Some 5, Finalizers := [OscClusterFinalizer]\<rparr>\<rparr>"

text \<open>A cluster with a net of its own that is being deleted, and the cloud that holds the net and its subnet.\<close>

definition ownedClient :: "unit Client" where
  "ownedClient = sampleClient\<lparr>sdkNets := (\<lambda>_ w. (Inr [\<lparr>o_NetId = ''vpc-1'', o_IpRange = ''10.0.0.0/16''\<rparr>], w)),
     sdkSubnets := (\<lambda>_ w. (Inr [\<lparr>o_SubnetId = ''subnet-1'', o_SubnetIpRange = ''10.0.2.0/24''\<rparr>], w))\<rparr>"

definition ownedEnv :: "unit Env" where
  "ownedEnv = sampleEnv\<lparr>tenantDefault := Inr \<lparr>tn_Region = ''eu-west-2'', tn_Client = ownedClient\<rparr>\<rparr>"

definition ownedCluster :: OscCluster where
  "ownedCluster = (withNetwork (\<lambda>nw. (oneSubnet nw)\<lparr>Disable := [DisableInternet, DisableLB]\<rparr>) sampleCluster)
     \<lparr>cl_Meta := (cl_Meta sampleCluster)\<lparr>DeletionTimestamp := Some 5, Finalizers := [OscClusterFinalizer]\<rparr>\<rparr>"

lemma lifeKube_lawful: "cluster_lawful (lifeKube None, sampleEnv, req)" "cluster_lawful (lifeKube None, ownedEnv, req)"
  by (auto simp: cluster_lawful_def lifeKube_def ownedEnv_def sampleEnv_def)

definition untaggableEnv :: "unit Env" where
  "untaggableEnv = sampleEnv\<lparr>tenantDefault := Inr \<lparr>tn_Region = ''eu-west-2'', tn_Client = untaggableClient\<rparr>\<rparr>"

section \<open>Lives\<close>

text \<open>
  C1. Nothing is deleted uninvited. However many runs of the controller, edits that leave its finalizer alone and changes of
  the cloud a cluster has lived through, as long as its deletion has not been asked for, the only deletions
  requested are those of rules of security groups, whatever the cloud and the API answered.
\<close>

theorem nothing_deleted_uninvited:
  assumes "life cluster_life ok (Some c0, s0) (Some c, s)" and "DeletionTimestamp (cl_Meta c) = None"
  shows "\<exists>cs. calls s = calls s0 @ cs \<and> effect_of ` set cs \<inter> range EDelete \<subseteq> {EDelete RRule}"
proof -
  obtain cs where "calls s = calls s0 @ cs" "effect_of ` set cs \<subseteq> clusterBuilding"
    using clusters_life.life_builds [OF assms(1) refl] assms(2) by auto
  then show ?thesis by (intro exI [of _ cs]) auto
qed

theorem nothing_deleted_uninvited_witness:
  "\<exists>cs. calls (snd (cluster_run (lifeKube (Some (ErrorsNew ''conflict'')), sampleEnv, ''c1'') sampleCluster sampleWorld)) = [] @ cs \<and>
     effect_of ` set cs \<inter> range EDelete \<subseteq> {EDelete RRule}"
proof -
  let ?r = "cluster_run (lifeKube (Some (ErrorsNew ''conflict'')), sampleEnv, ''c1'') sampleCluster sampleWorld"
  have "fst ?r = None"
    using cluster_run_cases [OF prod.collapse [symmetric], of "lifeKube (Some (ErrorsNew ''conflict''))" sampleEnv "''c1''" sampleCluster sampleWorld]
    by (force simp: lifeKube_def)
  then have "ct_run cluster_life (lifeKube (Some (ErrorsNew ''conflict'')), sampleEnv, ''c1'') sampleCluster sampleWorld = (None, snd ?r)"
    by (metis cluster_life_simps(3) prod.collapse)
  then have "life_step cluster_life (\<lambda>_. True) (Some sampleCluster, sampleWorld) (Some sampleCluster, snd ?r)"
    using life_step.run [of "\<lambda>_. True"] by fastforce
  then have "life cluster_life (\<lambda>_. True) (Some sampleCluster, sampleWorld) (Some sampleCluster, snd ?r)" ..
  moreover have "DeletionTimestamp (cl_Meta sampleCluster) = None" "calls sampleWorld = []" by (simp_all add: sample_defs)
  ultimately show ?thesis using nothing_deleted_uninvited by metis
qed

text \<open>
  C6. A cluster disappears only after its resources. Take any history of a cluster in which the writes to the API succeed, and at the end
  of which the object is gone. In one of the runs of that very history, on the object as it was then, no machine was left and every
  deletion step succeeded: the log of that run holds the requests to delete the net, every subnet, the route tables, the net access points, the
  internet service, the NAT services, the net peerings and the bastion that were looked up, unless they are disabled or the net is reused,
  every security group of the net but the default one, unless they are reused, and the load balancer that carries the name tag of
  the cluster; and the recorded public IPs were given back. After that run no resource was created. Otherwise the object did not hold the
  finalizer at the start of the history, and nothing was created in all of it.
\<close>

theorem cluster_gone_after_teardown:
  assumes "lived cluster_life cluster_lawful (Some c0, s0) h (None, s)"
  shows "settled cluster_life cluster_torn c0 s0 h s"
  using clusters_life.lived_settles [OF assms] by simp

theorem cluster_gone_after_teardown_witness:
  "let t = snd (cluster_run (lifeKube None, ownedEnv, ''c1'') ownedCluster sampleWorld)
   in settled cluster_life cluster_torn ownedCluster sampleWorld [((lifeKube None, ownedEnv, ''c1''), ownedCluster, sampleWorld, t)] t \<and>
      filter (\<lambda>c. effect_of c \<noteq> ERead) (calls t) = [DeleteSubnetRequest ''subnet-1'', DeleteNetRequest ''vpc-1'']"
proof -
  let ?k = "(lifeKube None, ownedEnv, ''c1'')"
  let ?r = "cluster_run ?k ownedCluster sampleWorld"
  have run: "map_option (kept_object cluster_life) (fst ?r) = Some None \<and>
      filter (\<lambda>c. effect_of c \<noteq> ERead) (calls (snd ?r)) = [DeleteSubnetRequest ''subnet-1'', DeleteNetRequest ''vpc-1'']" by code_simp
  then have "(case fst ?r of None \<Rightarrow> Some ownedCluster | Some c \<Rightarrow> kept_object cluster_life c) = None" by (cases "fst ?r") auto
  moreover have "ct_run cluster_life ?k ownedCluster sampleWorld = (fst ?r, snd ?r)" by simp
  ultimately have "lived cluster_life cluster_lawful (Some ownedCluster, sampleWorld) [(?k, ownedCluster, sampleWorld, snd ?r)] (None, snd ?r)"
    by (intro lived_one [where wr = "fst ?r"]) (rule lifeKube_lawful(2))
  then have "settled cluster_life cluster_torn ownedCluster sampleWorld [(?k, ownedCluster, sampleWorld, snd ?r)] (snd ?r)"
    by (rule cluster_gone_after_teardown)
  then show ?thesis unfolding Let_def using conjunct2 [OF run] by (rule conjI)
qed

text \<open>
  C7. A cluster that is being deleted does disappear. When the writes to the API succeed, a run that finds no
  machine left and whose deletion steps succeed is the end of the object, if no other controller
  holds a finalizer on it, and the requests of that run are those of the deletion steps.
\<close>

theorem deletion_completes:
  assumes "cluster_lawful (K, E, req)" and "admitted (with_cluster K c) E req = Some (cluster, c, tn)"
    and "DeletionTimestamp (cl_Meta c) \<noteq> None"
    and "cs_ListMachines E (scope (in_scope cluster c tn s)) = Inr []"
    and "deleteResources E (in_scope cluster c tn s) = (Ok (), u)"
    and "RemoveFinalizer E (Finalizers (cl_Meta c)) OscClusterFinalizer = []"
  shows "\<exists>t. life_step cluster_life cluster_lawful (Some c, s) (None, t) \<and> calls t = calls u"
  by (rule cluster_deletion_step [OF assms])

theorem deletion_completes_witness:
  "\<exists>t. life_step cluster_life cluster_lawful (Some externalCluster, sampleWorld) (None, t) \<and>
     calls t = calls (snd (deleteResources sampleEnv (in_scope (csCluster (scope sampleWorld)) externalCluster
       \<lparr>tn_Region = ''eu-west-2'', tn_Client = sampleClient\<rparr> sampleWorld)))"
proof (rule deletion_completes [of "lifeKube None" sampleEnv "''c1''" externalCluster "csCluster (scope sampleWorld)"
    "\<lparr>tn_Region = ''eu-west-2'', tn_Client = sampleClient\<rparr>" sampleWorld])
  show "admitted (with_cluster (lifeKube None) externalCluster) sampleEnv ''c1'' =
      Some (csCluster (scope sampleWorld), externalCluster, \<lparr>tn_Region = ''eu-west-2'', tn_Client = sampleClient\<rparr>)"
    by (simp add: admitted_def with_cluster_def lifeKube_def sampleEnv_def getTenant_def tenantFor_def externalCluster_def withNetwork_def
        sampleCluster_def noCredentials_def reusing_def)
  have "fst (deleteResources sampleEnv (in_scope (csCluster (scope sampleWorld)) externalCluster
      \<lparr>tn_Region = ''eu-west-2'', tn_Client = sampleClient\<rparr> sampleWorld)) = Ok ()" by code_simp
  then show "deleteResources sampleEnv (in_scope (csCluster (scope sampleWorld)) externalCluster
      \<lparr>tn_Region = ''eu-west-2'', tn_Client = sampleClient\<rparr> sampleWorld) = (Ok (), snd (deleteResources sampleEnv
        (in_scope (csCluster (scope sampleWorld)) externalCluster \<lparr>tn_Region = ''eu-west-2'', tn_Client = sampleClient\<rparr> sampleWorld)))"
    by (simp only: prod_eq_iff fst_conv snd_conv)
qed (rule lifeKube_lawful(1), simp_all add: externalCluster_def withNetwork_def sampleEnv_def cs_ListMachines_def in_scope_def)

text \<open>
  C10. A machine disappears only after its VM. Take any history of a machine in which the writes to the API succeed, and at the end of which
  it is gone. In one of its runs the VM was looked up and, if there was one that was not terminated, it was unlinked from the
  load balancer that listed it and its deletion was requested; the public IPs that were recorded were given back, unless the machine takes
  them from a pool, whose IPs are left alone; and neither a VM, a GPU nor a public IP was created after that run. Otherwise the object did
  not hold the finalizer at the start of the history, and nothing was created in all of it.
\<close>

theorem machine_gone_after_teardown:
  assumes "lived machine_life machine_lawful (Some m0, s0) h (None, s)"
  shows "settled machine_life machine_torn m0 s0 h s"
  using machines_life.lived_settles [OF assms] by simp

text \<open>A machine that is being deleted, and an API whose writes succeed.\<close>

definition lifeMKube :: MKube where
  "lifeMKube = Kube.extend (lifeKube None) (MKube.fields
     (\<lambda>_. Inr sampleOscMachine) (\<lambda>_. Inr (Some sampleMachine)) (\<lambda>_. Inr (csCluster (scope sampleWorld)))
     (\<lambda>_ _. Inr sampleCluster) (\<lambda>_. None) (\<lambda>_. None))"

definition deletedMachine :: OscMachine where
  "deletedMachine = sampleOscMachine\<lparr>ma_Meta := (cl_Meta sampleCluster)\<lparr>DeletionTimestamp := Some 5, Finalizers := [OscMachineFinalizer]\<rparr>\<rparr>"

theorem machine_gone_after_teardown_witness:
  "let s = machineWorld sampleClient deletedMachine; t = snd (machine_run (lifeMKube, sampleEnv, ''m1'') deletedMachine s)
   in settled machine_life machine_torn deletedMachine s [((lifeMKube, sampleEnv, ''m1''), deletedMachine, s, t)] t \<and>
      filter (\<lambda>c. effect_of c \<noteq> ERead) (calls t) = [DeleteVmsRequest [''i-1'']]"
proof -
  let ?k = "(lifeMKube, sampleEnv, ''m1'')"
  let ?s = "machineWorld sampleClient deletedMachine"
  let ?r = "machine_run ?k deletedMachine ?s"
  have run: "map_option (kept_object machine_life) (fst ?r) = Some None \<and>
      filter (\<lambda>c. effect_of c \<noteq> ERead) (calls (snd ?r)) = [DeleteVmsRequest [''i-1'']]" by code_simp
  then have "(case fst ?r of None \<Rightarrow> Some deletedMachine | Some c \<Rightarrow> kept_object machine_life c) = None" by (cases "fst ?r") auto
  moreover have "ct_run machine_life ?k deletedMachine ?s = (fst ?r, snd ?r)" by simp
  moreover have "machine_lawful ?k" by (auto simp: machine_lawful_def lifeMKube_def sampleEnv_def MKube.defs Kube.defs)
  ultimately have "lived machine_life machine_lawful (Some deletedMachine, ?s) [(?k, deletedMachine, ?s, snd ?r)] (None, snd ?r)"
    by (intro lived_one [where wr = "fst ?r"])
  then have "settled machine_life machine_torn deletedMachine ?s [(?k, deletedMachine, ?s, snd ?r)] (snd ?r)"
    by (rule machine_gone_after_teardown)
  then show ?thesis unfolding Let_def using conjunct2 [OF run] by (rule conjI)
qed

section \<open>A write that fails\<close>

lemma andThen_first:
  "m s = (Ok x, t) \<Longrightarrow> andThen m k s = k t" "m s = (Err e, t) \<Longrightarrow> andThen m k s = (Err e, t)"
  by (simp_all add: andThen_run)

text \<open>A reconciliation whose first step, the net, fails: the requests are those of that step.\<close>

lemma reconcile_stops_at_net:
  fixes s :: "('a, 'b) World_scheme"
  assumes "reconcileNet (snd (cs_EnsureExplicitUID (snd (addFinalizer E s)))) = (Err e, t)"
    and "fst (cs_EnsureExplicitUID (snd (addFinalizer E s))) = Ok ()"
  shows "calls (snd (reconcile E s)) = calls t"
proof -
  obtain s1 where s1: "addFinalizer E s = (Ok (), s1)" by (simp add: addFinalizer_def run_simps)
  then have s2: "cs_EnsureExplicitUID s1 = (Ok (), snd (cs_EnsureExplicitUID s1))" using assms(2) by (metis prod.collapse snd_conv)
  define net :: "('a, 'b, unit) Op" where "net = stepT E NetReadyCondition NetReconciliationFailedReason ''reconcile net: '' reconcileNet"
  have "\<exists>k. reconcile E = andThen (addFinalizer E) (andThen cs_EnsureExplicitUID (andThen net k))"
    unfolding reconcile_def net_def by (rule exI) (rule refl)
  then obtain k where k: "reconcile E s = andThen (addFinalizer E) (andThen cs_EnsureExplicitUID (andThen net k)) s" by metis
  let ?t = "snd (markFalse E NetReadyCondition NetReconciliationFailedReason e t)"
  have n: "net (snd (cs_EnsureExplicitUID s1)) = (Err (Errorf ''reconcile net: '' e), ?t)"
    using assms(1) by (simp add: s1 net_def stepT_def step_def andThen_run handle_def markFalse_def modify_run raise_def)
  have "snd (reconcile E s) = ?t"
    unfolding k andThen_first(1) [of "addFinalizer E", OF s1] andThen_first(1) [of cs_EnsureExplicitUID, OF s2] andThen_first(2) [of net, OF n]
    by simp
  then show ?thesis by (simp add: markFalse_def modify_run)
qed

text \<open>
  C38. The finalizer is stored by the write at the end of the first run, after resources have been created. When that write fails, for a
  cluster that holds no finalizer yet, the run stores nothing, although its requests are all those of the reconciliation, among
  which are no deletions but those of rules; and when the deletion of the cluster is then asked for, the object is gone at once, with no further
  request.
\<close>

theorem failed_write_leaks:
  assumes "admitted (with_cluster K c) E req = Some (cluster, c, tn)" and "\<forall>c. k_Patch K c \<noteq> None"
    and "DeletionTimestamp (cl_Meta c) = None" and "Finalizers (cl_Meta c) = []"
  shows "\<exists>t cs. cluster_run (K, E, req) c s = (None, t) \<and> calls t = calls (snd (reconcile E (in_scope cluster c tn s))) \<and>
    calls t = calls s @ cs \<and> effect_of ` set cs \<inter> range EDelete \<subseteq> {EDelete RRule} \<and>
    life_step cluster_life (\<lambda>_. False) (Some c, t) (None, t)"
proof -
  obtain r u where run: "reconcile E (in_scope cluster c tn s) = (r, u)" by (cases "reconcile E (in_scope cluster c tn s)")
  obtain t where t: "cluster_run (K, E, req) c s = (None, t)" "calls t = calls u"
    using cluster_run_admitted [OF assms(1), of s r u] run assms(2,3) by (cases "cluster_run (K, E, req) c s") auto
  obtain cs where "calls t = calls s @ cs" "effect_of ` set cs \<subseteq> clusterBuilding"
    using cluster_run_builds [OF t(1) assms(3)] by auto
  moreover have "life_step cluster_life (\<lambda>_. False) (Some c, t) (None, t)"
    using life_step.ask [of cluster_life "c\<lparr>cl_Meta := (cl_Meta c)\<lparr>DeletionTimestamp := Some 5\<rparr>\<rparr>" c "\<lambda>_. False" t] assms(4)
    by (simp add: kept_object_def)
  ultimately show ?thesis using t run by (intro exI [of _ t] exI [of _ cs]) auto
qed

text \<open>The net of the cluster is created, its tagging fails, and the write at the end of the run too.\<close>

theorem failed_write_leaks_witness:
  "\<exists>t. cluster_run (lifeKube (Some (ErrorsNew ''conflict'')), untaggableEnv, ''c1'') sampleCluster sampleWorld = (None, t) \<and>
     map effect_of (calls t) = [ERead, ECreate RNet, ETag] \<and> life_step cluster_life (\<lambda>_. False) (Some sampleCluster, t) (None, t)"
proof -
  let ?K = "lifeKube (Some (ErrorsNew ''conflict''))"
  let ?tn = "\<lparr>tn_Region = ''eu-west-2'', tn_Client = untaggableClient\<rparr>"
  let ?s = "in_scope (csCluster (scope sampleWorld)) sampleCluster ?tn sampleWorld"
  let ?n = "reconcileNet (snd (cs_EnsureExplicitUID (snd (addFinalizer untaggableEnv ?s))))"
  have net: "map effect_of (calls (snd ?n)) = [ERead, ECreate RNet, ETag] \<and> (case fst ?n of Err e \<Rightarrow> True | _ \<Rightarrow> False)" by code_simp
  have uid: "fst (cs_EnsureExplicitUID (snd (addFinalizer untaggableEnv ?s))) = Ok ()" by code_simp
  have adm: "admitted (with_cluster ?K sampleCluster) untaggableEnv ''c1'' = Some (csCluster (scope sampleWorld), sampleCluster, ?tn)"
    by (simp add: admitted_def with_cluster_def lifeKube_def untaggableEnv_def sampleEnv_def getTenant_def tenantFor_def sampleCluster_def
        noCredentials_def)
  obtain e t where n: "?n = (Err e, t)" "map effect_of (calls t) = [ERead, ECreate RNet, ETag]"
    using net by (cases ?n) (auto split: outcome.splits)
  have log: "map effect_of (calls (snd (reconcile untaggableEnv ?s))) = [ERead, ECreate RNet, ETag]"
    using reconcile_stops_at_net [OF n(1) uid] n(2) by simp
  show ?thesis using failed_write_leaks [OF adm, of sampleWorld] log by (auto simp: lifeKube_def sampleCluster_def)
qed

end
