(* ===== verification/Object_Helpers.thy ===== *)
theory Object_Helpers
  imports Machine_Controller Machine_Template
begin

text \<open>
  The methods of the API objects and of the scopes that the controllers reach through Cluster API or not at
  all: the accessors of conditions, which the helpers that mark conditions call, the methods \<^verbatim>\<open>PatchObject\<close> of the scopes,
  the names and tags of \<^verbatim>\<open>osccluster_types.go\<close> and \<^verbatim>\<open>tags.go\<close>, and the methods on security groups that \<^verbatim>\<open>v1beta1\<close> has of its own.
\<close>

section \<open>Conditions\<close>

definition OscCluster_GetConditions :: "OscCluster \<Rightarrow> Condition list" where
  "OscCluster_GetConditions r = cl_Conditions (cl_Status r)"

definition OscCluster_SetConditions :: "OscCluster \<Rightarrow> Condition list \<Rightarrow> OscCluster" where
  "OscCluster_SetConditions r conditions = r\<lparr>cl_Status := (cl_Status r)\<lparr>cl_Conditions := conditions\<rparr>\<rparr>"

definition OscMachine_GetConditions :: "OscMachine \<Rightarrow> Condition list" where
  "OscMachine_GetConditions m = ma_Conditions (ma_Status m)"

definition OscMachine_SetConditions :: "OscMachine \<Rightarrow> Condition list \<Rightarrow> OscMachine" where
  "OscMachine_SetConditions m conditions = m\<lparr>ma_Status := (ma_Status m)\<lparr>ma_Conditions := conditions\<rparr>\<rparr>"

definition OscMachineTemplate_GetConditions :: "'q OscMachineTemplate \<Rightarrow> Condition list" where
  "OscMachineTemplate_GetConditions m = mt_Conditions (mt_Status m)"

definition OscMachineTemplate_SetConditions :: "'q OscMachineTemplate \<Rightarrow> Condition list \<Rightarrow> 'q OscMachineTemplate" where
  "OscMachineTemplate_SetConditions m conditions = m\<lparr>mt_Status := (mt_Status m)\<lparr>mt_Conditions := conditions\<rparr>\<rparr>"

definition OscClusterV1_GetConditions :: "OscClusterV1 \<Rightarrow> Condition list" where
  "OscClusterV1_GetConditions r = cl_Conditions (v1_ClStatus r)"

definition OscClusterV1_SetConditions :: "OscClusterV1 \<Rightarrow> Condition list \<Rightarrow> OscClusterV1" where
  "OscClusterV1_SetConditions r conditions = r\<lparr>v1_ClStatus := (v1_ClStatus r)\<lparr>cl_Conditions := conditions\<rparr>\<rparr>"

definition OscMachineV1_GetConditions :: "OscMachineV1 \<Rightarrow> Condition list" where
  "OscMachineV1_GetConditions m = ma_Conditions (v1_MaStatus m)"

definition OscMachineV1_SetConditions :: "OscMachineV1 \<Rightarrow> Condition list \<Rightarrow> OscMachineV1" where
  "OscMachineV1_SetConditions m conditions = m\<lparr>v1_MaStatus := (v1_MaStatus m)\<lparr>ma_Conditions := conditions\<rparr>\<rparr>"

definition OscMachineTemplateV1_GetConditions :: "'q OscMachineTemplateV1 \<Rightarrow> Condition list" where
  "OscMachineTemplateV1_GetConditions m = mt_Conditions (v1_mt_Status m)"

definition OscMachineTemplateV1_SetConditions :: "'q OscMachineTemplateV1 \<Rightarrow> Condition list \<Rightarrow> 'q OscMachineTemplateV1" where
  "OscMachineTemplateV1_SetConditions m conditions = m\<lparr>v1_mt_Status := (v1_mt_Status m)\<lparr>mt_Conditions := conditions\<rparr>\<rparr>"

text \<open>What the helpers of Cluster API rely on: what is set is read, and setting twice is setting last.\<close>

locale condition_store =
  fixes get :: "'o \<Rightarrow> Condition list" and put :: "'o \<Rightarrow> Condition list \<Rightarrow> 'o"
  assumes get_put: "get (put x cs) = cs"
    and put_get: "put x (get x) = x"
    and put_put: "put (put x cs) ds = put x ds"
begin

text \<open>Marking conditions one after the other is one update of the list.\<close>

lemma mark_twice: "put (put x (f (get x))) (g (get (put x (f (get x))))) = put x (g (f (get x)))"
  by (simp add: get_put put_put)

lemma mark_none: "f (get x) = get x \<Longrightarrow> put x (f (get x)) = x"
  by (simp add: put_get)

end

lemmas condition_defs = OscCluster_GetConditions_def OscCluster_SetConditions_def OscMachine_GetConditions_def OscMachine_SetConditions_def
  OscMachineTemplate_GetConditions_def OscMachineTemplate_SetConditions_def OscClusterV1_GetConditions_def OscClusterV1_SetConditions_def
  OscMachineV1_GetConditions_def OscMachineV1_SetConditions_def OscMachineTemplateV1_GetConditions_def OscMachineTemplateV1_SetConditions_def

interpretation cluster_conditions: condition_store OscCluster_GetConditions OscCluster_SetConditions
  by unfold_locales (simp_all add: condition_defs)

interpretation machine_conditions: condition_store OscMachine_GetConditions OscMachine_SetConditions
  by unfold_locales (simp_all add: condition_defs)

interpretation template_conditions: condition_store OscMachineTemplate_GetConditions OscMachineTemplate_SetConditions
  by unfold_locales (simp_all add: condition_defs)

interpretation v1_cluster_conditions: condition_store OscClusterV1_GetConditions OscClusterV1_SetConditions
  by unfold_locales (simp_all add: condition_defs)

interpretation v1_machine_conditions: condition_store OscMachineV1_GetConditions OscMachineV1_SetConditions
  by unfold_locales (simp_all add: condition_defs)

interpretation v1_template_conditions: condition_store OscMachineTemplateV1_GetConditions OscMachineTemplateV1_SetConditions
  by unfold_locales (simp_all add: condition_defs)

text \<open>The steps of the controllers mark conditions through these accessors.\<close>

lemma marks_through_accessors:
  "markTrue E cond = modify (upd_OscCluster (\<lambda>c. OscCluster_SetConditions c (MarkTrue E (OscCluster_GetConditions c) cond)))"
  "m_markTrue E cond = modify (upd_OscMachine (\<lambda>m. OscMachine_SetConditions m (MarkTrue E (OscMachine_GetConditions m) cond)))"
  by (simp_all add: markTrue_def m_markTrue_def condition_defs upd_Status_def upd_MStatus_def)

section \<open>Patching with a summary\<close>

text \<open>
  \<^verbatim>\<open>conditions.SetSummary\<close>, given the types to summarise and whether the steps are counted, and the patch, given the
  types the controller owns, are parameters. \<^verbatim>\<open>WithStepCounter\<close>, the last option, counts the steps in any case.
\<close>

abbreviation ReadyCondition :: string where "ReadyCondition \<equiv> ''Ready''"

definition cs_PatchObject ::
  "(string list \<Rightarrow> bool \<Rightarrow> OscCluster \<Rightarrow> OscCluster) \<Rightarrow> (string list \<Rightarrow> OscCluster \<Rightarrow> gerror option) \<Rightarrow> ('w, 'z, unit) Op" where
  "cs_PatchObject SetSummary Patch =
     andThen (modify (upd_OscCluster (SetSummary
       ([NetReadyCondition, SubnetsReadyCondition, LoadBalancerReadyCondition] @
        [InternetServicesReadyCondition, NatServicesReadyCondition, RouteTablesReadyCondition]) True)))
     (bind (gets scope) (\<lambda>cs.
      case Patch [ReadyCondition, NetReadyCondition, SubnetsReadyCondition, InternetServicesReadyCondition,
          NatServicesReadyCondition, LoadBalancerReadyCondition] (csOscCluster cs) of
        Some e \<Rightarrow> raise e
      | None \<Rightarrow> modify (\<lambda>s. s\<lparr>patched := patched s @ [csOscCluster cs]\<rparr>)))"

definition ms_PatchObject ::
  "(string list \<Rightarrow> bool \<Rightarrow> OscMachine \<Rightarrow> OscMachine) \<Rightarrow> (string list \<Rightarrow> OscMachine \<Rightarrow> gerror option) \<Rightarrow> ('w, 'z, unit) MOp" where
  "ms_PatchObject SetSummary Patch =
     andThen (modify (upd_OscMachine (SetSummary [VmReadyCondition] True)))
     (bind (gets mscope) (\<lambda>ms.
      case Patch [ReadyCondition, VmReadyCondition] (msOscMachine ms) of
        Some e \<Rightarrow> raise e
      | None \<Rightarrow> modify (\<lambda>s. s\<lparr>mpatched := mpatched s @ [msOscMachine ms]\<rparr>)))"

definition ts_PatchObject :: "'q TKube \<Rightarrow> ('q, unit) TOp" where
  "ts_PatchObject K = ts_Close K"

text \<open>
  The controllers close their scopes and never call \<^verbatim>\<open>PatchObject\<close>: with the same patch the object written differs by the
  summary.
\<close>

lemma patch_summarises:
  assumes "\<And>owned c. Patch owned c = k_Patch K c" and "cs_PatchObject SetSummary Patch s = (Ok (), t)" and "cs_Close K s = (Ok (), u)"
  shows "\<exists>types. patched t = patched s @ [SetSummary types True (csOscCluster (scope s))] \<and> patched u = patched s @ [csOscCluster (scope s)]"
  using assms
  by (auto simp: cs_PatchObject_def cs_Close_def run_simps upd_OscCluster_def split: option.splits)

section \<open>Names and tags\<close>

text \<open>\<^verbatim>\<open>strings.NewReplacer(".", "-", "/", "-", "_", "-")\<close>\<close>

definition OscReplaceName :: "string \<Rightarrow> string" where
  "OscReplaceName name = map (\<lambda>c. if c \<in> {CHR ''.'', CHR ''/'', CHR ''_''} then CHR ''-'' else c) name"

definition OscReplaceName_V1 :: "string \<Rightarrow> string" where
  "OscReplaceName_V1 name = map (\<lambda>c. if c \<in> {CHR ''.'', CHR ''/'', CHR ''_''} then CHR ''-'' else c) name"

lemma OscReplaceName_idem: "OscReplaceName (OscReplaceName name) = OscReplaceName name"
  by (simp add: OscReplaceName_def)

lemma OscReplaceName_chars: "set (OscReplaceName name) \<inter> {CHR ''.'', CHR ''/'', CHR ''_''} = {}"
  by (auto simp: OscReplaceName_def)

abbreviation NameOutscaleProviderPrefix :: string where "NameOutscaleProviderPrefix \<equiv> ''capo-''"
abbreviation NameOutscaleProvider :: string where "NameOutscaleProvider \<equiv> NameOutscaleProviderPrefix @ ''cluster-''"

definition ClusterTagKey :: "string \<Rightarrow> string" where
  "ClusterTagKey name = NameOutscaleProvider @ name"

definition ClusterTagKey_V1 :: "string \<Rightarrow> string" where
  "ClusterTagKey_V1 name = NameOutscaleProvider @ name"

lemma ClusterTagKey_inj: "inj ClusterTagKey"
  by (simp add: inj_def ClusterTagKey_def)

section \<open>Security groups of v1beta1\<close>

definition HasRole_V1 :: "OscSecurityGroup \<Rightarrow> OscRole \<Rightarrow> bool" where
  "HasRole_V1 sg role =
     (if sg_Roles sg \<noteq> [] then role \<in> set (sg_Roles sg)
      else if str_contains (sg_Name sg) ''kcp'' then role = RoleControlPlane
      else if str_contains (sg_Name sg) ''kw'' then role = RoleWorker
      else if str_contains (sg_Name sg) ''node'' then role = RoleControlPlane \<or> role = RoleWorker
      else False)"

definition GetIpRanges_V1 :: "OscSecurityGroupRule \<Rightarrow> string list" where
  "GetIpRanges_V1 sgr =
     (if rule_IpRanges sgr \<noteq> [] then rule_IpRanges sgr
      else if rule_IpRange sgr \<noteq> [] then [rule_IpRange sgr]
      else [])"

definition GetFromPortRange_V1 :: "OscSecurityGroupRule \<Rightarrow> int" where
  "GetFromPortRange_V1 sgr = (if rule_IpProtocol sgr = ''-1'' then -1 else rule_FromPortRange sgr)"

definition GetToPortRange_V1 :: "OscSecurityGroupRule \<Rightarrow> int" where
  "GetToPortRange_V1 sgr = (if rule_IpProtocol sgr = ''-1'' then -1 else rule_ToPortRange sgr)"

text \<open>Both versions read security groups and rules alike.\<close>

lemma v1_methods_agree:
  "HasRole_V1 = HasRole" "GetIpRanges_V1 = GetIpRanges" "GetFromPortRange_V1 = GetFromPortRange" "GetToPortRange_V1 = GetToPortRange"
  "OscReplaceName_V1 = OscReplaceName" "ClusterTagKey_V1 = ClusterTagKey"
  by (simp_all add: fun_eq_iff HasRole_V1_def HasRole_def GetIpRanges_V1_def GetIpRanges_def GetFromPortRange_V1_def GetFromPortRange_def
      GetToPortRange_V1_def GetToPortRange_def OscReplaceName_V1_def OscReplaceName_def ClusterTagKey_V1_def ClusterTagKey_def)

end
