(* ===== verification/Spec2Isabelle.thy ===== *)
theory Spec2Isabelle
  imports Resource_Properties Scope_Properties Machine_Properties Api_Properties Process_Properties
    Lifecycle_Properties Object_Helpers
begin

text \<open>
  Verification of the Cluster API provider for Outscale.

  \<^bold>\<open>The program.\<close> The provider is a set of Kubernetes controllers that build and delete the
  infrastructure of clusters in the Outscale cloud. An \<^verbatim>\<open>OscCluster\<close> object says what is wanted;
  the cluster controller (\<^verbatim>\<open>controllers/osccluster_*.go\<close>) compares it with the cloud and requests
  what is missing; the ids of the resources, the reconciled generations and the conditions are
  kept in the status of the object, which is written back after each run. The machine controller
  (\<^verbatim>\<open>controllers/oscmachine_*.go\<close>) does the same for the VM of each \<^verbatim>\<open>OscMachine\<close>, in a subregion of the
  network its cluster has. The controllers read the objects through scopes (\<^verbatim>\<open>cloud/scope\<close>), find
  resources with trackers (\<^verbatim>\<open>controllers/osccluster_resources.go\<close>, \<^verbatim>\<open>oscmachine_resources.go\<close>) and call the
  cloud through services (\<^verbatim>\<open>cloud/services\<close>). A third controller (\<^verbatim>\<open>oscmachinetemplate_*.go\<close>) keeps the
  capacity of machine templates. Objects are stored in the version \<^verbatim>\<open>v1beta2\<close>; clients may use the former
  \<^verbatim>\<open>v1beta1\<close>, whose objects are validated by webhooks and converted.

  \<^bold>\<open>The model.\<close> A function with effects is a state transformer on \<open>World\<close> whose outcome is a value, an
  error or a panic (\<open>Prelude\<close>). The world holds the object in its scope, the abstract state of the
  cloud, the requests issued so far, the recorded events, a source of random numbers and the
  versions of the object written back. What is not in the repository is a parameter: the SDK
  client is a record of answer functions, one per type of answer, over an arbitrary state of the
  cloud (\<open>Client\<close>), the helper packages are a record (\<open>Env\<close>), the Kubernetes API another (\<open>Kube\<close>).
  The properties hold for all of them; a hypothesis on one of them is written in the statement.

  \<^bold>\<open>Theories and sources.\<close>
  \<^item> \<open>Prelude\<close>: strings, maps, errors, effectful functions, frames and weakest preconditions;
  \<^item> \<open>Ip_Net\<close>: what the code uses of Go's \<^verbatim>\<open>net\<close> and \<^verbatim>\<open>net/netip\<close>, with parse-print round trips;
  \<^item> \<open>Api_Types\<close>, \<open>Api_Methods\<close>: \<^verbatim>\<open>api/v1beta2\<close>;
  \<^item> \<open>Osc_Sdk\<close>: SDK objects and requests, client, world, helper packages;
  \<^item> \<open>Cluster_Scope\<close>: \<^verbatim>\<open>cloud/scope/cluster.go\<close>; \<open>Scope_Layout\<close>, \<open>Scope_Security\<close>: lemmas on what it generates;
  \<^item> \<open>Net_Services\<close>, \<open>Compute_Services\<close>: \<^verbatim>\<open>cloud/services/net\<close>, \<^verbatim>\<open>compute\<close>, \<^verbatim>\<open>tag\<close>;
  \<^item> \<open>Ip_Allocator\<close>: \<^verbatim>\<open>controllers/publicip.go\<close>, with the interface \<open>ip_store\<close>;
  \<^item> \<open>Cluster_Tracker\<close>: \<^verbatim>\<open>controllers/osccluster_resources.go\<close>, with the interface \<open>tracker\<close>;
  \<^item> \<open>Cluster_Network\<close>, \<open>Cluster_Security\<close>, \<open>Cluster_Peering\<close>: the reconcilers, one per kind of resource;
  \<^item> \<open>Cluster_Controller\<close>: \<^verbatim>\<open>controllers/osccluster_controller.go\<close>;
  \<^item> \<open>Effects\<close>: the effect of every request, and the effects every operation may have (the frame
    \<open>acts\<close>); \<open>Observers\<close>: the interface \<open>observer\<close>, what the operations leave alone;
  \<^item> \<open>Cluster_Runs\<close>, \<open>Settle\<close>, \<open>Tracking\<close>, \<open>Security_Rules\<close>, \<open>Ownership\<close>: lemmas on whole runs, on
    reconciling once per generation, on recorded ids, on the rules of security groups and on
    whose resources are touched;
  \<^item> \<open>Provider_Id\<close>: \<^verbatim>\<open>cloud/scope/providerid.go\<close>; \<open>Machine_Scope\<close>: \<^verbatim>\<open>cloud/scope/machine.go\<close> and the world of the
    machine controller, which extends the one of the cluster controller by the scope of the machine;
  \<^item> \<open>Multi_Az\<close>: \<^verbatim>\<open>controllers/oscmachine_multiaz.go\<close>, with \<open>Az_Balance\<close> for its correctness;
  \<^item> \<open>Machine_Tracker\<close>: \<^verbatim>\<open>controllers/oscmachine_resources.go\<close>, \<^verbatim>\<open>compute/fgpu.go\<close> and \<^verbatim>\<open>CreateVm\<close>; \<open>Machine_Vm\<close>:
    \<^verbatim>\<open>controllers/oscmachine_vm.go\<close>, \<^verbatim>\<open>oscmachine_publicip.go\<close>; \<open>Machine_Controller\<close>:
    \<^verbatim>\<open>controllers/oscmachine_controller.go\<close>;
  \<^item> \<open>Machine_Effects\<close>: effects of the operations on machines, the interfaces \<open>vm_observer\<close> and
    \<open>machine_observer\<close>, and the IP store of a machine; \<open>Machine_Runs\<close>: lemmas on whole runs;
  \<^item> \<open>Vm_Progress\<close>: repeated runs on a machine beside a cloud that takes steps of its own, and their
    termination; \<open>Pool_Allocation\<close>: allocations from a pool of public IPs that machines share;
  \<^item> \<open>Object_Helpers\<close>: accessors of conditions, with the interface \<open>condition_store\<close>, the methods \<^verbatim>\<open>PatchObject\<close>, names and
    tags, and what \<^verbatim>\<open>v1beta1\<close> has of its own on security groups;
  \<^item> \<open>Go_Regexp\<close>, \<open>Net_Prefix\<close>: what the validation uses of Go's \<^verbatim>\<open>regexp\<close> (leftmost-first matching with
    groups, and the language of an expression) and of \<^verbatim>\<open>netip.Prefix\<close>;
  \<^item> \<open>V1beta1_Types\<close>, \<open>V1beta1_Validation\<close>, \<open>V1beta1_Conversion\<close>: \<^verbatim>\<open>api/v1beta1\<close> and the templates of both
    versions; \<open>V1beta1_Accepted\<close>: what the validation accepts, as predicates on the specification;
  \<^item> \<open>Api_Webhooks\<close>: the webhooks of both versions; \<open>Api_Versions\<close>: the interface \<open>hub_spoke\<close> of a
    conversion, with an instance for each of the four kinds of objects;
  \<^item> \<open>Machine_Template\<close>: \<^verbatim>\<open>cloud/scope/machinetemplate.go\<close>, \<^verbatim>\<open>controllers/oscmachinetemplate_*.go\<close>;
  \<^item> \<open>Process_Start\<close>: the flags, options and steps of \<^verbatim>\<open>main.go\<close>, \<^verbatim>\<open>cloud/services/metadata.go\<close>, \<^verbatim>\<open>cloud/tenant\<close>;
  \<^item> \<open>Teardown\<close>: what a completed deletion has requested, resource by resource, as pairs of a lookup and the requests that
    answer it (\<open>carried_out\<close>), and the interface \<open>ip_holder\<close> of public IPs that are given back;
  \<^item> \<open>Lifecycle\<close>: sequences of runs, edits, deletion requests and changes of the cloud as a step relation, the history of
    such a sequence with its runs (\<open>lived\<close>), and the interface \<open>managed\<close> of a controller, with its instances for clusters and machines;
  \<^item> \<open>Samples\<close>, \<open>Machine_Samples\<close>: concrete inputs; \<open>Scope_Properties\<close>, \<open>Resource_Properties\<close>,
    \<open>Machine_Properties\<close>, \<open>Api_Properties\<close>, \<open>Process_Properties\<close>, \<open>Lifecycle_Properties\<close> and this theory: the
    properties.

  \<^bold>\<open>What is shown.\<close> Safety of reconciliation and deletion for every client (nothing but rules is
  deleted while reconciling, external networks are left alone, deletions follow the dependencies,
  the finalizer goes last, foreign load balancers and routes are not touched); progress (ids are
  recorded, successful reconcilers are not run again); the generated network (disjoint blocks
  inside the net, a subnet for every role, a NAT service per subregion, no exposure beyond the
  allowed ranges); convergence of security group rules; errors and where the code goes wrong.
  For machines: the effects of a run, the order of a deletion, the life cycle of the VM with its GPU
  as a refinement of a specification, what a finished machine has recorded, the choice of the
  subregion with the fewest nodes under every order of a map, and provider ids (round trip and the
  language they are parsed from). For the API: exactly which clusters and machines the validation
  admits, that an admitted load balancer is usable once converted and defaulted, which stored objects
  survive the conversion to the former version and back, that defaults and conversion commute, and what an
  update may change. For templates: a run as one equation, and the capacity read off the type of a VM. For
  the process: every tenant has both keys, the manager starts after all of its parts are set up.
  For whole lives of an object: nothing is deleted before deletion is asked for, and, when the writes to the API
  succeed, a cluster or machine is gone only after a run of its own history that has requested the deletion of its
  resources, and a completed teardown is the end of a cluster; a failing write breaks the former. For sequences of
  runs: those on a machine end, after at most five changes of its VM and GPU, with a running VM, if the cloud serves what
  every run asks for; an allocation from a pool gives a free IP whatever was recorded, as long as there is one.

  \<^bold>\<open>Bounds.\<close> Loops of the code run over finite slices and are primitive recursions, so every
  operation is total and no fuel is used; the order of a map, a recursion on its entries, ends
  because each step takes one of them. The repetition of runs is not a loop of the code: that it ends is proved with
  a measure on what the runs read, under named hypotheses on the cloud. Machine integers are \<open>int\<close> where the code
  only compares them and bytes (\<open>8 word\<close>) where it increments them.

  \<^bold>\<open>Not modelled.\<close> Generated deep copies and mocks (values are immutable here), the tests and their helpers,
  the parsing of the command line, the set-up of watches and the registration of schemes and webhooks, which are
  calls of libraries, log output other than that of the metadata client, and interfaces of Go, which have no
  behaviour. An answer of the SDK client is a list where the SDK has a pointer to a slice, so an answer without a slice, on which the code
  would panic, is not represented. In a life of an object, edits leave the finalizer of the controller alone and a run reads
  the object as it is stored: edits that add or remove that finalizer, and reads of a stale cache, are outside the step relation.
\<close>

section \<open>Reconciling and deleting a cluster\<close>

text \<open>
  Reconciling a cluster never deletes a resource of the cloud. Whatever the object, the
  client and the outcome (an error and a panic included), the only deletions \<open>reconcile\<close>
  requests are deletions of rules of a security group.
\<close>

theorem reconcile_never_deletes:
  "\<exists>cs. calls (snd (reconcile E s)) = calls s @ cs \<and> effect_of ` set cs \<inter> range EDelete \<subseteq> {EDelete RRule}"
proof -
  obtain cs where "calls (snd (reconcile E s)) = calls s @ cs" "\<forall>c \<in> set cs. \<forall>res. effect_of c = EDelete res \<longrightarrow> res = RRule"
    using reconcile_deletes_only_rules [of E s] by (cases "reconcile E s") auto
  then show ?thesis by (intro exI [of _ cs]) auto
qed

text \<open>
  C2. An external network survives the deletion of the cluster. When the net and the security
  groups are reused, \<open>reconcileDelete\<close> only reads, and deletes load balancers and public IPs.
\<close>

theorem reused_network_survives:
  assumes "reuse_Net (UseExisting (cs_GetNetwork (scope s)))" and "reuse_SecurityGroups (UseExisting (cs_GetNetwork (scope s)))"
  shows "\<exists>cs. calls (snd (reconcileDelete E s)) = calls s @ cs \<and>
    effect_of ` set cs \<subseteq> {ERead, EDelete RLoadBalancer, EDelete RPublicIp}"
  by (rule reused_net_not_deleted [OF prod.collapse [symmetric] assms])

theorem reused_network_survives_witness:
  "\<exists>cs. calls (snd (reconcileDelete sampleEnv (worldOf sampleClient (withNetwork reusing sampleCluster)))) = [] @ cs \<and>
    effect_of ` set cs \<subseteq> {ERead, EDelete RLoadBalancer, EDelete RPublicIp}"
  using reused_network_survives [of "worldOf sampleClient (withNetwork reusing sampleCluster)" sampleEnv]
  by (simp add: sample_defs reusing_def cs_GetNetwork_def)

text \<open>
  C3. A reused net is not built upon: \<open>reconcile\<close> then creates security groups, rules and a load
  balancer, and creates, changes or deletes nothing else.
\<close>

theorem reused_network_not_changed:
  assumes "reuse_Net (UseExisting (cs_GetNetwork (scope s)))"
  shows "\<exists>cs. calls (snd (reconcile E s)) = calls s @ cs \<and>
    effect_of ` set cs \<subseteq> {ERead, ETag, ECreate RSecurityGroup, ECreate RRule, EDelete RRule, ECreate RLoadBalancer, EChange RLoadBalancer}"
  by (rule reused_net_not_built [OF prod.collapse [symmetric] assms])

theorem reused_network_not_changed_witness:
  "\<exists>cs. calls (snd (reconcile sampleEnv (worldOf sampleClient (withNetwork reusing sampleCluster)))) = [] @ cs \<and>
    effect_of ` set cs \<subseteq> {ERead, ETag, ECreate RSecurityGroup, ECreate RRule, EDelete RRule, ECreate RLoadBalancer, EChange RLoadBalancer}"
  using reused_network_not_changed [of "worldOf sampleClient (withNetwork reusing sampleCluster)" sampleEnv]
  by (simp add: sample_defs reusing_def cs_GetNetwork_def)

text \<open>
  C4. Resources are deleted in the order of their dependencies. The deletions \<open>reconcileDelete\<close>
  requests are sorted by \<open>rank\<close>: the bastion, the load balancer, the NAT services, the public IPs,
  the net access points, the peering routes, the peering, the route tables, the security group
  rules and groups, the internet service, the subnets, the net. It requests nothing else than
  reads and deletions; the unlinking of a route table or of the internet service counts as a deletion of that kind.
\<close>

theorem deletion_respects_dependencies:
  "\<exists>cs. calls (snd (reconcileDelete E s)) = calls s @ cs \<and> sorted (deletion_ranks cs) \<and>
    effect_of ` set cs \<subseteq> {ERead} \<union> range EDelete"
  by (rule deletion_in_order [OF prod.collapse [symmetric]])

text \<open>
  C5. The finalizer is given up last. \<open>reconcileDelete\<close> returns an empty result only when the
  cluster has no machine left and every deletion step has succeeded, and the finalizer is
  removed from the state these steps leave; when it asks for another run it has done nothing;
  when it fails the finalizers are the ones before the run.
\<close>

theorem finalizer_removed_last:
  "case fst (reconcileDelete E s) of
     Ok n \<Rightarrow> if n = 0
       then cs_ListMachines E (scope s) = Inr [] \<and>
         (\<exists>u. deleteResources E s = (Ok (), u) \<and> snd (reconcileDelete E s) = snd (removeFinalizer E u))
       else snd (reconcileDelete E s) = s
   | _ \<Rightarrow> Finalizers (cl_Meta (csOscCluster (scope (snd (reconcileDelete E s))))) = Finalizers (cl_Meta (csOscCluster (scope s)))"
  by (rule finalizer_guard [OF prod.collapse [symmetric]])

text \<open>
  C8. A cluster is not deleted under its machines: while some machine of the cluster still has
  its \<open>OscMachine\<close>, \<open>reconcileDelete\<close> does nothing and asks to be run again in 60 seconds.
\<close>

theorem machines_block_deletion:
  assumes "listMachines E (cs_GetNamespace (scope s)) = Inr ms" and "listOscMachines E (cs_GetNamespace (scope s)) = Inr oscms"
    and "m \<in> set ms" "m_ClusterName m = c_Name (csCluster (scope s))" "m_InfraGroupKind m = oscMachineGroupKind"
    and "oscm \<in> set oscms" "om_Name (ma_Meta oscm) = m_InfraName m"
  shows "reconcileDelete E s = (Ok 60, s)"
  using ListMachines_complete [OF assms] by (auto intro: delete_waits)

theorem machines_block_deletion_witness: "reconcileDelete machinesEnv sampleWorld = (Ok 60, sampleWorld)"
  by (rule machines_block_deletion [of machinesEnv sampleWorld "[sampleMachine]" "[sampleOscMachine]" sampleMachine sampleOscMachine])
    (simp_all add: machinesEnv_def sampleMachine_def sampleOscMachine_def worldOf_def)

text \<open>
  C15. The cluster becomes ready exactly by a reconciliation without error: on success \<open>reconcile\<close>
  returns an empty result with the flag set, on an error or a panic it leaves the flag as it was.
\<close>

theorem ready_on_success_only:
  "case fst (reconcile E s) of Ok n \<Rightarrow> n = 0 \<and> ready (snd (reconcile E s)) | _ \<Rightarrow> ready (snd (reconcile E s)) = ready s"
  using reconcile_ends_ready [of E] unfolding ends_ready_def by (metis prod.collapse)

text \<open>
  C16. Every error is reported. An error of \<open>reconcile\<close> is the error of one of its steps behind the
  step's prefix, and the last change to the conditions marks the condition of that step false,
  with its reason and the message of the error.
\<close>

theorem errors_are_reported:
  "case fst (reconcile E s) of
     Err e \<Rightarrow> \<exists>cond reason pre e' before. (cond, reason, pre) \<in> set stepTable \<and> e = Errorf pre e' \<and>
       conditions (snd (reconcile E s)) = MarkFalse E before cond reason ConditionSeverityWarning (error_msg e')
   | _ \<Rightarrow> True"
proof (cases "fst (reconcile E s)")
  case (Err e)
  then have "reconcile E s = (Err e, snd (reconcile E s))" by (metis prod.collapse)
  then show ?thesis using reconcile_reports [of E] Err unfolding reports_def by fastforce
qed simp_all

section \<open>Entry point\<close>

text \<open>
  C17. A run of the entry point that is not admitted (object or owner missing, paused, no tenant,
  no patch helper) changes nothing; an admitted one runs the deletion or the reconciliation on
  the object and writes the final version back exactly once, whatever the outcome. An error of
  that write replaces a success only.
\<close>

theorem entry_point_patches:
  "Reconcile K E req s = (case admitted K E req of
     None \<Rightarrow> (fst (Reconcile K E req s), s)
   | Some (cluster, oscCluster, tn) \<Rightarrow>
       (case (if DeletionTimestamp (cl_Meta oscCluster) \<noteq> None then reconcileDelete E else reconcile E)
               (s\<lparr>scope := \<lparr>csCluster = cluster, csOscCluster = oscCluster, csTenant = tn\<rparr>\<rparr>) of
          (r, t) \<Rightarrow> (case k_Patch K (csOscCluster (scope t)) of
            None \<Rightarrow> (r, t\<lparr>patched := patched s @ [csOscCluster (scope t)]\<rparr>)
          | Some e \<Rightarrow> ((case r of Ok _ \<Rightarrow> Err e | _ \<Rightarrow> r), t))))"
proof (cases "admitted K E req")
  case None
  show ?thesis using Reconcile_refused [OF None, of s] by (intro prod_eqI) (simp_all add: None)
next
  case (Some a)
  obtain cluster oscCluster tn where a: "a = (cluster, oscCluster, tn)" by (cases a)
  have kept: "keeps (preserves patched) (if DeletionTimestamp (cl_Meta oscCluster) \<noteq> None then reconcileDelete E else reconcile E)"
    by (simp add: patched_kept)
  show ?thesis unfolding Reconcile_admitted [OF Some [unfolded a]] deferClose_patches [OF kept]
    by (simp add: Some a split: prod.split option.split)
qed

section \<open>An object without labels\<close>

text \<open>
  An object without labels makes the controller panic: \<open>EnsureExplicitUID\<close> writes the label
  of the UID into a nil map, before any request is issued.
\<close>

theorem nil_labels_panic:
  assumes "Labels (cl_Meta (csOscCluster (scope s))) = None"
  shows "fst (reconcile E s) = Panic \<and> calls (snd (reconcile E s)) = calls s"
  using assms by (simp add: reconcile_def andThen_run addFinalizer_def cs_EnsureExplicitUID_def modify_run upd_OscCluster_def
      nmap_entries_def Let_def)

theorem nil_labels_panic_witness: "fst (reconcile sampleEnv (worldOf sampleClient unlabelled)) = Panic"
  using nil_labels_panic [of "worldOf sampleClient unlabelled" sampleEnv] by (simp add: worldOf_def unlabelled_def)

end
